(* ===== verification/Prelude.thy ===== *)
theory Prelude
  imports Main "HOL-Library.AList" "HOL-Library.Multiset" "HOL-Library.Sublist"
begin

text \<open>
  Shared vocabulary of the development: the result type of Go functions that return an error, the
  Go maps of the model, and the generic facts on lists, association lists and results that the
  component theories use.

  A Go function \<open>func f(...) (T, error)\<close> is a function into \<open>'e + 'a\<close>: \<open>Inl e\<close> is a non-nil error,
  \<open>Inr x\<close> a value with a nil error.  A Go \<open>map[K]V\<close> is an association list with distinct keys; the
  order of the list is the order in which a \<open>range\<close> loop visits the entries.  Go leaves that order
  open, so every theorem below is stated for an arbitrary list.
\<close>

named_theorems go_defs \<open>definitions of operations, unfolded to compute one call\<close>
named_theorems inv_simps \<open>unfolding rules of state invariants\<close>

type_synonym ('e, 'a) go_result = "'e + 'a"
type_synonym ('k, 'v) go_map = "('k \<times> 'v) list"

abbreviation wf_map :: "('k, 'v) go_map \<Rightarrow> bool" where
  "wf_map m \<equiv> distinct (map fst m)"

definition bind_result :: "'e + 'a \<Rightarrow> ('a \<Rightarrow> 'e + 'b) \<Rightarrow> 'e + 'b" where
  "bind_result r f = (case r of Inl e \<Rightarrow> Inl e | Inr x \<Rightarrow> f x)"

definition map_error :: "('e \<Rightarrow> 'f) \<Rightarrow> 'e + 'a \<Rightarrow> 'f + 'a" where
  "map_error g r = (case r of Inl e \<Rightarrow> Inl (g e) | Inr x \<Rightarrow> Inr x)"

definition is_ok :: "'e + 'a \<Rightarrow> bool" where
  "is_ok r = (case r of Inl _ \<Rightarrow> False | Inr _ \<Rightarrow> True)"

definition go_get :: "'v \<Rightarrow> ('k, 'v) go_map \<Rightarrow> 'k \<Rightarrow> 'v" where
  \<comment> \<open>\<open>m[k]\<close> with the zero value of the element type for a missing key\<close>
  "go_get zero m k = (case map_of m k of None \<Rightarrow> zero | Some v \<Rightarrow> v)"

definition remove_nth :: "nat \<Rightarrow> 'a list \<Rightarrow> 'a list" where
  \<comment> \<open>\<open>append(xs[:i], xs[i+1:]...)\<close>\<close>
  "remove_nth i xs = take i xs @ drop (Suc i) xs"

datatype k8s_error = NotFound | Conflict | AlreadyExists | ApiError string
  \<comment> \<open>the errors of the Kubernetes API that the code tells apart\<close>

section \<open>Results\<close>

lemma bind_result_simps [simp]:
  "bind_result (Inl e) f = Inl e"
  "bind_result (Inr x) f = f x"
  by (simp_all add: bind_result_def)

lemma bind_result_Inr_iff: "bind_result r f = Inr y \<longleftrightarrow> (\<exists>x. r = Inr x \<and> f x = Inr y)"
  by (cases r) auto

lemma map_error_simps [simp]:
  "map_error g (Inl e) = Inl (g e)"
  "map_error g (Inr x) = Inr x"
  by (simp_all add: map_error_def)

lemma map_error_Inr_iff [simp]: "map_error g r = Inr y \<longleftrightarrow> r = Inr y"
  by (cases r) auto

lemma is_ok_simps [simp]: "\<not> is_ok (Inl e)" "is_ok (Inr x)"
  by (simp_all add: is_ok_def)

section \<open>Removing one element by index\<close>

lemma mset_remove_nth:
  "i < length xs \<Longrightarrow> add_mset (xs ! i) (mset (remove_nth i xs)) = mset xs"
proof -
  assume i: "i < length xs"
  have "mset xs = mset (take i xs @ xs ! i # drop (Suc i) xs)"
    using id_take_nth_drop[OF i] by simp
  then show ?thesis by (simp add: remove_nth_def)
qed

lemma length_remove_nth: "i < length xs \<Longrightarrow> Suc (length (remove_nth i xs)) = length xs"
  by (simp add: remove_nth_def)

lemma set_remove_nth_subset: "set (remove_nth i xs) \<subseteq> set xs"
  by (auto simp: remove_nth_def dest: in_set_takeD in_set_dropD)

lemma distinct_remove_nth:
  assumes "distinct xs" and "i < length xs"
  shows "distinct (remove_nth i xs)" and "xs ! i \<notin> set (remove_nth i xs)"
    and "set xs = insert (xs ! i) (set (remove_nth i xs))"
proof -
  have m: "add_mset (xs ! i) (mset (remove_nth i xs)) = mset xs"
    using assms(2) by (rule mset_remove_nth)
  have "distinct (xs ! i # remove_nth i xs)"
    using assms(1) m by (metis mset.simps(2) mset_eq_imp_distinct_iff)
  then show "distinct (remove_nth i xs)" and "xs ! i \<notin> set (remove_nth i xs)" by simp_all
  show "set xs = insert (xs ! i) (set (remove_nth i xs))"
    using m by (metis set_mset_add_mset_insert set_mset_mset)
qed

section \<open>Association lists as Go maps\<close>

lemma wf_map_update [simp, intro]: "wf_map m \<Longrightarrow> wf_map (AList.update k v m)"
  by (rule distinct_update)

lemma wf_map_delete [simp, intro]: "wf_map m \<Longrightarrow> wf_map (AList.delete k m)"
  by (rule distinct_delete)

lemma map_of_AList_update [simp]: "map_of (AList.update k v m) = (map_of m)(k \<mapsto> v)"
  by (simp add: update_conv')

lemma map_of_AList_delete [simp]: "map_of (AList.delete k m) = (map_of m)(k := None)"
  by (simp add: delete_conv')

lemma update_new_key: "map_of m k = None \<Longrightarrow> AList.update k v m = m @ [(k, v)]"
  by (induction m) (auto split: if_splits)

lemma mset_update_new: "map_of m k = None \<Longrightarrow> mset (AList.update k v m) = add_mset (k, v) (mset m)"
  by (simp add: update_new_key)

lemma mset_delete_key:
  "wf_map m \<Longrightarrow> map_of m k = Some v \<Longrightarrow> mset m = add_mset (k, v) (mset (AList.delete k m))"
proof (induction m)
  case Nil
  then show ?case by simp
next
  case (Cons p m)
  show ?case
  proof (cases "fst p = k")
    case True
    with Cons.prems have "k \<notin> fst ` set m" and "p = (k, v)" by (auto simp: prod_eq_iff)
    then show ?thesis by (simp add: delete_idem)
  next
    case False
    with Cons show ?thesis by (cases p) auto
  qed
qed

lemma length_delete_key:
  "wf_map m \<Longrightarrow> map_of m k = Some v \<Longrightarrow> length m = Suc (length (AList.delete k m))"
  using mset_delete_key[of m k v] by (metis size_add_mset size_mset)

lemma go_get_update [simp]:
  "go_get z (AList.update k v m) k' = (if k' = k then v else go_get z m k')"
  by (simp add: go_get_def)

end
