(* ===== verification/GoOs.thy ===== *)
theory GoOs
  imports GoStrings "HOL-Library.Word"
begin

unbundle bit_operations_syntax

text \<open>
  The process environment and the file system as the components see them through Go's package
  \<open>os\<close>, and the lexical path functions of \<open>path/filepath\<close>.  The state holds the environment
  variables and the files; any call may also fail for a reason outside the program (permissions,
  disk, network file system), which the field \<open>os_fault\<close> decides.  A file is its mode (\<open>fs.FileMode\<close>, 32 bits)
  and its content.
\<close>

datatype os_op = OpMkdirAll | OpWriteFile | OpReadFile | OpStat | OpOpen | OpRemove | OpRemoveAll

datatype os_error = ErrNotExist string | ErrOs os_op string

record os_file =
  f_mode :: "32 word"
  f_content :: string

record os_state =
  os_env :: "string \<Rightarrow> string"
  os_files :: "string \<rightharpoonup> os_file"
  os_fault :: "os_op \<Rightarrow> string \<Rightarrow> bool"

definition Getenv :: "os_state \<Rightarrow> string \<Rightarrow> string" where
  \<comment> \<open>the empty string for an unset variable\<close>
  "Getenv os k = os_env os k"

definition Setenv :: "string \<Rightarrow> string \<Rightarrow> os_state \<Rightarrow> os_state" where
  "Setenv k v os = os\<lparr>os_env := (os_env os)(k := v)\<rparr>"

definition ModeDir :: "32 word" where "ModeDir = push_bit 31 1"
definition ModePerm :: "32 word" where "ModePerm = 0x1FF"

definition Stat :: "os_state \<Rightarrow> string \<Rightarrow> os_error + 32 word" where
  "Stat os p =
     (if os_fault os OpStat p then Inl (ErrOs OpStat p)
      else case os_files os p of None \<Rightarrow> Inl (ErrNotExist p) | Some f \<Rightarrow> Inr (f_mode f))"

definition ReadFile :: "os_state \<Rightarrow> string \<Rightarrow> os_error + string" where
  "ReadFile os p =
     (if os_fault os OpReadFile p then Inl (ErrOs OpReadFile p)
      else case os_files os p of None \<Rightarrow> Inl (ErrNotExist p) | Some f \<Rightarrow> Inr (f_content f))"

definition WriteFile :: "os_state \<Rightarrow> string \<Rightarrow> string \<Rightarrow> 32 word \<Rightarrow> (os_error + unit) \<times> os_state" where
  \<comment> \<open>an existing file keeps its mode\<close>
  "WriteFile os p content perm =
     (if os_fault os OpWriteFile p then (Inl (ErrOs OpWriteFile p), os)
      else (Inr (), os\<lparr>os_files := (os_files os)(p \<mapsto>
              \<lparr>f_mode = (case os_files os p of None \<Rightarrow> perm | Some f \<Rightarrow> f_mode f), f_content = content\<rparr>)\<rparr>))"

definition MkdirAll :: "os_state \<Rightarrow> string \<Rightarrow> 32 word \<Rightarrow> (os_error + unit) \<times> os_state" where
  \<comment> \<open>the last component; an existing entry is left as it is\<close>
  "MkdirAll os p perm =
     (if os_fault os OpMkdirAll p then (Inl (ErrOs OpMkdirAll p), os)
      else (Inr (), case os_files os p of
              None \<Rightarrow> os\<lparr>os_files := (os_files os)(p \<mapsto> \<lparr>f_mode = ModeDir OR perm, f_content = []\<rparr>)\<rparr>
            | Some f \<Rightarrow> os))"

definition Remove :: "os_state \<Rightarrow> string \<Rightarrow> (os_error + unit) \<times> os_state" where
  "Remove os p =
     (if os_fault os OpRemove p then (Inl (ErrOs OpRemove p), os)
      else case os_files os p of
        None \<Rightarrow> (Inl (ErrNotExist p), os)
      | Some _ \<Rightarrow> (Inr (), os\<lparr>os_files := (os_files os)(p := None)\<rparr>))"

definition RemoveAll :: "os_state \<Rightarrow> string \<Rightarrow> (os_error + unit) \<times> os_state" where
  \<comment> \<open>the entry and everything below it; no error when there is none\<close>
  "RemoveAll os p =
     (if os_fault os OpRemoveAll p then (Inl (ErrOs OpRemoveAll p), os)
      else (Inr (), os\<lparr>os_files := (\<lambda>q. if q = p \<or> HasPrefix q (p @ ''/'') then None else os_files os q)\<rparr>))"

section \<open>Lexical paths\<close>

fun clean_elems :: "bool \<Rightarrow> string list \<Rightarrow> string list \<Rightarrow> string list" where
  \<comment> \<open>the elements kept so far are in reverse order\<close>
  "clean_elems rooted acc [] = rev acc"
| "clean_elems rooted acc (e # es) =
     (if e = [] \<or> e = ''.'' then clean_elems rooted acc es
      else if e = ''..''
      then (case acc of
              [] \<Rightarrow> clean_elems rooted (if rooted then [] else [''..'']) es
            | a # as \<Rightarrow> if a = ''..'' then clean_elems rooted (''..'' # acc) es
                        else clean_elems rooted as es)
      else clean_elems rooted (e # acc) es)"

definition Clean :: "string \<Rightarrow> string" where
  "Clean path =
     (if path = [] then ''.''
      else (let rooted = (hd path = CHR ''/''); es = clean_elems rooted [] (Split path (CHR ''/''))
            in if rooted then CHR ''/'' # Join es ''/''
               else if es = [] then ''.'' else Join es ''/''))"

definition Join_path :: "string list \<Rightarrow> string" where
  "Join_path elems =
     (let es = filter (\<lambda>e. e \<noteq> []) elems in if es = [] then [] else Clean (Join es ''/''))"

definition Dir :: "string \<Rightarrow> string" where
  "Dir path = Clean (rev (dropWhile (\<lambda>c. c \<noteq> CHR ''/'') (rev path)))"

section \<open>Facts\<close>

lemma Getenv_Setenv [simp]: "Getenv (Setenv k v os) k' = (if k' = k then v else Getenv os k')"
  by (simp add: Getenv_def Setenv_def)

lemma WriteFile_ReadFile:
  "WriteFile os p c m = (Inr (), os') \<Longrightarrow> os_fault os = os_fault os' \<and>
     (\<not> os_fault os OpReadFile p \<longrightarrow> ReadFile os' p = Inr c)"
  by (auto simp: WriteFile_def ReadFile_def split: if_splits)

lemma clean_elems_plain:
  "list_all (\<lambda>e. e \<noteq> [] \<and> e \<noteq> ''.'' \<and> e \<noteq> ''..'') es \<Longrightarrow> clean_elems r acc es = rev acc @ es"
  by (induction es arbitrary: acc) auto

end
