(* ===== verification/GoEncoding.thy ===== *)
theory GoEncoding
  imports GoOs
begin

text \<open>
  The parts of Go's \<open>encoding/base64\<close> (\<open>StdEncoding\<close>) and \<open>encoding/hex\<close> that the components use, on byte strings.
\<close>

definition b64_alphabet :: string where
  "b64_alphabet = ''ABCDEFGHIJKLMNOPQRSTUVWXYZabcdefghijklmnopqrstuvwxyz0123456789+/''"

definition b64_char :: "nat \<Rightarrow> char" where
  "b64_char n = b64_alphabet ! n"

fun index_of :: "char \<Rightarrow> string \<Rightarrow> nat option" where
  "index_of c [] = None"
| "index_of c (x # xs) = (if c = x then Some 0 else map_option Suc (index_of c xs))"

definition b64_val :: "char \<Rightarrow> nat option" where
  "b64_val c = index_of c b64_alphabet"

fun b64_Encode :: "string \<Rightarrow> string" where
  "b64_Encode [] = []"
| "b64_Encode [a] = (let n = of_char a in [b64_char (n div 4), b64_char (n mod 4 * 16), CHR ''='', CHR ''=''])"
| "b64_Encode [a, b] =
     (let n = of_char a; m = of_char b
      in [b64_char (n div 4), b64_char (n mod 4 * 16 + m div 16), b64_char (m mod 16 * 4), CHR ''=''])"
| "b64_Encode (a # b # c # r) =
     (let n = of_char a; m = of_char b; k = of_char c
      in b64_char (n div 4) # b64_char (n mod 4 * 16 + m div 16) # b64_char (m mod 16 * 4 + k div 64) #
         b64_char (k mod 64) # b64_Encode r)"

fun b64_quads :: "string \<Rightarrow> string option" where
  "b64_quads [] = Some []"
| "b64_quads (a # b # c # d # r) =
     (case b64_val a of None \<Rightarrow> None | Some x \<Rightarrow>
     (case b64_val b of None \<Rightarrow> None | Some y \<Rightarrow>
        if c = CHR ''=''
        then (if d = CHR ''='' \<and> r = [] then Some [char_of (x * 4 + y div 16)] else None)
        else
     (case b64_val c of None \<Rightarrow> None | Some z \<Rightarrow>
        if d = CHR ''=''
        then (if r = [] then Some [char_of (x * 4 + y div 16), char_of (y mod 16 * 16 + z div 4)] else None)
        else
     (case b64_val d of None \<Rightarrow> None | Some v \<Rightarrow>
        map_option (\<lambda>t. char_of (x * 4 + y div 16) # char_of (y mod 16 * 16 + z div 4) # char_of (z mod 4 * 64 + v) # t)
          (b64_quads r)))))"
| "b64_quads _ = None"

definition b64_Decode :: "string \<Rightarrow> string option" where
  \<comment> \<open>line breaks are ignored\<close>
  "b64_Decode s = b64_quads (filter (\<lambda>c. of_char c \<noteq> (10 :: nat) \<and> of_char c \<noteq> (13 :: nat)) s)"

definition hex_digit :: "nat \<Rightarrow> char" where
  "hex_digit n = ''0123456789abcdef'' ! n"

definition hex_EncodeToString :: "string \<Rightarrow> string" where
  "hex_EncodeToString s = concat (map (\<lambda>c. [hex_digit (of_char c div 16), hex_digit (of_char c mod 16)]) s)"

section \<open>Round trip\<close>

lemma index_of_nth: "distinct xs \<Longrightarrow> i < length xs \<Longrightarrow> index_of (xs ! i) xs = Some i"
  by (induction xs arbitrary: i) (auto simp: nth_Cons split: nat.splits)

lemma b64_alphabet_facts: "distinct b64_alphabet" "length b64_alphabet = 64" "CHR ''='' \<notin> set b64_alphabet"
  "\<forall>c\<in>set b64_alphabet. of_char c \<noteq> (10 :: nat) \<and> of_char c \<noteq> (13 :: nat)"
  by (simp_all add: b64_alphabet_def)

lemma b64_char_in: "n < 64 \<Longrightarrow> b64_char n \<in> set b64_alphabet"
  by (simp add: b64_char_def b64_alphabet_facts)

lemma b64_val_char [simp]: "n < 64 \<Longrightarrow> b64_val (b64_char n) = Some n"
  by (simp add: b64_val_def b64_char_def index_of_nth b64_alphabet_facts)

lemma b64_char_not_pad [simp]: "n < 64 \<Longrightarrow> b64_char n \<noteq> CHR ''=''"
  using b64_char_in b64_alphabet_facts(3) by metis

lemma of_char_less [simp]: "(of_char c :: nat) < 256"
  using of_char_Char by (cases c) (simp add: of_char_Char)

lemma split_digit: "y < k \<Longrightarrow> (x * k + y) div k = (x :: nat)" "y < k \<Longrightarrow> (x * k + y) mod k = (y :: nat)"
  by (simp_all add: div_mult_self3)

lemma byte_parts:
  fixes n m k :: nat
  assumes "n < 256" "m < 256" "k < 256"
  shows "n div 4 < 64" "n mod 4 * 16 < 64" "n mod 4 * 16 + m div 16 < 64" "m mod 16 * 4 < 64" "m mod 16 * 4 + k div 64 < 64"
    "n div 4 * 4 + n mod 4 * 16 div 16 = n" "n div 4 * 4 + (n mod 4 * 16 + m div 16) div 16 = n"
    "(n mod 4 * 16 + m div 16) mod 16 * 16 + m mod 16 * 4 div 4 = m"
    "(n mod 4 * 16 + m div 16) mod 16 * 16 + (m mod 16 * 4 + k div 64) div 4 = m"
    "(m mod 16 * 4 + k div 64) mod 4 * 64 + k mod 64 = k"
proof -
  have d: "n div 4 < 64" "m div 16 < 16" "k div 64 < 4" using assms by (simp_all add: less_mult_imp_div_less)
  have r: "n mod 4 < 4" "m mod 16 < 16" by simp_all
  show "n div 4 < 64" "n mod 4 * 16 < 64" "n mod 4 * 16 + m div 16 < 64" "m mod 16 * 4 < 64" "m mod 16 * 4 + k div 64 < 64"
    using d r by simp_all
  show "n div 4 * 4 + n mod 4 * 16 div 16 = n" by simp
  show "n div 4 * 4 + (n mod 4 * 16 + m div 16) div 16 = n" unfolding split_digit(1)[OF d(2)] by simp
  show "(n mod 4 * 16 + m div 16) mod 16 * 16 + m mod 16 * 4 div 4 = m" unfolding split_digit(2)[OF d(2)] by simp
  show "(n mod 4 * 16 + m div 16) mod 16 * 16 + (m mod 16 * 4 + k div 64) div 4 = m"
    unfolding split_digit(2)[OF d(2)] split_digit(1)[OF d(3)] by simp
  show "(m mod 16 * 4 + k div 64) mod 4 * 64 + k mod 64 = k" unfolding split_digit(2)[OF d(3)] by simp
qed

lemma byte_high [simp]: "(of_char c :: nat) div 16 mod 16 = of_char c div 16" "(of_char c :: nat) div 64 mod 4 = of_char c div 64"
  using of_char_less[of c] by (simp_all add: less_mult_imp_div_less mod_less)

lemma b64_quads_Encode: "b64_quads (b64_Encode s) = Some s"
proof (induction s rule: b64_Encode.induct)
  case (2 a)
  then show ?case using byte_parts[of "of_char a" 0 0] by (simp add: Let_def)
next
  case (3 a b)
  then show ?case using byte_parts[of "of_char a" "of_char b" 0] by (simp add: Let_def)
next
  case (4 a b c r)
  then show ?case using byte_parts[of "of_char a" "of_char b" "of_char c"] by (simp add: Let_def)
qed simp

lemma b64_Encode_chars: "c \<in> set (b64_Encode s) \<Longrightarrow> c = CHR ''='' \<or> c \<in> set b64_alphabet"
proof (induction s rule: b64_Encode.induct)
  case (2 a)
  then show ?case using byte_parts[of "of_char a" 0 0] by (auto simp: Let_def b64_char_in)
next
  case (3 a b)
  then show ?case using byte_parts[of "of_char a" "of_char b" 0] by (auto simp: Let_def b64_char_in)
next
  case (4 a b c' r)
  then show ?case using byte_parts[of "of_char a" "of_char b" "of_char c'"] by (auto simp: Let_def b64_char_in)
qed simp

lemma b64_Decode_Encode [simp]: "b64_Decode (b64_Encode s) = Some s"
proof -
  have "filter (\<lambda>c. of_char c \<noteq> (10 :: nat) \<and> of_char c \<noteq> (13 :: nat)) (b64_Encode s) = b64_Encode s"
    using b64_Encode_chars b64_alphabet_facts(4) by (fastforce simp: filter_id_conv)
  then show ?thesis by (simp add: b64_Decode_def b64_quads_Encode)
qed

end
