(* ===== verification/CloudInit.thy ===== *)
theory CloudInit
  imports GoEncoding
begin

text \<open>
  The cloud-config text that a pod VM boots with, \<open>src/src/cloud-providers/util/cloudinit/cloudconfig.go\<close>,
  the paths of its files in the pod VM, \<open>src/src/cloud-api-adaptor/pkg/paths\<close>, and the initdata envelope,
  \<open>src/src/cloud-api-adaptor/pkg/initdata\<close>.

  \<open>Generate\<close> is the expansion of the template \<open>cloudInitText\<close>.  \<open>read_files\<close> is a reader of such a
  text, line by line, against which the rendering is checked.  In \<open>initdata\<close>, gzip, TOML and the SHA
  sums are the record \<open>initdata_lib\<close>; base64 is modelled.
\<close>

section \<open>Paths in the pod VM\<close>

definition AACfgPath :: string where "AACfgPath = ''/run/peerpod/aa.toml''"
definition AuthFilePath :: string where "AuthFilePath = ''/run/peerpod/auth.json''"
definition CDHCfgPath :: string where "CDHCfgPath = ''/run/peerpod/cdh.toml''"
definition InitDataPath :: string where "InitDataPath = ''/run/peerpod/initdata''"
definition ScratchSpacePath :: string where "ScratchSpacePath = ''/run/peerpod/scratch-space.marker''"
definition ForwarderCfgPath :: string where "ForwarderCfgPath = ''/run/peerpod/apf.json''"
definition UserDataPath :: string where "UserDataPath = ''/media/cidata/user-data''"

section \<open>Cloud config\<close>

record WriteFile =
  Path :: string
  Content :: string
  Owner :: string
  Permissions :: string
  Encoding :: string
  Append :: string

record CloudConfig =
  WriteFiles :: "WriteFile list"

definition DefaultAuthfileLimit :: nat where "DefaultAuthfileLimit = 12288"

definition NL :: char where "NL = CHR 0x0A"

definition splitLines :: "string \<Rightarrow> string list" where
  "splitLines text =
     (let lines = Split text NL
      in if length lines = 0 then [] else if last lines = [] then butlast lines else lines)"

definition opt_line :: "string \<Rightarrow> string \<Rightarrow> string" where
  \<comment> \<open>one \<open>if\<close> block of the template: nothing for an empty field\<close>
  "opt_line label v = (if v = [] then [] else NL # label @ v)"

definition render_file :: "WriteFile \<Rightarrow> string" where
  "render_file f =
     NL # ''  - path: '' @ Path f @
     opt_line ''    owner: '' (Owner f) @
     opt_line ''    permissions: '' (Permissions f) @
     opt_line ''    encoding: '' (Encoding f) @
     opt_line ''    append: '' (Append f) @
     (if Content f = [] then []
      else NL # ''    content: |'' @ concat (map (\<lambda>l. NL # ''      '' @ l) (splitLines (Content f))))"

definition Generate :: "CloudConfig \<Rightarrow> string" where
  "Generate config =
     ''#cloud-config'' @
     (if WriteFiles config = [] then []
      else [NL, NL] @ ''write_files:'' @ concat (map render_file (WriteFiles config))) @ [NL]"

definition AuthJSONToResourcesJSON :: "string \<Rightarrow> string" where
  "AuthJSONToResourcesJSON text =
     [CHR ''{'', CHR 0x22] @ ''default/credential/test'' @ [CHR 0x22, CHR '':'', CHR 0x22] @ b64_Encode text @ [CHR 0x22, CHR ''}'']"

section \<open>Reading the text back\<close>

fun content_lines :: "string list \<Rightarrow> string list" where
  \<comment> \<open>the block lines that follow a path line, up to the next path line\<close>
  "content_lines [] = []"
| "content_lines (l # ls) =
     (if HasPrefix l ''  - path: '' then []
      else if HasPrefix l ''      '' then drop 6 l # content_lines ls
      else content_lines ls)"

fun read_files :: "string list \<Rightarrow> (string \<times> string list) list" where
  "read_files [] = []"
| "read_files (l # ls) =
     (if HasPrefix l ''  - path: '' then (drop 10 l, content_lines ls) # read_files ls else read_files ls)"

definition single_line :: "WriteFile \<Rightarrow> bool" where
  \<comment> \<open>the scalar fields have no line break\<close>
  "single_line f \<longleftrightarrow> (\<forall>s\<in>{Path f, Owner f, Permissions f, Encoding f, Append f}. NL \<notin> set s)"

definition opt_lines :: "string \<Rightarrow> string \<Rightarrow> string list" where
  "opt_lines label v = (if v = [] then [] else [label @ v])"

definition file_lines :: "WriteFile \<Rightarrow> string list" where
  "file_lines f =
     (''  - path: '' @ Path f) # opt_lines ''    owner: '' (Owner f) @ opt_lines ''    permissions: '' (Permissions f) @
     opt_lines ''    encoding: '' (Encoding f) @ opt_lines ''    append: '' (Append f) @
     (if Content f = [] then [] else ''    content: |'' # map (\<lambda>l. ''      '' @ l) (splitLines (Content f)))"

lemma NL_not_label:
  "NL \<notin> set ''  - path: ''" "NL \<notin> set ''    owner: ''" "NL \<notin> set ''    permissions: ''"
  "NL \<notin> set ''    encoding: ''" "NL \<notin> set ''    append: ''" "NL \<notin> set ''    content: |''" "NL \<notin> set ''      ''"
  "NL \<notin> set ''#cloud-config''" "NL \<notin> set ''write_files:''"
  by (simp_all add: NL_def)

lemma splitLines_no_NL:
  assumes "l \<in> set (splitLines s)"
  shows "NL \<notin> set l"
proof -
  have "set (splitLines s) \<subseteq> set (Split s NL)" by (auto simp: splitLines_def Let_def dest: in_set_butlastD)
  with assms show ?thesis by (intro Split_elems_no_sep[of _ s]) blast
qed

lemma render_file_lines: "render_file f = concat (map (Cons NL) (file_lines f))"
  by (auto simp: render_file_def file_lines_def opt_line_def opt_lines_def comp_def)

lemma opt_lines_no_NL: "NL \<notin> set label \<Longrightarrow> NL \<notin> set v \<Longrightarrow> l \<in> set (opt_lines label v) \<Longrightarrow> NL \<notin> set l"
  by (simp add: opt_lines_def split: if_splits)

lemma file_lines_no_NL:
  assumes "single_line f" "l \<in> set (file_lines f)"
  shows "NL \<notin> set l"
proof -
  have f: "NL \<notin> set (Path f)" "NL \<notin> set (Owner f)" "NL \<notin> set (Permissions f)" "NL \<notin> set (Encoding f)" "NL \<notin> set (Append f)"
    using assms(1) by (simp_all add: single_line_def)
  from assms(2) consider "l = ''  - path: '' @ Path f" | "l \<in> set (opt_lines ''    owner: '' (Owner f))"
    | "l \<in> set (opt_lines ''    permissions: '' (Permissions f))" | "l \<in> set (opt_lines ''    encoding: '' (Encoding f))"
    | "l \<in> set (opt_lines ''    append: '' (Append f))" | "l = ''    content: |''"
    | x where "x \<in> set (splitLines (Content f))" "l = ''      '' @ x"
    unfolding file_lines_def by (auto split: if_splits)
  then show ?thesis
  proof cases
    case 1
    with f show ?thesis by (simp add: NL_def)
  next
    case 2
    then show ?thesis by (rule opt_lines_no_NL[OF NL_not_label(2) f(2)])
  next
    case 3
    then show ?thesis by (rule opt_lines_no_NL[OF NL_not_label(3) f(3)])
  next
    case 4
    then show ?thesis by (rule opt_lines_no_NL[OF NL_not_label(4) f(4)])
  next
    case 5
    then show ?thesis by (rule opt_lines_no_NL[OF NL_not_label(5) f(5)])
  next
    case 6
    then show ?thesis by (simp add: NL_def)
  next
    case (7 x)
    with splitLines_no_NL[of x] show ?thesis by (simp add: NL_def)
  qed
qed

lemma Split_cons_lines:
  assumes "\<And>l. l \<in> set ls \<Longrightarrow> c \<notin> set l" "c \<notin> set h"
  shows "Split (h @ concat (map (Cons c) ls) @ [c]) c = h # ls @ [[]]"
  using assms
proof (induction ls arbitrary: h)
  case Nil
  then show ?case by (simp add: Split_append)
next
  case (Cons l ls)
  then have "Split (l @ concat (map (Cons c) ls) @ [c]) c = l # ls @ [[]]" by simp
  with Cons show ?case by (simp add: Split_append)
qed

lemma Generate_lines:
  assumes "\<forall>f\<in>set (WriteFiles config). single_line f"
  shows "Split (Generate config) NL = ''#cloud-config'' #
    (if WriteFiles config = [] then [] else [] # ''write_files:'' # concat (map file_lines (WriteFiles config))) @ [[]]"
proof -
  let ?ls = "if WriteFiles config = [] then [] else [] # ''write_files:'' # concat (map file_lines (WriteFiles config))"
  have "Generate config = ''#cloud-config'' @ concat (map (Cons NL) ?ls) @ [NL]"
  proof (cases "WriteFiles config = []")
    case False
    have "concat (map render_file fs) = concat (map (Cons NL) (concat (map file_lines fs)))" for fs
      by (induction fs) (simp_all add: render_file_lines)
    then show ?thesis using False by (simp add: Generate_def)
  qed (simp add: Generate_def)
  moreover have "NL \<notin> set l" if "l \<in> set ?ls" for l
  proof -
    from that consider "l = []" | "l = ''write_files:''" | f where "f \<in> set (WriteFiles config)" "l \<in> set (file_lines f)"
      by (auto split: if_splits)
    then show ?thesis
    proof cases
      case (3 f)
      then show ?thesis using assms file_lines_no_NL[of f l] by blast
    qed (simp_all add: NL_def)
  qed
  ultimately show ?thesis using Split_cons_lines[of ?ls NL "''#cloud-config''", OF _ NL_not_label(8)] by simp
qed

lemma content_lines_opt:
  assumes "\<not> HasPrefix label ''  - path: ''" "\<not> HasPrefix label ''      ''" "10 \<le> length label"
  shows "content_lines (opt_lines label v @ ls) = content_lines ls" "read_files (opt_lines label v @ ls) = read_files ls"
proof -
  have "HasPrefix (label @ v) p = HasPrefix label p" if "length p \<le> length label" for p
    using that by (simp add: HasPrefix_def)
  then show "content_lines (opt_lines label v @ ls) = content_lines ls" "read_files (opt_lines label v @ ls) = read_files ls"
    using assms by (simp_all add: opt_lines_def)
qed

lemma content_lines_block:
  "content_lines (map ((@) ''      '') xs @ ls) = xs @ content_lines ls"
  "read_files (map ((@) ''      '') xs @ ls) = read_files ls"
  by (induction xs) (simp_all add: HasPrefix_def)

lemma splitLines_Nil: "splitLines [] = []"
  by (simp add: splitLines_def)

lemma opt_labels:
  "content_lines (opt_lines ''    owner: '' v @ ls) = content_lines ls" "read_files (opt_lines ''    owner: '' v @ ls) = read_files ls"
  "content_lines (opt_lines ''    permissions: '' v @ ls) = content_lines ls" "read_files (opt_lines ''    permissions: '' v @ ls) = read_files ls"
  "content_lines (opt_lines ''    encoding: '' v @ ls) = content_lines ls" "read_files (opt_lines ''    encoding: '' v @ ls) = read_files ls"
  "content_lines (opt_lines ''    append: '' v @ ls) = content_lines ls" "read_files (opt_lines ''    append: '' v @ ls) = read_files ls"
  by (rule content_lines_opt; simp add: HasPrefix_def)+

lemma read_file_lines:
  "content_lines (tl (file_lines f) @ ls) = splitLines (Content f) @ content_lines ls"
  "read_files (tl (file_lines f) @ ls) = read_files ls"
proof -
  have c: "content_lines ((''    content: |'' # ys) @ zs) = content_lines (ys @ zs)"
    "read_files ((''    content: |'' # ys) @ zs) = read_files (ys @ zs)" for ys zs
    by (simp_all add: HasPrefix_def)
  show "content_lines (tl (file_lines f) @ ls) = splitLines (Content f) @ content_lines ls"
    by (cases "Content f = []")
      (simp_all add: file_lines_def opt_labels c content_lines_block splitLines_Nil del: append_Cons content_lines.simps)
  show "read_files (tl (file_lines f) @ ls) = read_files ls"
    by (cases "Content f = []")
      (simp_all add: file_lines_def opt_labels c content_lines_block del: append_Cons read_files.simps)
qed

lemma read_files_file:
  "read_files (file_lines f @ ls) = (Path f, splitLines (Content f) @ content_lines ls) # read_files ls"
proof -
  have "file_lines f = (''  - path: '' @ Path f) # tl (file_lines f)" by (simp add: file_lines_def)
  then have "read_files (file_lines f @ ls) = read_files ((''  - path: '' @ Path f) # (tl (file_lines f) @ ls))"
    by (metis append_Cons)
  also have "\<dots> = (Path f, content_lines (tl (file_lines f) @ ls)) # read_files (tl (file_lines f) @ ls)"
    by (simp add: HasPrefix_def)
  finally show ?thesis by (simp only: read_file_lines)
qed

lemma content_lines_files: "content_lines (concat (map file_lines fs) @ [[]]) = []"
  by (cases fs) (simp_all add: file_lines_def HasPrefix_def)

lemma read_files_files:
  "read_files (concat (map file_lines fs) @ [[]]) = map (\<lambda>f. (Path f, splitLines (Content f))) fs"
  by (induction fs) (simp_all add: read_files_file content_lines_files, simp add: HasPrefix_def)


definition demo_config :: CloudConfig where
  "demo_config = \<lparr>WriteFiles = [\<lparr>Path = ''/a'', Content = ''x'' @ [NL] @ ''  - path: /etc/passwd'' @ [NL], Owner = [], Permissions = ''0600'',
     Encoding = [], Append = []\<rparr>]\<rparr>"


section \<open>Initdata\<close>

record InitDataBody =
  Algorithm :: string
  body_Version :: string
  Data :: "(string, string) go_map"

record InitData =
  Body :: InitDataBody
  Digest :: string

datatype initdata_error = ErrBase64 | ErrGzip string | ErrToml string | ErrAlgorithm string

record initdata_lib =
  gzip_compress :: "string \<Rightarrow> string + string"
  gzip_decompress :: "string \<Rightarrow> string + string"
  toml_Unmarshal :: "string \<Rightarrow> string + InitDataBody"
  sha256_Sum :: "string \<Rightarrow> string"
  sha384_Sum :: "string \<Rightarrow> string"
  sha512_Sum :: "string \<Rightarrow> string"

definition digest :: "initdata_lib \<Rightarrow> string \<Rightarrow> string \<Rightarrow> initdata_error + string" where
  "digest L alg body =
     (if alg = ''sha256'' then Inr (hex_EncodeToString (sha256_Sum L body))
      else if alg = ''sha384'' then Inr (hex_EncodeToString (sha384_Sum L body))
      else if alg = ''sha512'' then Inr (hex_EncodeToString (sha512_Sum L body))
      else Inl (ErrAlgorithm alg))"

definition decode :: "initdata_lib \<Rightarrow> string \<Rightarrow> initdata_error + string" where
  "decode L s = (case b64_Decode s of None \<Rightarrow> Inl ErrBase64 | Some d \<Rightarrow> map_error ErrGzip (gzip_decompress L d))"

definition Parse :: "initdata_lib \<Rightarrow> string \<Rightarrow> initdata_error + InitData" where
  "Parse L s =
     bind_result (decode L s) (\<lambda>initdataToml.
     bind_result (map_error ErrToml (toml_Unmarshal L initdataToml)) (\<lambda>body.
     bind_result (digest L (Algorithm body) initdataToml) (\<lambda>d. Inr \<lparr>Body = body, Digest = d\<rparr>)))"

definition Encode :: "initdata_lib \<Rightarrow> string \<Rightarrow> initdata_error + string" where
  "Encode L s = bind_result (map_error ErrGzip (gzip_compress L s)) (\<lambda>z. Inr (b64_Encode z))"

definition DecodeAnnotation :: "initdata_lib \<Rightarrow> string \<Rightarrow> initdata_error + string" where
  "DecodeAnnotation L s = decode L s"

definition gzip_ok :: "initdata_lib \<Rightarrow> bool" where
  \<comment> \<open>decompressing a compressed text gives the text\<close>
  "gzip_ok L \<longleftrightarrow> (\<forall>s z. gzip_compress L s = Inr z \<longrightarrow> gzip_decompress L z = Inr s)"

lemma decode_Encode: "gzip_ok L \<Longrightarrow> Encode L s = Inr e \<Longrightarrow> decode L e = Inr s"
  by (auto simp: Encode_def decode_def bind_result_Inr_iff map_error_Inr_iff gzip_ok_def)

text \<open>
  Encoded initdata that parses carries the text unchanged: the decoded text is the text that was encoded, its
  digest is taken over exactly that text, with the algorithm that the text itself names, one of the three supported.
\<close>

lemma initdata_roundtrip:
  assumes "gzip_ok L" "Encode L s = Inr e" "Parse L e = Inr d"
  shows "DecodeAnnotation L e = Inr s \<and> toml_Unmarshal L s = Inr (Body d) \<and> digest L (Algorithm (Body d)) s = Inr (Digest d) \<and>
    Algorithm (Body d) \<in> {''sha256'', ''sha384'', ''sha512''}"
  using assms(3) decode_Encode[OF assms(1,2)]
  by (auto simp: Parse_def DecodeAnnotation_def bind_result_Inr_iff map_error_Inr_iff digest_def split: if_splits)

definition demo_initdata :: initdata_lib where
  "demo_initdata = \<lparr>gzip_compress = (\<lambda>s. Inr (''gz'' @ s)), gzip_decompress = (\<lambda>s. Inr (drop 2 s)),
     toml_Unmarshal = (\<lambda>s. Inr \<lparr>Algorithm = ''sha256'', body_Version = ''0.1.0'',
       Data = [(''policy.rego'', ''default allow''), (''../../etc/passwd'', ''root'')]\<rparr>),
     sha256_Sum = id, sha384_Sum = id, sha512_Sum = id\<rparr>"

lemma initdata_roundtrip_witness:
  "\<exists>e d. Encode demo_initdata ''algorithm = sha256'' = Inr e \<and> Parse demo_initdata e = Inr d \<and>
     DecodeAnnotation demo_initdata e = Inr ''algorithm = sha256''"
proof -
  let ?s = "''algorithm = sha256''"
  let ?e = "b64_Encode (''gz'' @ ?s)"
  have ok: "gzip_ok demo_initdata" by (simp add: gzip_ok_def demo_initdata_def)
  have e: "Encode demo_initdata ?s = Inr ?e" by (simp add: Encode_def demo_initdata_def map_error_def bind_result_def del: b64_Encode.simps)
  have "decode demo_initdata ?e = Inr ?s" using decode_Encode[OF ok e] .
  then obtain d where d: "Parse demo_initdata ?e = Inr d"
    by (simp add: Parse_def bind_result_def map_error_def digest_def demo_initdata_def del: b64_Encode.simps)
  from initdata_roundtrip[OF ok e d] e d show ?thesis by blast
qed

end
