(* ===== verification/K8sOps.thy ===== *)
theory K8sOps
  imports GoEncoding
begin

text \<open>
  The Kubernetes operations of the adaptor, \<open>src/src/cloud-api-adaptor/pkg/adaptor/k8sops\<close>: \<open>node.go\<close>, \<open>peerpod.go\<close>
  and \<open>namespace.go\<close>, and the PeerPod type of \<open>src/src/peerpod-ctrl/api/v1alpha1\<close>.

  The API server is the record \<open>kube_api\<close> over the cluster state \<open>'w\<close>; reads do not change it.  The JSON codec is part
  of the record.  Whether an in-cluster client can be built is the field \<open>kube_client\<close>.
\<close>

section \<open>Data\<close>

record Pod =
  pod_Name :: string
  pod_Namespace :: string
  pod_UID :: string
  ServiceAccountName :: string
  ImagePullSecrets :: "string list"

record ServiceAccount =
  sa_ImagePullSecrets :: "string list"

record PeerPod =
  pp_Name :: string
  pp_Namespace :: string
  pp_UID :: string
  pp_Finalizers :: "string list"
  pp_OwnerUIDs :: "string list"
  pp_Created :: int
  pp_Deleting :: bool
  pp_InstanceID :: string
  pp_CloudProvider :: string

record Auth =
  auth_Username :: string
  auth_Password :: string
  auth_Auth :: string

type_synonym Registries = "(string, Auth) go_map"

record jsonPatch =
  patch_Op :: string
  patch_Path :: string
  patch_Value :: string

record 'w kube_api =
  kube_client :: "string option"
  pods_Get :: "string \<Rightarrow> string \<Rightarrow> 'w \<Rightarrow> k8s_error + Pod"
  serviceaccounts_Get :: "string \<Rightarrow> string \<Rightarrow> 'w \<Rightarrow> k8s_error + ServiceAccount"
  secrets_Get :: "string \<Rightarrow> string \<Rightarrow> 'w \<Rightarrow> k8s_error + (string, string) go_map"
  nodes_PatchStatus :: "string \<Rightarrow> string \<Rightarrow> 'w \<Rightarrow> k8s_error option \<times> 'w"
  peerpods_Post :: "string \<Rightarrow> PeerPod \<Rightarrow> 'w \<Rightarrow> k8s_error option \<times> 'w"
  peerpods_RemoveFinalizers :: "string \<Rightarrow> string \<Rightarrow> 'w \<Rightarrow> k8s_error option \<times> 'w"
  marshal_Auths :: "Registries \<Rightarrow> string + string"
  unmarshal_Auths :: "string \<Rightarrow> string + Registries"
  unmarshal_Registries :: "string \<Rightarrow> string + Registries"
  marshal_patches :: "jsonPatch list \<Rightarrow> string + string"

datatype k8sops_error =
    ErrKubeClient string
  | ErrKubeApi k8s_error
  | ErrJson string
  | ErrNoCloudProvider
  | ErrNoMapping
  | ErrNoNamespace

definition ppFinalizer :: string where "ppFinalizer = ''peer.pod/finalizer''"

section \<open>Nodes\<close>

definition newJsonPatch :: "string \<Rightarrow> string \<Rightarrow> string \<Rightarrow> string \<Rightarrow> jsonPatch" where
  "newJsonPatch verb jsonpath key v =
     \<lparr>patch_Op = verb, patch_Path = Join_path [jsonpath, ReplaceAll key ''/'' ''~1''], patch_Value = v\<rparr>"

definition patchNodeStatus :: "'w kube_api \<Rightarrow> string \<Rightarrow> jsonPatch list \<Rightarrow> 'w \<Rightarrow> k8sops_error option \<times> 'w" where
  "patchNodeStatus K nodeName patches w =
     (if 0 < length patches
      then (case marshal_patches K patches of
              Inl e \<Rightarrow> (Some (ErrJson e), w)
            | Inr data \<Rightarrow>
                (case nodes_PatchStatus K nodeName data w of
                   (Some e, w) \<Rightarrow> (Some (ErrKubeApi e), w) | (None, w) \<Rightarrow> (None, w)))
      else (None, w))"

definition AdvertiseExtendedResources :: "'w kube_api \<Rightarrow> os_state \<Rightarrow> int \<Rightarrow> 'w \<Rightarrow> k8sops_error option \<times> 'w" where
  "AdvertiseExtendedResources K os peerPodsLimitPerNode w =
     (if peerPodsLimitPerNode < 0 then (None, w)
      else (case kube_client K of
              Some e \<Rightarrow> (Some (ErrKubeClient e), w)
            | None \<Rightarrow>
                patchNodeStatus K (Getenv os ''NODE_NAME'')
                  [newJsonPatch ''add'' ''/status/capacity'' ''kata.peerpods.io~1vm'' (FormatInt10 peerPodsLimitPerNode)] w))"

definition RemoveExtendedResources :: "'w kube_api \<Rightarrow> os_state \<Rightarrow> 'w \<Rightarrow> k8sops_error option \<times> 'w" where
  "RemoveExtendedResources K os w =
     (case kube_client K of
        Some e \<Rightarrow> (Some (ErrKubeClient e), w)
      | None \<Rightarrow>
          patchNodeStatus K (Getenv os ''NODE_NAME'')
            [newJsonPatch ''remove'' ''/status/capacity'' ''kata.peerpods.io~1vm'' []] w)"

definition IsKubernetesEnvironment :: "os_state \<Rightarrow> bool" where
  "IsKubernetesEnvironment os = (Getenv os ''NODE_NAME'' \<noteq> [])"

section \<open>Image pull secrets\<close>

definition add_creds :: "string \<times> Auth \<Rightarrow> Registries \<Rightarrow> Registries" where
  \<comment> \<open>the body of the loop over the registries of one secret\<close>
  "add_creds = (\<lambda>(registry, creds) auths.
     (let creds = (if auth_Auth creds = [] \<and> auth_Username creds \<noteq> [] \<and> auth_Password creds \<noteq> []
                   then creds\<lparr>auth_Auth := b64_Encode (auth_Username creds @ '':'' @ auth_Password creds)\<rparr>
                   else creds)
      in if auth_Auth creds = [] then auths
         else AList.update registry (creds\<lparr>auth_Username := [], auth_Password := []\<rparr>) auths))"

definition addAuths :: "'w kube_api \<Rightarrow> string \<Rightarrow> string \<Rightarrow> Registries \<Rightarrow> 'w \<Rightarrow> k8sops_error + Registries" where
  "addAuths K namespace secretName auths w =
     (case secrets_Get K namespace secretName w of
        Inl _ \<Rightarrow> Inr auths
      | Inr data \<Rightarrow>
          bind_result
            (case map_of data ''.dockerconfigjson'' of
               Some secretData \<Rightarrow> map_error ErrJson (unmarshal_Auths K secretData)
             | None \<Rightarrow>
                 (case map_of data ''.dockercfg'' of
                    Some secretData \<Rightarrow> map_error ErrJson (unmarshal_Registries K secretData)
                  | None \<Rightarrow> Inr []))
            (\<lambda>registries. Inr (fold add_creds registries auths)))"

fun addAuths_all :: "'w kube_api \<Rightarrow> string \<Rightarrow> string list \<Rightarrow> Registries \<Rightarrow> 'w \<Rightarrow> k8sops_error + Registries" where
  "addAuths_all K namespace [] auths w = Inr auths"
| "addAuths_all K namespace (secret # secrets) auths w =
     bind_result (addAuths K namespace secret auths w) (\<lambda>auths. addAuths_all K namespace secrets auths w)"

definition GetImagePullSecrets :: "'w kube_api \<Rightarrow> string \<Rightarrow> string \<Rightarrow> 'w \<Rightarrow> k8sops_error + string option" where
  \<comment> \<open>\<open>None\<close> is the nil slice\<close>
  "GetImagePullSecrets K podName namespace w =
     (case kube_client K of
        Some e \<Rightarrow> Inl (ErrKubeClient e)
      | None \<Rightarrow>
          bind_result (map_error ErrKubeApi (pods_Get K namespace podName w)) (\<lambda>pod.
          let accountName = (if ServiceAccountName pod = [] then ''default'' else ServiceAccountName pod) in
          bind_result (map_error ErrKubeApi (serviceaccounts_Get K namespace accountName w)) (\<lambda>serviceAccount.
          bind_result (addAuths_all K namespace (sa_ImagePullSecrets serviceAccount) [] w) (\<lambda>auths.
          bind_result (addAuths_all K namespace (ImagePullSecrets pod) auths w) (\<lambda>auths.
            if 0 < length auths then bind_result (map_error ErrJson (marshal_Auths K auths)) (\<lambda>authJSON. Inr (Some authJSON))
            else Inr None)))))"

section \<open>PeerPod objects\<close>

record PeerPodService =
  cloudProvider :: string
  podToPP :: "(string, string) go_map"

definition NewPeerPodService :: "'w kube_api \<Rightarrow> os_state \<Rightarrow> k8sops_error + PeerPodService" where
  "NewPeerPodService K os =
     (if Getenv os ''CLOUD_PROVIDER'' = [] then Inl ErrNoCloudProvider
      else (case kube_client K of
              Some e \<Rightarrow> Inl (ErrKubeClient e)
            | None \<Rightarrow> Inr \<lparr>cloudProvider = Getenv os ''CLOUD_PROVIDER'', podToPP = []\<rparr>))"

definition newPeerPod :: "PeerPodService \<Rightarrow> string \<Rightarrow> Pod \<Rightarrow> string \<Rightarrow> PeerPod" where
  \<comment> \<open>the second argument is the random suffix \<open>rand.String(5)\<close>; the API server assigns UID and creation time\<close>
  "newPeerPod s sfx pod instanceId =
     \<lparr>pp_Name = pod_Name pod @ ''-resource-'' @ sfx, pp_Namespace = pod_Namespace pod, pp_UID = [],
      pp_Finalizers = [ppFinalizer], pp_OwnerUIDs = [pod_UID pod], pp_Created = 0, pp_Deleting = False,
      pp_InstanceID = instanceId, pp_CloudProvider = cloudProvider s\<rparr>"

definition getPod :: "'w kube_api \<Rightarrow> string \<Rightarrow> string \<Rightarrow> 'w \<Rightarrow> k8s_error + Pod" where
  "getPod K podname podns w = pods_Get K podns podname w"

definition OwnPeerPod ::
  "'w kube_api \<Rightarrow> string \<Rightarrow> PeerPodService \<Rightarrow> string \<Rightarrow> string \<Rightarrow> string \<Rightarrow> 'w \<Rightarrow> k8sops_error option \<times> PeerPodService \<times> 'w" where
  "OwnPeerPod K sfx s podname podns instanceID w =
     (case getPod K podname podns w of
        Inl e \<Rightarrow> (Some (ErrKubeApi e), s, w)
      | Inr pod \<Rightarrow>
          (let pp = newPeerPod s sfx pod instanceID
           in case peerpods_Post K (pod_Namespace pod) pp w of
                (Some e, w) \<Rightarrow> (Some (ErrKubeApi e), s, w)
              | (None, w) \<Rightarrow> (None, s\<lparr>podToPP := AList.update (pod_UID pod) (pp_Name pp) (podToPP s)\<rparr>, w)))"

definition ReleasePeerPod ::
  "'w kube_api \<Rightarrow> PeerPodService \<Rightarrow> string \<Rightarrow> string \<Rightarrow> string \<Rightarrow> 'w \<Rightarrow> k8sops_error option \<times> PeerPodService \<times> 'w" where
  \<comment> \<open>the instance id is not used\<close>
  "ReleasePeerPod K s podname podns instanceID w =
     (case getPod K podname podns w of
        Inl e \<Rightarrow> (Some (ErrKubeApi e), s, w)
      | Inr pod \<Rightarrow>
          (case map_of (podToPP s) (pod_UID pod) of
             None \<Rightarrow> (Some ErrNoMapping, s, w)
           | Some ownedPPName \<Rightarrow>
               (case peerpods_RemoveFinalizers K podns ownedPPName w of
                  (Some e, w) \<Rightarrow> (Some (ErrKubeApi e), s, w)
                | (None, w) \<Rightarrow> (None, s\<lparr>podToPP := AList.delete (pod_UID pod) (podToPP s)\<rparr>, w))))"

section \<open>Namespace of the adaptor\<close>

definition namespaceFile :: string where
  "namespaceFile = ''/var/run/secrets/kubernetes.io/serviceaccount/namespace''"

definition GetCurrentNamespace :: "os_state \<Rightarrow> k8sops_error + string" where
  "GetCurrentNamespace os =
     (let fromFile = (case ReadFile os namespaceFile of Inl _ \<Rightarrow> [] | Inr data \<Rightarrow> data)
      in if fromFile \<noteq> [] then Inr fromFile
         else if Getenv os ''POD_NAMESPACE'' \<noteq> [] then Inr (Getenv os ''POD_NAMESPACE'')
         else Inl ErrNoNamespace)"

definition GetCurrentNamespaceWithDefault :: "os_state \<Rightarrow> string" where
  "GetCurrentNamespaceWithDefault os =
     (case GetCurrentNamespace os of Inr namespace \<Rightarrow> namespace | Inl _ \<Rightarrow> ''confidential-containers-system'')"

section \<open>Lemmas\<close>

definition auths_ok :: "Registries \<Rightarrow> bool" where
  \<comment> \<open>no entry without credentials, and no user name or password beside the encoded credentials\<close>
  "auths_ok m \<longleftrightarrow> wf_map m \<and> (\<forall>(r, a)\<in>set m. auth_Auth a \<noteq> [] \<and> auth_Username a = [] \<and> auth_Password a = [])"

lemma set_update_wf: "wf_map m \<Longrightarrow> set (AList.update k v m) = insert (k, v) {p \<in> set m. fst p \<noteq> k}"
  by (induction m) (auto simp: image_iff)

lemma auths_ok_add: "auths_ok m \<Longrightarrow> auths_ok (add_creds p m)"
  by (cases p) (auto simp: auths_ok_def add_creds_def Let_def set_update_wf)

lemma auths_ok_fold: "auths_ok m \<Longrightarrow> auths_ok (fold add_creds ps m)"
  by (induction ps arbitrary: m) (simp_all add: auths_ok_add)

lemma auths_ok_addAuths: "addAuths K ns s m w = Inr m' \<Longrightarrow> auths_ok m \<Longrightarrow> auths_ok m'"
  by (auto simp: addAuths_def bind_result_Inr_iff auths_ok_fold split: sum.splits)

lemma auths_ok_all: "addAuths_all K ns ss m w = Inr m' \<Longrightarrow> auths_ok m \<Longrightarrow> auths_ok m'"
  by (induction ss arbitrary: m) (auto simp: bind_result_Inr_iff dest: auths_ok_addAuths)

lemma map_of_add_creds: "map_of (add_creds (r, a) m) k = (if k = r \<and> map_of (add_creds (r, a) []) r \<noteq> None
    then map_of (add_creds (r, a) []) r else map_of m k)"
  by (simp add: add_creds_def Let_def update_conv')

section \<open>Properties\<close>

text \<open>
  The image pull secrets that reach the pod VM are one entry per registry, each with encoded credentials and
  without a plain user name or password beside them; when no credentials were found, nothing is sent.
\<close>

lemma image_pull_secrets_encoded:
  assumes "GetImagePullSecrets K podName namespace w = Inr (Some text)"
  shows "\<exists>auths. marshal_Auths K auths = Inr text \<and> auths \<noteq> [] \<and> auths_ok auths"
proof -
  from assms obtain a1 a2 sas pss where 1: "addAuths_all K namespace sas [] w = Inr a1" and 2: "addAuths_all K namespace pss a1 w = Inr a2"
    and t: "0 < length a2" "marshal_Auths K a2 = Inr text"
    by (auto simp: GetImagePullSecrets_def bind_result_Inr_iff map_error_Inr_iff Let_def split: option.splits if_splits)
  have "auths_ok []" by (simp add: auths_ok_def)
  with auths_ok_all[OF 1] auths_ok_all[OF 2] have "auths_ok a2" by blast
  with t show ?thesis by auto
qed

definition demo_kube :: "unit kube_api" where
  "demo_kube = \<lparr>kube_client = None,
     pods_Get = (\<lambda>ns n _. Inr \<lparr>pod_Name = n, pod_Namespace = ns, pod_UID = ''u1'', ServiceAccountName = [], ImagePullSecrets = [''s'']\<rparr>),
     serviceaccounts_Get = (\<lambda>_ _ _. Inr \<lparr>sa_ImagePullSecrets = []\<rparr>),
     secrets_Get = (\<lambda>_ _ _. Inr [(''.dockercfg'', ''cfg'')]),
     nodes_PatchStatus = (\<lambda>_ _ w. (None, w)), peerpods_Post = (\<lambda>_ _ w. (None, w)), peerpods_RemoveFinalizers = (\<lambda>_ _ w. (None, w)),
     marshal_Auths = (\<lambda>m. Inr (concat (map (\<lambda>(r, a). r @ auth_Auth a) m))), unmarshal_Auths = (\<lambda>_. Inl ''unused''),
     unmarshal_Registries = (\<lambda>_. Inr [(''quay.io'', \<lparr>auth_Username = ''u'', auth_Password = ''p'', auth_Auth = []\<rparr>)]),
     marshal_patches = (\<lambda>_. Inr [])\<rparr>"

lemma image_pull_secrets_encoded_witness:
  "\<exists>text auths. GetImagePullSecrets demo_kube ''pod'' ''ns'' () = Inr (Some text) \<and> marshal_Auths demo_kube auths = Inr text \<and> auths_ok auths"
proof -
  have "\<exists>text. GetImagePullSecrets demo_kube ''pod'' ''ns'' () = Inr (Some text)"
    by (simp add: GetImagePullSecrets_def demo_kube_def addAuths_def add_creds_def map_error_def Let_def b64_char_def)
  then obtain js where t: "GetImagePullSecrets demo_kube ''pod'' ''ns'' () = Inr (Some js)" ..
  from image_pull_secrets_encoded[OF t] t show ?thesis by blast
qed

end
