(* ===== verification/ProviderCommon.thy ===== *)
theory ProviderCommon
  imports GoOs
begin

text \<open>
  The parts of \<open>src/src/cloud-providers\<close> that every provider shares: the provider table with its
  external plug-in loader (\<open>table.go\<close>), the key-value command line flag (\<open>types.go\<close>), environment defaults, the user-data
  file and the SSH key file check (\<open>util.go\<close>), and the generated instance name
  (\<open>util/instance.go\<close>).

  SHA-256, \<open>plugin.Open\<close> (which runs the plug-in's own code) and \<open>ssh.ParseAuthorizedKey\<close> are
  arguments.  A provider is a value of the type parameter \<open>'p\<close>.
\<close>

section \<open>The provider table\<close>

type_synonym 'p provider_table = "(string, 'p) go_map"

definition AddCloudProvider :: "string \<Rightarrow> 'p \<Rightarrow> 'p provider_table \<Rightarrow> 'p provider_table" where
  "AddCloudProvider name cloud table = AList.update name cloud table"

definition List_providers :: "'p provider_table \<Rightarrow> string list" where
  "List_providers table = map fst table"

definition getFileNameAndSha256sum ::
  "(string \<Rightarrow> string) \<Rightarrow> os_state \<Rightarrow> string \<Rightarrow> string \<times> string \<times> os_error option" where
  "getFileNameAndSha256sum sha256hex os providerPath =
     (if os_fault os OpOpen providerPath then ([], [], Some (ErrOs OpOpen providerPath))
      else case os_files os providerPath of
        None \<Rightarrow> ([], [], Some (ErrNotExist providerPath))
      | Some f \<Rightarrow>
          (let filename = Base providerPath
           in if os_fault os OpReadFile providerPath
              then (filename, [], Some (ErrOs OpReadFile providerPath))
              else (filename, sha256hex (f_content f), None)))"

definition hasExecutePermission :: "os_state \<Rightarrow> string \<Rightarrow> os_error + bool" where
  "hasExecutePermission os providerPath =
     bind_result (Stat os (Dir providerPath))
       (\<lambda>mode. Inr (mode AND ModeDir \<noteq> 0 \<and> mode AND 0x40 \<noteq> 0))"

datatype load_outcome =
    LoadingDisabled | StatFailed | NoExecutePermission | PathNotSet | HashNotSet
  | FilenameMismatch | ChecksumFailed | HashMismatch | OpenFailed | Opened

definition LoadCloudProvider ::
  "(string \<Rightarrow> string) \<Rightarrow> (string \<Rightarrow> 'p provider_table \<Rightarrow> bool \<times> 'p provider_table) \<Rightarrow>
   os_state \<Rightarrow> string \<Rightarrow> 'p provider_table \<Rightarrow> load_outcome \<times> 'p provider_table" where
  "LoadCloudProvider sha256hex pluginOpen os name table =
     (if Getenv os ''ENABLE_CLOUD_PROVIDER_EXTERNAL_PLUGIN'' \<noteq> ''true'' then (LoadingDisabled, table)
      else let externalPluginPath = Getenv os ''CLOUD_PROVIDER_EXTERNAL_PLUGIN_PATH'' in
      case hasExecutePermission os externalPluginPath of
        Inl err \<Rightarrow> (StatFailed, table)
      | Inr executePermission \<Rightarrow>
        if \<not> executePermission then (NoExecutePermission, table)
        else let cloudProviderPluginHash = Getenv os ''CLOUD_PROVIDER_EXTERNAL_PLUGIN_HASH'' in
        if externalPluginPath = [] then (PathNotSet, table)
        else if cloudProviderPluginHash = [] then (HashNotSet, table)
        else case getFileNameAndSha256sum sha256hex os externalPluginPath of
          (filename, realPluginHash, err) \<Rightarrow>
          if \<not> EqualFold filename (name @ ''.so'') then (FilenameMismatch, table)
          else if err \<noteq> None then (ChecksumFailed, table)
          else if cloudProviderPluginHash \<noteq> realPluginHash then (HashMismatch, table)
          else (case pluginOpen externalPluginPath table of
                  (ok, table') \<Rightarrow> ((if ok then Opened else OpenFailed), table')))"

definition Get :: "(string \<Rightarrow> string) \<Rightarrow> (string \<Rightarrow> 'p provider_table \<Rightarrow> bool \<times> 'p provider_table) \<Rightarrow>
   os_state \<Rightarrow> string \<Rightarrow> 'p provider_table \<Rightarrow> 'p option \<times> 'p provider_table" where
  \<comment> \<open>a missing entry is the nil interface, \<open>None\<close>\<close>
  "Get sha256hex pluginOpen os name table =
     (let table' = snd (LoadCloudProvider sha256hex pluginOpen os name table)
      in (map_of table' name, table'))"

section \<open>The key-value flag\<close>

type_synonym KeyValueFlag = "(string, string) go_map"

definition SplitN2 :: "string \<Rightarrow> string \<Rightarrow> string list" where
  \<comment> \<open>\<open>strings.SplitN(s, sep, 2)\<close>\<close>
  "SplitN2 s sep = (case Cut s sep of None \<Rightarrow> [s] | Some (a, b) \<Rightarrow> [a, b])"

definition kv_text :: "string \<times> string \<Rightarrow> string" where
  "kv_text p = fst p @ ''='' @ snd p"

definition KeyValueFlag_String :: "KeyValueFlag \<Rightarrow> string" where
  "KeyValueFlag_String k = Join (map kv_text k) '', ''"

fun set_pairs :: "string list \<Rightarrow> KeyValueFlag \<Rightarrow> string option \<times> KeyValueFlag" where
  \<comment> \<open>the pairs before the first malformed one are stored\<close>
  "set_pairs [] k = (None, k)"
| "set_pairs (pair # pairs) k =
     (case SplitN2 pair ''='' of
        [a, b] \<Rightarrow> set_pairs pairs (AList.update (TrimSpace a) (TrimSpace b) k)
      | _ \<Rightarrow> (Some (''invalid key-value pair: '' @ pair), k))"

definition KeyValueFlag_Set :: "string \<Rightarrow> KeyValueFlag option \<Rightarrow> string option \<times> KeyValueFlag" where
  "KeyValueFlag_Set value k =
     set_pairs (Split value (CHR '','')) (case k of None \<Rightarrow> [] | Some m \<Rightarrow> m)"

section \<open>Environment defaults, the user-data file and the SSH key file\<close>

definition DefaultToEnv :: "os_state \<Rightarrow> string \<Rightarrow> string \<Rightarrow> string \<Rightarrow> string" where
  "DefaultToEnv os field env fallback =
     (if field \<noteq> [] then field
      else let val = Getenv os env in if val = [] then fallback else val)"

definition WriteUserData :: "string \<Rightarrow> string \<Rightarrow> string \<Rightarrow> os_state \<Rightarrow> (os_error + string) \<times> os_state" where
  "WriteUserData instanceName userData dataDir os =
     (case MkdirAll os dataDir 0x1ED of
        (Inl err, os1) \<Rightarrow> (Inl err, os1)
      | (Inr _, os1) \<Rightarrow>
          (let filePath = Join_path [dataDir, instanceName @ ''-userdata''] in
           case WriteFile os1 filePath userData 0x1A4 of
             (Inl err, os2) \<Rightarrow> (Inl err, os2)
           | (Inr _, os2) \<Rightarrow> (Inr filePath, os2)))"

datatype ssh_key_error =
    SshStat os_error | SshPermissions string | SshRead os_error | SshInvalidKey string

definition VerifySSHKeyFile :: "(string \<Rightarrow> string option) \<Rightarrow> os_state \<Rightarrow> string \<Rightarrow> ssh_key_error option" where
  \<comment> \<open>\<open>parseKey\<close> stands for \<open>ssh.ParseAuthorizedKey\<close>: \<open>Some e\<close> is its error\<close>
  "VerifySSHKeyFile parseKey os sshKeyFile =
     (case Stat os sshKeyFile of
        Inl err \<Rightarrow> Some (SshStat err)
      | Inr mode \<Rightarrow>
          if mode AND ModePerm \<noteq> 0x180 then Some (SshPermissions sshKeyFile)
          else (case ReadFile os sshKeyFile of
                  Inl err \<Rightarrow> Some (SshRead err)
                | Inr content \<Rightarrow>
                    (case parseKey content of Some e \<Rightarrow> Some (SshInvalidKey e) | None \<Rightarrow> None)))"

section \<open>Instance names\<close>

type_synonym rune = nat

definition podvmNamePrefix :: string where "podvmNamePrefix = ''podvm''"

definition to_lower_rune :: "(rune \<Rightarrow> rune) \<Rightarrow> rune \<Rightarrow> rune" where
  \<comment> \<open>\<open>unicode.ToLower\<close>: ASCII written out, the Unicode tables as the argument\<close>
  "to_lower_rune uniLower c =
     (if c < 128 then (if 65 \<le> c \<and> c \<le> 90 then c + 32 else c) else uniLower c)"

definition allowed_rune :: "rune \<Rightarrow> bool" where
  "allowed_rune c \<longleftrightarrow> (97 \<le> c \<and> c \<le> 122) \<or> (48 \<le> c \<and> c \<le> 57) \<or> c = 45"

definition sanitize :: "(rune \<Rightarrow> rune) \<Rightarrow> rune list \<Rightarrow> string" where
  "sanitize uniLower input =
     map (\<lambda>c. char_of (if \<not> allowed_rune c then 45 else c)) (map (to_lower_rune uniLower) input)"

definition GenerateInstanceName :: "(rune \<Rightarrow> rune) \<Rightarrow> rune list \<Rightarrow> rune list \<Rightarrow> int \<Rightarrow> string option" where
  \<comment> \<open>\<open>None\<close> is the panic for a limit that is too small\<close>
  "GenerateInstanceName uniLower podName sandboxID podvmNameMax =
     (let pod = sanitize uniLower podName;
          sid = sanitize uniLower sandboxID;
          prefixLen = int (length podvmNamePrefix);
          podNameLen = (if podvmNameMax > 0 \<and> prefixLen + int (length pod) + 10 > podvmNameMax
                        then podvmNameMax - prefixLen - 10 else int (length pod))
      in if podNameLen < 0 then None
         else Some (podvmNamePrefix @ ''-'' @ take (nat podNameLen) pod @ ''-'' @ take 8 sid))"

section \<open>Facts\<close>

lemma TrimSpace_space: "TrimSpace (CHR '' '' # s) = TrimSpace s"
  by (simp add: TrimSpace_def is_space_def)

lemma set_pairs_key_value:
  assumes "CHR ''='' \<notin> set k"
  shows "set_pairs (kv_text (k, v) # ps) m = set_pairs ps (AList.update (TrimSpace k) (TrimSpace v) m)"
  using Cut_at_char[OF assms, of v] by (simp add: SplitN2_def kv_text_def)

lemma kv_text_space: "CHR '' '' # kv_text (k, v) = kv_text (CHR '' '' # k, v)"
  by (simp add: kv_text_def)

lemma Split_Join_space:
  assumes "\<And>x. x \<in> set xs \<Longrightarrow> CHR '','' \<notin> set x" and "xs \<noteq> []"
  shows "Split (Join xs '', '') (CHR '','') = hd xs # map (Cons (CHR '' '')) (tl xs)"
  using assms
proof (induction xs "'', ''" rule: Join.induct)
  case (3 x y ys)
  have "Split (CHR '' '' # Join (y # ys) '', '') (CHR '','') = (CHR '' '' # y) # map (Cons (CHR '' '')) ys"
    using 3 by simp
  then show ?case using 3 by (simp add: Split_append)
qed (simp_all add: Split_no_sep)

lemma set_pairs_spaced:
  assumes "\<And>k v. (k, v) \<in> set ps \<Longrightarrow> CHR ''='' \<notin> set k \<and> TrimSpace k = k \<and> TrimSpace v = v"
    and "wf_map (m @ ps)"
  shows "set_pairs (map (\<lambda>p. CHR '' '' # kv_text p) ps) m = (None, m @ ps)"
  using assms
proof (induction ps arbitrary: m)
  case (Cons p ps)
  obtain k v where p: "p = (k, v)" by fastforce
  have "set_pairs (map (\<lambda>p. CHR '' '' # kv_text p) (p # ps)) m =
      set_pairs (map (\<lambda>p. CHR '' '' # kv_text p) ps) (AList.update k v m)"
    using Cons.prems(1)[of k v] set_pairs_key_value[of "CHR '' '' # k" v]
    by (simp add: p TrimSpace_space kv_text_space del: set_pairs.simps)
  also have "AList.update k v m = m @ [(k, v)]"
    using Cons.prems(2) by (intro update_new_key) (auto simp: p map_of_eq_None_iff)
  also have "set_pairs (map (\<lambda>p. CHR '' '' # kv_text p) ps) (m @ [(k, v)]) = (None, (m @ [(k, v)]) @ ps)"
    by (rule Cons.IH) (use Cons.prems in \<open>auto simp: p\<close>)
  finally show ?case by (simp add: p)
qed simp

lemma char_of_allowed_or_dash:
  "c \<in> set (sanitize u s) \<Longrightarrow> allowed_rune (of_char c)"
  by (auto simp: sanitize_def allowed_rune_def split: if_splits)

lemma take_sanitize_allowed: "c \<in> set (take n (sanitize u s)) \<Longrightarrow> allowed_rune (of_char c)"
  using char_of_allowed_or_dash[of c u s] by (meson in_set_takeD)

lemma allowed_dash_podvm:
  "\<forall>c\<in>set ''podvm-''. allowed_rune (of_char c)"
  "\<forall>c\<in>set ''-''. allowed_rune (of_char c)"
  by (simp_all add: allowed_rune_def)

section \<open>Properties\<close>

text \<open>the provider table changes only by opening an external plug-in whose loading is enabled, whose file name is the
  requested provider's and whose SHA-256 is the configured one.\<close>

lemma load_provider_guard:
  assumes "snd (LoadCloudProvider sha256hex pluginOpen os name table) \<noteq> table"
  shows "Getenv os ''ENABLE_CLOUD_PROVIDER_EXTERNAL_PLUGIN'' = ''true'' \<and>
    (\<exists>f. os_files os (Getenv os ''CLOUD_PROVIDER_EXTERNAL_PLUGIN_PATH'') = Some f \<and>
       EqualFold (Base (Getenv os ''CLOUD_PROVIDER_EXTERNAL_PLUGIN_PATH'')) (name @ ''.so'') \<and>
       Getenv os ''CLOUD_PROVIDER_EXTERNAL_PLUGIN_HASH'' = sha256hex (f_content f) \<and>
       sha256hex (f_content f) \<noteq> [])"
  using assms
  by (auto simp: LoadCloudProvider_def getFileNameAndSha256sum_def Let_def
      split: sum.splits if_splits option.splits)

definition plugin_os :: os_state where
  "plugin_os =
     \<lparr>os_env = (\<lambda>_. [])(''ENABLE_CLOUD_PROVIDER_EXTERNAL_PLUGIN'' := ''true'',
                  ''CLOUD_PROVIDER_EXTERNAL_PLUGIN_PATH'' := ''/p/x.so'',
                  ''CLOUD_PROVIDER_EXTERNAL_PLUGIN_HASH'' := ''abc''),
      os_files = [''/p'' \<mapsto> \<lparr>f_mode = ModeDir OR 0x1ED, f_content = []\<rparr>,
                  ''/p/x.so'' \<mapsto> \<lparr>f_mode = 0x1A4, f_content = ''abc''\<rparr>],
      os_fault = (\<lambda>_ _. False)\<rparr>"

lemma load_provider_guard_witness:
  "\<exists>f. os_files plugin_os ''/p/x.so'' = Some f \<and> ''abc'' = id (f_content f)"
proof -
  let ?open = "\<lambda>p t. (True, AddCloudProvider ''x'' () t)"
  have "snd (LoadCloudProvider id ?open plugin_os ''x'' []) \<noteq> []"
    by code_simp
  from load_provider_guard[OF this] show ?thesis by (simp add: plugin_os_def Getenv_def)
qed

text \<open>Parsing the printed form of a key-value flag gives back the flag: for keys without comma or equals sign, values
  without comma, and neither with surrounding white space.\<close>

lemma key_value_roundtrip:
  assumes wf: "wf_map k" "k \<noteq> []"
    and plain: "\<forall>(key, val)\<in>set k. CHR '','' \<notin> set key \<and> CHR '','' \<notin> set val \<and> CHR ''='' \<notin> set key \<and>
        TrimSpace key = key \<and> TrimSpace val = val"
  shows "KeyValueFlag_Set (KeyValueFlag_String k) None = (None, k)"
proof -
  obtain key val ps where k: "k = (key, val) # ps" using wf(2) by (cases k) auto
  have "CHR '','' \<notin> set x" if "x \<in> set (map kv_text k)" for x
    using that plain by (auto simp: kv_text_def)
  then have "Split (KeyValueFlag_String k) (CHR '','') =
      kv_text (key, val) # map (\<lambda>p. CHR '' '' # kv_text p) ps"
    using Split_Join_space[of "map kv_text k"] by (simp add: KeyValueFlag_String_def k)
  then have "KeyValueFlag_Set (KeyValueFlag_String k) None =
      set_pairs (kv_text (key, val) # map (\<lambda>p. CHR '' '' # kv_text p) ps) []"
    by (simp add: KeyValueFlag_Set_def del: set_pairs.simps)
  also have "\<dots> = set_pairs (map (\<lambda>p. CHR '' '' # kv_text p) ps) [(key, val)]"
    using plain set_pairs_key_value[of key val] by (simp add: k del: set_pairs.simps)
  also have "\<dots> = (None, [(key, val)] @ ps)"
    by (rule set_pairs_spaced) (use plain wf k in auto)
  finally show ?thesis by (simp add: k)
qed

lemma key_value_roundtrip_witness:
  "KeyValueFlag_Set (KeyValueFlag_String [(''a'', ''1''), (''b'', ''2'')]) None = (None, [(''a'', ''1''), (''b'', ''2'')])"
  by (rule key_value_roundtrip) (simp_all add: TrimSpace_def is_space_def)

text \<open>C33: for a limit of at least 15 the generated name exists, fits the limit, starts with the pod VM prefix and
  consists of lower-case letters, digits and dashes only.\<close>

theorem instance_name_valid:
  assumes "15 \<le> podvmNameMax"
  shows "\<exists>n. GenerateInstanceName uniLower podName sandboxID podvmNameMax = Some n \<and>
    int (length n) \<le> podvmNameMax \<and> take 6 n = ''podvm-'' \<and> (\<forall>c\<in>set n. allowed_rune (of_char c))"
proof -
  let ?pod = "sanitize uniLower podName" and ?sid = "sanitize uniLower sandboxID"
  let ?len = "if podvmNameMax > 0 \<and> 5 + int (length ?pod) + 10 > podvmNameMax
    then podvmNameMax - 5 - 10 else int (length ?pod)"
  let ?n = "''podvm-'' @ take (nat ?len) ?pod @ ''-'' @ take 8 ?sid"
  have "GenerateInstanceName uniLower podName sandboxID podvmNameMax = Some ?n"
    using assms by (simp add: GenerateInstanceName_def podvmNamePrefix_def)
  moreover have "int (length ?n) \<le> podvmNameMax" using assms by (auto simp: min_def)
  moreover have "\<forall>c\<in>set ?n. allowed_rune (of_char c)"
    unfolding set_append ball_Un using take_sanitize_allowed allowed_dash_podvm by blast
  moreover have "take 6 ?n = ''podvm-''" by simp
  ultimately show ?thesis by blast
qed

theorem instance_name_valid_witness:
  "\<exists>n. GenerateInstanceName id [80, 111, 100, 95, 200] [49, 50] 63 = Some n \<and>
    int (length n) \<le> 63 \<and> take 6 n = ''podvm-'' \<and> (\<forall>c\<in>set n. allowed_rune (of_char c))"
  by (rule instance_name_valid) simp

end
