(* ===== verification/InstanceSelect.thy ===== *)
theory InstanceSelect
  imports GoStrings
begin

text \<open>
  Choice of the pod VM's instance type: \<open>src/src/cloud-providers/util.go\<close> with the specification
  type of \<open>types.go\<close> and \<open>util/slice.go\<close>.  \<open>sort.Search\<close> is modelled by its binary search loop.
  \<open>sort.Slice\<close> sorts in place with an unspecified order of ties, so the sorting routine is an argument of
  \<open>SortInstanceTypesOnResources\<close>; the locale \<open>slice_sort\<close> is its contract and Go's
  insertion sort (the routine \<open>sort.Slice\<close> runs on short slices) meets it.
  The \<open>int64\<close> fields are only compared, never computed with, so they are \<open>int\<close>.
\<close>

record InstanceTypeSpec =
  InstanceType :: string
  VCPUs :: int
  Memory :: int
  Arch :: string
  GPUs :: int
  Image :: string
  MultiNic :: bool

datatype select_error =
    NotDefaultAndListEmpty string string
  | NotInSupportedList string
  | NoFit int int
  | NoFitGPU int int int
  | SelectByGPU select_error
  | SelectByResources select_error
  | VerifyFailed select_error

section \<open>Operations\<close>

fun Contains :: "string list \<Rightarrow> string \<Rightarrow> bool" where
  "Contains [] s = False"
| "Contains (item # items) s = (if item = s then True else Contains items s)"

definition VerifyCloudInstanceType ::
  "string \<Rightarrow> string list \<Rightarrow> string \<Rightarrow> select_error + string" where
  "VerifyCloudInstanceType instanceType validInstanceTypes defaultInstanceType =
     (if instanceType = [] then Inr defaultInstanceType
      else if length validInstanceTypes = 0 \<and> instanceType \<noteq> defaultInstanceType
      then Inl (NotDefaultAndListEmpty instanceType defaultInstanceType)
      else if length validInstanceTypes > 0 \<and> \<not> Contains validInstanceTypes instanceType
      then Inl (NotInSupportedList instanceType)
      else Inr instanceType)"

definition less_resources :: "InstanceTypeSpec \<Rightarrow> InstanceTypeSpec \<Rightarrow> bool" where
  \<comment> \<open>the comparison closure of \<open>SortInstanceTypesOnResources\<close>\<close>
  "less_resources a b =
     (if GPUs a \<noteq> GPUs b then GPUs a < GPUs b
      else if Memory a \<noteq> Memory b then Memory a < Memory b
      else VCPUs a < VCPUs b)"

type_synonym sort_slice =
  "(InstanceTypeSpec \<Rightarrow> InstanceTypeSpec \<Rightarrow> bool) \<Rightarrow> InstanceTypeSpec list \<Rightarrow> InstanceTypeSpec list"

definition SortInstanceTypesOnResources ::
  "sort_slice \<Rightarrow> InstanceTypeSpec list \<Rightarrow> InstanceTypeSpec list" where
  "SortInstanceTypesOnResources sortSlice instanceTypeSpecList =
     sortSlice less_resources instanceTypeSpecList"

fun insert_less :: "('a \<Rightarrow> 'a \<Rightarrow> bool) \<Rightarrow> 'a \<Rightarrow> 'a list \<Rightarrow> 'a list" where
  \<comment> \<open>inner loop of \<open>sort.insertionSort\<close>, on the reversed sorted prefix\<close>
  "insert_less lt x [] = [x]"
| "insert_less lt x (y # ys) = (if lt x y then y # insert_less lt x ys else x # y # ys)"

definition insertionSort :: "('a \<Rightarrow> 'a \<Rightarrow> bool) \<Rightarrow> 'a list \<Rightarrow> 'a list" where
  "insertionSort lt xs = rev (foldl (\<lambda>acc x. insert_less lt x acc) [] xs)"

function search_loop :: "(nat \<Rightarrow> bool) \<Rightarrow> nat \<Rightarrow> nat \<Rightarrow> nat" where
  "search_loop f i j =
     (if i < j
      then (let h = (i + j) div 2
            in if \<not> f h then search_loop f (h + 1) j else search_loop f i h)
      else i)"
  by pat_completeness auto
termination
  by (relation "measure (\<lambda>(f, i, j). j - i)") auto

declare search_loop.simps [simp del]

definition Search :: "nat \<Rightarrow> (nat \<Rightarrow> bool) \<Rightarrow> nat" where
  \<comment> \<open>\<open>sort.Search(n, f)\<close>\<close>
  "Search n f = search_loop f 0 n"

fun FilterOutGPUInstances :: "InstanceTypeSpec list \<Rightarrow> InstanceTypeSpec list" where
  "FilterOutGPUInstances [] = []"
| "FilterOutGPUInstances (spec # specs) =
     (if GPUs spec = 0 then spec # FilterOutGPUInstances specs else FilterOutGPUInstances specs)"

definition GetBestFitInstanceType ::
  "InstanceTypeSpec list \<Rightarrow> int \<Rightarrow> int \<Rightarrow> select_error + string" where
  "GetBestFitInstanceType sortedInstanceTypeSpecList vcpus memory =
     (let l = FilterOutGPUInstances sortedInstanceTypeSpecList;
          index = Search (length l) (\<lambda>i. Memory (l ! i) \<ge> memory \<and> VCPUs (l ! i) \<ge> vcpus)
      in if index = length l then Inl (NoFit vcpus memory)
         else Inr (InstanceType (l ! index)))"

definition GetBestFitInstanceTypeWithGPU ::
  "InstanceTypeSpec list \<Rightarrow> int \<Rightarrow> int \<Rightarrow> int \<Rightarrow> select_error + string" where
  "GetBestFitInstanceTypeWithGPU l gpus vcpus memory =
     (let index = Search (length l)
            (\<lambda>i. GPUs (l ! i) \<ge> gpus \<and> VCPUs (l ! i) \<ge> vcpus \<and> Memory (l ! i) \<ge> memory)
      in if index = length l then Inl (NoFitGPU gpus vcpus memory)
         else Inr (InstanceType (l ! index)))"

definition SelectInstanceTypeToUse ::
  "InstanceTypeSpec \<Rightarrow> InstanceTypeSpec list \<Rightarrow> string list \<Rightarrow> string \<Rightarrow> select_error + string" where
  "SelectInstanceTypeToUse spec specList validInstanceTypes defaultInstanceType =
     bind_result
       (if InstanceType spec \<noteq> [] then Inr (InstanceType spec)
        else if GPUs spec > 0
        then map_error SelectByGPU
               (GetBestFitInstanceTypeWithGPU specList (GPUs spec) (VCPUs spec) (Memory spec))
        else if VCPUs spec \<noteq> 0 \<and> Memory spec \<noteq> 0
        then map_error SelectByResources
               (GetBestFitInstanceType specList (VCPUs spec) (Memory spec))
        else Inr [])
       (\<lambda>instanceType. map_error VerifyFailed
          (VerifyCloudInstanceType instanceType validInstanceTypes defaultInstanceType))"

section \<open>Binary search\<close>

lemma search_loop_done [simp]: "\<not> i < j \<Longrightarrow> search_loop f i j = i"
  by (subst search_loop.simps) simp

lemma search_loop_low: "i < j \<Longrightarrow> f ((i + j) div 2) \<Longrightarrow> search_loop f i j = search_loop f i ((i + j) div 2)"
  by (subst search_loop.simps) (simp add: Let_def)

lemma search_loop_high:
  "i < j \<Longrightarrow> \<not> f ((i + j) div 2) \<Longrightarrow> search_loop f i j = search_loop f ((i + j) div 2 + 1) j"
  by (subst search_loop.simps) (simp add: Let_def)

lemma search_loop_bounds: "i \<le> j \<Longrightarrow> i \<le> search_loop f i j \<and> search_loop f i j \<le> j"
proof (induction f i j rule: search_loop.induct)
  case (1 f i j)
  show ?case
  proof (cases "i < j")
    case True
    then show ?thesis
      using 1 by (subst (1 2) search_loop.simps) (force simp: Let_def)
  next
    case False
    with 1 show ?thesis by (subst (1 2) search_loop.simps) simp
  qed
qed

text \<open>
  What the search returns is a hit unless it is the upper bound, and its predecessor is a miss:
  both hold for every predicate, monotone or not.
\<close>

lemma search_loop_hit: "i \<le> j \<Longrightarrow> search_loop f i j < j \<Longrightarrow> f (search_loop f i j)"
proof (induction f i j rule: search_loop.induct)
  case (1 f i j)
  show ?case
  proof (cases "i < j")
    case True
    let ?h = "(i + j) div 2"
    show ?thesis
    proof (cases "f ?h")
      case f: True
      have eq: "search_loop f i j = search_loop f i ?h"
        using True f by (simp add: search_loop_low search_loop_high)
      have "search_loop f i ?h \<le> ?h" using search_loop_bounds[of i ?h f] True by simp
      then show ?thesis
        using 1 True f eq by (cases "search_loop f i ?h = ?h") auto
    next
      case f: False
      have eq: "search_loop f i j = search_loop f (?h + 1) j"
        using True f by (simp add: search_loop_low search_loop_high)
      then show ?thesis using 1 True f by simp
    qed
  next
    case False
    with 1 show ?thesis by simp
  qed
qed

lemma search_loop_prev_miss:
  "i \<le> j \<Longrightarrow> i < search_loop f i j \<Longrightarrow> \<not> f (search_loop f i j - 1)"
proof (induction f i j rule: search_loop.induct)
  case (1 f i j)
  show ?case
  proof (cases "i < j")
    case True
    let ?h = "(i + j) div 2"
    show ?thesis
    proof (cases "f ?h")
      case f: True
      have "search_loop f i j = search_loop f i ?h"
        using True f by (simp add: search_loop_low search_loop_high)
      then show ?thesis using 1 True f by simp
    next
      case f: False
      have eq: "search_loop f i j = search_loop f (?h + 1) j"
        using True f by (simp add: search_loop_low search_loop_high)
      have "?h + 1 \<le> search_loop f (?h + 1) j"
        using search_loop_bounds[of "?h + 1" j f] True by simp
      then show ?thesis
        using 1 True f eq by (cases "search_loop f (?h + 1) j = ?h + 1") auto
    qed
  next
    case False
    with 1 show ?thesis by simp
  qed
qed

lemma Search_le: "Search n f \<le> n"
  using search_loop_bounds[of 0 n f] by (simp add: Search_def)

lemma Search_hit: "Search n f < n \<Longrightarrow> f (Search n f)"
  using search_loop_hit[of 0 n f] by (simp add: Search_def)

lemma Search_prev_miss: "0 < Search n f \<Longrightarrow> \<not> f (Search n f - 1)"
  using search_loop_prev_miss[of 0 n f] by (simp add: Search_def)

lemma Search_least:
  assumes mono: "\<And>i k. i \<le> k \<Longrightarrow> k < n \<Longrightarrow> f i \<Longrightarrow> f k" and k: "k < Search n f"
  shows "\<not> f k"
proof
  assume "f k"
  moreover have "k \<le> Search n f - 1" and "Search n f - 1 < n"
    using k Search_le[of n f] by auto
  ultimately have "f (Search n f - 1)" using mono by blast
  then show False using Search_prev_miss[of n f] k by simp
qed

lemma FilterOutGPUInstances_filter: "FilterOutGPUInstances l = filter (\<lambda>s. GPUs s = 0) l"
  by (induction l) auto

lemma Contains_iff [simp]: "Contains l s \<longleftrightarrow> s \<in> set l"
  by (induction l) auto

section \<open>The contract of \<open>sort.Slice\<close>\<close>

definition strict_weak_order :: "('a \<Rightarrow> 'a \<Rightarrow> bool) \<Rightarrow> bool" where
  "strict_weak_order lt \<longleftrightarrow>
     (\<forall>x. \<not> lt x x) \<and> (\<forall>x y z. lt x y \<longrightarrow> lt y z \<longrightarrow> lt x z) \<and>
     (\<forall>x y z. lt x z \<longrightarrow> lt x y \<or> lt y z)"

locale slice_sort =
  fixes sortSlice :: "('a \<Rightarrow> 'a \<Rightarrow> bool) \<Rightarrow> 'a list \<Rightarrow> 'a list"
  assumes perm: "mset (sortSlice lt xs) = mset xs"
    and ordered: "strict_weak_order lt \<Longrightarrow> sorted_wrt (\<lambda>a b. \<not> lt b a) (sortSlice lt xs)"
begin

lemma set_sort [simp]: "set (sortSlice lt xs) = set xs"
  using perm[of lt xs] by (metis set_mset_mset)

lemma filter_ordered:
  "strict_weak_order lt \<Longrightarrow> sorted_wrt (\<lambda>a b. \<not> lt b a) (filter P (sortSlice lt xs))"
  by (rule sorted_wrt_filter) (rule ordered)

end

lemma less_resources_order: "strict_weak_order less_resources"
  unfolding strict_weak_order_def less_resources_def by (auto split: if_splits)

lemma mset_insert_less: "mset (insert_less lt x xs) = add_mset x (mset xs)"
  by (induction xs) auto

lemma set_insert_less [simp]: "set (insert_less lt x xs) = insert x (set xs)"
  using mset_insert_less[of lt x xs] by (metis set_mset_add_mset_insert set_mset_mset)

lemma strict_weak_order_asym: "strict_weak_order lt \<Longrightarrow> lt x y \<Longrightarrow> \<not> lt y x"
  unfolding strict_weak_order_def by blast

lemma strict_weak_order_le_trans:
  "strict_weak_order lt \<Longrightarrow> \<not> lt y x \<Longrightarrow> \<not> lt z y \<Longrightarrow> \<not> lt z x"
  unfolding strict_weak_order_def by blast

lemma sorted_insert_less:
  assumes o: "strict_weak_order lt" and s: "sorted_wrt (\<lambda>a b. \<not> lt a b) xs"
  shows "sorted_wrt (\<lambda>a b. \<not> lt a b) (insert_less lt x xs)"
  using s
proof (induction xs)
  case Nil
  then show ?case by simp
next
  case (Cons y ys)
  show ?case
  proof (cases "lt x y")
    case True
    with Cons o show ?thesis by (auto dest: strict_weak_order_asym)
  next
    case False
    with Cons.prems o show ?thesis by (auto dest: strict_weak_order_le_trans)
  qed
qed

lemma insertionSort_fold:
  "mset (foldl (\<lambda>acc x. insert_less lt x acc) ys xs) = mset ys + mset xs"
  by (induction xs arbitrary: ys) (auto simp: mset_insert_less)

lemma insertionSort_fold_sorted:
  "strict_weak_order lt \<Longrightarrow> sorted_wrt (\<lambda>a b. \<not> lt a b) ys \<Longrightarrow>
   sorted_wrt (\<lambda>a b. \<not> lt a b) (foldl (\<lambda>acc x. insert_less lt x acc) ys xs)"
  by (induction xs arbitrary: ys) (auto simp: sorted_insert_less)

interpretation insertion: slice_sort insertionSort
proof
  show "mset (insertionSort lt xs) = mset xs" for lt and xs :: "'a list"
    by (simp add: insertionSort_def insertionSort_fold)
  show "sorted_wrt (\<lambda>a b. \<not> lt b a) (insertionSort lt xs)"
    if "strict_weak_order lt" for lt and xs :: "'a list"
    using insertionSort_fold_sorted[OF that, of "[]" xs]
    by (simp add: insertionSort_def sorted_wrt_rev)
qed

section \<open>Best fit\<close>

definition fits :: "InstanceTypeSpec \<Rightarrow> int \<Rightarrow> int \<Rightarrow> int \<Rightarrow> bool" where
  "fits s gpus vcpus memory \<longleftrightarrow> gpus \<le> GPUs s \<and> vcpus \<le> VCPUs s \<and> memory \<le> Memory s"

lemma GetBestFitInstanceType_Inr:
  assumes "GetBestFitInstanceType l vcpus memory = Inr t"
  obtains s where "s \<in> set l" and "GPUs s = 0" and "t = InstanceType s" and "fits s 0 vcpus memory"
proof -
  let ?l = "FilterOutGPUInstances l"
  let ?f = "\<lambda>i. Memory (?l ! i) \<ge> memory \<and> VCPUs (?l ! i) \<ge> vcpus"
  let ?i = "Search (length ?l) ?f"
  have lt: "?i < length ?l" and t: "t = InstanceType (?l ! ?i)"
    using assms Search_le[of "length ?l" ?f]
    by (auto simp: GetBestFitInstanceType_def Let_def split: if_splits)
  have "?f ?i" using Search_hit[OF lt] .
  moreover have "?l ! ?i \<in> set ?l" using lt by (rule nth_mem)
  ultimately show ?thesis
    using that[of "?l ! ?i"] t by (auto simp: fits_def FilterOutGPUInstances_filter)
qed

lemma GetBestFitInstanceTypeWithGPU_Inr:
  assumes "GetBestFitInstanceTypeWithGPU l gpus vcpus memory = Inr t"
  obtains s where "s \<in> set l" and "t = InstanceType s" and "fits s gpus vcpus memory"
proof -
  let ?f = "\<lambda>i. GPUs (l ! i) \<ge> gpus \<and> VCPUs (l ! i) \<ge> vcpus \<and> Memory (l ! i) \<ge> memory"
  let ?i = "Search (length l) ?f"
  have lt: "?i < length l" and t: "t = InstanceType (l ! ?i)"
    using assms Search_le[of "length l" ?f]
    by (auto simp: GetBestFitInstanceTypeWithGPU_def Let_def split: if_splits)
  have "?f ?i" using Search_hit[OF lt] .
  then show ?thesis using that[OF nth_mem[OF lt]] t by (auto simp: fits_def)
qed

lemma VerifyCloudInstanceType_Inr:
  "VerifyCloudInstanceType i valid d = Inr t \<Longrightarrow>
   (i = [] \<and> t = d) \<or> (i \<noteq> [] \<and> t = i \<and> (t \<in> set valid \<or> valid = [] \<and> t = d))"
  by (auto simp: VerifyCloudInstanceType_def split: if_splits)

definition resources_le :: "InstanceTypeSpec \<Rightarrow> InstanceTypeSpec \<Rightarrow> bool" where
  "resources_le a b \<longleftrightarrow> Memory a < Memory b \<or> Memory a = Memory b \<and> VCPUs a \<le> VCPUs b"

lemma Search_list_none:
  assumes "\<And>i k. i \<le> k \<Longrightarrow> k < length l \<Longrightarrow> P (l ! i) \<Longrightarrow> P (l ! k)"
    and "Search (length l) (\<lambda>i. P (l ! i)) = length l" and "s \<in> set l"
  shows "\<not> P s"
proof -
  from assms(3) obtain k where "k < length l" "l ! k = s" by (metis in_set_conv_nth)
  with Search_least[of "length l" "\<lambda>i. P (l ! i)" k] assms(1,2) show ?thesis by auto
qed

lemma Search_list_first:
  assumes "\<And>i k. i \<le> k \<Longrightarrow> k < length l \<Longrightarrow> P (l ! i) \<Longrightarrow> P (l ! k)" and "P (l ! k)"
  shows "Search (length l) (\<lambda>i. P (l ! i)) \<le> k"
  using Search_least[of "length l" "\<lambda>i. P (l ! i)" k] assms by (meson not_le)

lemma set_non_gpu_sorted:
  "slice_sort sortSlice \<Longrightarrow>
   set (FilterOutGPUInstances (SortInstanceTypesOnResources sortSlice l)) = {s \<in> set l. GPUs s = 0}"
  by (simp add: FilterOutGPUInstances_filter SortInstanceTypesOnResources_def slice_sort.set_sort)

lemma non_gpu_sorted_nth:
  assumes sorter: "slice_sort sortSlice" and "i \<le> k"
    and k: "k < length (FilterOutGPUInstances (SortInstanceTypesOnResources sortSlice l))" (is "k < length ?l")
  shows "resources_le (FilterOutGPUInstances (SortInstanceTypesOnResources sortSlice l) ! i)
           (FilterOutGPUInstances (SortInstanceTypesOnResources sortSlice l) ! k)"
proof (cases "i = k")
  case False
  have "sorted_wrt (\<lambda>a b. \<not> less_resources b a) ?l"
    unfolding FilterOutGPUInstances_filter SortInstanceTypesOnResources_def
    by (rule slice_sort.filter_ordered[OF sorter less_resources_order])
  then have "\<not> less_resources (?l ! k) (?l ! i)"
    using sorted_wrt_nth_less[of _ ?l i k] False assms by simp
  moreover have "?l ! i \<in> set ?l" "?l ! k \<in> set ?l" using assms by simp_all
  ultimately show ?thesis
    using set_non_gpu_sorted[OF sorter, of l] by (auto simp: less_resources_def resources_le_def split: if_splits)
qed (simp add: resources_le_def)

section \<open>Properties\<close>

text \<open>a selected instance type is the configured default or a member of the supported list, whatever the
  annotations ask for.\<close>

lemma select_supported:
  assumes "SelectInstanceTypeToUse spec specList valid d = Inr t"
  shows "t = d \<or> t \<in> set valid"
  using assms VerifyCloudInstanceType_Inr
  by (fastforce simp: SelectInstanceTypeToUse_def bind_result_Inr_iff)

lemma select_supported_witness:
  "''m1'' = ''m0'' \<or> ''m1'' \<in> set [''m0'', ''m1'']"
proof (rule select_supported)
  show "SelectInstanceTypeToUse
      \<lparr>InstanceType = ''m1'', VCPUs = 0, Memory = 0, Arch = [], GPUs = 0, Image = [], MultiNic = False\<rparr>
      [] [''m0'', ''m1''] ''m0'' = Inr ''m1''"
    by (simp add: SelectInstanceTypeToUse_def VerifyCloudInstanceType_def)
qed

text \<open>When the type is chosen from resource annotations, the chosen machine offers at least the GPUs, vCPUs
  and memory that were asked for; a request without GPUs is never answered with a GPU machine.\<close>

lemma select_meets_request:
  assumes sel: "SelectInstanceTypeToUse spec specList valid d = Inr t"
    and noType: "InstanceType spec = []"
    and asked: "0 < GPUs spec \<or> GPUs spec = 0 \<and> VCPUs spec \<noteq> 0 \<and> Memory spec \<noteq> 0"
    and named: "\<forall>s\<in>set specList. InstanceType s \<noteq> []"
  shows "\<exists>s\<in>set specList. t = InstanceType s \<and> fits s (GPUs spec) (VCPUs spec) (Memory spec) \<and>
           (GPUs spec = 0 \<longrightarrow> GPUs s = 0)"
proof (cases "0 < GPUs spec")
  case True
  with sel noType obtain i where
    i: "GetBestFitInstanceTypeWithGPU specList (GPUs spec) (VCPUs spec) (Memory spec) = Inr i"
    and v: "VerifyCloudInstanceType i valid d = Inr t"
    by (auto simp: SelectInstanceTypeToUse_def bind_result_Inr_iff)
  from i obtain s where "s \<in> set specList" "i = InstanceType s"
      "fits s (GPUs spec) (VCPUs spec) (Memory spec)"
    by (rule GetBestFitInstanceTypeWithGPU_Inr)
  with v named True VerifyCloudInstanceType_Inr[OF v] show ?thesis by auto
next
  case False
  with asked sel noType obtain i where
    i: "GetBestFitInstanceType specList (VCPUs spec) (Memory spec) = Inr i"
    and v: "VerifyCloudInstanceType i valid d = Inr t"
    by (auto simp: SelectInstanceTypeToUse_def bind_result_Inr_iff)
  from i obtain s where "s \<in> set specList" "GPUs s = 0" "i = InstanceType s"
      "fits s 0 (VCPUs spec) (Memory spec)"
    by (rule GetBestFitInstanceType_Inr)
  with False asked named VerifyCloudInstanceType_Inr[OF v] show ?thesis by auto
qed

definition small_vm :: InstanceTypeSpec where
  "small_vm = \<lparr>InstanceType = ''small'', VCPUs = 2, Memory = 4096, Arch = [], GPUs = 0, Image = [], MultiNic = False\<rparr>"

definition large_vm :: InstanceTypeSpec where
  "large_vm = \<lparr>InstanceType = ''large'', VCPUs = 8, Memory = 16384, Arch = [], GPUs = 0, Image = [], MultiNic = False\<rparr>"

lemmas example_vms = small_vm_def large_vm_def

text \<open>C14: on a list ordered by \<open>SortInstanceTypesOnResources\<close>, where a machine with more memory never has fewer
  vCPUs, the best fit search finds a machine exactly when one fits, and it returns the fitting machine with the
  least memory and, among those, the fewest vCPUs.\<close>

theorem best_fit_minimal:
  assumes sorter: "slice_sort sortSlice"
    and chain: "\<forall>a\<in>set l. \<forall>b\<in>set l. GPUs a = 0 \<longrightarrow> GPUs b = 0 \<longrightarrow> Memory a < Memory b \<longrightarrow> VCPUs a \<le> VCPUs b"
  shows "case GetBestFitInstanceType (SortInstanceTypesOnResources sortSlice l) vcpus memory of
      Inl e \<Rightarrow> e = NoFit vcpus memory \<and> (\<forall>s\<in>set l. GPUs s = 0 \<longrightarrow> \<not> fits s 0 vcpus memory)
    | Inr t \<Rightarrow> \<exists>s\<in>set l. t = InstanceType s \<and> GPUs s = 0 \<and> fits s 0 vcpus memory \<and>
        (\<forall>s'\<in>set l. GPUs s' = 0 \<longrightarrow> fits s' 0 vcpus memory \<longrightarrow>
           Memory s < Memory s' \<or> Memory s = Memory s' \<and> VCPUs s \<le> VCPUs s')"
proof -
  define L where "L = FilterOutGPUInstances (SortInstanceTypesOnResources sortSlice l)"
  define P where "P = (\<lambda>s :: InstanceTypeSpec. memory \<le> Memory s \<and> vcpus \<le> VCPUs s)"
  define i where "i = Search (length L) (\<lambda>i. P (L ! i))"
  have set_L: "set L = {s \<in> set l. GPUs s = 0}" unfolding L_def by (rule set_non_gpu_sorted[OF sorter])
  have le: "resources_le (L ! j) (L ! k)" if "j \<le> k" "k < length L" for j k
    using non_gpu_sorted_nth[OF sorter] that unfolding L_def by blast
  have mono: "P (L ! k)" if "j \<le> k" "k < length L" "P (L ! j)" for j k
  proof -
    have "L ! j \<in> set L" "L ! k \<in> set L" using that by simp_all
    then have "Memory (L ! j) < Memory (L ! k) \<longrightarrow> VCPUs (L ! j) \<le> VCPUs (L ! k)"
      using chain set_L by simp
    with le[OF that(1,2)] that(3) show ?thesis by (auto simp: P_def resources_le_def)
  qed
  have fit: "fits s 0 vcpus memory \<longleftrightarrow> P s" if "GPUs s = 0" for s :: InstanceTypeSpec
    using that by (auto simp: fits_def P_def)
  have run: "GetBestFitInstanceType (SortInstanceTypesOnResources sortSlice l) vcpus memory =
      (if i = length L then Inl (NoFit vcpus memory) else Inr (InstanceType (L ! i)))"
    by (simp add: GetBestFitInstanceType_def Let_def L_def[symmetric] i_def P_def)
  show ?thesis
  proof (cases "i = length L")
    case True
    then have "\<not> P s" if "s \<in> set L" for s :: InstanceTypeSpec
      using Search_list_none[where l = L and P = P, OF mono _ that] by (simp add: i_def)
    with True run set_L fit show ?thesis by simp
  next
    case False
    then have lt: "i < length L" and hit: "P (L ! i)"
      using Search_le[of "length L"] Search_hit[of "length L" "\<lambda>i. P (L ! i)"]
      by (simp_all add: i_def le_neq_implies_less)
    have mem: "L ! i \<in> set l" "GPUs (L ! i) = 0" using set_L nth_mem[OF lt] by auto
    have best: "resources_le (L ! i) s'" if s': "s' \<in> set L" "P s'" for s'
    proof -
      from s' obtain k where k: "k < length L" "L ! k = s'" by (metis in_set_conv_nth)
      with s' have "i \<le> k"
        using Search_list_first[where l = L and P = P and k = k, OF mono] by (simp add: i_def)
      then show ?thesis using le k by blast
    qed
    with run False mem hit fit set_L show ?thesis
      by (auto simp: resources_le_def intro!: bexI[OF _ mem(1)])
  qed
qed

theorem best_fit_minimal_witness:
  "\<exists>s\<in>set [large_vm, small_vm]. ''small'' = InstanceType s \<and> GPUs s = 0 \<and> fits s 0 2 2048 \<and>
     (\<forall>s'\<in>set [large_vm, small_vm]. GPUs s' = 0 \<longrightarrow> fits s' 0 2 2048 \<longrightarrow>
        Memory s < Memory s' \<or> Memory s = Memory s' \<and> VCPUs s \<le> VCPUs s')"
proof -
  have chain: "\<forall>a\<in>set [large_vm, small_vm]. \<forall>b\<in>set [large_vm, small_vm].
      GPUs a = 0 \<longrightarrow> GPUs b = 0 \<longrightarrow> Memory a < Memory b \<longrightarrow> VCPUs a \<le> VCPUs b"
    by (simp add: example_vms)
  have "GetBestFitInstanceType (SortInstanceTypesOnResources insertionSort [large_vm, small_vm]) 2 2048 = Inr ''small''"
    by (simp add: GetBestFitInstanceType_def SortInstanceTypesOnResources_def insertionSort_def
          less_resources_def example_vms Search_def search_loop.simps)
  with best_fit_minimal[OF insertion.slice_sort_axioms chain, of 2 2048] show ?thesis by simp
qed

text \<open>on a sorted list in which more memory can come with fewer vCPUs, the search predicate is not monotone
  and the binary search misses machines: here an 8 vCPU, 8 GiB request fails although the first machine offers
  exactly that.\<close>

lemma best_fit_misses:
  "\<exists>l. l = SortInstanceTypesOnResources insertionSort l \<and> (\<exists>s\<in>set l. GPUs s = 0 \<and> fits s 0 8 8192) \<and>
     GetBestFitInstanceType l 8 8192 = Inl (NoFit 8 8192)"
proof -
  let ?a = "small_vm\<lparr>VCPUs := 8, Memory := 8192\<rparr>"
  let ?b = "small_vm\<lparr>VCPUs := 4, Memory := 16384\<rparr>"
  let ?l = "[?a, ?b]"
  have "?l = SortInstanceTypesOnResources insertionSort ?l"
    by (simp add: SortInstanceTypesOnResources_def insertionSort_def less_resources_def small_vm_def)
  moreover have "\<exists>s\<in>set ?l. GPUs s = 0 \<and> fits s 0 8 8192"
    by (simp add: fits_def small_vm_def)
  moreover have "GetBestFitInstanceType ?l 8 8192 = Inl (NoFit 8 8192)"
    by (simp add: GetBestFitInstanceType_def small_vm_def Search_def search_loop.simps)
  ultimately show ?thesis by blast
qed

end
