(* ===== verification/NetAddr.thy ===== *)
theory NetAddr
  imports GoOs
begin

text \<open>
  The part of Go's \<open>net/netip\<close> that the components use: parsing, printing, comparison and successor of
  IP addresses.  IPv4 is modelled in full.  The text form of IPv6 addresses is the argument
  \<open>ip6_text\<close>; an IPv6 address is its 128 bits and its zone.  \<open>AddrZero\<close> is the zero \<open>netip.Addr\<close>, and
  also stands for the equally invalid values that \<open>Next\<close> gives after it: all of them print as
  \<open>invalid IP\<close> and differ from every parsed address.
\<close>

datatype Addr = AddrZero | Addr4 "32 word" | Addr6 "128 word" string

record ip6_text =
  parse6 :: "string \<Rightarrow> Addr option"
  string6 :: "128 word \<Rightarrow> string \<Rightarrow> string"

definition parse_octet :: "string \<Rightarrow> nat option" where
  "parse_octet f =
     (if f = [] \<or> \<not> list_all is_digit f \<or> (1 < length f \<and> hd f = CHR ''0'') \<or> 255 < digits_val f
      then None else Some (digits_val f))"

definition parseIPv4 :: "string \<Rightarrow> Addr option" where
  "parseIPv4 s =
     (case map parse_octet (Split s (CHR ''.'')) of
        [Some a, Some b, Some c, Some d] \<Rightarrow>
          Some (Addr4 (word_of_nat (((a * 256 + b) * 256 + c) * 256 + d)))
      | _ \<Rightarrow> None)"

fun ParseAddr_scan :: "ip6_text \<Rightarrow> string \<Rightarrow> string \<Rightarrow> Addr option" where
  "ParseAddr_scan t s [] = None"
| "ParseAddr_scan t s (c # cs) =
     (if c = CHR ''.'' then parseIPv4 s
      else if c = CHR '':'' then parse6 t s
      else if c = CHR ''%'' then None
      else ParseAddr_scan t s cs)"

definition ParseAddr :: "ip6_text \<Rightarrow> string \<Rightarrow> Addr option" where
  \<comment> \<open>\<open>netip.ParseAddr\<close>: \<open>None\<close> is its error\<close>
  "ParseAddr t s = ParseAddr_scan t s s"

definition string4 :: "32 word \<Rightarrow> string" where
  "string4 w =
     (let n = unat w
      in Join [digits_of (n div 256 div 256 div 256 mod 256), digits_of (n div 256 div 256 mod 256),
               digits_of (n div 256 mod 256), digits_of (n mod 256)] ''.'')"

fun AddrString :: "ip6_text \<Rightarrow> Addr \<Rightarrow> string" where
  "AddrString t AddrZero = ''invalid IP''"
| "AddrString t (Addr4 w) = string4 w"
| "AddrString t (Addr6 w z) = string6 t w z"

definition JoinHostPort :: "string \<Rightarrow> string \<Rightarrow> string" where
  \<comment> \<open>\<open>net.JoinHostPort\<close>: an IPv6 address gets brackets\<close>
  "JoinHostPort host port =
     (if CHR '':'' \<in> set host then ''['' @ host @ '']:'' @ port else host @ '':'' @ port)"

fun Next_addr :: "Addr \<Rightarrow> Addr" where
  "Next_addr AddrZero = AddrZero"
| "Next_addr (Addr4 w) = (if w + 1 = 0 then AddrZero else Addr4 (w + 1))"
| "Next_addr (Addr6 w z) = (if w + 1 = 0 then AddrZero else Addr6 (w + 1) z)"

fun string_less :: "string \<Rightarrow> string \<Rightarrow> bool" where
  \<comment> \<open>byte order of Go strings\<close>
  "string_less _ [] = False"
| "string_less [] (y # ys) = True"
| "string_less (x # xs) (y # ys) =
     ((of_char x :: nat) < of_char y \<or> x = y \<and> string_less xs ys)"

fun addr_less :: "Addr \<Rightarrow> Addr \<Rightarrow> bool" where
  \<comment> \<open>\<open>a.Compare(b) < 0\<close>: bit length first, then the value, then the zone\<close>
  "addr_less AddrZero b = (b \<noteq> AddrZero)"
| "addr_less (Addr4 v) (Addr4 w) = (v < w)"
| "addr_less (Addr4 v) (Addr6 w z) = True"
| "addr_less (Addr4 v) AddrZero = False"
| "addr_less (Addr6 v y) (Addr6 w z) = (v < w \<or> v = w \<and> string_less y z)"
| "addr_less (Addr6 v y) b = False"

definition ip6_ok :: "ip6_text \<Rightarrow> bool" where
  \<comment> \<open>what \<open>netip\<close> documents of IPv6 text: a printed address parses back, and it has a colon that precedes any dot or percent sign\<close>
  "ip6_ok t \<longleftrightarrow> (\<forall>w z. ParseAddr t (string6 t w z) = Some (Addr6 w z))"

section \<open>IPv4 round trip\<close>

lemma digits_of_less_10: "n < 10 \<Longrightarrow> digits_of n = [char_of (48 + n)]"
  by (subst digits_of.simps) simp

lemma digits_of_ge_10: "10 \<le> n \<Longrightarrow> digits_of n = digits_of (n div 10) @ [char_of (48 + n mod 10)]"
  by (subst digits_of.simps) simp

lemma hd_digits_of_nonzero: "0 < n \<Longrightarrow> hd (digits_of n) \<noteq> CHR ''0''"
proof (induction n rule: digits_of.induct)
  case (1 n)
  show ?case
  proof (cases "n < 10")
    case True
    then have "(of_char (char_of (48 + n)) :: nat) = 48 + n" by simp
    moreover have "(of_char (CHR ''0'') :: nat) = 48" by simp
    ultimately show ?thesis using True 1(2) by (metis add_cancel_left_right digits_of_less_10 list.sel(1) less_not_refl)
  next
    case False
    with 1 show ?thesis by (simp add: digits_of_ge_10)
  qed
qed

lemma parse_octet_digits_of: "n \<le> 255 \<Longrightarrow> parse_octet (digits_of n) = Some n"
proof -
  assume "n \<le> 255"
  moreover have "\<not> (1 < length (digits_of n) \<and> hd (digits_of n) = CHR ''0'')"
    using hd_digits_of_nonzero[of n] by (cases "n = 0") (auto simp: digits_of_less_10)
  ultimately show ?thesis using digits_of_digits[of n] by (auto simp: parse_octet_def)
qed

lemma digit_not: "list_all is_digit s \<Longrightarrow> \<not> is_digit c \<Longrightarrow> c \<notin> set s"
  by (auto simp: list_all_iff)

lemma not_in_digits_of: "\<not> is_digit c \<Longrightarrow> c \<notin> set (digits_of n)"
  using digit_not[OF digits_of_digits] .

lemma not_digit_simps [simp]: "\<not> is_digit (CHR ''.'')" "\<not> is_digit (CHR '','')" "\<not> is_digit (CHR ''-'')"
  "\<not> is_digit (CHR '':'')" "\<not> is_digit (CHR ''%'')" "\<not> is_digit (CHR '' '')"
  by (simp_all add: is_digit_def)

lemma Split_string4:
  "Split (string4 w) (CHR ''.'') =
     (let n = unat w in [digits_of (n div 256 div 256 div 256 mod 256), digits_of (n div 256 div 256 mod 256),
        digits_of (n div 256 mod 256), digits_of (n mod 256)])"
  unfolding string4_def Let_def
  by (rule Split_Join) (auto simp: not_in_digits_of)

lemma octets_recombine:
  fixes n :: nat
  assumes "n < 2 ^ 32"
  shows "(((n div 256 div 256 div 256 mod 256) * 256 + n div 256 div 256 mod 256) * 256 + n div 256 mod 256) * 256
    + n mod 256 = n"
proof -
  have "n div 256 div 256 div 256 < 256" using assms by simp
  then have "n div 256 div 256 div 256 mod 256 = n div 256 div 256 div 256" by simp
  then show ?thesis by presburger
qed

lemma parseIPv4_string4 [simp]: "parseIPv4 (string4 w) = Some (Addr4 w)"
proof -
  have "unat w < 2 ^ 32" using unsigned_less[of w] by simp
  note octets_recombine[OF this]
  moreover have "parse_octet (digits_of (m mod 256)) = Some (m mod 256)" for m
    by (rule parse_octet_digits_of) (use mod_less_divisor[of 256 m] in simp)
  ultimately show ?thesis by (simp add: parseIPv4_def Split_string4 Let_def del: mod_mult_self1 mod_mult_self2)
qed

lemma ParseAddr_scan_digits:
  "list_all is_digit a \<Longrightarrow> ParseAddr_scan t s (a @ CHR ''.'' # b) = parseIPv4 s"
  by (induction a) (auto simp: is_digit_def)

lemma ParseAddr_string4 [simp]: "ParseAddr t (string4 w) = Some (Addr4 w)"
proof -
  have "\<exists>a b. string4 w = a @ CHR ''.'' # b \<and> list_all is_digit a"
    using digits_of_digits by (fastforce simp: string4_def Let_def)
  then show ?thesis
    using ParseAddr_scan_digits parseIPv4_string4[of w] unfolding ParseAddr_def by metis
qed

lemma ParseAddr_AddrString: "ip6_ok t \<Longrightarrow> a \<noteq> AddrZero \<Longrightarrow> ParseAddr t (AddrString t a) = Some a"
  by (cases a) (simp_all add: ip6_ok_def)

lemma string4_chars: "c \<in> set (string4 w) \<Longrightarrow> is_digit c \<or> c = CHR ''.''"
  using digits_of_digits by (auto simp: string4_def Let_def list_all_iff)

lemma string4_not_Nil [simp]: "string4 w \<noteq> []"
  by (simp add: string4_def Let_def)

text \<open>A text form of IPv6 addresses for examples: a colon, the value in decimal, a percent sign and the zone.\<close>

definition decimal_ip6 :: ip6_text where
  "decimal_ip6 =
     \<lparr>parse6 = (\<lambda>s. case Cut (tl s) ''%'' of None \<Rightarrow> None
                    | Some (d, z) \<Rightarrow> Some (Addr6 (word_of_nat (digits_val d)) z)),
      string6 = (\<lambda>w z. CHR '':'' # digits_of (unat w) @ CHR ''%'' # z)\<rparr>"

lemma ip6_ok_decimal: "ip6_ok decimal_ip6"
  by (simp add: ip6_ok_def ParseAddr_def decimal_ip6_def Cut_at_char not_in_digits_of)

end
