(* ===== verification/ProviderIface.thy ===== *)
theory ProviderIface
  imports InstanceSelect NetAddr
begin

text \<open>
  The Go interface \<open>provider.Provider\<close> of \<open>src/src/cloud-providers/types.go\<close> as a record of
  operations on a world \<open>'w\<close>, and its contract as the locale \<open>cloud_provider\<close>: \<open>live\<close> is
  the set of instances that exist at the provider.  The contract is what the cloud service and the PeerPod
  controller rely on; the bring-your-own-machine provider is shown to meet it.

  A \<open>CloudConfigGenerator\<close> is the result of its only method \<open>Generate\<close>.
\<close>

record Instance =
  ID :: string
  Name :: string
  IPs :: "Addr list"

datatype provider_error =
    ErrAllocate string
  | ErrGenerate string
  | ErrSendConfig string
  | ErrInvalidID string
  | ErrLookup string
  | ErrDeallocate string
  | ErrConfig string
  | ErrCloud string

record 'w Provider =
  CreateInstance :: "string \<Rightarrow> string \<Rightarrow> string + string \<Rightarrow> InstanceTypeSpec \<Rightarrow> 'w \<Rightarrow> (provider_error + Instance) \<times> 'w"
  DeleteInstance :: "string \<Rightarrow> 'w \<Rightarrow> provider_error option \<times> 'w"
  Teardown :: "'w \<Rightarrow> provider_error option \<times> 'w"
  ConfigVerifier :: "provider_error option"

locale cloud_provider =
  fixes P :: "'w Provider"
    and live :: "'w \<Rightarrow> string set"
    and inv :: "'w \<Rightarrow> bool"
  assumes create_ok: "inv w \<Longrightarrow> CreateInstance P pod sid cc spec w = (Inr i, w') \<Longrightarrow>
      inv w' \<and> ID i \<in> live w' \<and> live w \<subseteq> live w' \<and> live w' \<subseteq> insert (ID i) (live w) \<and> IPs i \<noteq> []"
    and create_err: "inv w \<Longrightarrow> CreateInstance P pod sid cc spec w = (Inl e, w') \<Longrightarrow> inv w'"
    and delete_ok: "inv w \<Longrightarrow> DeleteInstance P instanceID w = (None, w') \<Longrightarrow>
      inv w' \<and> live w' \<subseteq> live w \<and> (instanceID \<in> live w \<longrightarrow> live w' = live w - {instanceID})"
    and delete_err: "inv w \<Longrightarrow> DeleteInstance P instanceID w = (Some e, w') \<Longrightarrow> inv w' \<and> live w' = live w"
    and delete_empty: "inv w \<Longrightarrow> DeleteInstance P [] w = (r, w') \<Longrightarrow> live w' = live w"
begin

lemma create_delete:
  assumes "inv w" "CreateInstance P pod sid cc spec w = (Inr i, w1)" "ID i \<notin> live w" "DeleteInstance P (ID i) w1 = (None, w2)"
  shows "inv w2 \<and> live w2 = live w"
  using create_ok[OF assms(1,2)] delete_ok[OF _ assms(4)] assms(3) by blast

end

end
