(* ===== verification/GoIO.thy ===== *)
theory GoIO
  imports Prelude
begin

text \<open>
  Code that runs several fallible operations on a world one after another: an operation takes the world and returns
  its \<open>(value, error)\<close> result with the world afterwards.  \<open>bind_io\<close> is the sequence with an early return on an error,
  \<open>wrap_io\<close> the wrapping of an error by \<open>fmt.Errorf\<close>, \<open>defer_io\<close> a deferred call whose own error is only logged or
  dropped, and \<open>for_io\<close> a loop that ends at the first error.
\<close>

type_synonym ('w, 'e, 'a) io = "'w \<Rightarrow> ('e + 'a) \<times> 'w"

definition ret :: "'a \<Rightarrow> ('w, 'e, 'a) io" where
  "ret x = (\<lambda>w. (Inr x, w))"

definition fail :: "'e \<Rightarrow> ('w, 'e, 'a) io" where
  "fail e = (\<lambda>w. (Inl e, w))"

definition query :: "('w \<Rightarrow> 'e + 'a) \<Rightarrow> ('w, 'e, 'a) io" where
  "query f = (\<lambda>w. (f w, w))"

definition bind_io :: "('w, 'e, 'a) io \<Rightarrow> ('a \<Rightarrow> ('w, 'e, 'b) io) \<Rightarrow> ('w, 'e, 'b) io" where
  "bind_io m f = (\<lambda>w. case m w of (Inl e, w') \<Rightarrow> (Inl e, w') | (Inr x, w') \<Rightarrow> f x w')"

definition then_io :: "('w, 'e, unit) io \<Rightarrow> ('w, 'e, 'b) io \<Rightarrow> ('w, 'e, 'b) io" where
  "then_io m n = bind_io m (\<lambda>_. n)"

definition wrap_io :: "('e \<Rightarrow> 'f) \<Rightarrow> ('w, 'e, 'a) io \<Rightarrow> ('w, 'f, 'a) io" where
  "wrap_io g m = (\<lambda>w. case m w of (r, w') \<Rightarrow> (map_error g r, w'))"

definition defer_io :: "('w, 'f, unit) io \<Rightarrow> ('w, 'e, 'a) io \<Rightarrow> ('w, 'e, 'a) io" where
  "defer_io d m = (\<lambda>w. case m w of (r, w') \<Rightarrow> (r, snd (d w')))"

definition finally_io :: "('w, 'e, unit) io \<Rightarrow> ('w, 'e, 'a) io \<Rightarrow> ('w, 'e, 'a) io" where
  \<comment> \<open>a deferred call whose error replaces the named result\<close>
  "finally_io d m =
     (\<lambda>w. case m w of (r, w1) \<Rightarrow> (case d w1 of (Inl e, w2) \<Rightarrow> (Inl e, w2) | (Inr _, w2) \<Rightarrow> (r, w2)))"

fun for_io :: "('x \<Rightarrow> ('w, 'e, unit) io) \<Rightarrow> 'x list \<Rightarrow> ('w, 'e, unit) io" where
  "for_io f [] = ret ()"
| "for_io f (x # xs) = then_io (f x) (for_io f xs)"

fun map_io :: "('x \<Rightarrow> ('w, 'e, 'y) io) \<Rightarrow> 'x list \<Rightarrow> ('w, 'e, 'y list) io" where
  \<comment> \<open>a loop that appends one element in every round\<close>
  "map_io f [] = ret []"
| "map_io f (x # xs) = bind_io (f x) (\<lambda>y. bind_io (map_io f xs) (\<lambda>ys. ret (y # ys)))"

definition on_fst :: "('v, 'e, 'a) io \<Rightarrow> ('v \<times> 'w, 'e, 'a) io" where
  \<comment> \<open>an operation on the first part of a world of two parts\<close>
  "on_fst m = (\<lambda>(v, w). case m v of (r, v) \<Rightarrow> (r, (v, w)))"

definition on_snd :: "('w, 'e, 'a) io \<Rightarrow> ('v \<times> 'w, 'e, 'a) io" where
  "on_snd m = (\<lambda>(v, w). case m w of (r, w) \<Rightarrow> (r, (v, w)))"

definition succeeds :: "('w, 'e, 'a) io \<Rightarrow> 'w \<Rightarrow> bool" where
  "succeeds m w = is_ok (fst (m w))"

section \<open>Rules\<close>

lemma io_simps [simp]:
  "ret x w = (Inr x, w)" "fail e w = (Inl e, w)" "query f w = (f w, w)"
  by (simp_all add: ret_def fail_def query_def)

lemma bind_io_Inr_iff:
  "bind_io m f w = (Inr y, w') \<longleftrightarrow> (\<exists>x w1. m w = (Inr x, w1) \<and> f x w1 = (Inr y, w'))"
  by (auto simp: bind_io_def split: prod.splits sum.splits)

lemma bind_io_Inl_iff:
  "bind_io m f w = (Inl e, w') \<longleftrightarrow> m w = (Inl e, w') \<or> (\<exists>x w1. m w = (Inr x, w1) \<and> f x w1 = (Inl e, w'))"
  by (auto simp: bind_io_def split: prod.splits sum.splits)

lemma then_io_Inr_iff:
  "then_io m n w = (Inr y, w') \<longleftrightarrow> (\<exists>w1. m w = (Inr (), w1) \<and> n w1 = (Inr y, w'))"
  by (simp add: then_io_def bind_io_Inr_iff)

lemma then_io_Inl_iff:
  "then_io m n w = (Inl e, w') \<longleftrightarrow> m w = (Inl e, w') \<or> (\<exists>w1. m w = (Inr (), w1) \<and> n w1 = (Inl e, w'))"
  by (simp add: then_io_def bind_io_Inl_iff)

lemma wrap_io_Inr_iff: "wrap_io g m w = (Inr y, w') \<longleftrightarrow> m w = (Inr y, w')"
  by (auto simp: wrap_io_def split: prod.splits)

lemma wrap_io_Inl_iff: "wrap_io g m w = (Inl e, w') \<longleftrightarrow> (\<exists>e'. m w = (Inl e', w') \<and> e = g e')"
  by (auto simp: wrap_io_def map_error_def split: prod.splits sum.splits)

lemma defer_io_iff: "defer_io d m w = (r, w') \<longleftrightarrow> (\<exists>w1. m w = (r, w1) \<and> w' = snd (d w1))"
  by (auto simp: defer_io_def split: prod.splits)

lemmas io_iffs = bind_io_Inr_iff bind_io_Inl_iff then_io_Inr_iff then_io_Inl_iff wrap_io_Inr_iff wrap_io_Inl_iff
  defer_io_iff

lemma bind_io_ok: "m w = (Inr x, w1) \<Longrightarrow> bind_io m f w = f x w1"
  by (simp add: bind_io_def)

lemma bind_io_err: "m w = (Inl e, w1) \<Longrightarrow> bind_io m f w = (Inl e, w1)"
  by (simp add: bind_io_def)

lemma then_io_ok: "m w = (Inr (), w1) \<Longrightarrow> then_io m n w = n w1"
  by (simp add: then_io_def bind_io_def)

lemma for_io_append: "for_io f (xs @ ys) = then_io (for_io f xs) (for_io f ys)"
  by (induction xs) (auto simp: then_io_def bind_io_def ret_def fun_eq_iff split: prod.splits sum.splits)

lemma for_io_inv:
  assumes "for_io f xs w = (r, w')" and "P w"
    and "\<And>x r w w'. x \<in> set xs \<Longrightarrow> f x w = (r, w') \<Longrightarrow> P w \<Longrightarrow> P w'"
  shows "P w'"
  using assms
proof (induction xs arbitrary: w)
  case (Cons x xs)
  obtain r1 w1 where f: "f x w = (r1, w1)" by fastforce
  have P1: "P w1" using Cons.prems(3)[OF _ f] Cons.prems(2) by simp
  show ?case
  proof (cases r1)
    case (Inl e)
    then show ?thesis using Cons.prems(1) f P1 by (auto simp: then_io_def bind_io_def)
  next
    case (Inr u)
    then have "for_io f xs w1 = (r, w')" using Cons.prems(1) f by (simp add: then_io_def bind_io_def)
    then show ?thesis using Cons.IH[OF _ P1] Cons.prems(3) by (meson list.set_intros(2))
  qed
qed simp

lemma map_io_length: "map_io f xs w = (Inr ys, w') \<Longrightarrow> length ys = length xs"
  by (induction xs arbitrary: ys w w') (auto simp: io_iffs)

section \<open>Operations that only read\<close>

definition reads :: "('w, 'e, 'a) io \<Rightarrow> bool" where
  "reads m = (\<forall>w. snd (m w) = w)"

named_theorems reads_intros

lemma reads_ret [reads_intros]: "reads (ret x)" and reads_fail [reads_intros]: "reads (fail e)" and reads_query [reads_intros]: "reads (query f)"
  by (simp_all add: reads_def)

lemma reads_bind [reads_intros]: "reads m \<Longrightarrow> (\<And>x. reads (f x)) \<Longrightarrow> reads (bind_io m f)"
  by (auto simp: reads_def bind_io_def split: prod.splits sum.splits) (metis snd_conv)+

lemma reads_wrap [reads_intros]: "reads m \<Longrightarrow> reads (wrap_io g m)"
  by (auto simp: reads_def wrap_io_def split: prod.splits) (metis snd_conv)

lemma reads_map_io [reads_intros]: "(\<And>x. reads (f x)) \<Longrightarrow> reads (map_io f xs)"
  by (induction xs) (auto intro!: reads_intros)

lemma readsD: "reads m \<Longrightarrow> m w = (r, w') \<Longrightarrow> w' = w"
  by (metis reads_def snd_conv)

end
