(* ===== verification/NetPrefix.thy ===== *)
theory NetPrefix
  imports NetAddr
begin

text \<open>
  Prefixes of \<open>net/netip\<close>, the address and mask slices of package \<open>net\<close>, and the conversions between them that
  \<open>src/src/cloud-api-adaptor/pkg/util/netops/netops.go\<close> defines.  \<open>bitsPlusOne\<close> is the field of \<open>netip.Prefix\<close> that is 0 in an invalid
  prefix.  A nil \<open>net.IP\<close> is the empty list and a nil \<open>*net.IPNet\<close> is \<open>None\<close>.
\<close>

section \<open>Bytes of an address\<close>

type_synonym byte = "8 word"
type_synonym IP = "byte list"

primrec to_bytes :: "nat \<Rightarrow> 'a::len word \<Rightarrow> byte list" where
  "to_bytes 0 w = []"
| "to_bytes (Suc n) w = to_bytes n (drop_bit 8 w) @ [ucast w]"

definition from_bytes :: "byte list \<Rightarrow> 'a::len word" where
  "from_bytes bs = foldl (\<lambda>acc b. or (push_bit 8 acc) (ucast b)) 0 bs"

fun AsSlice :: "Addr \<Rightarrow> IP" where
  "AsSlice AddrZero = []"
| "AsSlice (Addr4 w) = to_bytes 4 w"
| "AsSlice (Addr6 w z) = to_bytes 16 w"

definition AddrFromSlice :: "IP \<Rightarrow> Addr" where
  \<comment> \<open>the address part of the result; \<open>AddrZero\<close> for a slice of another length\<close>
  "AddrFromSlice bs = (if length bs = 4 then Addr4 (from_bytes bs) else if length bs = 16 then Addr6 (from_bytes bs) [] else AddrZero)"

fun BitLen :: "Addr \<Rightarrow> nat" where
  "BitLen AddrZero = 0"
| "BitLen (Addr4 w) = 32"
| "BitLen (Addr6 w z) = 128"

definition IsValid_addr :: "Addr \<Rightarrow> bool" where
  "IsValid_addr a = (a \<noteq> AddrZero)"

definition Is4 :: "Addr \<Rightarrow> bool" where
  "Is4 a = (case a of Addr4 _ \<Rightarrow> True | _ \<Rightarrow> False)"

fun WithoutZone :: "Addr \<Rightarrow> Addr" where
  "WithoutZone (Addr6 w z) = Addr6 w []"
| "WithoutZone a = a"

section \<open>Prefixes\<close>

record Prefix =
  prefix_ip :: Addr
  bitsPlusOne :: nat

definition PrefixZero :: Prefix where
  "PrefixZero = \<lparr>prefix_ip = AddrZero, bitsPlusOne = 0\<rparr>"

definition PrefixFrom :: "Addr \<Rightarrow> int \<Rightarrow> Prefix" where
  "PrefixFrom a bits =
     \<lparr>prefix_ip = WithoutZone a,
      bitsPlusOne = (if a \<noteq> AddrZero \<and> 0 \<le> bits \<and> bits \<le> int (BitLen a) then nat bits + 1 else 0)\<rparr>"

definition Bits :: "Prefix \<Rightarrow> int" where
  "Bits p = int (bitsPlusOne p) - 1"

definition IsValid :: "Prefix \<Rightarrow> bool" where
  "IsValid p = (0 < bitsPlusOne p)"

definition IsSingleIP :: "Prefix \<Rightarrow> bool" where
  "IsSingleIP p = (IsValid p \<and> Bits p = int (BitLen (prefix_ip p)))"

definition keep_bits :: "nat \<Rightarrow> 'a::len word \<Rightarrow> 'a word" where
  \<comment> \<open>clears all but the first \<open>n\<close> bits\<close>
  "keep_bits n w = (let m = LENGTH('a) - n in push_bit m (drop_bit m w))"

definition Masked :: "Prefix \<Rightarrow> Prefix" where
  "Masked p =
     (if \<not> IsValid p then PrefixZero
      else PrefixFrom (case prefix_ip p of AddrZero \<Rightarrow> AddrZero | Addr4 w \<Rightarrow> Addr4 (keep_bits (nat (Bits p)) w)
                         | Addr6 w z \<Rightarrow> Addr6 (keep_bits (nat (Bits p)) w) z) (Bits p))"

definition LastIndexByte :: "string \<Rightarrow> char \<Rightarrow> (string \<times> string) option" where
  \<comment> \<open>the parts before and after the last occurrence\<close>
  "LastIndexByte s c =
     (if c \<in> set s then Some (rev (drop 1 (dropWhile (\<lambda>x. x \<noteq> c) (rev s))), rev (takeWhile (\<lambda>x. x \<noteq> c) (rev s))) else None)"

definition ParsePrefix :: "ip6_text \<Rightarrow> string \<Rightarrow> Prefix option" where
  "ParsePrefix t s =
     (case LastIndexByte s (CHR ''/'') of
        None \<Rightarrow> None
      | Some (a, b) \<Rightarrow>
          (case ParseAddr t a of
             None \<Rightarrow> None
           | Some ip \<Rightarrow>
               if WithoutZone ip \<noteq> ip then None
               else if 1 < length b \<and> \<not> (is_digit (hd b) \<and> hd b \<noteq> CHR ''0'') then None
               else (case ParseInt10 b of
                       Inl _ \<Rightarrow> None
                     | Inr n \<Rightarrow> if n < 0 \<or> int (BitLen ip) < n then None else Some (PrefixFrom ip n))))"

section \<open>Masks\<close>

record IPNet =
  net_IP :: IP
  net_Mask :: "byte list"

definition byte_mask :: "nat \<Rightarrow> byte" where
  "byte_mask n = push_bit (8 - n) (- 1)"

primrec mask_bytes :: "nat \<Rightarrow> nat \<Rightarrow> byte list" where
  "mask_bytes 0 n = []"
| "mask_bytes (Suc k) n = byte_mask (min n 8) # mask_bytes k (n - 8)"

definition CIDRMask :: "nat \<Rightarrow> nat \<Rightarrow> byte list" where
  "CIDRMask ones bits = (if (bits \<noteq> 32 \<and> bits \<noteq> 128) \<or> bits < ones then [] else mask_bytes (bits div 8) ones)"

fun leading_ones :: "nat \<Rightarrow> byte \<Rightarrow> nat" where
  "leading_ones 0 v = 0"
| "leading_ones (Suc n) v = (if bit v n then Suc (leading_ones n v) else 0)"

fun simpleMaskLength :: "byte list \<Rightarrow> nat option" where
  \<comment> \<open>\<open>None\<close> for a mask that is not ones followed by zeros\<close>
  "simpleMaskLength [] = Some 0"
| "simpleMaskLength (v # m) =
     (if v = - 1 then map_option (\<lambda>n. 8 + n) (simpleMaskLength m)
      else (let k = leading_ones 8 v
            in if v = byte_mask k \<and> list_all (\<lambda>b. b = 0) m then Some k else None))"

definition Size :: "byte list \<Rightarrow> nat" where
  \<comment> \<open>the number of ones, 0 for a mask that is not canonical\<close>
  "Size m = (case simpleMaskLength m of None \<Rightarrow> 0 | Some n \<Rightarrow> n)"

section \<open>Conversions of netops\<close>

definition toAddr :: "IP \<Rightarrow> Addr" where
  "toAddr ip = AddrFromSlice ip"

definition toPrefix :: "IPNet option \<Rightarrow> Prefix" where
  "toPrefix ipnet =
     (case ipnet of
        None \<Rightarrow> PrefixFrom (Addr4 0) 0
      | Some n \<Rightarrow> PrefixFrom (AddrFromSlice (net_IP n)) (int (Size (net_Mask n))))"

definition toIP :: "Addr \<Rightarrow> IP" where
  "toIP a = (if \<not> IsValid_addr a then [] else AsSlice a)"

definition toIPNet :: "Prefix \<Rightarrow> IPNet option" where
  "toIPNet p =
     (if \<not> IsValid p then None
      else Some \<lparr>net_IP = AsSlice (prefix_ip p), net_Mask = CIDRMask (nat (Bits p)) (BitLen (prefix_ip p))\<rparr>)"

section \<open>Round trips\<close>

lemma length_to_bytes [simp]: "length (to_bytes n w) = n"
  by (induction n arbitrary: w) simp_all

lemma from_bytes_snoc: "from_bytes (bs @ [b]) = or (push_bit 8 (from_bytes bs)) (ucast b)"
  by (simp add: from_bytes_def)

lemma from_to_bytes: "(from_bytes (to_bytes n w) :: 'a::len word) = take_bit (8 * n) w"
proof (induction n arbitrary: w)
  case 0
  then show ?case by (simp add: from_bytes_def)
next
  case (Suc n)
  have "or (push_bit 8 (take_bit (8 * n) (drop_bit 8 w))) (ucast (ucast w :: byte)) = take_bit (8 * Suc n) w"
    by (rule bit_word_eqI) (auto simp: bit_simps)
  then show ?case by (simp add: from_bytes_snoc Suc.IH)
qed

lemma take_bit_all [simp]: "take_bit 32 (w :: 32 word) = w" "take_bit 128 (v :: 128 word) = v"
  by (rule take_bit_word_eq_self, simp)+

lemma toAddr_toIP: "WithoutZone a = a \<Longrightarrow> toAddr (toIP a) = a"
  by (cases a) (auto simp: toAddr_def toIP_def IsValid_addr_def AddrFromSlice_def from_to_bytes)

lemma bit_byte_mask: "bit (byte_mask n) i \<longleftrightarrow> 8 - n \<le> i \<and> i < 8"
  by (auto simp: byte_mask_def bit_simps)

lemma leading_ones_mask: "k \<le> 8 \<Longrightarrow> leading_ones k (byte_mask n) = k - (8 - n)"
  by (induction k) (auto simp: bit_byte_mask Suc_diff_le)

lemma byte_mask_full: "byte_mask n = - 1 \<longleftrightarrow> 8 \<le> n"
proof
  assume "byte_mask n = - 1"
  then have "bit (byte_mask n) 0" by simp
  then show "8 \<le> n" by (simp add: bit_byte_mask)
qed (simp add: byte_mask_def)

lemma byte_mask_0: "byte_mask 0 = 0"
  by (rule bit_word_eqI) (auto simp: bit_byte_mask)

lemma mask_bytes_0: "list_all (\<lambda>b. b = 0) (mask_bytes k 0)"
  by (induction k) (simp_all add: byte_mask_0)

lemma Size_mask_bytes: "n \<le> 8 * k \<Longrightarrow> simpleMaskLength (mask_bytes k n) = Some n"
proof (induction k arbitrary: n)
  case (Suc k)
  then show ?case by (auto simp: byte_mask_full leading_ones_mask mask_bytes_0 min_def Let_def)
qed simp

definition wf_prefix :: "Prefix \<Rightarrow> bool" where
  "wf_prefix p = (IsValid p \<and> WithoutZone (prefix_ip p) = prefix_ip p \<and> prefix_ip p \<noteq> AddrZero \<and> bitsPlusOne p \<le> BitLen (prefix_ip p) + 1)"

lemma toPrefix_toIPNet: 
  assumes "wf_prefix p"
  shows "toPrefix (toIPNet p) = p"
proof -
  have len: "BitLen (prefix_ip p) = 32 \<or> BitLen (prefix_ip p) = 128" and b: "nat (Bits p) \<le> BitLen (prefix_ip p)"
    and v: "IsValid p" and z: "WithoutZone (prefix_ip p) = prefix_ip p" and nz: "prefix_ip p \<noteq> AddrZero"
    using assms by (auto simp: wf_prefix_def Bits_def) (cases "prefix_ip p"; simp)
  have m: "Size (CIDRMask (nat (Bits p)) (BitLen (prefix_ip p))) = nat (Bits p)"
    using len b Size_mask_bytes[of "nat (Bits p)" "BitLen (prefix_ip p) div 8"] by (auto simp: CIDRMask_def Size_def)
  have a: "AddrFromSlice (AsSlice (prefix_ip p)) = prefix_ip p"
    using toAddr_toIP[OF z] nz by (simp add: toAddr_def toIP_def IsValid_addr_def)
  have nn: "0 \<le> Bits p" and bp: "nat (Bits p) + 1 = bitsPlusOne p" using v by (auto simp: Bits_def IsValid_def)
  show ?thesis using v m a nn bp nz z b by (simp add: toPrefix_def toIPNet_def PrefixFrom_def)
qed

end
