(* ===== verification/NetOps.thy ===== *)
theory NetOps
  imports GoIO NetPrefix InstanceSelect
begin

text \<open>
  Operations on network namespaces, \<open>src/src/cloud-api-adaptor/pkg/util/netops/netops.go\<close>.  The libraries \<open>netns\<close> and \<open>netlink\<close> with
  the kernel behind them are the record \<open>netlink\<close> of operations on a world \<open>'w\<close>, each on a handle.  The numeric constants are those
  of the Linux ABI that the libraries export.  The bits of a filter mask are a list of flags, and the pinning of a goroutine to its thread,
  which has no effect on the values, is left out.  Errors keep the library's error, which \<open>errors.Is\<close> looks at, and a tag for the message.
\<close>

section \<open>Hardware addresses\<close>

definition hex_val :: "char \<Rightarrow> nat option" where
  "hex_val c =
     (let n = of_char c :: nat
      in if 48 \<le> n \<and> n \<le> 57 then Some (n - 48)
         else if 97 \<le> n \<and> n \<le> 102 then Some (n - 87)
         else if 65 \<le> n \<and> n \<le> 70 then Some (n - 55) else None)"

fun hex_bytes :: "string \<Rightarrow> byte list option" where
  "hex_bytes [] = Some []"
| "hex_bytes [c] = None"
| "hex_bytes (c # d # s) =
     (case (hex_val c, hex_val d, hex_bytes s) of
        (Some x, Some y, Some bs) \<Rightarrow> Some (word_of_nat (16 * x + y) # bs)
      | _ \<Rightarrow> None)"

definition mac_groups :: "nat \<Rightarrow> char \<Rightarrow> string \<Rightarrow> byte list option" where
  "mac_groups n sep s =
     (let gs = Split s sep
      in if list_all (\<lambda>g. length g = n) gs \<and> n div 2 * length gs \<in> {6, 8, 20} then hex_bytes (concat gs) else None)"

definition ParseMAC :: "string \<Rightarrow> byte list option" where
  "ParseMAC s =
     (if length s < 14 then None
      else if s ! 2 = CHR '':'' \<or> s ! 2 = CHR ''-'' then mac_groups 2 (s ! 2) s
      else if s ! 4 = CHR ''.'' then mac_groups 4 (CHR ''.'') s
      else None)"

definition byte_hex :: "byte \<Rightarrow> string" where
  "byte_hex b = [''0123456789abcdef'' ! (unat b div 16), ''0123456789abcdef'' ! (unat b mod 16)]"

definition HardwareAddr_String :: "byte list \<Rightarrow> string" where
  "HardwareAddr_String a = Join (map byte_hex a) '':''"

section \<open>The netlink library\<close>

datatype nl_error = EEXIST | NlError string

datatype nl_kind = NlVxlan IP int int | NlVeth string nat | NlBridge | NlOther string

record nl_link =
  nl_Name :: string
  nl_Index :: int
  nl_MTU :: int
  nl_HardwareAddr :: "byte list"
  nl_Kind :: nl_kind

record nl_route =
  nl_Dst :: "IPNet option"
  nl_Src :: IP
  nl_Gw :: IP
  nl_LinkIndex :: int
  nl_Priority :: int
  nl_Table :: int
  nl_Type :: int
  nl_Scope :: int
  nl_Protocol :: int
  nl_Onlink :: bool

datatype rt_filter = RT_FILTER_DST | RT_FILTER_SRC | RT_FILTER_GW | RT_FILTER_OIF | RT_FILTER_TABLE | RT_FILTER_TYPE
  | RT_FILTER_PROTOCOL | RT_FILTER_IIF | RT_FILTER_PRIORITY

record nl_rule =
  nl_rule_Src :: "IPNet option"
  nl_IifName :: string
  nl_rule_Priority :: int
  nl_rule_Table :: int

record nl_neigh =
  nl_neigh_IP :: IP
  nl_neigh_LinkIndex :: int
  nl_neigh_HardwareAddr :: "byte list"
  nl_State :: "16 word"

datatype nl_qdisc = NlIngress int | NlQdisc string int
datatype nl_filter = NlU32 int "int option" | NlFilter string int

record 'w netlink =
  netns_GetFromPath :: "string \<Rightarrow> ('w, nl_error, nat) io"
  netns_Get :: "('w, nl_error, nat) io"
  netns_Set :: "nat \<Rightarrow> ('w, nl_error, unit) io"
  netns_NewNamed :: "string \<Rightarrow> ('w, nl_error, nat) io"
  netns_DeleteNamed :: "string \<Rightarrow> ('w, nl_error, unit) io"
  netns_Close :: "nat \<Rightarrow> ('w, nl_error, unit) io"
  NewHandleAt :: "nat \<Rightarrow> ('w, nl_error, nat) io"
  nl_Close :: "nat \<Rightarrow> 'w \<Rightarrow> 'w"
  nl_thread :: "'w \<Rightarrow> nat \<times> nat"
  nl_LinkList :: "nat \<Rightarrow> 'w \<Rightarrow> nl_error + nl_link list"
  nl_LinkByName :: "nat \<Rightarrow> string \<Rightarrow> 'w \<Rightarrow> nl_error + nl_link"
  nl_LinkByIndex :: "nat \<Rightarrow> int \<Rightarrow> 'w \<Rightarrow> nl_error + nl_link"
  nl_LinkAdd :: "nat \<Rightarrow> nl_link \<Rightarrow> ('w, nl_error, unit) io"
  nl_LinkDel :: "nat \<Rightarrow> nl_link \<Rightarrow> ('w, nl_error, unit) io"
  nl_LinkSetMTU :: "nat \<Rightarrow> nl_link \<Rightarrow> int \<Rightarrow> ('w, nl_error, unit) io"
  nl_LinkSetHardwareAddr :: "nat \<Rightarrow> nl_link \<Rightarrow> byte list \<Rightarrow> ('w, nl_error, unit) io"
  nl_LinkSetMaster :: "nat \<Rightarrow> nl_link \<Rightarrow> nl_link \<Rightarrow> ('w, nl_error, unit) io"
  nl_LinkSetNsFd :: "nat \<Rightarrow> nl_link \<Rightarrow> nat \<Rightarrow> ('w, nl_error, unit) io"
  nl_LinkSetName :: "nat \<Rightarrow> nl_link \<Rightarrow> string \<Rightarrow> ('w, nl_error, unit) io"
  nl_LinkSetUp :: "nat \<Rightarrow> nl_link \<Rightarrow> ('w, nl_error, unit) io"
  nl_AddrList :: "nat \<Rightarrow> nl_link \<Rightarrow> 'w \<Rightarrow> nl_error + IPNet option list"
  nl_AddrAdd :: "nat \<Rightarrow> nl_link \<Rightarrow> IPNet option \<Rightarrow> ('w, nl_error, unit) io"
  nl_RouteListFiltered :: "nat \<Rightarrow> nl_route \<Rightarrow> rt_filter list \<Rightarrow> 'w \<Rightarrow> nl_error + nl_route list"
  nl_RouteAdd :: "nat \<Rightarrow> nl_route \<Rightarrow> ('w, nl_error, unit) io"
  nl_RouteDel :: "nat \<Rightarrow> nl_route \<Rightarrow> ('w, nl_error, unit) io"
  nl_NewRule :: nl_rule
  nl_RuleAdd :: "nat \<Rightarrow> nl_rule \<Rightarrow> ('w, nl_error, unit) io"
  nl_RuleDel :: "nat \<Rightarrow> nl_rule \<Rightarrow> ('w, nl_error, unit) io"
  nl_RuleListFiltered :: "nat \<Rightarrow> nl_rule \<Rightarrow> rt_filter list \<Rightarrow> 'w \<Rightarrow> nl_error + nl_rule list"
  nl_NeighAdd :: "nat \<Rightarrow> nl_neigh \<Rightarrow> ('w, nl_error, unit) io"
  nl_NeighListExecute :: "nat \<Rightarrow> 16 word \<Rightarrow> int \<Rightarrow> 'w \<Rightarrow> nl_error + nl_neigh list"
  nl_QdiscAdd :: "nat \<Rightarrow> nl_qdisc \<Rightarrow> ('w, nl_error, unit) io"
  nl_QdiscDel :: "nat \<Rightarrow> nl_qdisc \<Rightarrow> ('w, nl_error, unit) io"
  nl_QdiscList :: "nat \<Rightarrow> nl_link \<Rightarrow> 'w \<Rightarrow> nl_error + nl_qdisc list"
  nl_FilterAdd :: "nat \<Rightarrow> nl_filter \<Rightarrow> ('w, nl_error, unit) io"
  nl_FilterDel :: "nat \<Rightarrow> nl_filter \<Rightarrow> ('w, nl_error, unit) io"
  nl_FilterList :: "nat \<Rightarrow> nl_link \<Rightarrow> 'w \<Rightarrow> nl_error + nl_filter list"

definition RT_TABLE_MAIN :: int where "RT_TABLE_MAIN = 254"
definition RTN_UNICAST :: int where "RTN_UNICAST = 1"
definition RTPROT_KERNEL :: int where "RTPROT_KERNEL = 2"
definition RTPROT_BOOT :: int where "RTPROT_BOOT = 3"
definition RTPROT_STATIC :: int where "RTPROT_STATIC = 4"
definition RTPROT_DHCP :: int where "RTPROT_DHCP = 16"
definition SCOPE_LINK :: int where "SCOPE_LINK = 253"

datatype net_error = NetErr string nl_error | NetMsg string

fun is_exist :: "net_error \<Rightarrow> bool" where
  \<comment> \<open>\<open>errors.Is(err, os.ErrExist)\<close>\<close>
  "is_exist (NetErr _ EEXIST) = True"
| "is_exist _ = False"

section \<open>Namespaces\<close>

record namespace =
  ns_handle :: nat
  ns_path :: string
  nsHandle :: nat

definition OpenNamespace :: "'w netlink \<Rightarrow> string \<Rightarrow> ('w, net_error, namespace) io" where
  "OpenNamespace N nsPath =
     bind_io (wrap_io (NetErr ''get network namespace'') (netns_GetFromPath N nsPath)) (\<lambda>fd.
     bind_io (wrap_io (NetErr ''get handle'') (NewHandleAt N fd)) (\<lambda>h.
     ret \<lparr>ns_handle = h, ns_path = nsPath, nsHandle = fd\<rparr>))"

definition OpenCurrentNamespace :: "'w netlink \<Rightarrow> ('w, net_error, namespace) io" where
  "OpenCurrentNamespace N =
     (\<lambda>w. case nl_thread N w of
        (pid, tid) \<Rightarrow> OpenNamespace N (''/proc/'' @ digits_of pid @ ''/task/'' @ digits_of tid @ ''/ns/net'') w)"

definition CreateNamedNamespace :: "'w netlink \<Rightarrow> string \<Rightarrow> ('w, net_error, string) io" where
  "CreateNamedNamespace N name =
     bind_io (wrap_io (NetErr ''get current network namespace'') (netns_Get N)) (\<lambda>old.
     defer_io (netns_Set N old)
       (bind_io (wrap_io (NetErr ''create named network namespace'') (netns_NewNamed N name)) (\<lambda>fd.
        then_io (wrap_io (NetErr ''close named network namespace'') (netns_Close N fd))
          (ret (Join_path [''/run/netns'', name])))))"

definition DeleteNamedNamespace :: "'w netlink \<Rightarrow> string \<Rightarrow> ('w, net_error, unit) io" where
  "DeleteNamedNamespace N name = wrap_io (NetErr ''delete named network namespace'') (netns_DeleteNamed N name)"

definition Close :: "'w netlink \<Rightarrow> namespace \<Rightarrow> ('w, net_error, unit) io" where
  "Close N ns = (\<lambda>w. wrap_io (NetErr ''close network namespace'') (netns_Close N (nsHandle ns)) (nl_Close N (ns_handle ns) w))"

definition Run :: "'w netlink \<Rightarrow> namespace \<Rightarrow> ('w, net_error, unit) io \<Rightarrow> ('w, net_error, unit) io" where
  "Run N ns fn =
     bind_io (wrap_io (NetErr ''get current network namespace'') (netns_Get N)) (\<lambda>oldNS.
     finally_io (wrap_io (NetErr ''close original network namespace'') (netns_Close N oldNS))
       (if nsHandle ns \<noteq> oldNS
        then then_io (wrap_io (NetErr ''set network namespace'') (netns_Set N (nsHandle ns)))
               (finally_io (wrap_io (NetErr ''set back to host network namespace'') (netns_Set N oldNS)) fn)
        else fn))"

definition RunAsNsPath :: "'w netlink \<Rightarrow> string \<Rightarrow> ('w, net_error, unit) io \<Rightarrow> ('w, net_error, unit) io" where
  \<comment> \<open>the deferred function assigns the result of \<open>Close\<close> to the named result \<open>err\<close>\<close>
  "RunAsNsPath N nsPath fn =
     bind_io (OpenNamespace N nsPath) (\<lambda>podNS w. case Run N podNS fn w of (_, w1) \<Rightarrow> Close N podNS w1)"

section \<open>Links\<close>

record link =
  nlLink :: nl_link
  link_ns :: namespace

definition Name :: "link \<Rightarrow> string" where
  "Name l = nl_Name (nlLink l)"

definition GetAddr :: "'w netlink \<Rightarrow> link \<Rightarrow> ('w, net_error, Prefix list) io" where
  "GetAddr N l =
     bind_io (wrap_io (NetErr ''get IP addresses'') (query (nl_AddrList N (ns_handle (link_ns l)) (nlLink l)))) (\<lambda>addrs.
     ret (map toPrefix addrs))"

definition AddAddr :: "'w netlink \<Rightarrow> link \<Rightarrow> Prefix \<Rightarrow> ('w, net_error, unit) io" where
  "AddAddr N l pfx = wrap_io (NetErr ''assign IP address'') (nl_AddrAdd N (ns_handle (link_ns l)) (nlLink l) (toIPNet pfx))"

definition GetMTU :: "link \<Rightarrow> int" where
  "GetMTU l = nl_MTU (nlLink l)"

definition SetMTU :: "'w netlink \<Rightarrow> link \<Rightarrow> int \<Rightarrow> ('w, net_error, unit) io" where
  "SetMTU N l mtu = wrap_io (NetErr ''set MTU'') (nl_LinkSetMTU N (ns_handle (link_ns l)) (nlLink l) mtu)"

definition GetHardwareAddr :: "link \<Rightarrow> string" where
  "GetHardwareAddr l = HardwareAddr_String (nl_HardwareAddr (nlLink l))"

definition SetHardwareAddr :: "'w netlink \<Rightarrow> link \<Rightarrow> string \<Rightarrow> ('w, net_error, unit) io" where
  "SetHardwareAddr N l hwAddr =
     (case ParseMAC hwAddr of
        None \<Rightarrow> fail (NetMsg ''parse hardware address'')
      | Some mac \<Rightarrow> wrap_io (NetErr ''set hardware address'') (nl_LinkSetHardwareAddr N (ns_handle (link_ns l)) (nlLink l) mac))"

definition SetMaster :: "'w netlink \<Rightarrow> link \<Rightarrow> link \<Rightarrow> ('w, net_error, unit) io" where
  "SetMaster N l master = wrap_io (NetErr ''set master'') (nl_LinkSetMaster N (ns_handle (link_ns l)) (nlLink l) (nlLink master))"

definition SetNamespace :: "'w netlink \<Rightarrow> link \<Rightarrow> namespace \<Rightarrow> ('w, net_error, link) io" where
  \<comment> \<open>returns the link with its \<open>ns\<close> field assigned\<close>
  "SetNamespace N l target =
     bind_io (wrap_io (NetErr ''change network namespace'') (nl_LinkSetNsFd N (ns_handle (link_ns l)) (nlLink l) (nsHandle target))) (\<lambda>_.
     ret (l\<lparr>link_ns := target\<rparr>))"

definition SetName :: "'w netlink \<Rightarrow> link \<Rightarrow> string \<Rightarrow> ('w, net_error, unit) io" where
  "SetName N l name = wrap_io (NetErr ''change name'') (nl_LinkSetName N (ns_handle (link_ns l)) (nlLink l) name)"

definition SetUp :: "'w netlink \<Rightarrow> link \<Rightarrow> ('w, net_error, unit) io" where
  "SetUp N l = wrap_io (NetErr ''set link state up'') (nl_LinkSetUp N (ns_handle (link_ns l)) (nlLink l))"

definition Delete_link :: "'w netlink \<Rightarrow> link \<Rightarrow> ('w, net_error, unit) io" where
  "Delete_link N l = wrap_io (NetErr ''delete interface'') (nl_LinkDel N (ns_handle (link_ns l)) (nlLink l))"

datatype Device = VEth string namespace | Bridge | VXLAN Addr int int

definition GetDevice :: "link \<Rightarrow> net_error + Device" where
  "GetDevice l =
     (case nl_Kind (nlLink l) of
        NlVxlan grp vni port \<Rightarrow> Inr (VXLAN (toAddr grp) vni port)
      | _ \<Rightarrow> Inl (NetMsg ''device info is not available''))"

fun getLink :: "Device \<Rightarrow> nl_kind" where
  "getLink (VEth peerName peerNamespace) = NlVeth peerName (nsHandle peerNamespace)"
| "getLink Bridge = NlBridge"
| "getLink (VXLAN grp vni port) = NlVxlan (toIP grp) vni port"

definition LinkFind :: "'w netlink \<Rightarrow> namespace \<Rightarrow> string \<Rightarrow> ('w, net_error, link) io" where
  "LinkFind N ns name =
     bind_io (wrap_io (NetErr ''list interfaces'') (query (nl_LinkList N (ns_handle ns)))) (\<lambda>nlLinks.
     case find (\<lambda>l. nl_Name l = name) nlLinks of
       None \<Rightarrow> fail (NetMsg ''find interface'')
     | Some l \<Rightarrow> ret \<lparr>nlLink = l, link_ns = ns\<rparr>)"

definition LinkList :: "'w netlink \<Rightarrow> namespace \<Rightarrow> ('w, net_error, link list) io" where
  "LinkList N ns =
     bind_io (wrap_io (NetErr ''list interfaces'') (query (nl_LinkList N (ns_handle ns)))) (\<lambda>nlLinks.
     ret (map (\<lambda>l. \<lparr>nlLink = l, link_ns = ns\<rparr>) nlLinks))"

definition LinkAdd :: "'w netlink \<Rightarrow> namespace \<Rightarrow> string \<Rightarrow> Device \<Rightarrow> ('w, net_error, link) io" where
  "LinkAdd N ns name device =
     then_io (wrap_io (NetErr ''create interface'')
                (nl_LinkAdd N (ns_handle ns)
                   \<lparr>nl_Name = name, nl_Index = 0, nl_MTU = 0, nl_HardwareAddr = [], nl_Kind = getLink device\<rparr>))
       (LinkFind N ns name)"

section \<open>Routes\<close>

definition DefaultPrefix :: Prefix where
  "DefaultPrefix = PrefixFrom (Addr4 0) 0"

record Route =
  Destination :: Prefix
  Source :: Addr
  Gateway :: Addr
  Device :: string
  Priority :: int
  Table :: int
  rt_Type :: int
  Protocol :: int
  Scope :: int
  Onlink :: bool

definition route0 :: Route where
  \<comment> \<open>the zero value of the struct\<close>
  "route0 = \<lparr>Destination = PrefixZero, Source = AddrZero, Gateway = AddrZero, Device = [], Priority = 0, Table = 0, rt_Type = 0,
     Protocol = 0, Scope = 0, Onlink = False\<rparr>"

fun bytes_less :: "byte list \<Rightarrow> byte list \<Rightarrow> bool" where
  \<comment> \<open>\<open>bytes.Compare a b < 0\<close>\<close>
  "bytes_less _ [] = False"
| "bytes_less [] (_ # _) = True"
| "bytes_less (a # as) (b # bs) = (if a = b then bytes_less as bs else a < b)"

definition compare :: "Route \<Rightarrow> Route \<Rightarrow> bool" where
  "compare r1 r2 =
     (if Table r1 \<noteq> Table r2 then Table r1 < Table r2
      else
        (let d1 = (if \<not> IsValid (Destination r1) then DefaultPrefix else Destination r1);
             d2 = (if \<not> IsValid (Destination r2) then DefaultPrefix else Destination r2);
             s1 = AsSlice (prefix_ip d1);
             s2 = AsSlice (prefix_ip d2)
         in if s1 \<noteq> s2 then bytes_less s1 s2
            else if Bits d1 \<noteq> Bits d2 then Bits d1 < Bits d2
            else Priority r1 < Priority r2))"

definition nl_route0 :: nl_route where
  "nl_route0 = \<lparr>nl_Dst = None, nl_Src = [], nl_Gw = [], nl_LinkIndex = 0, nl_Priority = 0, nl_Table = 0, nl_Type = 0, nl_Scope = 0,
     nl_Protocol = 0, nl_Onlink = False\<rparr>"

definition route_filter :: "Route \<Rightarrow> int \<Rightarrow> nl_route \<times> rt_filter list" where
  \<comment> \<open>the netlink route and the mask that \<open>routeListFiltered\<close> builds, given the index of the device\<close>
  "route_filter f index =
     (nl_route0\<lparr>nl_Dst := (if IsValid (Destination f) \<and> 0 < Bits (Destination f) then toIPNet (Destination f) else None),
                nl_Src := toIP (Source f), nl_Gw := toIP (Gateway f), nl_LinkIndex := (if Device f \<noteq> [] then index else 0),
                nl_Table := Table f, nl_Type := rt_Type f, nl_Protocol := Protocol f\<rparr>,
      (if IsValid (Destination f) then [RT_FILTER_DST] else []) @ (if IsValid_addr (Source f) then [RT_FILTER_SRC] else []) @
      (if IsValid_addr (Gateway f) then [RT_FILTER_GW] else []) @ (if Device f \<noteq> [] then [RT_FILTER_OIF] else []) @
      (if Table f \<noteq> 0 then [RT_FILTER_TABLE] else []) @ (if rt_Type f \<noteq> 0 then [RT_FILTER_TYPE] else []) @
      (if Protocol f \<noteq> 0 then [RT_FILTER_PROTOCOL] else []))"

definition device_index :: "'w netlink \<Rightarrow> namespace \<Rightarrow> string \<Rightarrow> ('w, net_error, int) io" where
  "device_index N ns dev =
     bind_io (wrap_io (NetErr ''get interface'') (query (nl_LinkByName N (ns_handle ns) dev))) (\<lambda>l. ret (nl_Index l))"

definition routeListFiltered :: "'w netlink \<Rightarrow> namespace \<Rightarrow> Route \<Rightarrow> ('w, net_error, nl_route list) io" where
  "routeListFiltered N ns f =
     bind_io (if Device f \<noteq> [] then device_index N ns (Device f) else ret 0) (\<lambda>index.
     case route_filter f index of
       (r, fmask) \<Rightarrow> wrap_io (NetErr ''get routes'') (query (nl_RouteListFiltered N (ns_handle ns) r fmask)))"

definition default_filters :: "Route list" where
  "default_filters = map (\<lambda>p. route0\<lparr>Table := RT_TABLE_MAIN, rt_Type := RTN_UNICAST, Protocol := p\<rparr>)
     [RTPROT_STATIC, RTPROT_BOOT, RTPROT_DHCP, RTPROT_KERNEL]"

definition to_route :: "'w netlink \<Rightarrow> namespace \<Rightarrow> nl_route \<Rightarrow> ('w, net_error, Route) io" where
  "to_route N ns r =
     bind_io (if 0 < nl_LinkIndex r
              then bind_io (wrap_io (NetErr ''get link'') (query (nl_LinkByIndex N (ns_handle ns) (nl_LinkIndex r)))) (\<lambda>l. ret (nl_Name l))
              else ret []) (\<lambda>dev.
     ret \<lparr>Destination = toPrefix (nl_Dst r), Source = toAddr (nl_Src r), Gateway = toAddr (nl_Gw r), Device = dev,
          Priority = nl_Priority r, Table = nl_Table r, rt_Type = nl_Type r, Protocol = nl_Protocol r, Scope = nl_Scope r,
          Onlink = nl_Onlink r\<rparr>)"

definition RouteList :: "'w netlink \<Rightarrow> namespace \<Rightarrow> Route list \<Rightarrow> ('w, net_error, Route list) io" where
  "RouteList N ns filters =
     bind_io (map_io (\<lambda>f. bind_io (routeListFiltered N ns f) (map_io (to_route N ns)))
                (if filters = [] then default_filters else filters)) (\<lambda>rs.
     ret (insertionSort compare (concat rs)))"

definition GetDefaultRoutes :: "'w netlink \<Rightarrow> namespace \<Rightarrow> ('w, net_error, Route list) io" where
  "GetDefaultRoutes N ns =
     bind_io (RouteList N ns [route0]) (\<lambda>routes.
     ret (filter (\<lambda>r. Bits (Destination r) = 0 \<and> Priority r < int64_max) routes))"

definition RouteAdd :: "'w netlink \<Rightarrow> namespace \<Rightarrow> Route \<Rightarrow> ('w, net_error, unit) io" where
  "RouteAdd N ns route =
     bind_io (if Device route \<noteq> [] then device_index N ns (Device route) else ret 0) (\<lambda>index.
     wrap_io (NetErr ''create route'')
       (nl_RouteAdd N (ns_handle ns)
          \<lparr>nl_Dst = toIPNet (Destination route), nl_Src = toIP (Source route), nl_Gw = toIP (Gateway route), nl_LinkIndex = index,
           nl_Priority = Priority route, nl_Table = Table route, nl_Type = rt_Type route,
           nl_Scope = (if \<not> IsValid_addr (Gateway route) then SCOPE_LINK else Scope route),
           nl_Protocol = Protocol route, nl_Onlink = Onlink route\<rparr>))"

definition RouteDel :: "'w netlink \<Rightarrow> namespace \<Rightarrow> Route \<Rightarrow> ('w, net_error, unit) io" where
  "RouteDel N ns route =
     bind_io (routeListFiltered N ns route) (\<lambda>routes.
     if routes = [] then fail (NetMsg ''no route to delete'')
     else for_io (\<lambda>r. wrap_io (NetErr ''delete route'') (nl_RouteDel N (ns_handle ns) r)) routes)"

section \<open>Protocols, scopes and neighbour states\<close>

record json_strings =
  json_Marshal :: "string \<Rightarrow> string"
  json_Unmarshal :: "string \<Rightarrow> string option"

definition initLookupTable :: "('t \<Rightarrow> string) \<Rightarrow> 't list \<Rightarrow> (string, 't) go_map" where
  "initLookupTable str s = fold (\<lambda>x m. AList.update (str x) x m) s []"

definition unmarshalJSON :: "json_strings \<Rightarrow> string \<Rightarrow> (string, 't) go_map \<Rightarrow> 't option" where
  \<comment> \<open>\<open>None\<close> for both errors\<close>
  "unmarshalJSON J data table = (case json_Unmarshal J data of None \<Rightarrow> None | Some str \<Rightarrow> map_of table str)"

definition routeProtocols :: "(int \<Rightarrow> string) \<Rightarrow> (string, int) go_map" where
  \<comment> \<open>the argument is the library's \<open>RouteProtocol.String\<close>\<close>
  "routeProtocols str = initLookupTable str [RTPROT_STATIC, RTPROT_BOOT, RTPROT_DHCP, RTPROT_KERNEL]"

definition RouteProtocol_MarshalJSON :: "json_strings \<Rightarrow> (int \<Rightarrow> string) \<Rightarrow> int \<Rightarrow> string" where
  "RouteProtocol_MarshalJSON J str p = json_Marshal J (str p)"

definition RouteProtocol_UnmarshalJSON :: "json_strings \<Rightarrow> (int \<Rightarrow> string) \<Rightarrow> string \<Rightarrow> int option" where
  "RouteProtocol_UnmarshalJSON J str data = unmarshalJSON J data (routeProtocols str)"

definition routeScopes :: "(int \<Rightarrow> string) \<Rightarrow> (string, int) go_map" where
  \<comment> \<open>universe, site, link, host and nowhere\<close>
  "routeScopes str = initLookupTable str [0, 200, SCOPE_LINK, 254, 255]"

definition RouteScope_MarshalJSON :: "json_strings \<Rightarrow> (int \<Rightarrow> string) \<Rightarrow> int \<Rightarrow> string" where
  "RouteScope_MarshalJSON J str s = json_Marshal J (str s)"

definition RouteScope_UnmarshalJSON :: "json_strings \<Rightarrow> (int \<Rightarrow> string) \<Rightarrow> string \<Rightarrow> int option" where
  "RouteScope_UnmarshalJSON J str data = unmarshalJSON J data (routeScopes str)"

definition NEIGHBOR_STATE_PERMANENT :: "16 word" where
  "NEIGHBOR_STATE_PERMANENT = 0x80"

definition neighorStateMap :: "(16 word, string) go_map" where
  "neighorStateMap =
     [(0x00, ''none''), (0x01, ''incomplete''), (0x02, ''reachable''), (0x04, ''stale''), (0x08, ''delay''), (0x10, ''probe''),
      (0x20, ''failed''), (0x40, ''noarp''), (0x80, ''permanent'')]"

definition NeighborState_String :: "16 word \<Rightarrow> string" where
  "NeighborState_String s = (case map_of neighorStateMap s of None \<Rightarrow> ''unknown'' | Some str \<Rightarrow> str)"

definition neighborStates :: "(string, 16 word) go_map" where
  "neighborStates = initLookupTable NeighborState_String (map fst neighorStateMap)"

definition NeighborState_MarshalJSON :: "json_strings \<Rightarrow> 16 word \<Rightarrow> string" where
  "NeighborState_MarshalJSON J s = json_Marshal J (NeighborState_String s)"

definition NeighborState_UnmarshalJSON :: "json_strings \<Rightarrow> string \<Rightarrow> 16 word option" where
  "NeighborState_UnmarshalJSON J data = unmarshalJSON J data neighborStates"

section \<open>Rules\<close>

record Rule =
  rule_Src :: Prefix
  IifName :: string
  rule_Priority :: int
  rule_Table :: int

definition nl_rule_of :: "'w netlink \<Rightarrow> Rule \<Rightarrow> nl_rule" where
  "nl_rule_of N rule = (nl_NewRule N)\<lparr>nl_rule_Src := toIPNet (rule_Src rule), nl_IifName := IifName rule,
     nl_rule_Priority := rule_Priority rule, nl_rule_Table := rule_Table rule\<rparr>"

definition RuleAdd :: "'w netlink \<Rightarrow> namespace \<Rightarrow> Rule \<Rightarrow> ('w, net_error, unit) io" where
  "RuleAdd N ns rule = wrap_io (NetErr ''add rule'') (nl_RuleAdd N (ns_handle ns) (nl_rule_of N rule))"

definition RuleDel :: "'w netlink \<Rightarrow> namespace \<Rightarrow> Rule \<Rightarrow> ('w, net_error, unit) io" where
  "RuleDel N ns rule = wrap_io (NetErr ''delete rule'') (nl_RuleDel N (ns_handle ns) (nl_rule_of N rule))"

definition RuleList :: "'w netlink \<Rightarrow> namespace \<Rightarrow> Rule \<Rightarrow> ('w, net_error, Rule list) io" where
  "RuleList N ns rule =
     (let r0 = nl_NewRule N;
          r1 = (if IsValid (rule_Src rule) then r0\<lparr>nl_rule_Src := toIPNet (rule_Src rule)\<rparr> else r0);
          r2 = (if IifName rule \<noteq> [] then r1\<lparr>nl_IifName := IifName rule\<rparr> else r1);
          r3 = (if rule_Priority rule \<noteq> 0 then r2\<lparr>nl_rule_Priority := rule_Priority rule\<rparr> else r2);
          fmask = (if IsValid (rule_Src rule) then [RT_FILTER_SRC] else []) @ (if IifName rule \<noteq> [] then [RT_FILTER_IIF] else []) @
                 (if rule_Priority rule \<noteq> 0 then [RT_FILTER_PRIORITY] else [])
      in bind_io (wrap_io (NetErr ''get rules'') (query (nl_RuleListFiltered N (ns_handle ns) r3 fmask))) (\<lambda>rs.
         ret (map (\<lambda>r. \<lparr>rule_Src = toPrefix (nl_rule_Src r), IifName = nl_IifName r, rule_Priority = nl_rule_Priority r,
                        rule_Table = nl_rule_Table r\<rparr>) rs)))"

section \<open>Neighbours\<close>

record Neighbor =
  neigh_IP :: Addr
  neigh_HardwareAddr :: string
  neigh_Dev :: string
  neigh_State :: "16 word"

definition NeighborAdd :: "'w netlink \<Rightarrow> namespace \<Rightarrow> Neighbor \<Rightarrow> ('w, net_error, unit) io" where
  "NeighborAdd N ns n =
     (if \<not> IsValid_addr (neigh_IP n) then fail (NetMsg ''invalid IP address'')
      else if neigh_Dev n = [] then fail (NetMsg ''no device name'')
      else
        bind_io (device_index N ns (neigh_Dev n)) (\<lambda>index.
        case ParseMAC (neigh_HardwareAddr n) of
          None \<Rightarrow> fail (NetMsg ''invalid hardware address'')
        | Some hwAddr \<Rightarrow>
            if NeighborState_String (neigh_State n) = ''none'' \<or> NeighborState_String (neigh_State n) = ''unknown''
            then fail (NetMsg ''invalid neighbor state'')
            else wrap_io (NetErr ''add neighbor'')
                   (nl_NeighAdd N (ns_handle ns)
                      \<lparr>nl_neigh_IP = toIP (neigh_IP n), nl_neigh_LinkIndex = index, nl_neigh_HardwareAddr = hwAddr,
                       nl_State = neigh_State n\<rparr>)))"

definition to_neighbor :: "'w netlink \<Rightarrow> namespace \<Rightarrow> nl_neigh \<Rightarrow> ('w, net_error, Neighbor) io" where
  "to_neighbor N ns n =
     bind_io (wrap_io (NetErr ''get link'') (query (nl_LinkByIndex N (ns_handle ns) (nl_neigh_LinkIndex n)))) (\<lambda>l.
     if NeighborState_String (nl_State n) = ''unknown'' then fail (NetMsg ''unknown neighbor state'')
     else ret \<lparr>neigh_IP = toAddr (nl_neigh_IP n), neigh_HardwareAddr = HardwareAddr_String (nl_neigh_HardwareAddr n),
               neigh_Dev = nl_Name l, neigh_State = nl_State n\<rparr>)"

definition NeighborList :: "'w netlink \<Rightarrow> namespace \<Rightarrow> Neighbor list \<Rightarrow> ('w, net_error, Neighbor list) io" where
  "NeighborList N ns filters =
     bind_io (map_io (\<lambda>f.
       if NeighborState_String (neigh_State f) = ''unknown'' then fail (NetMsg ''unknown neighbor state'')
       else
         bind_io (if neigh_Dev f \<noteq> [] then device_index N ns (neigh_Dev f) else ret 0) (\<lambda>index.
         bind_io (wrap_io (NetErr ''list neighbors'') (query (nl_NeighListExecute N (ns_handle ns) (neigh_State f) index)))
           (map_io (to_neighbor N ns)))) filters) (\<lambda>ns. ret (concat ns))"

section \<open>Redirection\<close>

definition RedirectAdd :: "'w netlink \<Rightarrow> namespace \<Rightarrow> string \<Rightarrow> string \<Rightarrow> ('w, net_error, unit) io" where
  "RedirectAdd N ns src dst =
     bind_io (device_index N ns src) (\<lambda>srcIndex.
     bind_io (device_index N ns dst) (\<lambda>dstIndex.
     then_io (wrap_io (NetErr ''add qdisc'') (nl_QdiscAdd N (ns_handle ns) (NlIngress srcIndex)))
       (wrap_io (NetErr ''add filter'') (nl_FilterAdd N (ns_handle ns) (NlU32 srcIndex (Some dstIndex))))))"

definition RedirectDel :: "'w netlink \<Rightarrow> namespace \<Rightarrow> string \<Rightarrow> ('w, net_error, unit) io" where
  "RedirectDel N ns src =
     bind_io (wrap_io (NetErr ''get interface'') (query (nl_LinkByName N (ns_handle ns) src))) (\<lambda>srcLink.
     bind_io (wrap_io (NetErr ''list filters'') (query (nl_FilterList N (ns_handle ns) srcLink))) (\<lambda>filters.
     then_io (for_io (\<lambda>f. case f of NlU32 _ _ \<Rightarrow> wrap_io (NetErr ''delete filter'') (nl_FilterDel N (ns_handle ns) f)
                             | NlFilter _ _ \<Rightarrow> ret ()) filters)
       (bind_io (wrap_io (NetErr ''list qdiscs'') (query (nl_QdiscList N (ns_handle ns) srcLink))) (\<lambda>qdiscs.
        for_io (\<lambda>q. case q of NlIngress _ \<Rightarrow> wrap_io (NetErr ''delete qdisc'') (nl_QdiscDel N (ns_handle ns) q)
                       | NlQdisc _ _ \<Rightarrow> ret ()) qdiscs))))"

section \<open>Round trips\<close>

lemma hex_val_digit: "n < 16 \<Longrightarrow> hex_val (''0123456789abcdef'' ! n) = Some n"
  by (auto simp: less_Suc_eq numeral_nat hex_val_def)

lemma hex_bytes_byte_hex: "hex_bytes (byte_hex b @ s) = map_option (\<lambda>bs. b # bs) (hex_bytes s)"
proof -
  have "unat b < 256" using unsigned_less[of b] by simp
  then show ?thesis by (cases "hex_bytes s") (simp_all add: byte_hex_def hex_val_digit)
qed

lemma hex_bytes_concat: "hex_bytes (concat (map byte_hex a)) = Some a"
  by (induction a) (simp_all add: hex_bytes_byte_hex)

lemma hex_digit_no_colon: "n < 16 \<Longrightarrow> ''0123456789abcdef'' ! n \<noteq> CHR '':''"
  by (auto simp: less_Suc_eq numeral_nat)

lemma byte_hex_no_colon: "CHR '':'' \<notin> set (byte_hex b)"
proof -
  have "unat b < 256" using unsigned_less[of b] by simp
  then have "unat b div 16 < 16" by (simp add: less_mult_imp_div_less)
  then show ?thesis
    using hex_digit_no_colon[of "unat b div 16"] hex_digit_no_colon[of "unat b mod 16"]
    by (auto simp: byte_hex_def simp del: nth_Cons_numeral)
qed

lemma ParseMAC_String:
  assumes "length a = 6 \<or> length a = 8 \<or> length a = 20"
  shows "ParseMAC (HardwareAddr_String a) = Some a"
proof -
  obtain b a' where a: "a = b # a'" and ne: "a' \<noteq> []" using assms by (cases a; cases "tl a") auto
  let ?s = "HardwareAddr_String a"
  have split: "Split ?s (CHR '':'') = map byte_hex a"
    unfolding HardwareAddr_String_def by (rule Split_Join) (auto simp: a byte_hex_no_colon)
  have len: "length (Join (map byte_hex xs) '':'') + 1 = 3 * length xs" if "xs \<noteq> []" for xs
    using that by (induction xs rule: induct_list012) (auto simp: Join_Cons byte_hex_def)
  have "length ?s + 1 = 3 * length a" using len[of a] a by (simp add: HardwareAddr_String_def)
  then have 14: "\<not> length ?s < 14" using assms by auto
  have col: "?s ! 2 = CHR '':''" using ne by (simp add: HardwareAddr_String_def a Join_Cons byte_hex_def)
  show ?thesis using assms 14 col by (simp add: ParseMAC_def mac_groups_def split hex_bytes_concat list_all_iff byte_hex_def Let_def)
qed

lemma GetDevice_getLink:
  assumes "nl_Kind (nlLink l) = getLink (VXLAN g vni port)" and "WithoutZone g = g"
  shows "GetDevice l = Inr (VXLAN g vni port)"
  using assms by (simp add: GetDevice_def toAddr_toIP)

lemma initLookupTable_snoc: "initLookupTable str (xs @ [x]) = AList.update (str x) x (initLookupTable str xs)"
  by (simp add: initLookupTable_def)

lemma initLookupTable_lookup:
  "inj_on str (set xs) \<Longrightarrow> x \<in> set xs \<Longrightarrow> map_of (initLookupTable str xs) (str x) = Some x"
  by (induction xs rule: rev_induct) (auto simp: initLookupTable_snoc inj_on_def)

definition json_ok :: "json_strings \<Rightarrow> bool" where
  \<comment> \<open>decoding an encoded string gives the string\<close>
  "json_ok J = (\<forall>s. json_Unmarshal J (json_Marshal J s) = Some s)"

lemma NeighborState_json:
  assumes "json_ok J" and "s \<in> set (map fst neighorStateMap)"
  shows "NeighborState_UnmarshalJSON J (NeighborState_MarshalJSON J s) = Some s"
proof -
  have inj: "inj_on NeighborState_String (set (map fst neighorStateMap))"
    by (simp add: inj_on_def NeighborState_String_def neighorStateMap_def)
  show ?thesis
    using initLookupTable_lookup[OF inj assms(2)] assms(1)
    by (simp add: NeighborState_UnmarshalJSON_def NeighborState_MarshalJSON_def unmarshalJSON_def json_ok_def neighborStates_def)
qed

lemma RouteProtocol_json:
  assumes "json_ok J" and "inj_on str {RTPROT_STATIC, RTPROT_BOOT, RTPROT_DHCP, RTPROT_KERNEL}"
    and "p \<in> {RTPROT_STATIC, RTPROT_BOOT, RTPROT_DHCP, RTPROT_KERNEL}"
  shows "RouteProtocol_UnmarshalJSON J str (RouteProtocol_MarshalJSON J str p) = Some p"
  using initLookupTable_lookup[of str "[RTPROT_STATIC, RTPROT_BOOT, RTPROT_DHCP, RTPROT_KERNEL]" p] assms
  by (simp add: RouteProtocol_UnmarshalJSON_def RouteProtocol_MarshalJSON_def unmarshalJSON_def json_ok_def routeProtocols_def)

section \<open>Listing operations only read\<close>

lemma reads_LinkFind [reads_intros]: "reads (LinkFind N ns name)"
  unfolding LinkFind_def by (intro reads_intros) (auto split: option.splits intro: reads_intros)

lemma reads_LinkList [reads_intros]: "reads (LinkList N ns)"
  unfolding LinkList_def by (intro reads_intros)

lemma reads_GetAddr [reads_intros]: "reads (GetAddr N l)"
  unfolding GetAddr_def by (intro reads_intros)

lemma reads_device_index [reads_intros]: "reads (device_index N ns d)"
  unfolding device_index_def by (intro reads_intros)

lemma reads_RouteList [reads_intros]: "reads (RouteList N ns fs)"
proof -
  have "reads (to_route N ns r)" for r
    unfolding to_route_def by (intro reads_intros) (auto intro!: reads_intros)
  moreover have "reads (routeListFiltered N ns f)" for f
    unfolding routeListFiltered_def by (intro reads_intros) (auto intro!: reads_intros split: prod.splits)
  ultimately show ?thesis unfolding RouteList_def by (intro reads_intros)
qed

section \<open>A namespace that cannot be entered\<close>

definition no_netlink :: "'w netlink" where
  \<comment> \<open>a kernel in which every operation fails\<close>
  "no_netlink =
     (let e = NlError ''not permitted'' in
      \<lparr>netns_GetFromPath = \<lambda>_. fail e, netns_Get = fail e, netns_Set = \<lambda>_. fail e, netns_NewNamed = \<lambda>_. fail e,
       netns_DeleteNamed = \<lambda>_. fail e, netns_Close = \<lambda>_. fail e, NewHandleAt = \<lambda>_. fail e, nl_Close = \<lambda>_ w. w, nl_thread = \<lambda>_. (1, 1),
       nl_LinkList = \<lambda>_ _. Inl e, nl_LinkByName = \<lambda>_ _ _. Inl e, nl_LinkByIndex = \<lambda>_ _ _. Inl e, nl_LinkAdd = \<lambda>_ _. fail e,
       nl_LinkDel = \<lambda>_ _. fail e, nl_LinkSetMTU = \<lambda>_ _ _. fail e, nl_LinkSetHardwareAddr = \<lambda>_ _ _. fail e,
       nl_LinkSetMaster = \<lambda>_ _ _. fail e, nl_LinkSetNsFd = \<lambda>_ _ _. fail e, nl_LinkSetName = \<lambda>_ _ _. fail e, nl_LinkSetUp = \<lambda>_ _. fail e,
       nl_AddrList = \<lambda>_ _ _. Inl e, nl_AddrAdd = \<lambda>_ _ _. fail e, nl_RouteListFiltered = \<lambda>_ _ _ _. Inl e, nl_RouteAdd = \<lambda>_ _. fail e,
       nl_RouteDel = \<lambda>_ _. fail e,
       nl_NewRule = \<lparr>nl_rule_Src = None, nl_IifName = [], nl_rule_Priority = - 1, nl_rule_Table = 0\<rparr>, nl_RuleAdd = \<lambda>_ _. fail e,
       nl_RuleDel = \<lambda>_ _. fail e, nl_RuleListFiltered = \<lambda>_ _ _ _. Inl e, nl_NeighAdd = \<lambda>_ _. fail e, nl_NeighListExecute = \<lambda>_ _ _ _. Inl e,
       nl_QdiscAdd = \<lambda>_ _. fail e, nl_QdiscDel = \<lambda>_ _. fail e, nl_QdiscList = \<lambda>_ _ _. Inl e, nl_FilterAdd = \<lambda>_ _. fail e,
       nl_FilterDel = \<lambda>_ _. fail e, nl_FilterList = \<lambda>_ _ _. Inl e\<rparr>)"

definition closed_netlink :: "nat netlink" where
  \<comment> \<open>namespaces can be opened and closed but not entered; the world is the current namespace\<close>
  "closed_netlink = no_netlink\<lparr>netns_GetFromPath := \<lambda>_. ret 7, NewHandleAt := \<lambda>fd. ret fd, netns_Get := (\<lambda>w. (Inr w, w)),
     netns_Close := \<lambda>_. ret ()\<rparr>"

text \<open>\<open>RunAsNsPath\<close> reports success when the function could not be run at all.  Its deferred function assigns the result of closing
the namespace to the named result, so the error of \<open>Run\<close>, for instance that the namespace could not be entered, is lost
as soon as the namespace can be closed; the function's effects are then missing although \<open>nil\<close> is returned.\<close>

lemma run_as_ns_path_drops_error:
  assumes "OpenNamespace N nsPath w = (Inr ns, w1)" and "netns_Get N w1 = (Inr old, w2)" and "old \<noteq> nsHandle ns"
    and "netns_Set N (nsHandle ns) w2 = (Inl e, w3)" and "netns_Close N old w3 = (Inr (), w4)" and "Close N ns w4 = (Inr (), w5)"
  shows "Run N ns fn w1 = (Inl (NetErr ''set network namespace'' e), w4) \<and> RunAsNsPath N nsPath fn w = (Inr (), w5)"
proof -
  have "Run N ns fn w1 = (Inl (NetErr ''set network namespace'' e), w4)"
    using assms by (simp add: Run_def bind_io_def then_io_def wrap_io_def finally_io_def map_error_def)
  then show ?thesis using assms by (simp add: RunAsNsPath_def bind_io_def)
qed

lemma run_as_ns_path_drops_error_witness:
  "fst (Run closed_netlink \<lparr>ns_handle = 7, ns_path = ''/run/netns/pod'', nsHandle = 7\<rparr> (\<lambda>w. (Inr (), w + 100)) 1) \<noteq> Inr () \<and>
   RunAsNsPath closed_netlink ''/run/netns/pod'' (\<lambda>w. (Inr (), w + 100)) 1 = (Inr (), 1)"
proof -
  let ?ns = "\<lparr>ns_handle = 7, ns_path = ''/run/netns/pod'', nsHandle = 7\<rparr>"
  have 1: "OpenNamespace closed_netlink ''/run/netns/pod'' 1 = (Inr ?ns, 1)"
    by (simp add: OpenNamespace_def closed_netlink_def bind_io_def wrap_io_def)
  have 2: "netns_Get closed_netlink 1 = (Inr 1, 1)" "netns_Close closed_netlink 1 1 = (Inr (), 1)"
    by (simp_all add: closed_netlink_def)
  have 3: "netns_Set closed_netlink (nsHandle ?ns) 1 = (Inl (NlError ''not permitted''), 1)"
    by (simp add: closed_netlink_def no_netlink_def Let_def)
  have 4: "Close closed_netlink ?ns 1 = (Inr (), 1)"
    by (simp add: Close_def closed_netlink_def no_netlink_def Let_def wrap_io_def)
  show ?thesis
    using run_as_ns_path_drops_error[OF 1 2(1) _ 3 2(2) 4, of "\<lambda>w. (Inr (), w + 100)"] by simp
qed

end
