(* ===== verification/Tunneler.thy ===== *)
theory Tunneler
  imports NetOps
begin

text \<open>
  Pod network tunnels, \<open>src/src/cloud-api-adaptor/pkg/podnetwork/tunneler\<close>: the tunnel configuration, the driver registry
  (\<open>config.go\<close>, \<open>tunneler.go\<close>) and the VXLAN driver (\<open>vxlan/iptables.go\<close>, \<open>vxlan/workernode.go\<close>, \<open>vxlan/podnode.go\<close>).
  The iptables library is the record \<open>ipt_api\<close>; \<open>ipt_ok\<close> states what its successful calls do to the tables.
\<close>

section \<open>Configuration and drivers\<close>

record VXLANConfig =
  vxlan_Port :: int
  MinID :: int

record NetworkConfig =
  net_TunnelType :: string
  HostInterface :: string
  net_VXLAN :: VXLANConfig
  net_ExternalNetViaPodVM :: bool
  PodSubnetCIDRs :: "string list"

definition SubnetCIDRs_String :: "string list \<Rightarrow> string" where
  "SubnetCIDRs_String i = Join i '', ''"

definition SubnetCIDRs_Set :: "string \<Rightarrow> string list \<Rightarrow> string list" where
  "SubnetCIDRs_Set v i = i @ map TrimSpace (Split v (CHR '',''))"

record tun_Route =
  Dst :: Prefix
  GW :: Addr
  Dev :: string
  tr_Protocol :: int
  tr_Scope :: int

record tun_Neighbor =
  tn_IP :: Addr
  tn_HardwareAddr :: string
  tn_Dev :: string
  tn_State :: "16 word"

record Config =
  PodIP :: Prefix
  PodHwAddr :: string
  InterfaceName :: string
  WorkerNodeIP :: Prefix
  TunnelType :: string
  Routes :: "tun_Route list"
  Neighbors :: "tun_Neighbor list"
  MTU :: int
  Index :: int
  VXLANPort :: int
  VXLANID :: int
  Dedicated :: bool
  ExternalNetViaPodVM :: bool

record 'w Tunneler =
  tun_Setup :: "string \<Rightarrow> Addr list \<Rightarrow> Config \<Rightarrow> ('w, net_error, unit) io"
  tun_Teardown :: "string \<Rightarrow> string \<Rightarrow> Config \<Rightarrow> ('w, net_error, unit) io"
  tun_Configure :: "(NetworkConfig \<Rightarrow> Config \<Rightarrow> net_error + Config) option"
    \<comment> \<open>\<open>None\<close> for a driver that is no \<open>TunnelerConfigurator\<close>\<close>

record 'w driver =
  newWorkerNodeTunneler :: "net_error + 'w Tunneler"
  newPodNodeTunneler :: "net_error + 'w Tunneler"

type_synonym 'w drivers = "(string, 'w driver) go_map"

definition Register :: "string \<Rightarrow> net_error + 'w Tunneler \<Rightarrow> net_error + 'w Tunneler \<Rightarrow> 'w drivers \<Rightarrow> 'w drivers" where
  "Register tunnelType wn pn ds = AList.update tunnelType \<lparr>newWorkerNodeTunneler = wn, newPodNodeTunneler = pn\<rparr> ds"

definition getDriver :: "'w drivers \<Rightarrow> string \<Rightarrow> net_error + 'w driver" where
  "getDriver ds tunnelType =
     (case map_of ds tunnelType of None \<Rightarrow> Inl (NetMsg ''unknown tunnel type'') | Some d \<Rightarrow> Inr d)"

definition WorkerNodeTunneler :: "'w drivers \<Rightarrow> string \<Rightarrow> net_error + 'w Tunneler" where
  "WorkerNodeTunneler ds tunnelType = bind_result (getDriver ds tunnelType) newWorkerNodeTunneler"

definition PodNodeTunneler :: "'w drivers \<Rightarrow> string \<Rightarrow> net_error + 'w Tunneler" where
  "PodNodeTunneler ds tunnelType = bind_result (getDriver ds tunnelType) newPodNodeTunneler"

section \<open>Packet filter rules of a tunnel\<close>

definition iptablesOutputChainName :: string where "iptablesOutputChainName = ''peerpod-OUTPUT''"
definition iptablesPreRoutingChainName :: string where "iptablesPreRoutingChainName = ''peerpod-PREROUTING''"

record iptablesRule =
  table :: string
  base :: string
  chain :: string
  spec :: "string list"

definition iptablesRules :: "string \<Rightarrow> string \<Rightarrow> string \<Rightarrow> iptablesRule list" where
  "iptablesRules addr port vni =
     (let comment = ''peerpod [vni:'' @ vni @ '']''
      in [\<lparr>table = ''raw'', base = ''OUTPUT'', chain = iptablesOutputChainName,
           spec = [''-m'', ''comment'', ''--comment'', comment, ''-d'', addr, ''-p'', ''udp'', ''-m'', ''udp'', ''--dport'', port,
                   ''-j'', ''NOTRACK'']\<rparr>,
          \<lparr>table = ''raw'', base = ''PREROUTING'', chain = iptablesPreRoutingChainName,
           spec = [''-m'', ''comment'', ''--comment'', comment, ''-s'', addr, ''-p'', ''udp'', ''-m'', ''udp'', ''--dport'', port,
                   ''-j'', ''NOTRACK'']\<rparr>])"

record 'w ipt_api =
  ipt_New :: "('w, nl_error, unit) io"
  ChainExists :: "string \<Rightarrow> string \<Rightarrow> 'w \<Rightarrow> nl_error + bool"
  NewChain :: "string \<Rightarrow> string \<Rightarrow> ('w, nl_error, unit) io"
  AppendUnique :: "string \<Rightarrow> string \<Rightarrow> string list \<Rightarrow> ('w, nl_error, unit) io"
  ipt_Delete :: "string \<Rightarrow> string \<Rightarrow> string list \<Rightarrow> ('w, nl_error, unit) io"
  ipt_List :: "string \<Rightarrow> string \<Rightarrow> 'w \<Rightarrow> nl_error + string list"
  DeleteIfExists :: "string \<Rightarrow> string \<Rightarrow> string list \<Rightarrow> ('w, nl_error, unit) io"
  DeleteChain :: "string \<Rightarrow> string \<Rightarrow> ('w, nl_error, unit) io"

definition setup_rule :: "'w ipt_api \<Rightarrow> iptablesRule \<Rightarrow> ('w, net_error, unit) io" where
  "setup_rule I r =
     bind_io (wrap_io (NetErr ''check chain'') (query (ChainExists I (table r) (chain r)))) (\<lambda>ex.
     then_io
       (if \<not> ex
        then then_io (wrap_io (NetErr ''create chain'') (NewChain I (table r) (chain r)))
               (wrap_io (NetErr ''add jump'') (AppendUnique I (table r) (base r) [''-j'', chain r]))
        else ret ())
       (wrap_io (NetErr ''add rule'') (AppendUnique I (table r) (chain r) (spec r))))"

definition teardown_rule :: "'w ipt_api \<Rightarrow> iptablesRule \<Rightarrow> ('w, net_error, unit) io" where
  "teardown_rule I r =
     then_io (wrap_io (NetErr ''delete rule'') (ipt_Delete I (table r) (chain r) (spec r)))
       (bind_io (wrap_io (NetErr ''list rules'') (query (ipt_List I (table r) (chain r)))) (\<lambda>l.
        if 1 < length l then ret ()
        else then_io (wrap_io (NetErr ''delete jump'') (DeleteIfExists I (table r) (base r) [''-j'', chain r]))
               (wrap_io (NetErr ''delete chain'') (DeleteChain I (table r) (chain r)))))"

definition iptables_run :: "'w ipt_api \<Rightarrow> (iptablesRule \<Rightarrow> ('w, net_error, unit) io) \<Rightarrow> ip6_text \<Rightarrow> Addr \<Rightarrow> int \<Rightarrow> int \<Rightarrow> ('w, net_error, unit) io" where
  \<comment> \<open>the function that is run in the namespace\<close>
  "iptables_run I f t dstAddr dstPort vxlanID =
     then_io (wrap_io (NetErr ''initialize iptables'') (ipt_New I))
       (for_io f (iptablesRules (AddrString t dstAddr) (FormatInt10 dstPort) (FormatInt10 vxlanID)))"

definition iptablesSetup :: "'w netlink \<Rightarrow> 'w ipt_api \<Rightarrow> ip6_text \<Rightarrow> namespace \<Rightarrow> Addr \<Rightarrow> int \<Rightarrow> int \<Rightarrow> ('w, net_error, unit) io" where
  "iptablesSetup N I t ns dstAddr dstPort vxlanID = Run N ns (iptables_run I (setup_rule I) t dstAddr dstPort vxlanID)"

definition iptablesTeardown :: "'w netlink \<Rightarrow> 'w ipt_api \<Rightarrow> ip6_text \<Rightarrow> namespace \<Rightarrow> Addr \<Rightarrow> int \<Rightarrow> int \<Rightarrow> ('w, net_error, unit) io" where
  "iptablesTeardown N I t ns dstAddr dstPort vxlanID = Run N ns (iptables_run I (teardown_rule I) t dstAddr dstPort vxlanID)"

section \<open>The worker node's end of a VXLAN tunnel\<close>

definition DefaultVXLANPort :: int where "DefaultVXLANPort = 4789"
definition DefaultVXLANMinID :: int where "DefaultVXLANMinID = 555000"
definition hostVxlanInterfacePrefix :: string where "hostVxlanInterfacePrefix = ''ppvxlan''"
definition secondPodInterface :: string where "secondPodInterface = ''vxlan1''"

definition vxlan_Configure :: "NetworkConfig \<Rightarrow> Config \<Rightarrow> net_error + Config" where
  "vxlan_Configure n config =
     Inr (config\<lparr>VXLANPort := vxlan_Port (net_VXLAN n), VXLANID := MinID (net_VXLAN n) + Index config\<rparr>)"

function add_vxlan :: "'w netlink \<Rightarrow> namespace \<Rightarrow> link list \<Rightarrow> Device \<Rightarrow> nat \<Rightarrow> ('w, net_error, string \<times> link) io" where
  "add_vxlan N hostNS links device index =
     (let hostVxlanInterface = hostVxlanInterfacePrefix @ digits_of index;
          again = (if 5 < index + 1 then fail (NetMsg ''too many'') else add_vxlan N hostNS links device (index + 1))
      in if list_ex (\<lambda>l. Name l = hostVxlanInterface) links then again
         else (\<lambda>w. case LinkAdd N hostNS hostVxlanInterface device w of
                     (Inr l, w') \<Rightarrow> (Inr (hostVxlanInterface, l), w')
                   | (Inl e, w') \<Rightarrow> if is_exist e then again w' else (Inl e, w')))"
  by pat_completeness auto
termination by (relation "measure (\<lambda>(N, hostNS, links, device, index). 6 - index)") auto

declare add_vxlan.simps [simp del]

definition worker_Setup :: "'w netlink \<Rightarrow> 'w ipt_api \<Rightarrow> ip6_text \<Rightarrow> string \<Rightarrow> Addr list \<Rightarrow> Config \<Rightarrow> ('w, net_error, unit) io" where
  "worker_Setup N I t nsPath podNodeIPs config =
     (if podNodeIPs = [] then fail (NetMsg ''pod node has no IPs'')
      else if Dedicated config \<and> length podNodeIPs < 2 then fail (NetMsg ''dedicated tunnel missing destination address'')
      else
        (let dstAddr = (if Dedicated config then podNodeIPs ! 1 else podNodeIPs ! 0);
             podInterface = InterfaceName config
         in
          bind_io (OpenCurrentNamespace N) (\<lambda>hostNS. defer_io (Close N hostNS) (
          bind_io (OpenNamespace N nsPath) (\<lambda>podNS. defer_io (Close N podNS) (
          then_io (iptablesSetup N I t hostNS dstAddr (VXLANPort config) (VXLANID config)) (
          bind_io (LinkList N hostNS) (\<lambda>links.
          bind_io (add_vxlan N hostNS links (VXLAN dstAddr (VXLANID config) (VXLANPort config)) 1) (\<lambda>(hostVxlanInterface, hostVxlanLink).
          bind_io (SetNamespace N hostVxlanLink podNS) (\<lambda>_.
          bind_io (LinkFind N podNS hostVxlanInterface) (\<lambda>podVxlanInterface.
          then_io (SetName N podVxlanInterface secondPodInterface) (
          then_io (SetUp N podVxlanInterface) (
          then_io (RedirectAdd N podNS podInterface secondPodInterface)
            (RedirectAdd N podNS secondPodInterface podInterface))))))))))))))"

definition worker_Teardown :: "'w netlink \<Rightarrow> 'w ipt_api \<Rightarrow> ip6_text \<Rightarrow> string \<Rightarrow> string \<Rightarrow> Config \<Rightarrow> ('w, net_error, unit) io" where
  "worker_Teardown N I t nsPath hostInterface config =
     bind_io (OpenCurrentNamespace N) (\<lambda>hostNS. defer_io (Close N hostNS) (
     bind_io (OpenNamespace N nsPath) (\<lambda>podNS. defer_io (Close N podNS) (
     then_io (RedirectDel N podNS (InterfaceName config)) (
     then_io (RedirectDel N podNS secondPodInterface) (
     bind_io (LinkFind N podNS secondPodInterface) (\<lambda>podVxlanInterface.
     bind_io (query (\<lambda>_. GetDevice podVxlanInterface)) (\<lambda>device.
     case device of
       VXLAN dstAddr vxlanID dstPort \<Rightarrow>
         then_io (Delete_link N podVxlanInterface) (iptablesTeardown N I t hostNS dstAddr dstPort vxlanID)
     | _ \<Rightarrow> fail (NetMsg ''not a VXLAN interface'')))))))))"

definition NewWorkerNodeTunneler :: "'w netlink \<Rightarrow> 'w ipt_api \<Rightarrow> ip6_text \<Rightarrow> net_error + 'w Tunneler" where
  "NewWorkerNodeTunneler N I t =
     Inr \<lparr>tun_Setup = worker_Setup N I t, tun_Teardown = worker_Teardown N I t, tun_Configure = Some vxlan_Configure\<rparr>"

section \<open>The pod node's end of a VXLAN tunnel\<close>

definition hostVxlanInterface :: string where "hostVxlanInterface = ''vxlan0''"
definition maxMTU :: int where "maxMTU = 1450"

definition pod_Setup :: "'w netlink \<Rightarrow> 'w ipt_api \<Rightarrow> ip6_text \<Rightarrow> string \<Rightarrow> Addr list \<Rightarrow> Config \<Rightarrow> ('w, net_error, unit) io" where
  "pod_Setup N I t nsPath podNodeIPs config =
     (if InterfaceName config = [] then fail (NetMsg ''InterfaceName is not specified'')
      else if \<not> IsValid (WorkerNodeIP config) then fail (NetMsg ''WorkerNodeIP is not specified'')
      else if \<not> IsValid (PodIP config) then fail (NetMsg ''PodIP is not specified'')
      else
        (let nodeAddr = prefix_ip (WorkerNodeIP config);
             mtu = (if maxMTU < MTU config then maxMTU else MTU config)
         in
          bind_io (OpenCurrentNamespace N) (\<lambda>hostNS. defer_io (Close N hostNS) (
          bind_io (OpenNamespace N nsPath) (\<lambda>podNS. defer_io (Close N podNS) (
          then_io (iptablesSetup N I t hostNS nodeAddr (VXLANPort config) (VXLANID config)) (
          bind_io (LinkAdd N hostNS hostVxlanInterface (VXLAN nodeAddr (VXLANID config) (VXLANPort config))) (\<lambda>vxlan0.
          bind_io (SetNamespace N vxlan0 podNS) (\<lambda>vxlan.
          then_io (SetName N vxlan (InterfaceName config)) (
          then_io (SetHardwareAddr N vxlan (PodHwAddr config)) (
          then_io (SetMTU N vxlan mtu) (
          then_io (AddAddr N vxlan (PodIP config))
            (SetUp N vxlan)))))))))))))"

definition pod_Teardown :: "'w netlink \<Rightarrow> 'w ipt_api \<Rightarrow> ip6_text \<Rightarrow> string \<Rightarrow> string \<Rightarrow> Config \<Rightarrow> ('w, net_error, unit) io" where
  "pod_Teardown N I t nsPath hostInterface config =
     bind_io (OpenCurrentNamespace N) (\<lambda>hostNS. defer_io (Close N hostNS) (
     bind_io (OpenNamespace N nsPath) (\<lambda>podNS. defer_io (Close N podNS) (
     bind_io (LinkFind N podNS (InterfaceName config)) (\<lambda>vxlan.
     bind_io (query (\<lambda>_. GetDevice vxlan)) (\<lambda>device.
     case device of
       VXLAN dstAddr vxlanID dstPort \<Rightarrow>
         then_io (Delete_link N vxlan) (iptablesTeardown N I t hostNS dstAddr dstPort vxlanID)
     | _ \<Rightarrow> fail (NetMsg ''not a VXLAN interface'')))))))"

definition NewPodNodeTunneler :: "'w netlink \<Rightarrow> 'w ipt_api \<Rightarrow> ip6_text \<Rightarrow> net_error + 'w Tunneler" where
  "NewPodNodeTunneler N I t =
     Inr \<lparr>tun_Setup = pod_Setup N I t, tun_Teardown = pod_Teardown N I t, tun_Configure = None\<rparr>"

section \<open>Filter rules are removed as they were added\<close>

type_synonym ipt_tables = "string \<times> string \<Rightarrow> string list list option"

definition ipt_ok :: "'w ipt_api \<Rightarrow> ('w \<Rightarrow> ipt_tables) \<Rightarrow> bool" where
  \<comment> \<open>what successful calls of the library do; a listing starts with the line that declares the chain\<close>
  "ipt_ok I tab \<longleftrightarrow>
     (\<forall>w w'. ipt_New I w = (Inr (), w') \<longrightarrow> tab w' = tab w) \<and>
     (\<forall>t c w b. ChainExists I t c w = Inr b \<longrightarrow> b = (tab w (t, c) \<noteq> None)) \<and>
     (\<forall>t c w w'. NewChain I t c w = (Inr (), w') \<longrightarrow> tab w' = (tab w)((t, c) \<mapsto> [])) \<and>
     (\<forall>t c s w w'. AppendUnique I t c s w = (Inr (), w') \<longrightarrow>
        (\<exists>rs. tab w (t, c) = Some rs \<and> tab w' = (tab w)((t, c) \<mapsto> (if s \<in> set rs then rs else rs @ [s])))) \<and>
     (\<forall>t c s w w'. ipt_Delete I t c s w = (Inr (), w') \<longrightarrow>
        (\<exists>rs. tab w (t, c) = Some rs \<and> s \<in> set rs \<and> tab w' = (tab w)((t, c) \<mapsto> remove1 s rs))) \<and>
     (\<forall>t c w l. ipt_List I t c w = Inr l \<longrightarrow> (\<exists>rs. tab w (t, c) = Some rs \<and> length l = Suc (length rs))) \<and>
     (\<forall>t c s w w'. DeleteIfExists I t c s w = (Inr (), w') \<longrightarrow> tab w' = (tab w)((t, c) := map_option (remove1 s) (tab w (t, c)))) \<and>
     (\<forall>t c w w'. DeleteChain I t c w = (Inr (), w') \<longrightarrow> tab w (t, c) = Some [] \<and> tab w' = (tab w)((t, c) := None))"

lemma ipt_okD:
  assumes "ipt_ok I tab"
  shows "ipt_New I w = (Inr (), w') \<Longrightarrow> tab w' = tab w"
    and "ChainExists I t c w = Inr b \<Longrightarrow> b = (tab w (t, c) \<noteq> None)"
    and "NewChain I t c w = (Inr (), w') \<Longrightarrow> tab w' = (tab w)((t, c) \<mapsto> [])"
    and "AppendUnique I t c s w = (Inr (), w') \<Longrightarrow>
           \<exists>rs. tab w (t, c) = Some rs \<and> tab w' = (tab w)((t, c) \<mapsto> (if s \<in> set rs then rs else rs @ [s]))"
    and "ipt_Delete I t c s w = (Inr (), w') \<Longrightarrow>
           \<exists>rs. tab w (t, c) = Some rs \<and> s \<in> set rs \<and> tab w' = (tab w)((t, c) \<mapsto> remove1 s rs)"
    and "ipt_List I t c w = Inr l \<Longrightarrow> \<exists>rs. tab w (t, c) = Some rs \<and> length l = Suc (length rs)"
    and "DeleteIfExists I t c s w = (Inr (), w') \<Longrightarrow> tab w' = (tab w)((t, c) := map_option (remove1 s) (tab w (t, c)))"
    and "DeleteChain I t c w = (Inr (), w') \<Longrightarrow> tab w (t, c) = Some [] \<and> tab w' = (tab w)((t, c) := None)"
  using assms unfolding ipt_ok_def by presburger+

definition append_unique :: "string list \<Rightarrow> string list list \<Rightarrow> string list list" where
  "append_unique s rs = (if s \<in> set rs then rs else rs @ [s])"

definition rule_added :: "iptablesRule \<Rightarrow> ipt_tables \<Rightarrow> ipt_tables" where
  "rule_added r t =
     (case t (table r, chain r) of
        None \<Rightarrow> (t((table r, chain r) \<mapsto> [spec r]))((table r, base r) := map_option (append_unique [''-j'', chain r]) (t (table r, base r)))
      | Some rs \<Rightarrow> t((table r, chain r) \<mapsto> append_unique (spec r) rs))"

definition rule_removed :: "iptablesRule \<Rightarrow> ipt_tables \<Rightarrow> ipt_tables" where
  "rule_removed r t =
     (case map_option (remove1 (spec r)) (t (table r, chain r)) of
        Some (x # xs) \<Rightarrow> t((table r, chain r) \<mapsto> x # xs)
      | _ \<Rightarrow> (t((table r, chain r) := None))((table r, base r) := map_option (remove1 [''-j'', chain r]) (t (table r, base r))))"

lemma setup_rule_adds:
  assumes ok: "ipt_ok I tab" and "setup_rule I r w = (Inr (), w')" and bc: "base r \<noteq> chain r"
  shows "tab w' = rule_added r (tab w)"
proof -
  note D = ipt_okD[OF ok]
  obtain ex w1 where e: "ChainExists I (table r) (chain r) w = Inr ex"
    and 1: "(if \<not> ex then then_io (wrap_io (NetErr ''create chain'') (NewChain I (table r) (chain r)))
               (wrap_io (NetErr ''add jump'') (AppendUnique I (table r) (base r) [''-j'', chain r])) else ret ()) w = (Inr (), w1)"
    and 2: "AppendUnique I (table r) (chain r) (spec r) w1 = (Inr (), w')"
    using assms(2) by (auto simp: setup_rule_def io_iffs)
  show ?thesis
  proof (cases ex)
    case True
    have w1: "w1 = w" using 1 True by simp
    have "tab w (table r, chain r) \<noteq> None" using D(2)[OF e] True by simp
    then obtain rs where "tab w (table r, chain r) = Some rs" by blast
    with w1 D(4)[OF 2] obtain rs where "tab w (table r, chain r) = Some rs"
      and "tab w' = (tab w)((table r, chain r) \<mapsto> (if spec r \<in> set rs then rs else rs @ [spec r]))" by auto
    then show ?thesis by (simp add: rule_added_def append_unique_def)
  next
    case False
    then obtain w0 where n: "NewChain I (table r) (chain r) w = (Inr (), w0)"
      and a: "AppendUnique I (table r) (base r) [''-j'', chain r] w0 = (Inr (), w1)"
      using 1 by (auto simp: io_iffs)
    have none: "tab w (table r, chain r) = None" using D(2)[OF e] False by simp
    show ?thesis using none D(3)[OF n] D(4)[OF a] D(4)[OF 2] bc
      by (auto simp: rule_added_def append_unique_def fun_eq_iff)
  qed
qed

lemma teardown_rule_removes:
  assumes ok: "ipt_ok I tab" and "teardown_rule I r w = (Inr (), w')" and bc: "base r \<noteq> chain r"
  shows "tab w' = rule_removed r (tab w)"
proof -
  note D = ipt_okD[OF ok]
  obtain w1 l where d: "ipt_Delete I (table r) (chain r) (spec r) w = (Inr (), w1)"
    and l: "ipt_List I (table r) (chain r) w1 = Inr l"
    and 1: "(if 1 < length l then ret ()
        else then_io (wrap_io (NetErr ''delete jump'') (DeleteIfExists I (table r) (base r) [''-j'', chain r]))
               (wrap_io (NetErr ''delete chain'') (DeleteChain I (table r) (chain r)))) w1 = (Inr (), w')"
    using assms(2) by (auto simp: teardown_rule_def io_iffs)
  obtain rs where rs: "tab w (table r, chain r) = Some rs" and w1: "tab w1 = (tab w)((table r, chain r) \<mapsto> remove1 (spec r) rs)"
    using D(5)[OF d] by auto
  have len: "length l = Suc (length (remove1 (spec r) rs))" using D(6)[OF l] w1 by auto
  show ?thesis
  proof (cases "remove1 (spec r) rs")
    case Nil
    then obtain w2 where "DeleteIfExists I (table r) (base r) [''-j'', chain r] w1 = (Inr (), w2)"
      and "DeleteChain I (table r) (chain r) w2 = (Inr (), w')"
      using 1 len by (auto simp: io_iffs)
    from D(7)[OF this(1)] D(8)[OF this(2)] show ?thesis using Nil rs w1 bc by (auto simp: rule_removed_def fun_eq_iff)
  next
    case (Cons x xs)
    then show ?thesis using 1 len rs w1 by (auto simp: rule_removed_def)
  qed
qed

definition rule_absent :: "iptablesRule \<Rightarrow> ipt_tables \<Rightarrow> bool" where
  \<comment> \<open>the rule is not there, and its chain is either missing and not jumped to, or has other rules\<close>
  "rule_absent r t =
     (case t (table r, chain r) of
        None \<Rightarrow> (case t (table r, base r) of None \<Rightarrow> True | Some bs \<Rightarrow> [''-j'', chain r] \<notin> set bs)
      | Some rs \<Rightarrow> spec r \<notin> set rs \<and> rs \<noteq> [])"

lemma remove1_append_new: "x \<notin> set rs \<Longrightarrow> remove1 x (append_unique x rs) = rs"
  by (simp add: append_unique_def remove1_append remove1_idem)

lemma rule_removed_added:
  assumes "rule_absent r t" and "base r \<noteq> chain r"
  shows "rule_removed r (rule_added r t) = t"
proof (cases "t (table r, chain r)")
  case None
  then show ?thesis using assms
    by (auto simp: rule_removed_def rule_added_def rule_absent_def fun_eq_iff option.map_comp comp_def remove1_append_new
        split: option.splits)
next
  case (Some rs)
  then have "remove1 (spec r) (append_unique (spec r) rs) = rs" "rs \<noteq> []"
    using assms by (simp_all add: rule_absent_def remove1_append_new)
  then show ?thesis using Some by (auto simp: rule_removed_def rule_added_def fun_eq_iff split: list.splits)
qed

definition rule_places :: "iptablesRule \<Rightarrow> (string \<times> string) set" where
  "rule_places r = {(table r, chain r), (table r, base r)}"

lemma rule_added_other: "k \<notin> rule_places r \<Longrightarrow> rule_added r t k = t k"
  by (auto simp: rule_added_def rule_places_def split: option.splits)

lemma rule_removed_cong:
  "(\<And>k. k \<in> rule_places r \<Longrightarrow> t k = t' k) \<Longrightarrow> k \<in> rule_places r \<Longrightarrow> rule_removed r t k = rule_removed r t' k"
  by (auto simp: rule_removed_def rule_places_def split: option.splits list.splits)

lemma rule_added_cong:
  "(\<And>k. k \<in> rule_places r \<Longrightarrow> t k = t' k) \<Longrightarrow> k \<in> rule_places r \<Longrightarrow> rule_added r t k = rule_added r t' k"
  by (auto simp: rule_added_def rule_places_def split: option.splits list.splits)

lemma rule_removed_other: "k \<notin> rule_places r \<Longrightarrow> rule_removed r t k = t k"
  by (auto simp: rule_removed_def rule_places_def split: option.splits list.splits)

lemma two_rules_restored:
  assumes "rule_absent r t" "rule_absent r' t" "base r \<noteq> chain r" "base r' \<noteq> chain r'" and dis: "rule_places r \<inter> rule_places r' = {}"
  shows "rule_removed r' (rule_removed r (rule_added r' (rule_added r t))) = t"
proof
  fix k
  note undo = rule_removed_added[OF assms(1,3)] rule_removed_added[OF assms(2,4)]
  consider "k \<in> rule_places r \<and> k \<notin> rule_places r'" | "k \<notin> rule_places r \<and> k \<in> rule_places r'"
    | "k \<notin> rule_places r \<and> k \<notin> rule_places r'"
    using dis by blast
  then show "rule_removed r' (rule_removed r (rule_added r' (rule_added r t))) k = t k"
  proof cases
    case 1
    have "rule_removed r (rule_added r' (rule_added r t)) k = rule_removed r (rule_added r t) k"
    proof (rule rule_removed_cong)
      show "rule_added r' (rule_added r t) k' = rule_added r t k'" if "k' \<in> rule_places r" for k'
        using that dis by (intro rule_added_other) auto
    qed (use 1 in simp)
    then show ?thesis using 1 undo by (simp add: rule_removed_other)
  next
    case 2
    have "rule_removed r (rule_added r' (rule_added r t)) k' = rule_added r' t k'" if "k' \<in> rule_places r'" for k'
    proof -
      have "k' \<notin> rule_places r" using dis that by auto
      then show ?thesis using that dis by (auto simp: rule_removed_other intro!: rule_added_cong rule_added_other)
    qed
    then have "rule_removed r' (rule_removed r (rule_added r' (rule_added r t))) k = rule_removed r' (rule_added r' t) k"
      using 2 by (intro rule_removed_cong) auto
    then show ?thesis using undo by simp
  next
    case 3
    then show ?thesis by (simp add: rule_added_other rule_removed_other)
  qed
qed

lemma iptablesRules_two: "\<exists>r r'. iptablesRules a p i = [r, r']"
  by (simp add: iptablesRules_def Let_def)

lemma iptables_run_two:
  "iptables_run I f t dst port vni w = (Inr (), w') \<longleftrightarrow>
     (\<exists>w0 w1 r r'. iptablesRules (AddrString t dst) (FormatInt10 port) (FormatInt10 vni) = [r, r'] \<and>
        ipt_New I w = (Inr (), w0) \<and> f r w0 = (Inr (), w1) \<and> f r' w1 = (Inr (), w'))"
proof -
  obtain r r' where "iptablesRules (AddrString t dst) (FormatInt10 port) (FormatInt10 vni) = [r, r']"
    using iptablesRules_two by blast
  then show ?thesis by (auto simp: iptables_run_def io_iffs)
qed

lemma iptablesRules_apart:
  assumes "iptablesRules a p i = [r, r']"
  shows "base r \<noteq> chain r" "base r' \<noteq> chain r'" "rule_places r \<inter> rule_places r' = {}"
  using assms by (auto simp: iptablesRules_def Let_def iptablesOutputChainName_def iptablesPreRoutingChainName_def rule_places_def)

text \<open>C13: Setting up the packet filter rules of a tunnel and tearing them down again restores the tables: the rules of other tunnels
stay, and chains and jumps that the set-up created disappear again, provided the tunnel's rules were not there before and its
chains were either missing and not jumped to or held rules of other tunnels.\<close>

theorem iptables_setup_teardown:
  assumes ok: "ipt_ok I tab"
    and absent: "\<forall>r\<in>set (iptablesRules (AddrString t dstAddr) (FormatInt10 dstPort) (FormatInt10 vxlanID)). rule_absent r (tab w)"
    and up: "iptables_run I (setup_rule I) t dstAddr dstPort vxlanID w = (Inr (), w1)"
    and down: "iptables_run I (teardown_rule I) t dstAddr dstPort vxlanID w1 = (Inr (), w2)"
  shows "tab w2 = tab w"
proof -
  from up obtain a b r r' where rs: "iptablesRules (AddrString t dstAddr) (FormatInt10 dstPort) (FormatInt10 vxlanID) = [r, r']"
    and 1: "ipt_New I w = (Inr (), a)" "setup_rule I r a = (Inr (), b)" "setup_rule I r' b = (Inr (), w1)"
    unfolding iptables_run_two by blast
  from down rs obtain c d
    where 2: "ipt_New I w1 = (Inr (), c)" "teardown_rule I r c = (Inr (), d)" "teardown_rule I r' d = (Inr (), w2)"
    unfolding iptables_run_two by auto
  note apart = iptablesRules_apart[OF rs]
  have "tab w2 = rule_removed r' (rule_removed r (rule_added r' (rule_added r (tab w))))"
    using ipt_okD(1)[OF ok 1(1)] setup_rule_adds[OF ok 1(2) apart(1)] setup_rule_adds[OF ok 1(3) apart(2)]
      ipt_okD(1)[OF ok 2(1)] teardown_rule_removes[OF ok 2(2) apart(1)] teardown_rule_removes[OF ok 2(3) apart(2)] by simp
  then show ?thesis using two_rules_restored[OF _ _ apart] absent rs by simp
qed

definition mem_ipt :: "ipt_tables ipt_api" where
  "mem_ipt =
     \<lparr>ipt_New = ret (),
      ChainExists = \<lambda>t c w. Inr (w (t, c) \<noteq> None),
      NewChain = \<lambda>t c w. (case w (t, c) of None \<Rightarrow> (Inr (), w((t, c) \<mapsto> [])) | Some _ \<Rightarrow> (Inl EEXIST, w)),
      AppendUnique = \<lambda>t c s w. (case w (t, c) of None \<Rightarrow> (Inl (NlError ''no chain''), w) | Some rs \<Rightarrow> (Inr (), w((t, c) \<mapsto> append_unique s rs))),
      ipt_Delete = \<lambda>t c s w. (case w (t, c) of
          Some rs \<Rightarrow> if s \<in> set rs then (Inr (), w((t, c) \<mapsto> remove1 s rs)) else (Inl (NlError ''no rule''), w)
        | None \<Rightarrow> (Inl (NlError ''no chain''), w)),
      ipt_List = \<lambda>t c w. (case w (t, c) of None \<Rightarrow> Inl (NlError ''no chain'') | Some rs \<Rightarrow> Inr ((''-N '' @ c) # map (\<lambda>r. Join r '' '') rs)),
      DeleteIfExists = \<lambda>t c s w. (Inr (), w((t, c) := map_option (remove1 s) (w (t, c)))),
      DeleteChain = \<lambda>t c w. (if w (t, c) = Some [] then (Inr (), w((t, c) := None)) else (Inl (NlError ''chain in use''), w))\<rparr>"

lemma mem_ipt_ok: "ipt_ok mem_ipt (\<lambda>w. w)"
  by (auto simp: ipt_ok_def mem_ipt_def append_unique_def split: option.splits if_splits)

lemma mem_ipt_simps:
  "ipt_New mem_ipt w = (Inr (), w)"
  "base r \<noteq> chain r \<Longrightarrow> w (table r, base r) = Some bs \<Longrightarrow> setup_rule mem_ipt r w = (Inr (), rule_added r w)"
  "base r \<noteq> chain r \<Longrightarrow> w (table r, chain r) = Some rs \<Longrightarrow> spec r \<in> set rs \<Longrightarrow> teardown_rule mem_ipt r w = (Inr (), rule_removed r w)"
  by (auto simp: mem_ipt_def setup_rule_def teardown_rule_def then_io_def bind_io_def wrap_io_def rule_added_def rule_removed_def
      append_unique_def fun_eq_iff split: option.splits list.splits)

lemma rule_added_spec: "base r \<noteq> chain r \<Longrightarrow> \<exists>rs. rule_added r t (table r, chain r) = Some rs \<and> spec r \<in> set rs"
  by (auto simp: rule_added_def append_unique_def split: option.splits)

definition raw_tables :: ipt_tables where
  \<comment> \<open>the chains of another tunnel exist for outgoing packets only\<close>
  "raw_tables = [(''raw'', ''OUTPUT'') \<mapsto> [[''-j'', iptablesOutputChainName]], (''raw'', iptablesOutputChainName) \<mapsto> [[''-d'', ''10.1.1.1'']],
     (''raw'', ''PREROUTING'') \<mapsto> []]"

theorem iptables_setup_teardown_witness:
  "\<exists>w1. iptables_run mem_ipt (setup_rule mem_ipt) decimal_ip6 (Addr4 0x0A000001) 4789 555001 raw_tables = (Inr (), w1) \<and>
        iptables_run mem_ipt (teardown_rule mem_ipt) decimal_ip6 (Addr4 0x0A000001) 4789 555001 w1 = (Inr (), raw_tables)"
proof -
  let ?rs = "iptablesRules (AddrString decimal_ip6 (Addr4 0x0A000001)) (FormatInt10 4789) (FormatInt10 555001)"
  obtain r r' where rs: "?rs = [r, r']" using iptablesRules_two by blast
  note apart = iptablesRules_apart[OF rs]
  have places: "table r = ''raw''" "base r = ''OUTPUT''" "chain r = iptablesOutputChainName" "table r' = ''raw''" "base r' = ''PREROUTING''"
    "chain r' = iptablesPreRoutingChainName" "length (spec r) = 14"
    using rs by (auto simp: iptablesRules_def Let_def)
  let ?t1 = "rule_added r raw_tables"
  let ?t2 = "rule_added r' ?t1"
  have b: "raw_tables (table r, base r) = Some [[''-j'', iptablesOutputChainName]]"
    by (simp add: places raw_tables_def iptablesOutputChainName_def)
  have b': "?t1 (table r', base r') = Some []"
    using apart(3) rule_added_other[of "(table r', base r')" r] by (auto simp: rule_places_def places raw_tables_def iptablesOutputChainName_def)
  have up: "iptables_run mem_ipt (setup_rule mem_ipt) decimal_ip6 (Addr4 0x0A000001) 4789 555001 raw_tables = (Inr (), ?t2)"
    unfolding iptables_run_two using rs mem_ipt_simps(1) mem_ipt_simps(2)[of r raw_tables, OF apart(1) b] mem_ipt_simps(2)[of r' ?t1, OF apart(2) b'] by blast
  obtain x where x: "?t1 (table r, chain r) = Some x" "spec r \<in> set x" using rule_added_spec[OF apart(1)] by blast
  have "?t2 (table r, chain r) = ?t1 (table r, chain r)" using apart(3) by (intro rule_added_other) (auto simp: rule_places_def)
  with x have x2: "?t2 (table r, chain r) = Some x" by simp
  let ?t3 = "rule_removed r ?t2"
  obtain y where y: "?t2 (table r', chain r') = Some y" "spec r' \<in> set y" using rule_added_spec[OF apart(2)] by blast
  have "?t3 (table r', chain r') = ?t2 (table r', chain r')" using apart(3) by (intro rule_removed_other) (auto simp: rule_places_def)
  with y have y3: "?t3 (table r', chain r') = Some y" by simp
  have down: "iptables_run mem_ipt (teardown_rule mem_ipt) decimal_ip6 (Addr4 0x0A000001) 4789 555001 ?t2 = (Inr (), rule_removed r' ?t3)"
    unfolding iptables_run_two
    using rs mem_ipt_simps(1) mem_ipt_simps(3)[of r ?t2, OF apart(1) x2 x(2)] mem_ipt_simps(3)[of r' ?t3, OF apart(2) y3 y(2)] by blast
  have absent: "\<forall>r\<in>set ?rs. rule_absent r raw_tables"
  proof -
    have "spec r \<noteq> [''-d'', ''10.1.1.1'']" using places(7) by auto
    then have "rule_absent r raw_tables" "rule_absent r' raw_tables"
      by (simp_all add: rule_absent_def raw_tables_def places iptablesOutputChainName_def iptablesPreRoutingChainName_def)
    then show ?thesis unfolding rs by simp
  qed
  have "rule_removed r' ?t3 = raw_tables" by (rule iptables_setup_teardown[OF mem_ipt_ok absent up down])
  with up down show ?thesis by auto
qed

section \<open>The interface search of the worker node\<close>

lemma add_vxlan_step:
  "add_vxlan N hostNS links device index w =
     (let again = (if 5 < index + 1 then fail (NetMsg ''too many'') else add_vxlan N hostNS links device (index + 1))
      in if list_ex (\<lambda>l. Name l = hostVxlanInterfacePrefix @ digits_of index) links then again w
         else case LinkAdd N hostNS (hostVxlanInterfacePrefix @ digits_of index) device w of
                (Inr l, w') \<Rightarrow> (Inr (hostVxlanInterfacePrefix @ digits_of index, l), w')
              | (Inl e, w') \<Rightarrow> if is_exist e then again w' else (Inl e, w'))"
  by (subst add_vxlan.simps) (simp add: Let_def)

lemma add_vxlan_name:
  assumes "add_vxlan N hostNS links device index w = (Inr (name, l), w')" and "index \<le> 5"
  shows "\<exists>i w0. index \<le> i \<and> i \<le> 5 \<and> name = hostVxlanInterfacePrefix @ digits_of i \<and> (\<forall>l\<in>set links. Name l \<noteq> name) \<and>
           LinkAdd N hostNS name device w0 = (Inr l, w')"
  using assms
proof (induction N hostNS links device index arbitrary: w rule: add_vxlan.induct)
  case (1 N hostNS links device index)
  have rec: "\<exists>i w0. index \<le> i \<and> i \<le> 5 \<and> name = hostVxlanInterfacePrefix @ digits_of i \<and> (\<forall>l\<in>set links. Name l \<noteq> name) \<and>
           LinkAdd N hostNS name device w0 = (Inr l, w')"
    if a: "(if 5 < index + 1 then fail (NetMsg ''too many'') else add_vxlan N hostNS links device (index + 1)) v = (Inr (name, l), w')" for v
  proof -
    have le: "\<not> 5 < index + 1" using a by (auto split: if_splits)
    then obtain i w0 where "index + 1 \<le> i" "i \<le> 5" "name = hostVxlanInterfacePrefix @ digits_of i" "\<forall>l\<in>set links. Name l \<noteq> name"
      "LinkAdd N hostNS name device w0 = (Inr l, w')" using "1.IH"[OF refl le, of v] a by auto
    then show ?thesis by (intro exI[of _ i] exI[of _ w0]) simp
  qed
  show ?case
  proof (cases "list_ex (\<lambda>l. Name l = hostVxlanInterfacePrefix @ digits_of index) links")
    case True
    then show ?thesis using "1.prems"(1) rec by (subst (asm) add_vxlan_step) (simp add: Let_def)
  next
    case False
    obtain r w1 where la: "LinkAdd N hostNS (hostVxlanInterfacePrefix @ digits_of index) device w = (r, w1)" by fastforce
    show ?thesis
    proof (cases r)
      case (Inl e)
      then show ?thesis using "1.prems"(1) rec[of w1] False la by (subst (asm) add_vxlan_step) (auto simp: Let_def split: if_splits)
    next
      case (Inr l')
      then have "name = hostVxlanInterfacePrefix @ digits_of index" "l' = l" "w1 = w'"
        using "1.prems"(1) False la by (subst (asm) add_vxlan_step, simp add: Let_def)+
      then show ?thesis using False la Inr "1.prems"(2) by (auto simp: list_ex_iff)
    qed
  qed
qed

end
