(* ===== verification/PodNetwork.thy ===== *)
theory PodNetwork
  imports Tunneler
begin

text \<open>
  Pod networking, \<open>src/src/cloud-api-adaptor/pkg/podnetwork\<close>: the choice of the primary and secondary interface (\<open>common.go\<close>), the
  worker node side (\<open>workernode.go\<close>) and the pod VM side (\<open>podnode.go\<close>).  The index counter of the worker process is the first
  component of the state of \<open>Inspect\<close>.  The polling loops of \<open>podnode.go\<close> end when the select statement takes the timeout channel;
  which channel it takes is the argument \<open>sel\<close>, and a loop that never ends is the value \<open>None\<close>.
\<close>

section \<open>Primary interface\<close>

definition extractInterfaceNumber :: "string \<Rightarrow> string \<times> int" where
  "extractInterfaceNumber iface =
     (let rest = dropWhile (\<lambda>c. \<not> is_digit c) iface
      in if rest = [] then (iface, int64_max)
         else (takeWhile (\<lambda>c. \<not> is_digit c) iface, (case ParseInt10 rest of Inl _ \<Rightarrow> int64_max | Inr num \<Rightarrow> num)))"

record primary =
  primaryDev :: string
  primaryPrefix :: string
  primaryNum :: int
  primary_gw :: Addr

definition primary_step :: "Route \<Rightarrow> primary \<Rightarrow> primary" where
  \<comment> \<open>the variable \<open>priority\<close> keeps its initial value \<open>math.MaxInt\<close>\<close>
  "primary_step r s =
     (if Bits (Destination r) = 0 \<and> Priority r < int64_max
      then (case extractInterfaceNumber (Device r) of
              (devPrefix, devNum) \<Rightarrow>
                if primaryDev s = [] \<or> (devPrefix = primaryPrefix s \<and> devNum < primaryNum s)
                then \<lparr>primaryDev = Device r, primaryPrefix = devPrefix, primaryNum = devNum, primary_gw = Gateway r\<rparr>
                else s)
      else s)"

definition primary0 :: primary where
  "primary0 = \<lparr>primaryDev = [], primaryPrefix = [], primaryNum = int64_max, primary_gw = AddrZero\<rparr>"

definition findPrimaryInterface :: "'w netlink \<Rightarrow> namespace \<Rightarrow> ('w, net_error, string \<times> Addr) io" where
  "findPrimaryInterface N ns =
     bind_io (RouteList N ns [route0\<lparr>Destination := DefaultPrefix\<rparr>]) (\<lambda>routes.
     let s = fold primary_step routes primary0
     in if primaryDev s = [] then fail (NetMsg ''identify primary interface'') else ret (primaryDev s, primary_gw s))"

section \<open>Secondary interface\<close>

definition getInterfaceDetails :: "'w netlink \<Rightarrow> namespace \<Rightarrow> string \<Rightarrow> ('w, net_error, Prefix \<times> Route option) io" where
  "getInterfaceDetails N ns iface =
     bind_io (LinkFind N ns iface) (\<lambda>link.
     bind_io (GetAddr N link) (\<lambda>addrs.
     bind_io (RouteList N ns [route0\<lparr>Destination := DefaultPrefix\<rparr>]) (\<lambda>routes.
     ret (case find (\<lambda>a. Is4 (prefix_ip a)) addrs of None \<Rightarrow> PrefixZero | Some a \<Rightarrow> a,
          find (\<lambda>r. Device r = iface \<and> Bits (Destination r) = 0 \<and> Priority r < int64_max) routes))))"

definition allowedPrefixes :: "string list" where
  "allowedPrefixes = [''veth'', ''lo'', ''docker'', ''podman'', ''br-'', ''cni'', ''tunl'', ''tun'', ''tap'']"

definition isInterfaceFilteredOut :: "string \<Rightarrow> bool" where
  "isInterfaceFilteredOut ifName = list_ex (\<lambda>pfx. HasPrefix ifName pfx) allowedPrefixes"

fun secondary_loop ::
  "'w netlink \<Rightarrow> namespace \<Rightarrow> string \<Rightarrow> Prefix \<Rightarrow> Route \<Rightarrow> link list \<Rightarrow> ('w, net_error, string \<times> Prefix \<times> Route) io" where
  "secondary_loop N ns primaryInterface priAddrCIDR defRoute [] = fail (NetMsg ''no valid secondary interface found'')"
| "secondary_loop N ns primaryInterface priAddrCIDR defRoute (link # links) =
     (let next = secondary_loop N ns primaryInterface priAddrCIDR defRoute links
      in if isInterfaceFilteredOut (Name link) \<or> Name link = primaryInterface then next
         else
           bind_io (getInterfaceDetails N ns (Name link)) (\<lambda>(addr, route).
           if \<not> IsValid addr then next
           else case route of
                  Some r \<Rightarrow> ret (Name link, addr, r)
                | None \<Rightarrow>
                    if Masked priAddrCIDR = Masked addr
                    then ret (Name link, addr,
                              route0\<lparr>Destination := Destination defRoute, Gateway := Gateway defRoute, Device := Name link\<rparr>)
                    else next))"

definition getSecondaryInterfaceDetails :: "'w netlink \<Rightarrow> namespace \<Rightarrow> string \<Rightarrow> ('w, net_error, string \<times> Prefix \<times> Route) io" where
  "getSecondaryInterfaceDetails N ns primaryInterface =
     bind_io (getInterfaceDetails N ns primaryInterface) (\<lambda>(priAddrCIDR, defRoute).
     case defRoute of
       None \<Rightarrow> fail (NetMsg ''default route for primary interface is nil'')
     | Some r \<Rightarrow> bind_io (LinkList N ns) (secondary_loop N ns primaryInterface priAddrCIDR r))"

definition moveInterfaceToNamespace ::
  "'w netlink \<Rightarrow> namespace \<Rightarrow> namespace \<Rightarrow> string \<Rightarrow> Prefix \<Rightarrow> Route \<Rightarrow> ('w, net_error, unit) io" where
  "moveInterfaceToNamespace N srcNs dstNs iface addrCIDR defRoute =
     bind_io (LinkFind N srcNs iface) (\<lambda>link0.
     bind_io (SetNamespace N link0 dstNs) (\<lambda>link.
     then_io (AddAddr N link addrCIDR) (
     then_io (SetUp N link) (
     bind_io (GetDefaultRoutes N dstNs) (\<lambda>defRoutes.
     then_io (for_io (RouteDel N dstNs) defRoutes)
       (RouteAdd N dstNs defRoute))))))"

definition setupExternalNetwork :: "'w netlink \<Rightarrow> namespace \<Rightarrow> string \<Rightarrow> namespace \<Rightarrow> ('w, net_error, unit) io" where
  "setupExternalNetwork N hostNS hostPrimaryInterface podNS =
     bind_io (getSecondaryInterfaceDetails N hostNS hostPrimaryInterface) (\<lambda>(secIface, secAddrCIDR, secRoute).
     moveInterfaceToNamespace N hostNS podNS secIface secAddrCIDR secRoute)"

section \<open>Worker node\<close>

definition podIndex_Get :: "int \<Rightarrow> int \<times> int" where
  "podIndex_Get index = (index, index + 1)"

record 'w workerNode =
  wn_NetworkConfig :: NetworkConfig
  wn_tunneler :: "'w Tunneler"
  wn_Configure :: "NetworkConfig \<Rightarrow> Config \<Rightarrow> net_error + Config"

definition NewWorkerNode :: "'w drivers \<Rightarrow> NetworkConfig \<Rightarrow> net_error + 'w workerNode" where
  "NewWorkerNode ds networkConfig =
     bind_result (WorkerNodeTunneler ds (net_TunnelType networkConfig)) (\<lambda>t.
     case tun_Configure t of
       None \<Rightarrow> Inl (NetMsg ''Configure is not defined'')
     | Some f \<Rightarrow> Inr \<lparr>wn_NetworkConfig = networkConfig, wn_tunneler = t, wn_Configure = f\<rparr>)"

definition getPodIP :: "'w netlink \<Rightarrow> link \<Rightarrow> ('w, net_error, Prefix) io" where
  "getPodIP N podLink =
     bind_io (GetAddr N podLink) (\<lambda>prefixes.
     case filter (\<lambda>p. IsValid p \<and> Is4 (prefix_ip p)) prefixes of
       [] \<Rightarrow> fail (NetMsg ''no IPv4 address found'')
     | [ip] \<Rightarrow> ret ip
     | _ \<Rightarrow> fail (NetMsg ''more than one IPv4 addresses found''))"

definition subnet_routes :: "ip6_text \<Rightarrow> string list \<Rightarrow> Addr \<Rightarrow> string \<Rightarrow> tun_Route list" where
  "subnet_routes t cidrs gatewayAddr podInterface =
     map (\<lambda>p. \<lparr>Dst = p, GW = gatewayAddr, Dev = podInterface, tr_Protocol = 0, tr_Scope = 0\<rparr>) (List.map_filter (ParsePrefix t) cidrs)"

definition to_tun_route :: "Route \<Rightarrow> tun_Route" where
  "to_tun_route r = \<lparr>Dst = Destination r, GW = Gateway r, Dev = Device r, tr_Protocol = Protocol r, tr_Scope = Scope r\<rparr>"

definition to_tun_neighbor :: "Neighbor \<Rightarrow> tun_Neighbor" where
  "to_tun_neighbor n = \<lparr>tn_IP = neigh_IP n, tn_HardwareAddr = neigh_HardwareAddr n, tn_Dev = neigh_Dev n, tn_State = neigh_State n\<rparr>"

definition inspect_pod :: "'w netlink \<Rightarrow> ip6_text \<Rightarrow> 'w workerNode \<Rightarrow> string \<Rightarrow> Prefix \<Rightarrow> bool \<Rightarrow> int \<Rightarrow> ('w, net_error, Config) io" where
  \<comment> \<open>\<open>Inspect\<close> from the opening of the pod's namespace on\<close>
  "inspect_pod N t n nsPath workerIP dedicated index =
     bind_io (OpenNamespace N nsPath) (\<lambda>podNS. defer_io (Close N podNS) (
     bind_io (RouteList N podNS []) (\<lambda>routes.
     bind_io (findPrimaryInterface N podNS) (\<lambda>(podInterface, gatewayAddr).
     bind_io (LinkFind N podNS podInterface) (\<lambda>podLink.
     bind_io (getPodIP N podLink) (\<lambda>podIP.
     bind_io (NeighborList N podNS
                [\<lparr>neigh_IP = AddrZero, neigh_HardwareAddr = [], neigh_Dev = podInterface, neigh_State = NEIGHBOR_STATE_PERMANENT\<rparr>]) (\<lambda>neighbors.
     query (\<lambda>_. wn_Configure n (wn_NetworkConfig n)
       \<lparr>PodIP = podIP, PodHwAddr = GetHardwareAddr podLink, InterfaceName = podInterface, WorkerNodeIP = workerIP,
        TunnelType = net_TunnelType (wn_NetworkConfig n),
        Routes = map to_tun_route routes @ subnet_routes t (PodSubnetCIDRs (wn_NetworkConfig n)) gatewayAddr podInterface,
        Neighbors = map to_tun_neighbor neighbors, MTU = GetMTU podLink, Index = index, VXLANPort = 0, VXLANID = 0, Dedicated = dedicated,
        ExternalNetViaPodVM = net_ExternalNetViaPodVM (wn_NetworkConfig n)\<rparr>))))))))"

definition inspect_with :: "'w netlink \<Rightarrow> ip6_text \<Rightarrow> 'w workerNode \<Rightarrow> string \<Rightarrow> int \<Rightarrow> ('w, net_error, Config) io" where
  \<comment> \<open>\<open>Inspect\<close> with the index it has taken; the index expression \<open>addrs[0]\<close> panics on an interface without address\<close>
  "inspect_with N t n nsPath index =
     bind_io (OpenCurrentNamespace N) (\<lambda>hostNS. defer_io (Close N hostNS) (
     bind_io (findPrimaryInterface N hostNS) (\<lambda>(hostPrimaryInterface, _).
     let cfgInterface = HostInterface (wn_NetworkConfig n);
         hostInterface = (if cfgInterface = [] then hostPrimaryInterface else cfgInterface);
         dedicated = (cfgInterface \<noteq> [] \<and> cfgInterface \<noteq> hostPrimaryInterface)
     in
     bind_io (LinkFind N hostNS hostInterface) (\<lambda>hostLink.
     bind_io (GetAddr N hostLink) (\<lambda>addrs.
     case addrs of
       [] \<Rightarrow> fail (NetMsg ''panic: index out of range'')
     | workerIP # _ \<Rightarrow> inspect_pod N t n nsPath workerIP dedicated index)))))"

definition Inspect :: "'w netlink \<Rightarrow> ip6_text \<Rightarrow> 'w workerNode \<Rightarrow> string \<Rightarrow> (int \<times> 'w, net_error, Config) io" where
  "Inspect N t n nsPath =
     (\<lambda>(p, w). case podIndex_Get p of (index, p') \<Rightarrow> (case inspect_with N t n nsPath index w of (r, w') \<Rightarrow> (r, (p', w'))))"

definition wn_Setup :: "'w workerNode \<Rightarrow> string \<Rightarrow> Addr list \<Rightarrow> Config \<Rightarrow> ('w, net_error, unit) io" where
  "wn_Setup n nsPath podNodeIPs config = tun_Setup (wn_tunneler n) nsPath podNodeIPs config"

definition wn_Teardown :: "'w netlink \<Rightarrow> 'w workerNode \<Rightarrow> string \<Rightarrow> Config \<Rightarrow> ('w, net_error, unit) io" where
  "wn_Teardown N n nsPath config =
     bind_io (OpenCurrentNamespace N) (\<lambda>hostNS. defer_io (Close N hostNS) (
     bind_io (if HostInterface (wn_NetworkConfig n) = []
              then bind_io (findPrimaryInterface N hostNS) (\<lambda>(i, _). ret i)
              else ret (HostInterface (wn_NetworkConfig n))) (\<lambda>hostInterface.
     tun_Teardown (wn_tunneler n) nsPath hostInterface config)))"

section \<open>Polling\<close>

type_synonym 'w select = "'w \<Rightarrow> bool \<times> 'w"
  \<comment> \<open>whether the timeout channel was taken, and the world after the wait\<close>

type_synonym ('w, 'e, 'a) iop = "'w \<Rightarrow> (('e + 'a) \<times> 'w) option"

definition lift_iop :: "('w, 'e, 'a) io \<Rightarrow> ('w, 'e, 'a) iop" where
  "lift_iop m = (\<lambda>w. Some (m w))"

definition bind_iop :: "('w, 'e, 'a) iop \<Rightarrow> ('a \<Rightarrow> ('w, 'e, 'b) iop) \<Rightarrow> ('w, 'e, 'b) iop" where
  "bind_iop m f = (\<lambda>w. case m w of None \<Rightarrow> None | Some (Inl e, w') \<Rightarrow> Some (Inl e, w') | Some (Inr x, w') \<Rightarrow> f x w')"

definition defer_iop :: "('w, 'f, unit) io \<Rightarrow> ('w, 'e, 'a) iop \<Rightarrow> ('w, 'e, 'a) iop" where
  "defer_iop d m = (\<lambda>w. map_option (\<lambda>(r, w'). (r, snd (d w'))) (m w))"

partial_function (option) poll :: "('w \<Rightarrow> 'e + 'a option) \<Rightarrow> 'w select \<Rightarrow> 'e \<Rightarrow> 'w \<Rightarrow> (('e + 'a) \<times> 'w) option" where
  "poll check sel timeoutErr w =
     (case check w of
        Inl e \<Rightarrow> Some (Inl e, w)
      | Inr (Some x) \<Rightarrow> Some (Inr x, w)
      | Inr None \<Rightarrow>
          (if fst (sel w) then Some (Inl timeoutErr, snd (sel w)) else poll check sel timeoutErr (snd (sel w))))"

definition primary_check :: "'w netlink \<Rightarrow> namespace \<Rightarrow> 'w \<Rightarrow> net_error + string option" where
  "primary_check N hostNS w = (case fst (findPrimaryInterface N hostNS w) of Inl _ \<Rightarrow> Inr None | Inr (dev, _) \<Rightarrow> Inr (Some dev))"

definition detectPrimaryInterface :: "'w netlink \<Rightarrow> 'w select \<Rightarrow> namespace \<Rightarrow> ('w, net_error, string) iop" where
  "detectPrimaryInterface N sel hostNS = poll (primary_check N hostNS) sel (NetMsg ''identify primary interface'')"

definition ip_check :: "'w netlink \<Rightarrow> namespace \<Rightarrow> string \<Rightarrow> 'w \<Rightarrow> net_error + Addr option" where
  "ip_check N hostNS hostInterface w =
     (case fst (bind_io (LinkFind N hostNS hostInterface) (GetAddr N) w) of
        Inl e \<Rightarrow> Inl e
      | Inr [] \<Rightarrow> Inr None
      | Inr [p] \<Rightarrow> Inr (Some (prefix_ip p))
      | Inr _ \<Rightarrow> Inl (NetMsg ''more than one IP address assigned''))"

definition detectIP :: "'w netlink \<Rightarrow> 'w select \<Rightarrow> namespace \<Rightarrow> string \<Rightarrow> ('w, net_error, Addr) iop" where
  "detectIP N sel hostNS hostInterface = poll (ip_check N hostNS hostInterface) sel (NetMsg ''identify IP address'')"

section \<open>Pod node\<close>

record podNode =
  pn_config :: Config
  pn_nsPath :: string
  pn_hostInterface :: string

definition NewPodNode :: "string \<Rightarrow> string \<Rightarrow> Config \<Rightarrow> podNode" where
  "NewPodNode nsPath hostInterface config = \<lparr>pn_config = config, pn_nsPath = nsPath, pn_hostInterface = hostInterface\<rparr>"

definition ordered_routes :: "tun_Route list \<Rightarrow> tun_Route list" where
  \<comment> \<open>routes without a gateway first\<close>
  "ordered_routes rs = filter (\<lambda>r. \<not> IsValid_addr (GW r)) rs @ filter (\<lambda>r. IsValid_addr (GW r)) rs"

definition setup_pod_routes :: "'w netlink \<Rightarrow> Config \<Rightarrow> namespace \<Rightarrow> ('w, net_error, unit) io" where
  "setup_pod_routes N config podNS =
     then_io (if \<not> IsSingleIP (PodIP config)
              then RouteDel N podNS (route0\<lparr>Destination := Masked (PodIP config), Device := InterfaceName config\<rparr>)
              else ret ())
       (then_io (for_io (\<lambda>r. RouteAdd N podNS (route0\<lparr>Destination := Dst r, Gateway := GW r, Device := Dev r, Protocol := tr_Protocol r,
                                                Scope := tr_Scope r\<rparr>))
                   (ordered_routes (Routes config)))
          (for_io (\<lambda>n. NeighborAdd N podNS \<lparr>neigh_IP = tn_IP n, neigh_HardwareAddr = tn_HardwareAddr n, neigh_Dev = tn_Dev n,
                                             neigh_State = tn_State n\<rparr>)
             (Neighbors config)))"

definition pn_Setup :: "'w netlink \<Rightarrow> 'w drivers \<Rightarrow> 'w select \<Rightarrow> podNode \<Rightarrow> ('w, net_error, unit) iop" where
  "pn_Setup N ds sel n =
     (let config = pn_config n in
      bind_iop (lift_iop (query (\<lambda>_. PodNodeTunneler ds (TunnelType config)))) (\<lambda>tun.
      bind_iop (lift_iop (OpenCurrentNamespace N)) (\<lambda>hostNS. defer_iop (Close N hostNS) (
      bind_iop (detectPrimaryInterface N sel hostNS) (\<lambda>hostPrimaryInterface.
      bind_iop (detectIP N sel hostNS hostPrimaryInterface) (\<lambda>primaryPodNodeIP.
      let hostInterface = (if pn_hostInterface n = [] then hostPrimaryInterface else pn_hostInterface n)
      in
      bind_iop (if Dedicated config
                then if hostInterface = hostPrimaryInterface then lift_iop (fail (NetMsg ''not a dedicated interface''))
                     else bind_iop (detectIP N sel hostNS hostInterface) (\<lambda>ip. lift_iop (ret [primaryPodNodeIP, ip]))
                else lift_iop (ret [primaryPodNodeIP])) (\<lambda>podNodeIPs.
      bind_iop (lift_iop (OpenNamespace N (pn_nsPath n))) (\<lambda>podNS. defer_iop (Close N podNS) (lift_iop (
      then_io (tun_Setup tun (pn_nsPath n) podNodeIPs config) (
      then_io (setup_pod_routes N config podNS)
        (if ExternalNetViaPodVM config
         then (\<lambda>w. (Inr (), snd (setupExternalNetwork N hostNS hostPrimaryInterface podNS w)))
         else ret ()))))))))))))"

definition pn_Teardown :: "'w netlink \<Rightarrow> 'w drivers \<Rightarrow> podNode \<Rightarrow> ('w, net_error, unit) io" where
  "pn_Teardown N ds n =
     bind_io (query (\<lambda>_. PodNodeTunneler ds (TunnelType (pn_config n)))) (\<lambda>tun.
     bind_io (OpenCurrentNamespace N) (\<lambda>hostNS. defer_io (Close N hostNS) (
     bind_io (if pn_hostInterface n = [] then bind_io (findPrimaryInterface N hostNS) (\<lambda>(i, _). ret i) else ret (pn_hostInterface n))
       (\<lambda>hostInterface. tun_Teardown tun (pn_nsPath n) hostInterface (pn_config n)))))"

definition vxlan_drivers :: "'w netlink \<Rightarrow> 'w ipt_api \<Rightarrow> ip6_text \<Rightarrow> 'w drivers" where
  \<comment> \<open>the registry after \<open>init\<close>\<close>
  "vxlan_drivers N I t = Register ''vxlan'' (NewWorkerNodeTunneler N I t) (NewPodNodeTunneler N I t) []"

section \<open>Polling ends\<close>

primrec waited :: "'w select \<Rightarrow> nat \<Rightarrow> 'w \<Rightarrow> 'w option" where
  \<comment> \<open>the world after a number of ticks, \<open>None\<close> when the timeout comes before\<close>
  "waited sel 0 w = Some w"
| "waited sel (Suc n) w = (if fst (sel w) then None else waited sel n (snd (sel w)))"

lemma poll_found:
  assumes "waited sel n w = Some w'" and "check w' = Inr (Some x)"
    and "\<forall>m v. waited sel m w = Some v \<longrightarrow> (\<exists>z. check v = Inr z)"
  shows "\<exists>m v y. m \<le> n \<and> waited sel m w = Some v \<and> check v = Inr (Some y) \<and> poll check sel err w = Some (Inr y, v)"
  using assms
proof (induction n arbitrary: w)
  case 0
  then show ?case by (subst poll.simps) auto
next
  case (Suc n)
  obtain o0 where c: "check w = Inr o0" using Suc.prems(3)[rule_format, of 0 w] by auto
  show ?case
  proof (cases o0)
    case (Some y)
    then show ?thesis using c by (intro exI[of _ 0] exI[of _ w] exI[of _ y]) (simp add: poll.simps)
  next
    case None
    have ns: "\<not> fst (sel w)" and w1: "waited sel n (snd (sel w)) = Some w'" using Suc.prems(1) by (auto split: if_splits)
    have "\<forall>m v. waited sel m (snd (sel w)) = Some v \<longrightarrow> (\<exists>z. check v = Inr z)"
    proof (intro allI impI)
      show "\<exists>z. check v = Inr z" if "waited sel m (snd (sel w)) = Some v" for m v
        using Suc.prems(3)[rule_format, of "Suc m" v] that ns by simp
    qed
    from Suc.IH[OF w1 Suc.prems(2) this] obtain m v y
      where r: "m \<le> n" "waited sel m (snd (sel w)) = Some v" "check v = Inr (Some y)" "poll check sel err (snd (sel w)) = Some (Inr y, v)" by blast
    have "poll check sel err w = Some (Inr y, v)" using c None ns r(4) by (subst poll.simps) simp
    then show ?thesis using r ns by (intro exI[of _ "Suc m"] exI[of _ v] exI[of _ y]) simp
  qed
qed

lemma poll_ends:
  assumes "waited sel n w = Some w'" and "fst (sel w')"
  shows "\<exists>r v. poll check sel err w = Some (r, v)"
  using assms
proof (induction n arbitrary: w)
  case 0
  then show ?case by (subst poll.simps) (auto split: sum.splits option.splits)
next
  case (Suc n)
  then have "\<exists>r v. poll check sel err (snd (sel w)) = Some (r, v)" by (auto split: if_splits)
  then show ?case by (subst poll.simps) (auto split: sum.splits option.splits)
qed

lemma primary_check_ok: "\<exists>z. primary_check N ns v = Inr z"
  by (auto simp: primary_check_def split: sum.splits prod.splits)

definition eth0_link :: nl_link where
  "eth0_link = \<lparr>nl_Name = ''eth0'', nl_Index = 2, nl_MTU = 1500, nl_HardwareAddr = [2, 0, 0, 0, 0, 1], nl_Kind = NlOther ''device''\<rparr>"

definition eth0_default :: nl_route where
  "eth0_default = nl_route0\<lparr>nl_Gw := [10, 0, 0, 1], nl_LinkIndex := 2\<rparr>"

definition demo_net :: "'w netlink" where
  \<comment> \<open>every namespace has the interface \<open>eth0\<close> with the default route\<close>
  "demo_net = no_netlink\<lparr>netns_GetFromPath := \<lambda>_. ret 3, NewHandleAt := ret, netns_Close := \<lambda>_. ret (), nl_LinkList := \<lambda>_ _. Inr [eth0_link],
     nl_LinkByName := \<lambda>_ _ _. Inr eth0_link, nl_LinkByIndex := \<lambda>_ _ _. Inr eth0_link,
     nl_AddrList := \<lambda>_ _ _. Inr [Some \<lparr>net_IP = [10, 0, 0, 7], net_Mask = [255, 255, 255, 0]\<rparr>],
     nl_RouteListFiltered := \<lambda>_ _ fs _. Inr (if RT_FILTER_DST \<in> set fs then [eth0_default] else []),
     nl_NeighListExecute := \<lambda>_ _ _ _. Inr []\<rparr>"

definition late_net :: "nat netlink" where
  \<comment> \<open>the default route appears after two ticks\<close>
  "late_net = demo_net\<lparr>nl_RouteListFiltered := \<lambda>_ _ fs w. Inr (if 2 \<le> w then [eth0_default] else [])\<rparr>"

definition three_minutes :: "nat select" where
  "three_minutes w = (180 \<le> w, w + 1)"

lemma RouteList_one: "RouteList N ns [f] w = (case bind_io (routeListFiltered N ns f) (map_io (to_route N ns)) w of
    (Inl e, w') \<Rightarrow> (Inl e, w') | (Inr rs, w') \<Rightarrow> (Inr (insertionSort compare rs), w'))"
  by (simp add: RouteList_def bind_io_def split: prod.splits sum.splits)

lemma extract_eth0: "extractInterfaceNumber ''eth0'' = (''eth'', 0)"
  by (simp add: extractInterfaceNumber_def is_digit_def ParseInt10_def digits_val_def digit_val_def int64_min_def int64_max_def Let_def)

lemma eth0_primary:
  assumes "nl_RouteListFiltered N (ns_handle ns) nl_route0 [RT_FILTER_DST] w = Inr [eth0_default]" and "nl_LinkByIndex N (ns_handle ns) 2 w = Inr eth0_link"
  shows "findPrimaryInterface N ns w = (Inr (''eth0'', Addr4 0x0A000001), w)"
proof -
  have a: "route_filter (route0\<lparr>Destination := DefaultPrefix\<rparr>) 0 = (nl_route0, [RT_FILTER_DST])"
    by (simp add: route_filter_def route0_def nl_route0_def DefaultPrefix_def IsValid_def Bits_def PrefixFrom_def toIP_def IsValid_addr_def)
  have d: "Device (route0\<lparr>Destination := DefaultPrefix\<rparr>) = []" by (simp add: route0_def)
  have gw: "toAddr [10, 0, 0, 1] = Addr4 0x0A000001"
    by (simp add: toAddr_def AddrFromSlice_def from_bytes_def)
  show ?thesis
    using assms
    by (simp add: findPrimaryInterface_def RouteList_one routeListFiltered_def a d bind_io_def wrap_io_def to_route_def eth0_default_def
        nl_route0_def eth0_link_def insertionSort_def primary_step_def primary0_def toPrefix_def PrefixFrom_def Bits_def int64_max_def
        extract_eth0 gw)
qed

text \<open>C19: A pod VM finds its primary interface if one gets a default route in time.  When an interface can be identified after some number
of ticks before the timeout, \<open>detectPrimaryInterface\<close> returns, without an error, an interface that could be identified at that
time or earlier; and when the timeout comes after some number of ticks, the function returns in any case.\<close>

theorem detect_primary_in_time:
  assumes "waited sel n w = Some w'"
  shows "((\<exists>dev gw. fst (findPrimaryInterface N hostNS w') = Inr (dev, gw)) \<longrightarrow>
           (\<exists>m v dev gw. m \<le> n \<and> waited sel m w = Some v \<and> fst (findPrimaryInterface N hostNS v) = Inr (dev, gw) \<and>
              detectPrimaryInterface N sel hostNS w = Some (Inr dev, v))) \<and>
         (fst (sel w') \<longrightarrow> (\<exists>r v. detectPrimaryInterface N sel hostNS w = Some (r, v)))"
proof (intro conjI impI)
  assume "\<exists>dev gw. fst (findPrimaryInterface N hostNS w') = Inr (dev, gw)"
  then obtain dev where dev: "primary_check N hostNS w' = Inr (Some dev)" by (auto simp: primary_check_def)
  have total: "\<forall>m v. waited sel m w = Some v \<longrightarrow> (\<exists>z. primary_check N hostNS v = Inr z)" by (simp add: primary_check_ok)
  obtain m v y where "m \<le> n" "waited sel m w = Some v" "primary_check N hostNS v = Inr (Some y)"
    "detectPrimaryInterface N sel hostNS w = Some (Inr y, v)"
    using poll_found[of sel n w w' "primary_check N hostNS" dev "NetMsg ''identify primary interface''", OF assms dev total]
    unfolding detectPrimaryInterface_def by auto
  then show "\<exists>m v dev gw. m \<le> n \<and> waited sel m w = Some v \<and> fst (findPrimaryInterface N hostNS v) = Inr (dev, gw) \<and>
              detectPrimaryInterface N sel hostNS w = Some (Inr dev, v)"
    by (auto simp: primary_check_def split: sum.splits prod.splits)
next
  assume "fst (sel w')"
  then show "\<exists>r v. detectPrimaryInterface N sel hostNS w = Some (r, v)"
    unfolding detectPrimaryInterface_def by (rule poll_ends[OF assms])
qed

theorem detect_primary_in_time_witness:
  "waited three_minutes 2 0 = Some 2 \<and> \<not> is_ok (fst (findPrimaryInterface late_net \<lparr>ns_handle = 3, ns_path = [], nsHandle = 3\<rparr> 0)) \<and>
   (\<exists>v. detectPrimaryInterface late_net three_minutes \<lparr>ns_handle = 3, ns_path = [], nsHandle = 3\<rparr> 0 = Some (Inr ''eth0'', v))"
proof -
  let ?ns = "\<lparr>ns_handle = 3, ns_path = [], nsHandle = 3\<rparr>"
  have w: "waited three_minutes 2 0 = Some 2" by (simp add: numeral_2_eq_2 three_minutes_def)
  have f: "fst (findPrimaryInterface late_net ?ns v) = Inr (''eth0'', Addr4 0x0A000001)" if "2 \<le> v" for v
    using that eth0_primary[of late_net ?ns v] by (simp add: late_net_def demo_net_def)
  have early: "\<not> is_ok (fst (findPrimaryInterface late_net ?ns v))" if "v < 2" for v
    using that by (simp add: findPrimaryInterface_def RouteList_one routeListFiltered_def bind_io_def wrap_io_def late_net_def
        route_filter_def insertionSort_def route0_def primary0_def Let_def)
  from detect_primary_in_time[OF w, of late_net ?ns] f[of 2]
  obtain m v dev gw where "fst (findPrimaryInterface late_net ?ns v) = Inr (dev, gw)"
    "detectPrimaryInterface late_net three_minutes ?ns 0 = Some (Inr dev, v)" by auto
  then have "detectPrimaryInterface late_net three_minutes ?ns 0 = Some (Inr ''eth0'', v)"
    using f[of v] early[of v] by (cases "2 \<le> v") auto
  then show ?thesis using w early[of 0] by auto
qed

section \<open>Tunnel identifiers\<close>

fun inspect_all :: "'w netlink \<Rightarrow> ip6_text \<Rightarrow> 'w workerNode \<Rightarrow> string list \<Rightarrow> int \<times> 'w \<Rightarrow> Config list" where
  \<comment> \<open>the configurations of the pods that a worker process inspects one after the other\<close>
  "inspect_all N t n [] s = []"
| "inspect_all N t n (p # ps) s =
     (case Inspect N t n p s of
        (Inl _, s') \<Rightarrow> inspect_all N t n ps s'
      | (Inr c, s') \<Rightarrow> c # inspect_all N t n ps s')"

lemma findPrimaryInterface_not_Nil: "findPrimaryInterface N ns w = (Inr (dev, gw), w') \<Longrightarrow> dev \<noteq> []"
  by (auto simp: findPrimaryInterface_def io_iffs Let_def split: if_splits)

lemma getPodIP_ok: "getPodIP N l w = (Inr ip, w') \<Longrightarrow> IsValid ip \<and> Is4 (prefix_ip ip)"
proof -
  assume "getPodIP N l w = (Inr ip, w')"
  then obtain ps where "filter (\<lambda>p. IsValid p \<and> Is4 (prefix_ip p)) ps = [ip]"
    by (clarsimp simp: getPodIP_def io_iffs) (auto split: list.split_asm)
  then have "ip \<in> set (filter (\<lambda>p. IsValid p \<and> Is4 (prefix_ip p)) ps)" by simp
  then show ?thesis by simp
qed

lemma inspect_pod_config:
  assumes "inspect_pod N t n nsPath workerIP dedicated index w = (Inr c, w')" and cfg: "wn_Configure n = vxlan_Configure"
  shows "Index c = index" "VXLANID c = MinID (net_VXLAN (wn_NetworkConfig n)) + index" "WorkerNodeIP c = workerIP" "Dedicated c = dedicated"
    "InterfaceName c \<noteq> []" "IsValid (PodIP c)" "Is4 (prefix_ip (PodIP c))" "TunnelType c = net_TunnelType (wn_NetworkConfig n)"
    "VXLANPort c = vxlan_Port (net_VXLAN (wn_NetworkConfig n))"
proof -
  obtain podNS w1 w2 where "bind_io (RouteList N podNS []) (\<lambda>routes.
     bind_io (findPrimaryInterface N podNS) (\<lambda>(podInterface, gatewayAddr).
     bind_io (LinkFind N podNS podInterface) (\<lambda>podLink.
     bind_io (getPodIP N podLink) (\<lambda>podIP.
     bind_io (NeighborList N podNS
                [\<lparr>neigh_IP = AddrZero, neigh_HardwareAddr = [], neigh_Dev = podInterface, neigh_State = NEIGHBOR_STATE_PERMANENT\<rparr>]) (\<lambda>neighbors.
     query (\<lambda>_. wn_Configure n (wn_NetworkConfig n)
       \<lparr>PodIP = podIP, PodHwAddr = GetHardwareAddr podLink, InterfaceName = podInterface, WorkerNodeIP = workerIP,
        TunnelType = net_TunnelType (wn_NetworkConfig n),
        Routes = map to_tun_route routes @ subnet_routes t (PodSubnetCIDRs (wn_NetworkConfig n)) gatewayAddr podInterface,
        Neighbors = map to_tun_neighbor neighbors, MTU = GetMTU podLink, Index = index, VXLANPort = 0, VXLANID = 0, Dedicated = dedicated,
        ExternalNetViaPodVM = net_ExternalNetViaPodVM (wn_NetworkConfig n)\<rparr>)))))) w1 = (Inr c, w2)"
    using assms(1) unfolding inspect_pod_def bind_io_Inr_iff[of "OpenNamespace N nsPath"] defer_io_iff by blast
  then obtain i g l podIP rs ns v1 v2 v3 v4 where p: "findPrimaryInterface N podNS v1 = (Inr (i, g), v2)"
    and ip: "getPodIP N l v3 = (Inr podIP, v4)"
    and c: "vxlan_Configure (wn_NetworkConfig n)
       \<lparr>PodIP = podIP, PodHwAddr = GetHardwareAddr l, InterfaceName = i, WorkerNodeIP = workerIP,
        TunnelType = net_TunnelType (wn_NetworkConfig n),
        Routes = map to_tun_route rs @ subnet_routes t (PodSubnetCIDRs (wn_NetworkConfig n)) g i,
        Neighbors = map to_tun_neighbor ns, MTU = GetMTU l, Index = index, VXLANPort = 0, VXLANID = 0, Dedicated = dedicated,
        ExternalNetViaPodVM = net_ExternalNetViaPodVM (wn_NetworkConfig n)\<rparr> = Inr c"
    unfolding cfg by (auto simp: bind_io_Inr_iff)
  have nn: "i \<noteq> []" by (rule findPrimaryInterface_not_Nil[OF p])
  note v = getPodIP_ok[OF ip]
  show "Index c = index" "VXLANID c = MinID (net_VXLAN (wn_NetworkConfig n)) + index" "WorkerNodeIP c = workerIP" "Dedicated c = dedicated"
    "InterfaceName c \<noteq> []" "IsValid (PodIP c)" "Is4 (prefix_ip (PodIP c))" "TunnelType c = net_TunnelType (wn_NetworkConfig n)"
    "VXLANPort c = vxlan_Port (net_VXLAN (wn_NetworkConfig n))"
    using c nn v by (auto simp: vxlan_Configure_def)
qed

lemma inspect_with_pod:
  assumes "inspect_with N t n nsPath index w = (Inr c, w')"
  shows "\<exists>workerIP dedicated w1 w2. inspect_pod N t n nsPath workerIP dedicated index w1 = (Inr c, w2)"
  using assms by (clarsimp simp: inspect_with_def bind_io_Inr_iff defer_io_iff Let_def) (auto split: list.split_asm)

lemma inspect_with_config:
  assumes "inspect_with N t n nsPath index w = (Inr c, w')" and "wn_Configure n = vxlan_Configure"
  shows "Index c = index \<and> VXLANID c = MinID (net_VXLAN (wn_NetworkConfig n)) + index"
  using inspect_with_pod[OF assms(1)] inspect_pod_config(1,2)[OF _ assms(2)] by blast

lemma inspect_all_ids:
  assumes "wn_Configure n = vxlan_Configure"
  shows "(\<forall>c\<in>set (inspect_all N t n ps (p, w)). MinID (net_VXLAN (wn_NetworkConfig n)) + p \<le> VXLANID c) \<and>
         distinct (map VXLANID (inspect_all N t n ps (p, w)))"
proof (induction ps arbitrary: p w)
  case (Cons x ps)
  obtain r w' where i: "inspect_with N t n x p w = (r, w')" by fastforce
  have I: "Inspect N t n x (p, w) = (r, (p + 1, w'))" by (simp add: Inspect_def podIndex_Get_def i)
  note IH = Cons.IH[of "p + 1" w']
  show ?case
  proof (cases r)
    case (Inl e)
    then show ?thesis using I IH by fastforce
  next
    case (Inr c)
    then show ?thesis using I IH inspect_with_config[of N t n x p w c w'] i assms by fastforce
  qed
qed simp

lemma vxlan_worker_node:
  assumes "NewWorkerNode (vxlan_drivers N I t) networkConfig = Inr n"
  shows "wn_Configure n = vxlan_Configure" "wn_NetworkConfig n = networkConfig" "net_TunnelType networkConfig = ''vxlan''"
  using assms
  by (auto simp: NewWorkerNode_def WorkerNodeTunneler_def getDriver_def vxlan_drivers_def Register_def NewWorkerNodeTunneler_def
      bind_result_def split: if_splits sum.splits option.splits)


definition demo_config :: NetworkConfig where
  "demo_config = \<lparr>net_TunnelType = ''vxlan'', HostInterface = [], net_VXLAN = \<lparr>vxlan_Port = DefaultVXLANPort, MinID = DefaultVXLANMinID\<rparr>,
     net_ExternalNetViaPodVM = False, PodSubnetCIDRs = []\<rparr>"

definition demo_node :: "ipt_tables workerNode" where
  "demo_node = (case NewWorkerNodeTunneler demo_net mem_ipt decimal_ip6 of
     Inr tun \<Rightarrow> \<lparr>wn_NetworkConfig = demo_config, wn_tunneler = tun, wn_Configure = vxlan_Configure\<rparr>)"

lemma demo_node_new: "NewWorkerNode (vxlan_drivers demo_net mem_ipt decimal_ip6) demo_config = Inr demo_node"
  by (simp add: NewWorkerNode_def WorkerNodeTunneler_def getDriver_def vxlan_drivers_def Register_def NewWorkerNodeTunneler_def
      demo_config_def demo_node_def)

lemma demo_addr: "toPrefix (Some \<lparr>net_IP = [10, 0, 0, 7], net_Mask = [255, 255, 255, 0]\<rparr>) = \<lparr>prefix_ip = Addr4 0x0A000007, bitsPlusOne = 25\<rparr>"
  by code_simp

lemma demo_inspect:
  "\<exists>c. Inspect demo_net decimal_ip6 demo_node nsPath (p, w) = (Inr c, (p + 1, w)) \<and> VXLANID c = 555000 + p"
proof -
  have prim: "findPrimaryInterface (demo_net :: ipt_tables netlink) ns w = (Inr (''eth0'', Addr4 0x0A000001), w)" for ns
    by (rule eth0_primary) (simp_all add: demo_net_def)
  have open_ns: "OpenNamespace (demo_net :: ipt_tables netlink) x w = (Inr \<lparr>ns_handle = 3, ns_path = x, nsHandle = 3\<rparr>, w)" for x
    by (simp add: OpenNamespace_def demo_net_def bind_io_def wrap_io_def ret_def)
  have close: "snd (Close (demo_net :: ipt_tables netlink) ns w) = w" for ns
    by (simp add: Close_def demo_net_def no_netlink_def Let_def wrap_io_def)
  have routes: "RouteList (demo_net :: ipt_tables netlink) ns [] w = (Inr [], w)" for ns
    by (simp add: RouteList_def default_filters_def routeListFiltered_def bind_io_def wrap_io_def demo_net_def route_filter_def route0_def
        PrefixZero_def IsValid_def insertionSort_def)
  have neigh: "NeighborList (demo_net :: ipt_tables netlink) ns
      [\<lparr>neigh_IP = AddrZero, neigh_HardwareAddr = [], neigh_Dev = ''eth0'', neigh_State = NEIGHBOR_STATE_PERMANENT\<rparr>] w = (Inr [], w)" for ns
    by (simp add: NeighborList_def device_index_def bind_io_def wrap_io_def demo_net_def NeighborState_String_def neighorStateMap_def
        NEIGHBOR_STATE_PERMANENT_def)
  have link: "LinkFind (demo_net :: ipt_tables netlink) ns ''eth0'' w = (Inr \<lparr>nlLink = eth0_link, link_ns = ns\<rparr>, w)" for ns
    by (simp add: LinkFind_def demo_net_def bind_io_def wrap_io_def eth0_link_def)
  have addr: "GetAddr (demo_net :: ipt_tables netlink) l w = (Inr [\<lparr>prefix_ip = Addr4 0x0A000007, bitsPlusOne = 25\<rparr>], w)" for l
    by (simp add: GetAddr_def demo_net_def bind_io_def wrap_io_def demo_addr)
  have conf: "wn_Configure demo_node = vxlan_Configure" "wn_NetworkConfig demo_node = demo_config"
    by (simp_all add: demo_node_def NewWorkerNodeTunneler_def)
  have cur: "OpenCurrentNamespace (demo_net :: ipt_tables netlink) w =
      (Inr \<lparr>ns_handle = 3, ns_path = ''/proc/1/task/1/ns/net'', nsHandle = 3\<rparr>, w)"
    by (simp add: OpenCurrentNamespace_def open_ns) (simp add: demo_net_def no_netlink_def Let_def open_ns digits_of_less_10)
  have "\<exists>c. inspect_pod demo_net decimal_ip6 demo_node nsPath \<lparr>prefix_ip = Addr4 0x0A000007, bitsPlusOne = 25\<rparr> False p w = (Inr c, w) \<and>
      VXLANID c = 555000 + p"
    by (simp add: inspect_pod_def bind_io_def open_ns defer_io_def routes prim link getPodIP_def addr IsValid_def Is4_def neigh close conf
        vxlan_Configure_def demo_config_def DefaultVXLANMinID_def)
  then obtain c where pod: "inspect_pod demo_net decimal_ip6 demo_node nsPath \<lparr>prefix_ip = Addr4 0x0A000007, bitsPlusOne = 25\<rparr> False p w = (Inr c, w)"
    and c: "VXLANID c = 555000 + p" by blast
  have "HostInterface (wn_NetworkConfig demo_node) = []" by (simp add: conf demo_config_def)
  then have "inspect_with demo_net decimal_ip6 demo_node nsPath p w = (Inr c, w)"
    by (simp add: inspect_with_def bind_io_def cur prim link addr close defer_io_def pod)
  then show ?thesis using c by (simp add: Inspect_def podIndex_Get_def)
qed


text \<open>C18: Whatever configuration a worker node produces for a pod is acceptable to the pod node: its tunnel type has a driver there, it names
an interface, its pod address is a valid IPv4 prefix, and port and identifier of the tunnel are the configured ones.\<close>

theorem inspect_config_complete:
  assumes "NewWorkerNode (vxlan_drivers N I t) networkConfig = Inr n" and "Inspect N t n nsPath (p, w) = (Inr c, s')"
  shows "is_ok (PodNodeTunneler (vxlan_drivers N' I' t') (TunnelType c)) \<and> InterfaceName c \<noteq> [] \<and> IsValid (PodIP c) \<and>
         Is4 (prefix_ip (PodIP c)) \<and> VXLANPort c = vxlan_Port (net_VXLAN networkConfig) \<and>
         VXLANID c = MinID (net_VXLAN networkConfig) + p"
proof -
  note n = vxlan_worker_node[OF assms(1)]
  obtain v where "inspect_with N t n nsPath p w = (Inr c, v)"
    using assms(2) by (auto simp: Inspect_def podIndex_Get_def split: prod.splits)
  then obtain ip d w1 w2 where "inspect_pod N t n nsPath ip d p w1 = (Inr c, w2)" using inspect_with_pod[of N t n nsPath p w c v] by auto
  note c = inspect_pod_config[OF this n(1), unfolded n(2)]
  have "is_ok (PodNodeTunneler (vxlan_drivers N' I' t') ''vxlan'')"
    by (simp add: PodNodeTunneler_def getDriver_def vxlan_drivers_def Register_def NewPodNodeTunneler_def)
  then show ?thesis using c n(3) by simp
qed

theorem inspect_config_complete_witness:
  "\<exists>c s'. Inspect demo_net decimal_ip6 demo_node ''/run/netns/a'' (4, raw_tables) = (Inr c, s') \<and> VXLANID c = 555004 \<and>
     VXLANPort c = 4789 \<and> is_ok (PodNodeTunneler (vxlan_drivers demo_net mem_ipt decimal_ip6) (TunnelType c))"
proof -
  obtain c where i: "Inspect demo_net decimal_ip6 demo_node ''/run/netns/a'' (4, raw_tables) = (Inr c, (5, raw_tables))"
    using demo_inspect[of "''/run/netns/a''" 4 raw_tables] by auto
  from inspect_config_complete[OF demo_node_new i, of demo_net mem_ipt decimal_ip6] i show ?thesis
    by (auto simp: demo_config_def DefaultVXLANPort_def DefaultVXLANMinID_def)
qed

section \<open>The interface that is moved into the pod\<close>

lemma getInterfaceDetails_route:
  assumes "getInterfaceDetails N ns iface w = (Inr (a, Some r), w')"
  shows "Device r = iface \<and> Bits (Destination r) = 0"
  using assms by (auto simp: getInterfaceDetails_def io_iffs find_Some_iff)

lemma secondary_loop_result:
  assumes "secondary_loop N ns prim pri defRoute links w = (Inr (iface, addr, r), w')" and "Bits (Destination defRoute) = 0"
  shows "iface \<noteq> prim \<and> \<not> isInterfaceFilteredOut iface \<and> IsValid addr \<and> Device r = iface \<and> Bits (Destination r) = 0"
  using assms
proof (induction links arbitrary: w)
  case (Cons l links)
  show ?case
  proof (cases "isInterfaceFilteredOut (Name l) \<or> Name l = prim")
    case True
    then show ?thesis using Cons by (simp add: Let_def)
  next
    case False
    then obtain a route w1 where g: "getInterfaceDetails N ns (Name l) w = (Inr (a, route), w1)"
      and "(if \<not> IsValid a then secondary_loop N ns prim pri defRoute links
           else case route of Some r \<Rightarrow> ret (Name l, a, r)
                | None \<Rightarrow> if Masked pri = Masked a
                    then ret (Name l, a, route0\<lparr>Destination := Destination defRoute, Gateway := Gateway defRoute, Device := Name l\<rparr>)
                    else secondary_loop N ns prim pri defRoute links) w1 = (Inr (iface, addr, r), w')"
      using Cons.prems(1) by (auto simp: Let_def bind_io_Inr_iff)
    then show ?thesis
      using Cons.IH[of w1] Cons.prems(2) False getInterfaceDetails_route[of N ns "Name l" w a r w1]
      by (auto split: if_splits option.splits)
  qed
qed simp

text \<open>C30: The interface that a pod VM moves into the pod is never its primary interface, nor a virtual or loopback one; the route that is
installed with it is a default route through that interface.\<close>

theorem secondary_not_primary:
  assumes "getSecondaryInterfaceDetails N ns primaryInterface w = (Inr (iface, addr, r), w')"
  shows "iface \<noteq> primaryInterface \<and> \<not> isInterfaceFilteredOut iface \<and> IsValid addr \<and> Device r = iface \<and> Bits (Destination r) = 0"
proof -
  obtain pri d w1 links w2 where g: "getInterfaceDetails N ns primaryInterface w = (Inr (pri, Some d), w1)"
    and l: "secondary_loop N ns primaryInterface pri d links w2 = (Inr (iface, addr, r), w')"
    using assms by (auto simp: getSecondaryInterfaceDetails_def bind_io_Inr_iff split: option.splits)
  show ?thesis by (rule secondary_loop_result[OF l]) (use getInterfaceDetails_route[OF g] in simp)
qed

definition two_net :: "unit netlink" where
  \<comment> \<open>a second interface in the subnet of the first one\<close>
  "two_net = demo_net\<lparr>nl_LinkList := \<lambda>_ _. Inr [eth0_link\<lparr>nl_Name := ''lo''\<rparr>, eth0_link, eth0_link\<lparr>nl_Name := ''eth1'', nl_Index := 3\<rparr>]\<rparr>"

theorem secondary_not_primary_witness:
  "\<exists>addr r. getSecondaryInterfaceDetails two_net \<lparr>ns_handle = 3, ns_path = [], nsHandle = 3\<rparr> ''eth0'' () = (Inr (''eth1'', addr, r), ()) \<and>
     \<not> isInterfaceFilteredOut ''eth1'' \<and> Device r = ''eth1'' \<and> Bits (Destination r) = 0"
proof -
  let ?ns = "\<lparr>ns_handle = 3, ns_path = [], nsHandle = 3\<rparr>"
  let ?r = "\<lparr>Destination = DefaultPrefix, Source = AddrZero, Gateway = Addr4 0x0A000001, Device = ''eth0'', Priority = 0, Table = 0, rt_Type = 0,
    Protocol = 0, Scope = 0, Onlink = False\<rparr>"
  have gw: "toAddr [10, 0, 0, 1] = Addr4 0x0A000001" by (simp add: toAddr_def AddrFromSlice_def from_bytes_def)
  have src: "toAddr [] = AddrZero" by (simp add: toAddr_def AddrFromSlice_def)
  have routes: "RouteList two_net ?ns [route0\<lparr>Destination := DefaultPrefix\<rparr>] () = (Inr [?r], ())"
    by (simp add: RouteList_one routeListFiltered_def route_filter_def route0_def DefaultPrefix_def PrefixFrom_def IsValid_def bind_io_def
        wrap_io_def two_net_def demo_net_def to_route_def eth0_default_def nl_route0_def eth0_link_def insertionSort_def toPrefix_def gw src)
  have addr: "GetAddr two_net l () = (Inr [\<lparr>prefix_ip = Addr4 0x0A000007, bitsPlusOne = 25\<rparr>], ())" for l
    by (simp add: GetAddr_def two_net_def demo_net_def bind_io_def wrap_io_def demo_addr)
  have find: "name = ''eth0'' \<or> name = ''eth1'' \<Longrightarrow> \<exists>l. LinkFind two_net ?ns name () = (Inr l, ())" for name
    by (auto simp: LinkFind_def two_net_def bind_io_def wrap_io_def eth0_link_def)
  have bits0: "Bits DefaultPrefix = 0" by (simp add: DefaultPrefix_def PrefixFrom_def Bits_def)
  have d0: "getInterfaceDetails two_net ?ns ''eth0'' () = (Inr (\<lparr>prefix_ip = Addr4 0x0A000007, bitsPlusOne = 25\<rparr>, Some ?r), ())"
    using find[of "''eth0''"] by (auto simp: getInterfaceDetails_def bind_io_def addr routes Is4_def bits0 int64_max_def)
  have d1: "getInterfaceDetails two_net ?ns ''eth1'' () = (Inr (\<lparr>prefix_ip = Addr4 0x0A000007, bitsPlusOne = 25\<rparr>, None), ())"
    using find[of "''eth1''"] by (auto simp: getInterfaceDetails_def bind_io_def addr routes Is4_def)
  obtain l0 l1 l2 where ll: "LinkList two_net ?ns () = (Inr [l0, l1, l2], ())" "Name l0 = ''lo''" "Name l1 = ''eth0''" "Name l2 = ''eth1''"
    by (simp add: LinkList_def two_net_def bind_io_def wrap_io_def Name_def eth0_link_def)
  have "isInterfaceFilteredOut ''lo''" "\<not> isInterfaceFilteredOut ''eth1''"
    by (simp_all add: isInterfaceFilteredOut_def allowedPrefixes_def HasPrefix_def)
  then have "\<exists>addr r. getSecondaryInterfaceDetails two_net ?ns ''eth0'' () = (Inr (''eth1'', addr, r), ())"
    by (simp add: getSecondaryInterfaceDetails_def bind_io_def d0 d1 ll Let_def IsValid_def)
  then obtain a r where g: "getSecondaryInterfaceDetails two_net ?ns ''eth0'' () = (Inr (''eth1'', a, r), ())" by blast
  show ?thesis using secondary_not_primary[OF g] g by blast
qed

end
