(* ===== verification/CloudService.thy ===== *)
theory CloudService
  imports CloudInit K8sOps ProviderCommon ProviderIface PodNetwork
begin

text \<open>
  The cloud service of the adaptor, \<open>src/src/cloud-api-adaptor/pkg/adaptor/cloud/cloud.go\<close> and \<open>types.go\<close>, which creates, starts and stops
  the VM of a pod sandbox; the pod annotations it reads (\<open>pkg/util/cloud.go\<close>) and the VM information service (\<open>pkg/adaptor/vminfo/service.go\<close>).

  The state is the record \<open>cloudService\<close>.  The world \<open>'w\<close> in it holds what the collaborators of the service change: instances, kernel,
  API server, SSH connections and agent proxies.  The interfaces \<open>provider.Provider\<close>, \<open>podnetwork.WorkerNode\<close>, \<open>proxy.AgentProxy\<close>, the SSH client
  and the JSON encoder are collected in the record \<open>service_env\<close>; the PeerPod service and the image pull secrets are those of \<open>K8sOps\<close>.
  Every method holds the mutex only around its accesses to the sandbox map, so \<open>StartVM\<close> is given as its part up to the creation of the
  instance and the part after it, between which other methods can run.  Pod names are ASCII.
\<close>

section \<open>Annotations\<close>

record annotation_keys =
  \<comment> \<open>constants of containerd and Kata\<close>
  SandboxName :: string
  SandboxNamespace :: string
  MachineType :: string
  ImagePath :: string
  DefaultVCPUs :: string
  DefaultMemory :: string
  DefaultGPUs :: string

type_synonym annotations = "(string, string) go_map"

definition GetPodName :: "annotation_keys \<Rightarrow> annotations \<Rightarrow> string" where
  "GetPodName K a =
     (let sandboxName = go_get [] a (SandboxName K);
          tmp = Split sandboxName (CHR ''_'')
      in if 1 < length tmp \<and> tmp ! 0 = ''k8s'' then tmp ! 1 else sandboxName)"

definition GetPodNamespace :: "annotation_keys \<Rightarrow> annotations \<Rightarrow> string" where
  "GetPodNamespace K a = go_get [] a (SandboxNamespace K)"

definition GetInstanceTypeFromAnnotation :: "annotation_keys \<Rightarrow> annotations \<Rightarrow> string" where
  "GetInstanceTypeFromAnnotation K a = go_get [] a (MachineType K)"

definition GetImageFromAnnotation :: "annotation_keys \<Rightarrow> annotations \<Rightarrow> string" where
  "GetImageFromAnnotation K a = go_get [] a (ImagePath K)"

definition int_annotation :: "annotations \<Rightarrow> string \<Rightarrow> int" where
  "int_annotation a k = (case map_of a k of None \<Rightarrow> 0 | Some v \<Rightarrow> (case ParseInt10 v of Inl _ \<Rightarrow> 0 | Inr n \<Rightarrow> n))"

definition GetPodvmResourcesFromAnnotation :: "annotation_keys \<Rightarrow> annotations \<Rightarrow> int \<times> int \<times> int" where
  "GetPodvmResourcesFromAnnotation K a =
     (int_annotation a (DefaultVCPUs K), int_annotation a (DefaultMemory K), int_annotation a (DefaultGPUs K))"

definition GetInitdataFromAnnotation :: "initdata_lib \<Rightarrow> annotations \<Rightarrow> initdata_error + string" where
  "GetInitdataFromAnnotation L a =
     (let str = go_get [] a ''io.katacontainers.config.hypervisor.cc_init_data''
      in if str = [] then Inr [] else Encode L str)"

definition Contains :: "string list \<Rightarrow> string \<Rightarrow> bool" where
  "Contains items s = list_ex (\<lambda>item. item = s) items"

section \<open>State\<close>

definition DefaultConfigPath :: string where "DefaultConfigPath = ''/run/peerpod/apf.json''"
definition AgentURLPath :: string where "AgentURLPath = ''/agent''"
definition SocketName :: string where "SocketName = ''agent.ttrpc''"

record ServerConfig =
  \<comment> \<open>the fields that the service reads\<close>
  PodsDir :: string
  ForwarderPort :: string
  Initdata :: string
  SecureComms :: bool
  SecureCommsTrustee :: bool
  SecureCommsInbounds :: string
  SecureCommsOutbounds :: string
  SecureCommsPpInbounds :: string
  SecureCommsPpOutbounds :: string
  SecureCommsKbsAddress :: string
  EnableScratchSpace :: bool

record daemon_Config =
  dc_PodNetwork :: Config
  dc_PodNamespace :: string
  dc_PodName :: string
  dc_TLSServerKey :: string
  dc_TLSServerCert :: string
  dc_TLSClientCA :: string
  dc_PpPrivateKey :: string
  dc_WnPublicKey :: string
  dc_SecureCommsInbounds :: string
  dc_SecureCommsOutbounds :: string
  dc_SecureComms :: bool

record AgentProxy =
  \<comment> \<open>the arguments of \<open>proxyFactory.New\<close> identify the proxy\<close>
  serverName :: string
  socketPath :: string

record sandbox =
  agentProxy :: AgentProxy
  podNetwork :: Config
  cloudConfig :: CloudConfig
  sb_id :: string
  podName :: string
  podNamespace :: string
  instanceName :: string
  instanceID :: string
  netNSPath :: string
  sb_spec :: InstanceTypeSpec
  sshClientInst :: "nat option"

record 'w cloudService =
  sandboxes :: "(string, sandbox) go_map"
  ppService :: "PeerPodService option"
  sshClient :: bool
  serverConfig :: ServerConfig
  svc_os :: os_state
  svc_world :: 'w

datatype proxy_event = CtxDone string | ProxyReturned "string option" | ProxyReady
  \<comment> \<open>the channel that the select statement of \<open>StartVM\<close> receives from; \<open>ProxyReturned None\<close> is the closed error channel\<close>

record 'w service_env =
  env_provider :: "'w Provider"
  env_kube :: "'w kube_api"
  env_initdata :: initdata_lib
  env_keys :: annotation_keys
  env_ip6 :: ip6_text
  env_lower :: "rune \<Rightarrow> rune"
  wn_iface_Inspect :: "string \<Rightarrow> ('w, net_error, Config option) io"
  wn_iface_Setup :: "string \<Rightarrow> Addr list \<Rightarrow> Config \<Rightarrow> ('w, net_error, unit) io"
  wn_iface_Teardown :: "string \<Rightarrow> Config \<Rightarrow> ('w, net_error, unit) io"
  ClientCA :: "AgentProxy \<Rightarrow> string"
  CAService_Issue :: "AgentProxy \<Rightarrow> (string \<Rightarrow> string + string \<times> string) option"
  proxy_Start :: "AgentProxy \<Rightarrow> string \<Rightarrow> string \<Rightarrow> 'w \<Rightarrow> proxy_event \<times> 'w"
  proxy_Shutdown :: "AgentProxy \<Rightarrow> 'w \<Rightarrow> string option \<times> 'w"
  InitSshClient :: "string list \<Rightarrow> string list \<Rightarrow> bool \<Rightarrow> string \<Rightarrow> string \<Rightarrow> 'w \<Rightarrow> string option \<times> 'w"
  InitPP :: "string \<Rightarrow> 'w \<Rightarrow> (nat option \<times> string) \<times> 'w"
  GetWnPublicKey :: "'w \<Rightarrow> string"
  ssh_Start :: "nat \<Rightarrow> Addr list \<Rightarrow> ('w, string, unit) io"
  ssh_GetPort :: "nat \<Rightarrow> string \<Rightarrow> 'w \<Rightarrow> string"
  DisconnectPP :: "nat \<Rightarrow> string \<Rightarrow> 'w \<Rightarrow> 'w"
  marshal_daemon :: "daemon_Config \<Rightarrow> string + string"
  rand_suffix :: "'w \<Rightarrow> string"

datatype service_error =
    EmptySandboxID | MissingPodName | MissingNamespace | InspectFailed net_error | NilNetworkConfig | NamePanic
  | PodDir os_error | IssueFailed | InitPPFailed | MarshalFailed string | StoreFailed os_error | InitdataFailed initdata_error
  | SandboxExists string | SandboxMissing string | CreateFailed provider_error | NoInstanceIP | SshStartFailed string
  | TunnelFailed net_error | Interrupted string | ProxyFailed string | NilPointer | GetInstanceIDFailed string

section \<open>The sandbox map\<close>

definition addSandbox :: "string \<Rightarrow> sandbox \<Rightarrow> 'w cloudService \<Rightarrow> service_error option \<times> 'w cloudService" where
  "addSandbox sid sb s =
     (case map_of (sandboxes s) sid of
        Some _ \<Rightarrow> (Some (SandboxExists sid), s)
      | None \<Rightarrow> (None, s\<lparr>sandboxes := AList.update sid sb (sandboxes s)\<rparr>))"

definition getSandbox :: "string \<Rightarrow> 'w cloudService \<Rightarrow> service_error + sandbox" where
  "getSandbox sid s =
     (if sid = [] then Inl EmptySandboxID
      else case map_of (sandboxes s) sid of None \<Rightarrow> Inl (SandboxMissing sid) | Some sb \<Rightarrow> Inr sb)"

definition removeSandbox :: "string \<Rightarrow> 'w cloudService \<Rightarrow> service_error option \<times> 'w cloudService" where
  "removeSandbox sid s =
     (if sid = [] then (Some EmptySandboxID, s) else (None, s\<lparr>sandboxes := AList.delete sid (sandboxes s)\<rparr>))"

definition setInstance :: "string \<Rightarrow> string \<Rightarrow> string \<Rightarrow> 'w cloudService \<Rightarrow> service_error option \<times> 'w cloudService" where
  "setInstance sid iid iname s =
     (case map_of (sandboxes s) sid of
        None \<Rightarrow> (Some (SandboxMissing sid), s)
      | Some sb \<Rightarrow> (None, s\<lparr>sandboxes := AList.update sid (sb\<lparr>instanceID := iid, instanceName := iname\<rparr>) (sandboxes s)\<rparr>))"

section \<open>Construction\<close>

definition NewService :: "'w service_env \<Rightarrow> ServerConfig \<Rightarrow> string \<Rightarrow> os_state \<Rightarrow> 'w \<Rightarrow> 'w cloudService option" where
  \<comment> \<open>\<open>None\<close> when \<open>log.Fatalf\<close> ends the process\<close>
  "NewService E cfg sshport os w =
     (let inbounds = ''KUBERNETES_PHASE:KATAAGENT:0'' # Split (SecureCommsInbounds cfg) (CHR '','');
          outbounds = Split (SecureCommsOutbounds cfg) (CHR '','') @
            (if SecureCommsTrustee cfg then [''BOTH_PHASES:KBS:'' @ SecureCommsKbsAddress cfg] else []);
          (err, w) = (if SecureComms cfg
                      then InitSshClient E inbounds outbounds (SecureCommsTrustee cfg) (SecureCommsKbsAddress cfg) sshport w
                      else (None, w))
      in if err \<noteq> None then None
         else Some \<lparr>sandboxes = [],
                    ppService = (case NewPeerPodService (env_kube E) os of Inl _ \<Rightarrow> None | Inr p \<Rightarrow> Some p),
                    sshClient = SecureComms cfg, serverConfig = cfg, svc_os = os, svc_world = w\<rparr>)"

definition svc_Teardown :: "'w service_env \<Rightarrow> 'w cloudService \<Rightarrow> provider_error option \<times> 'w cloudService" where
  "svc_Teardown E s = (case Teardown (env_provider E) (svc_world s) of (r, w) \<Rightarrow> (r, s\<lparr>svc_world := w\<rparr>))"

definition svc_ConfigVerifier :: "'w service_env \<Rightarrow> provider_error option" where
  "svc_ConfigVerifier E = ConfigVerifier (env_provider E)"

section \<open>CreateVM\<close>

record CreateVMRequest =
  req_Id :: string
  req_Annotations :: annotations
  NetworkNamespacePath :: string

definition write_file :: "string \<Rightarrow> string \<Rightarrow> CloudInit.WriteFile" where
  "write_file path content = \<lparr>Path = path, Content = content, Owner = [], Permissions = [], Encoding = [], Append = []\<rparr>"

definition vm_files :: "ServerConfig \<Rightarrow> string \<Rightarrow> string option \<Rightarrow> string \<Rightarrow> CloudInit.WriteFile list" where
  \<comment> \<open>the files of the cloud-config: daemon configuration, credentials, initdata and the scratch space marker\<close>
  "vm_files cfg apfJSON authJSON initdataEnc =
     [write_file DefaultConfigPath apfJSON] @
     (case authJSON of
        None \<Rightarrow> []
      | Some a \<Rightarrow> if DefaultAuthfileLimit < length a then [] else [write_file AuthFilePath a]) @
     (let i = (if initdataEnc = [] \<and> Initdata cfg \<noteq> [] then Initdata cfg else initdataEnc)
      in if i \<noteq> [] then [write_file InitDataPath i] else []) @
     (if EnableScratchSpace cfg then [write_file ScratchSpacePath []] else [])"

definition init_pp :: "'w service_env \<Rightarrow> string \<Rightarrow> daemon_Config \<Rightarrow> 'w cloudService \<Rightarrow>
    (service_error + nat option \<times> daemon_Config) \<times> 'w cloudService" where
  \<comment> \<open>the SSH keys of the pod VM\<close>
  "init_pp E sid dc s =
     (if \<not> sshClient s then (Inr (None, dc), s)
      else case InitPP E sid (svc_world s) of
             ((None, _), w) \<Rightarrow> (Inl InitPPFailed, s\<lparr>svc_world := w\<rparr>)
           | ((Some ci, ppPrivateKey), w) \<Rightarrow>
               (Inr (Some ci,
                     if SecureCommsTrustee (serverConfig s) then dc
                     else dc\<lparr>dc_WnPublicKey := GetWnPublicKey E w, dc_PpPrivateKey := ppPrivateKey,
                             dc_SecureCommsOutbounds := SecureCommsPpOutbounds (serverConfig s),
                             dc_SecureCommsInbounds := SecureCommsPpInbounds (serverConfig s), dc_SecureComms := True\<rparr>),
                s\<lparr>svc_world := w\<rparr>))"

definition issue_cert :: "'w service_env \<Rightarrow> AgentProxy \<Rightarrow> string \<Rightarrow> daemon_Config \<Rightarrow> service_error + daemon_Config" where
  "issue_cert E px name dc =
     (case CAService_Issue E px of
        None \<Rightarrow> Inr dc
      | Some issue \<Rightarrow>
          (case issue name of
             Inl _ \<Rightarrow> Inl IssueFailed
           | Inr (certPEM, keyPEM) \<Rightarrow> Inr (dc\<lparr>dc_TLSServerCert := certPEM, dc_TLSServerKey := keyPEM\<rparr>)))"

definition finish_create ::
  "'w service_env \<Rightarrow> CreateVMRequest \<Rightarrow> sandbox \<Rightarrow> string \<Rightarrow> daemon_Config \<Rightarrow> 'w cloudService \<Rightarrow> (service_error + string) \<times> 'w cloudService" where
  \<comment> \<open>\<open>CreateVM\<close> from the encoding of the daemon configuration on; the sandbox still lacks its cloud-config\<close>
  "finish_create E req sb podDir dc s =
     (case marshal_daemon E dc of
        Inl e \<Rightarrow> (Inl (MarshalFailed e), s)
      | Inr apfJSON \<Rightarrow>
          (case GoOs.WriteFile (svc_os s) (Join_path [podDir, ''apf.json'']) apfJSON 0x1B6 of
             (Inl e, os) \<Rightarrow> (Inl (StoreFailed e), s\<lparr>svc_os := os\<rparr>)
           | (Inr _, os) \<Rightarrow>
               (let s = s\<lparr>svc_os := os\<rparr>;
                    authJSON = (case GetImagePullSecrets (env_kube E) (podName sb) (podNamespace sb) (svc_world s) of
                                  Inl _ \<Rightarrow> None | Inr a \<Rightarrow> a)
                in case GetInitdataFromAnnotation (env_initdata E) (req_Annotations req) of
                     Inl e \<Rightarrow> (Inl (InitdataFailed e), s)
                   | Inr initdataEnc \<Rightarrow>
                       (case addSandbox (sb_id sb)
                               (sb\<lparr>cloudConfig := \<lparr>WriteFiles = vm_files (serverConfig s) apfJSON authJSON initdataEnc\<rparr>\<rparr>) s of
                          (Some e, s) \<Rightarrow> (Inl e, s)
                        | (None, s) \<Rightarrow> (Inr (socketPath (agentProxy sb)), s)))))"

definition CreateVM :: "'w service_env \<Rightarrow> CreateVMRequest \<Rightarrow> 'w cloudService \<Rightarrow> (service_error + string) \<times> 'w cloudService" where
  \<comment> \<open>returns the socket path of the agent proxy\<close>
  "CreateVM E req s =
     (let sid = req_Id req;
          pod = GetPodName (env_keys E) (req_Annotations req);
          namespace = GetPodNamespace (env_keys E) (req_Annotations req)
      in if sid = [] then (Inl EmptySandboxID, s)
         else if pod = [] then (Inl MissingPodName, s)
         else if namespace = [] then (Inl MissingNamespace, s)
         else
           (case GetPodvmResourcesFromAnnotation (env_keys E) (req_Annotations req) of
              (vcpus, memory, gpus) \<Rightarrow>
                (case wn_iface_Inspect E (NetworkNamespacePath req) (svc_world s) of
                   (Inl e, w) \<Rightarrow> (Inl (InspectFailed e), s\<lparr>svc_world := w\<rparr>)
                 | (Inr None, w) \<Rightarrow> (Inl NilNetworkConfig, s\<lparr>svc_world := w\<rparr>)
                 | (Inr (Some podNetworkConfig), w) \<Rightarrow>
                     (let s = s\<lparr>svc_world := w\<rparr>;
                          vmSpec = \<lparr>InstanceType = GetInstanceTypeFromAnnotation (env_keys E) (req_Annotations req), VCPUs = vcpus,
                                    Memory = memory, Arch = [], GPUs = gpus, Image = GetImageFromAnnotation (env_keys E) (req_Annotations req),
                                    MultiNic = ExternalNetViaPodVM podNetworkConfig\<rparr>;
                          podDir = Join_path [PodsDir (serverConfig s), sid]
                      in case GenerateInstanceName (env_lower E) (map of_char pod) (map of_char sid) 63 of
                           None \<Rightarrow> (Inl NamePanic, s)
                         | Some sname \<Rightarrow>
                             (case MkdirAll (svc_os s) podDir ModePerm of
                                (Inl e, os) \<Rightarrow> (Inl (PodDir e), s\<lparr>svc_os := os\<rparr>)
                              | (Inr _, os) \<Rightarrow>
                                  (let s = s\<lparr>svc_os := os\<rparr>;
                                       px = \<lparr>serverName = sname, socketPath = Join_path [podDir, SocketName]\<rparr>;
                                       dc = \<lparr>dc_PodNetwork = podNetworkConfig, dc_PodNamespace = namespace, dc_PodName = pod,
                                             dc_TLSServerKey = [], dc_TLSServerCert = [], dc_TLSClientCA = ClientCA E px, dc_PpPrivateKey = [],
                                             dc_WnPublicKey = [], dc_SecureCommsInbounds = [], dc_SecureCommsOutbounds = [], dc_SecureComms = False\<rparr>
                                   in case issue_cert E px sname dc of
                                        Inl e \<Rightarrow> (Inl e, s)
                                      | Inr dc \<Rightarrow>
                                          (case init_pp E sid dc s of
                                             (Inl e, s) \<Rightarrow> (Inl e, s)
                                           | (Inr (sshCi, dc), s) \<Rightarrow>
                                               finish_create E req
                                                 \<lparr>agentProxy = px, podNetwork = podNetworkConfig, cloudConfig = \<lparr>WriteFiles = []\<rparr>, sb_id = sid,
                                                  podName = pod, podNamespace = namespace, instanceName = [], instanceID = [],
                                                  netNSPath = NetworkNamespacePath req, sb_spec = vmSpec, sshClientInst = sshCi\<rparr>
                                                 podDir dc s)))))))"

section \<open>StartVM\<close>

definition start_create :: "'w service_env \<Rightarrow> string \<Rightarrow> 'w cloudService \<Rightarrow> (service_error + sandbox \<times> Instance) \<times> 'w cloudService" where
  \<comment> \<open>up to and including the creation of the instance\<close>
  "start_create E sid s =
     (case getSandbox sid s of
        Inl e \<Rightarrow> (Inl e, s)
      | Inr sb \<Rightarrow>
          (case CreateInstance (env_provider E) (podName sb) sid (Inr (Generate (cloudConfig sb))) (sb_spec sb) (svc_world s) of
             (Inl e, w) \<Rightarrow> (Inl (CreateFailed e), s\<lparr>svc_world := w\<rparr>)
           | (Inr instance, w) \<Rightarrow> (Inr (sb, instance), s\<lparr>svc_world := w\<rparr>)))"

definition own_peerpod :: "'w service_env \<Rightarrow> sandbox \<Rightarrow> string \<Rightarrow> 'w cloudService \<Rightarrow> 'w cloudService" where
  \<comment> \<open>an error is only logged\<close>
  "own_peerpod E sb iid s =
     (case ppService s of
        None \<Rightarrow> s
      | Some p \<Rightarrow>
          (case OwnPeerPod (env_kube E) (rand_suffix E (svc_world s)) p (podName sb) (podNamespace sb) iid (svc_world s) of
             (_, p, w) \<Rightarrow> s\<lparr>ppService := Some p, svc_world := w\<rparr>))"

definition start_proxy :: "'w service_env \<Rightarrow> sandbox \<Rightarrow> string \<Rightarrow> string \<Rightarrow> 'w cloudService \<Rightarrow> (service_error + bool) \<times> 'w cloudService" where
  \<comment> \<open>\<open>False\<close> is the nil response that goes with a nil error when the proxy returns without an error\<close>
  "start_proxy E sb instanceIP forwarderPort s =
     (case proxy_Start E (agentProxy sb) (JoinHostPort instanceIP forwarderPort) AgentURLPath (svc_world s) of
        (ProxyReady, w) \<Rightarrow> (Inr True, s\<lparr>svc_world := w\<rparr>)
      | (ProxyReturned (Some e), w) \<Rightarrow> (Inl (ProxyFailed e), s\<lparr>svc_world := w\<rparr>)
      | (ProxyReturned None, w) \<Rightarrow> (Inr False, s\<lparr>svc_world := w\<rparr>)
      | (CtxDone e, w) \<Rightarrow> (Inl (Interrupted e), s\<lparr>svc_world := snd (proxy_Shutdown E (agentProxy sb) w)\<rparr>))"

definition start_ssh :: "'w service_env \<Rightarrow> sandbox \<Rightarrow> Addr list \<Rightarrow> 'w cloudService \<Rightarrow> (service_error + string \<times> string) \<times> 'w cloudService" where
  \<comment> \<open>address and port of the forwarder; the SSH instance is a nil pointer if the sandbox was made without one\<close>
  "start_ssh E sb ips s =
     (if \<not> sshClient s then (Inr (AddrString (env_ip6 E) (hd ips), ForwarderPort (serverConfig s)), s)
      else case sshClientInst sb of
             None \<Rightarrow> (Inl NilPointer, s)
           | Some ci \<Rightarrow>
               (case ssh_Start E ci ips (svc_world s) of
                  (Inl e, w) \<Rightarrow> (Inl (SshStartFailed e), s\<lparr>svc_world := w\<rparr>)
                | (Inr _, w) \<Rightarrow> (Inr (''127.0.0.1'', ssh_GetPort E ci ''KATAAGENT'' w), s\<lparr>svc_world := w\<rparr>)))"

definition start_finish :: "'w service_env \<Rightarrow> string \<Rightarrow> sandbox \<Rightarrow> Instance \<Rightarrow> 'w cloudService \<Rightarrow> (service_error + bool) \<times> 'w cloudService" where
  \<comment> \<open>after the creation of the instance\<close>
  "start_finish E sid sb instance s =
     (let s = own_peerpod E sb (ID instance) s
      in case setInstance sid (ID instance) (Instance.Name instance) s of
           (Some e, s) \<Rightarrow> (Inl e, s)
         | (None, s) \<Rightarrow>
             if IPs instance = [] then (Inl NoInstanceIP, s)
             else
               (case start_ssh E sb (IPs instance) s of
                  (Inl e, s) \<Rightarrow> (Inl e, s)
                | (Inr (instanceIP, forwarderPort), s) \<Rightarrow>
                    (case wn_iface_Setup E (netNSPath sb) (IPs instance) (podNetwork sb) (svc_world s) of
                       (Inl e, w) \<Rightarrow> (Inl (TunnelFailed e), s\<lparr>svc_world := w\<rparr>)
                     | (Inr _, w) \<Rightarrow> start_proxy E sb instanceIP forwarderPort (s\<lparr>svc_world := w\<rparr>))))"

definition StartVM :: "'w service_env \<Rightarrow> string \<Rightarrow> 'w cloudService \<Rightarrow> (service_error + bool) \<times> 'w cloudService" where
  "StartVM E sid s =
     (case start_create E sid s of
        (Inl e, s) \<Rightarrow> (Inl e, s)
      | (Inr (sb, instance), s) \<Rightarrow> start_finish E sid sb instance s)"

section \<open>StopVM\<close>

definition delete_instance :: "'w service_env \<Rightarrow> sandbox \<Rightarrow> 'w cloudService \<Rightarrow> 'w cloudService" where
  \<comment> \<open>errors are only logged; the PeerPod is released only after a successful deletion\<close>
  "delete_instance E sb s =
     (case DeleteInstance (env_provider E) (instanceID sb) (svc_world s) of
        (Some _, w) \<Rightarrow> s\<lparr>svc_world := w\<rparr>
      | (None, w) \<Rightarrow>
          (let s = s\<lparr>svc_world := w\<rparr>
           in case ppService s of
                None \<Rightarrow> s
              | Some p \<Rightarrow>
                  (case ReleasePeerPod (env_kube E) p (podName sb) (podNamespace sb) (instanceID sb) w of
                     (_, p, w) \<Rightarrow> s\<lparr>ppService := Some p, svc_world := w\<rparr>)))"

definition StopVM :: "'w service_env \<Rightarrow> string \<Rightarrow> 'w cloudService \<Rightarrow> (service_error + unit) \<times> 'w cloudService" where
  "StopVM E sid s =
     (case getSandbox sid s of
        Inl e \<Rightarrow> (Inl e, s)
      | Inr sb \<Rightarrow>
          (let s = s\<lparr>svc_world := snd (proxy_Shutdown E (agentProxy sb) (svc_world s))\<rparr>;
               s = (case sshClientInst sb of None \<Rightarrow> s | Some ci \<Rightarrow> s\<lparr>svc_world := DisconnectPP E ci sid (svc_world s)\<rparr>);
               s = delete_instance E sb s;
               s = s\<lparr>svc_world := snd (wn_iface_Teardown E (netNSPath sb) (podNetwork sb) (svc_world s))\<rparr>
           in (Inr (), snd (removeSandbox sid s))))"

section \<open>Instance IDs\<close>

definition find_instance :: "string \<Rightarrow> string \<Rightarrow> (string, sandbox) go_map \<Rightarrow> string option" where
  "find_instance ns pod m = map_option (instanceID \<circ> snd) (find (\<lambda>(_, sb). podNamespace sb = ns \<and> podName sb = pod) m)"

partial_function (option) GetInstanceID ::
  "('i \<Rightarrow> (string, sandbox) go_map) \<Rightarrow> ('i \<Rightarrow> string option) \<Rightarrow> ('i \<Rightarrow> 'i) \<Rightarrow> string \<Rightarrow> string \<Rightarrow> bool \<Rightarrow> 'i \<Rightarrow> ((service_error + string) \<times> 'i) option" where
  \<comment> \<open>\<open>obs\<close> is the sandbox map and \<open>done\<close> the error of the context at a moment \<open>i\<close>, \<open>next\<close> the moment at which \<open>cond.Wait\<close> returns\<close>
  "GetInstanceID obs done next ns pod wait i =
     (case find_instance ns pod (obs i) of
        Some iid \<Rightarrow> Some (Inr iid, i)
      | None \<Rightarrow>
          (if \<not> wait then Some (Inr [], i)
           else case done i of
                  Some e \<Rightarrow> Some (Inl (GetInstanceIDFailed e), i)
                | None \<Rightarrow> GetInstanceID obs done next ns pod wait (next i)))"

datatype info_error = DeadlineExceeded | Unknown | VMNotFound

definition GetInfo :: "(service_error \<Rightarrow> bool) \<Rightarrow> service_error + string \<Rightarrow> info_error + string" where
  \<comment> \<open>from the result of \<open>GetInstanceID\<close>; the argument tells deadline errors\<close>
  "GetInfo is_deadline r =
     (case r of
        Inl e \<Rightarrow> Inl (if is_deadline e then DeadlineExceeded else Unknown)
      | Inr iid \<Rightarrow> if iid \<noteq> [] then Inr iid else Inl VMNotFound)"

end
