(* ===== verification/SshUtil.thy ===== *)
theory SshUtil
  imports GoOs
begin

text \<open>
  SSH key loading, host key checking and file transfer, \<open>src/src/cloud-providers/util/ssh.go\<close>.

  The packages \<open>golang.org/x/crypto/ssh\<close> and \<open>github.com/pkg/sftp\<close> are the records
  \<open>ssh_lib\<close> and \<open>sftp_lib\<close>.  What \<open>filepath.WalkDir\<close> visits, and in which order, is the list of
  entries it would pass to its callback.  The connection to the machine is part of the world \<open>'w\<close>.
  Host names only reach log lines and error texts; they are not part of the model.
\<close>

definition MaxAllowedHostKeys :: nat where "MaxAllowedHostKeys = 100"
definition MaxKeyFileSize :: nat where "MaxKeyFileSize = 16 * 1024"

record SSHConfig =
  PublicKey :: string
  PrivateKey :: string
  PublicKeyPath :: string
  PrivateKeyPath :: string
  Username :: string
  Timeout :: int
  HostKeyAllowlistDir :: string
  EnableSFTP :: bool

datatype ssh_error =
    ErrReadKey os_error
  | ErrKeyEmpty
  | ErrParseKey string
  | ErrInvalidKey ssh_error
  | ErrLoadKey string ssh_error
  | ErrInitKeys ssh_error
  | ErrAllowlistMissing string
  | ErrScan string
  | ErrAllowlistEmpty string
  | ErrAllowlist ssh_error
  | ErrHostKeyRejected string
  | ErrConnect string
  | ErrHandshake string
  | ErrSftpClient string
  | ErrRemoteMkdir string
  | ErrRemoteCreate string
  | ErrRemoteWrite string

record ('k, 's) ssh_lib =
  ParsePrivateKey :: "string \<Rightarrow> string + 's"
  ParseAuthorizedKey :: "string \<Rightarrow> string + 'k"
  FingerprintSHA256 :: "'k \<Rightarrow> string"

record ('k, 's) ClientConfig =
  User :: string
  Auth :: "'s list"
  ClientTimeout :: int
  HostKeyCallback :: "'k \<Rightarrow> ssh_error option"

section \<open>Keys\<close>

definition ValidateSSHPublicKey :: "('k, 's) ssh_lib \<Rightarrow> string \<Rightarrow> ssh_error option" where
  "ValidateSSHPublicKey L pubKey =
     (if TrimSpace pubKey = [] then Some ErrKeyEmpty
      else (case ParseAuthorizedKey L (TrimSpace pubKey) of Inl e \<Rightarrow> Some (ErrParseKey e) | Inr _ \<Rightarrow> None))"

definition ValidateSSHPrivateKey :: "('k, 's) ssh_lib \<Rightarrow> string \<Rightarrow> ssh_error option" where
  "ValidateSSHPrivateKey L privKey =
     (if TrimSpace privKey = [] then Some ErrKeyEmpty
      else (case ParsePrivateKey L (TrimSpace privKey) of Inl e \<Rightarrow> Some (ErrParseKey e) | Inr _ \<Rightarrow> None))"

definition ReadAndValidatePublicKey :: "('k, 's) ssh_lib \<Rightarrow> os_state \<Rightarrow> string \<Rightarrow> ssh_error + string" where
  "ReadAndValidatePublicKey L os path =
     (case ReadFile os path of
        Inl e \<Rightarrow> Inl (ErrReadKey e)
      | Inr data \<Rightarrow>
          (let pubKey = TrimSpace data
           in case ValidateSSHPublicKey L pubKey of Some e \<Rightarrow> Inl (ErrInvalidKey e) | None \<Rightarrow> Inr pubKey))"

definition ReadAndValidatePrivateKey :: "('k, 's) ssh_lib \<Rightarrow> os_state \<Rightarrow> string \<Rightarrow> ssh_error + string" where
  "ReadAndValidatePrivateKey L os path =
     (case ReadFile os path of
        Inl e \<Rightarrow> Inl (ErrReadKey e)
      | Inr data \<Rightarrow>
          (let privKey = TrimSpace data
           in case ValidateSSHPrivateKey L privKey of Some e \<Rightarrow> Inl (ErrInvalidKey e) | None \<Rightarrow> Inr privKey))"

definition loadKeysFromFiles :: "('k, 's) ssh_lib \<Rightarrow> os_state \<Rightarrow> SSHConfig \<Rightarrow> ssh_error option \<times> SSHConfig" where
  \<comment> \<open>the configuration is changed in place, also on the error of the second key\<close>
  "loadKeysFromFiles L os config =
     (if PublicKeyPath config = [] then (None, config)
      else (case ReadAndValidatePublicKey L os (PublicKeyPath config) of
              Inl e \<Rightarrow> (Some (ErrLoadKey (PublicKeyPath config) e), config)
            | Inr pubKey \<Rightarrow>
                (let config = config\<lparr>PublicKey := pubKey\<rparr>
                 in if EnableSFTP config \<and> PrivateKeyPath config \<noteq> []
                    then (case ReadAndValidatePrivateKey L os (PrivateKeyPath config) of
                            Inl e \<Rightarrow> (Some (ErrLoadKey (PrivateKeyPath config) e), config)
                          | Inr privKey \<Rightarrow> (None, config\<lparr>PrivateKey := privKey\<rparr>))
                    else (None, config))))"

definition initializeKeys :: "('k, 's) ssh_lib \<Rightarrow> os_state \<Rightarrow> SSHConfig \<Rightarrow> ssh_error option \<times> SSHConfig" where
  "initializeKeys L os config = loadKeysFromFiles L os config"

section \<open>The host key allowlist\<close>

record dir_entry =
  de_path :: string
  de_name :: string
  de_isdir :: bool
  de_size :: "nat option"
    \<comment> \<open>\<open>None\<close> when \<open>Info\<close> fails\<close>
  de_err :: "string option"
    \<comment> \<open>the error that \<open>WalkDir\<close> reports for the entry\<close>

definition HasSuffix :: "string \<Rightarrow> string \<Rightarrow> bool" where
  "HasSuffix s suf = HasPrefix (rev s) (rev suf)"

datatype visit = Stop_error string | Skip_all | Continue "(string, bool) go_map" nat

definition visit_key :: "('k, 's) ssh_lib \<Rightarrow> os_state \<Rightarrow> dir_entry \<Rightarrow> (string, bool) go_map \<Rightarrow> nat \<Rightarrow> visit" where
  \<comment> \<open>the callback of the walk: fingerprints so far and the key counter in, the same out\<close>
  "visit_key L os d allowedKeys keyCount =
     (case de_err d of
        Some e \<Rightarrow> Stop_error e
      | None \<Rightarrow>
          if de_isdir d \<or> \<not> HasSuffix (de_name d) ''.pub'' then Continue allowedKeys keyCount
          else if MaxAllowedHostKeys \<le> keyCount then Skip_all
          else (case de_size d of
                  None \<Rightarrow> Continue allowedKeys keyCount
                | Some fileSize \<Rightarrow>
                    if MaxKeyFileSize < fileSize then Continue allowedKeys keyCount
                    else (case ReadFile os (de_path d) of
                            Inl _ \<Rightarrow> Continue allowedKeys keyCount
                          | Inr data \<Rightarrow>
                              (case ParseAuthorizedKey L data of
                                 Inl _ \<Rightarrow> Continue allowedKeys keyCount
                               | Inr pubKey \<Rightarrow>
                                   (let fingerprint = FingerprintSHA256 L pubKey
                                    in if map_of allowedKeys fingerprint \<noteq> None then Continue allowedKeys keyCount
                                       else Continue (AList.update fingerprint True allowedKeys) (keyCount + 1))))))"

fun walk_keys :: "('k, 's) ssh_lib \<Rightarrow> os_state \<Rightarrow> dir_entry list \<Rightarrow> (string, bool) go_map \<Rightarrow> nat \<Rightarrow> string + (string, bool) go_map" where
  "walk_keys L os [] allowedKeys keyCount = Inr allowedKeys"
| "walk_keys L os (d # ds) allowedKeys keyCount =
     (case visit_key L os d allowedKeys keyCount of
        Stop_error e \<Rightarrow> Inl e
      | Skip_all \<Rightarrow> Inr allowedKeys
      | Continue keys n \<Rightarrow> walk_keys L os ds keys n)"

definition loadAllowedKeys ::
  "('k, 's) ssh_lib \<Rightarrow> os_state \<Rightarrow> (string \<Rightarrow> dir_entry list) \<Rightarrow> string \<Rightarrow> ssh_error + (string, bool) go_map" where
  "loadAllowedKeys L os walk allowlistDir =
     (case Stat os allowlistDir of
        Inl (ErrNotExist _) \<Rightarrow> Inl (ErrAllowlistMissing allowlistDir)
      | _ \<Rightarrow>
          (case walk_keys L os (walk allowlistDir) [] 0 of
             Inl e \<Rightarrow> Inl (ErrScan e)
           | Inr allowedKeys \<Rightarrow>
               if length allowedKeys = 0 then Inl (ErrAllowlistEmpty allowlistDir) else Inr allowedKeys))"

definition allowlist_callback :: "('k, 's) ssh_lib \<Rightarrow> (string, bool) go_map \<Rightarrow> 'k \<Rightarrow> ssh_error option" where
  "allowlist_callback L allowedKeys key =
     (let fingerprint = FingerprintSHA256 L key
      in if map_of allowedKeys fingerprint \<noteq> None then None else Some (ErrHostKeyRejected fingerprint))"

definition createAllowlistCallback ::
  "('k, 's) ssh_lib \<Rightarrow> os_state \<Rightarrow> (string \<Rightarrow> dir_entry list) \<Rightarrow> string \<Rightarrow> ssh_error + ('k \<Rightarrow> ssh_error option)" where
  "createAllowlistCallback L os walk allowlistDir =
     bind_result (loadAllowedKeys L os walk allowlistDir) (\<lambda>allowedKeys. Inr (allowlist_callback L allowedKeys))"

definition createStatelessTOFUCallback :: "'k \<Rightarrow> ssh_error option" where
  "createStatelessTOFUCallback key = None"

section \<open>Client configuration\<close>

definition createClientConfig ::
  "('k, 's) ssh_lib \<Rightarrow> os_state \<Rightarrow> (string \<Rightarrow> dir_entry list) \<Rightarrow> SSHConfig \<Rightarrow> ssh_error + ('k, 's) ClientConfig" where
  "createClientConfig L os walk config =
     (case ParsePrivateKey L (PrivateKey config) of
        Inl e \<Rightarrow> Inl (ErrParseKey e)
      | Inr signer \<Rightarrow>
          (let clientConfig = \<lambda>callback. \<lparr>User = Username config, Auth = [signer], ClientTimeout = Timeout config,
                 HostKeyCallback = callback\<rparr>
           in if HostKeyAllowlistDir config \<noteq> []
              then (case createAllowlistCallback L os walk (HostKeyAllowlistDir config) of
                      Inl e \<Rightarrow> Inl (ErrAllowlist e)
                    | Inr hostKeyCallback \<Rightarrow> Inr (clientConfig hostKeyCallback))
              else Inr (clientConfig createStatelessTOFUCallback)))"

definition CreateSSHClient ::
  "('k, 's) ssh_lib \<Rightarrow> os_state \<Rightarrow> (string \<Rightarrow> dir_entry list) \<Rightarrow> SSHConfig \<Rightarrow> (ssh_error + ('k, 's) ClientConfig) \<times> SSHConfig" where
  "CreateSSHClient L os walk config =
     (case initializeKeys L os config of
        (Some e, config) \<Rightarrow> (Inl (ErrInitKeys e), config)
      | (None, config) \<Rightarrow> (createClientConfig L os walk config, config))"

section \<open>File transfer\<close>

record ('k, 's, 'h, 'w) sftp_lib =
  DialContext :: "string \<Rightarrow> 'w \<Rightarrow> (string + 'h) \<times> 'w"
  NewClientConn :: "'h \<Rightarrow> string \<Rightarrow> ('k, 's) ClientConfig \<Rightarrow> 'w \<Rightarrow> (string + 'h) \<times> 'w"
  ssh_NewClient :: "'h \<Rightarrow> 'w \<Rightarrow> 'h \<times> 'w"
  sftp_NewClient :: "'h \<Rightarrow> 'w \<Rightarrow> (string + 'h) \<times> 'w"
  sftp_MkdirAll :: "'h \<Rightarrow> string \<Rightarrow> 'w \<Rightarrow> string option \<times> 'w"
  sftp_Create :: "'h \<Rightarrow> string \<Rightarrow> 'w \<Rightarrow> (string + 'h) \<times> 'w"
  file_Write :: "'h \<Rightarrow> string \<Rightarrow> 'w \<Rightarrow> string option \<times> 'w"
  Close :: "'h \<Rightarrow> 'w \<Rightarrow> 'w"

definition deferred :: "('k, 's, 'h, 'w) sftp_lib \<Rightarrow> 'h list \<Rightarrow> 'w \<Rightarrow> 'w" where
  \<comment> \<open>the deferred \<open>Close\<close> calls, last opened first\<close>
  "deferred X hs w = fold (Close X) hs w"

definition SendFileViaSFTPWithContext ::
  "('k, 's, 'h, 'w) sftp_lib \<Rightarrow> string \<Rightarrow> ('k, 's) ClientConfig \<Rightarrow> string \<Rightarrow> string \<Rightarrow> 'w \<Rightarrow> ssh_error option \<times> 'w" where
  "SendFileViaSFTPWithContext X address sshConfig remotePath content w =
     (case DialContext X address w of
        (Inl e, w) \<Rightarrow> (Some (ErrConnect e), w)
      | (Inr conn, w) \<Rightarrow>
     (case NewClientConn X conn address sshConfig w of
        (Inl e, w) \<Rightarrow> (Some (ErrHandshake e), deferred X [conn] w)
      | (Inr sshConn, w) \<Rightarrow>
     (case ssh_NewClient X sshConn w of
        (client, w) \<Rightarrow>
     (case sftp_NewClient X client w of
        (Inl e, w) \<Rightarrow> (Some (ErrSftpClient e), deferred X [client, sshConn, conn] w)
      | (Inr sftpClient, w) \<Rightarrow>
     (case sftp_MkdirAll X sftpClient (Dir remotePath) w of
        (Some e, w) \<Rightarrow> (Some (ErrRemoteMkdir e), deferred X [sftpClient, client, sshConn, conn] w)
      | (None, w) \<Rightarrow>
     (case sftp_Create X sftpClient remotePath w of
        (Inl e, w) \<Rightarrow> (Some (ErrRemoteCreate e), deferred X [sftpClient, client, sshConn, conn] w)
      | (Inr f, w) \<Rightarrow>
     (case file_Write X f content w of
        (Some e, w) \<Rightarrow> (Some (ErrRemoteWrite e), deferred X [f, sftpClient, client, sshConn, conn] w)
      | (None, w) \<Rightarrow> (None, deferred X [f, sftpClient, client, sshConn, conn] w))))))))"

definition SendFileViaSFTP ::
  "('k, 's, 'h, 'w) sftp_lib \<Rightarrow> string \<Rightarrow> ('k, 's) ClientConfig \<Rightarrow> string \<Rightarrow> string \<Rightarrow> 'w \<Rightarrow> ssh_error option \<times> 'w" where
  "SendFileViaSFTP X address sshConfig remotePath content w =
     SendFileViaSFTPWithContext X address sshConfig remotePath content w"

section \<open>What the libraries promise\<close>

definition sftp_frame :: "('k, 's, 'h, 'w) sftp_lib \<Rightarrow> ('w \<Rightarrow> 'v) \<Rightarrow> bool" where
  \<comment> \<open>no call changes the part \<open>view\<close> of the world\<close>
  "sftp_frame X view \<longleftrightarrow>
     (\<forall>a w. view (snd (DialContext X a w)) = view w) \<and>
     (\<forall>h a c w. view (snd (NewClientConn X h a c w)) = view w) \<and>
     (\<forall>h w. view (snd (ssh_NewClient X h w)) = view w) \<and>
     (\<forall>h w. view (snd (sftp_NewClient X h w)) = view w) \<and>
     (\<forall>h p w. view (snd (sftp_MkdirAll X h p w)) = view w) \<and>
     (\<forall>h p w. view (snd (sftp_Create X h p w)) = view w) \<and>
     (\<forall>h c w. view (snd (file_Write X h c w)) = view w) \<and>
     (\<forall>h w. view (Close X h w) = view w)"

definition handshake_checks :: "('k, 's, 'h, 'w) sftp_lib \<Rightarrow> (string \<Rightarrow> 'k) \<Rightarrow> bool" where
  \<comment> \<open>\<open>ssh.NewClientConn\<close> asks the callback about the key that the host at the address presents, and fails if it objects\<close>
  "handshake_checks X host_key \<longleftrightarrow> (\<forall>h address c w h' w'. NewClientConn X h address c w = (Inr h', w') \<longrightarrow>
     HostKeyCallback c (host_key address) = None)"

section \<open>Lemmas\<close>

lemma sftp_frameD:
  assumes "sftp_frame X view"
  shows "DialContext X a w = (r1, w') \<Longrightarrow> view w' = view w"
    and "NewClientConn X h a c w = (r1, w') \<Longrightarrow> view w' = view w"
    and "ssh_NewClient X h w = (h', w') \<Longrightarrow> view w' = view w"
    and "sftp_NewClient X h w = (r1, w') \<Longrightarrow> view w' = view w"
    and "sftp_MkdirAll X h p w = (r2, w') \<Longrightarrow> view w' = view w"
    and "sftp_Create X h p w = (r1, w') \<Longrightarrow> view w' = view w"
    and "file_Write X h p w = (r2, w') \<Longrightarrow> view w' = view w"
    and "view (deferred X hs w) = view w"
proof -
  note f = assms[unfolded sftp_frame_def]
  show "DialContext X a w = (r1, w') \<Longrightarrow> view w' = view w" using f by (metis snd_conv)
  show "NewClientConn X h a c w = (r1, w') \<Longrightarrow> view w' = view w" using f by (metis snd_conv)
  show "ssh_NewClient X h w = (h', w') \<Longrightarrow> view w' = view w" using f by (metis snd_conv)
  show "sftp_NewClient X h w = (r1, w') \<Longrightarrow> view w' = view w" using f by (metis snd_conv)
  show "sftp_MkdirAll X h p w = (r2, w') \<Longrightarrow> view w' = view w" using f by (metis snd_conv)
  show "sftp_Create X h p w = (r1, w') \<Longrightarrow> view w' = view w" using f by (metis snd_conv)
  show "file_Write X h p w = (r2, w') \<Longrightarrow> view w' = view w" using f by (metis snd_conv)
  have close: "view (Close X h w) = view w" for h w using f by blast
  show "view (deferred X hs w) = view w" unfolding deferred_def by (induction hs arbitrary: w) (simp_all add: close)
qed

lemma SendFile_view:
  assumes "sftp_frame X view" and "SendFileViaSFTPWithContext X a c p d w = (r, w')"
  shows "view w' = view w"
  using assms(2) sftp_frameD(8)[OF assms(1)]
  by (auto simp: SendFileViaSFTPWithContext_def split: prod.splits sum.splits option.splits
      dest!: sftp_frameD(1-7)[OF assms(1)])

definition trusted_key :: "('k, 's) ssh_lib \<Rightarrow> os_state \<Rightarrow> dir_entry list \<Rightarrow> string \<Rightarrow> bool" where
  \<comment> \<open>some small enough \<open>.pub\<close> file of the directory holds a key with the fingerprint\<close>
  "trusted_key L os ds fp \<longleftrightarrow> (\<exists>d\<in>set ds. HasSuffix (de_name d) ''.pub'' \<and> \<not> de_isdir d \<and>
     (\<exists>n. de_size d = Some n \<and> n \<le> MaxKeyFileSize) \<and>
     (\<exists>data k. ReadFile os (de_path d) = Inr data \<and> ParseAuthorizedKey L data = Inr k \<and> FingerprintSHA256 L k = fp))"

lemma visit_key_Continue:
  assumes "visit_key L os d keys n = Continue keys' n'"
  obtains "keys' = keys" "n' = n"
  | fp where "keys' = AList.update fp True keys" "map_of keys fp = None" "n' = n + 1" "n < MaxAllowedHostKeys"
      "trusted_key L os [d] fp"
  using assms
  by (auto simp: visit_key_def trusted_key_def Let_def not_less not_le split: option.splits if_splits sum.splits)

lemma trusted_key_mono: "trusted_key L os xs fp \<Longrightarrow> set xs \<subseteq> set ys \<Longrightarrow> trusted_key L os ys fp"
  by (auto simp: trusted_key_def)

lemma walk_keys_spec:
  assumes "walk_keys L os ds keys n = Inr keys'" "length keys = n" "n \<le> MaxAllowedHostKeys"
  shows "length keys' \<le> MaxAllowedHostKeys \<and> (\<forall>fp \<in> fst ` set keys'. fp \<in> fst ` set keys \<or> trusted_key L os ds fp)"
  using assms
proof (induction L os ds keys n rule: walk_keys.induct)
  case (2 L os d ds keys n)
  show ?case
  proof (cases "visit_key L os d keys n")
    case (Continue ks m)
    then consider "ks = keys" "m = n"
      | fp where "ks = AList.update fp True keys" "map_of keys fp = None" "m = n + 1" "n < MaxAllowedHostKeys" "trusted_key L os [d] fp"
      by (rule visit_key_Continue)
    then show ?thesis
    proof cases
      case 1
      then show ?thesis using 2(1)[OF Continue] 2(2-4) Continue
        by (auto intro: trusted_key_mono[of _ _ ds _ "d # ds"])
    next
      case (2 fp)
      then have ks: "length ks = m" "fst ` set ks = insert fp (fst ` set keys)"
        using "2.prems"(2) by (simp_all add: update_new_key)
      have "walk_keys L os ds ks m = Inr keys'" using "2.prems"(1) Continue by simp
      moreover have "m \<le> MaxAllowedHostKeys" using 2(3,4) by simp
      ultimately have ih: "length keys' \<le> MaxAllowedHostKeys"
        "x \<in> fst ` set keys' \<Longrightarrow> x \<in> fst ` set ks \<or> trusted_key L os ds x" for x
        using "2.IH"[OF Continue _ ks(1)] by blast+
      have fp: "trusted_key L os (d # ds) fp" using 2(5) by (rule trusted_key_mono) simp
      have "x \<in> fst ` set keys \<or> trusted_key L os (d # ds) x" if "x \<in> fst ` set keys'" for x
        using ih(2)[OF that] ks(2) fp trusted_key_mono[of L os ds x "d # ds"] by auto
      then show ?thesis using ih(1) by simp
    qed
  qed (use 2 in auto)
qed simp

lemma loadAllowedKeys_spec:
  assumes "loadAllowedKeys L os walk dir = Inr keys"
  shows "keys \<noteq> [] \<and> length keys \<le> MaxAllowedHostKeys \<and> (\<forall>fp \<in> fst ` set keys. trusted_key L os (walk dir) fp)"
proof -
  have "walk_keys L os (walk dir) [] 0 = Inr keys" "keys \<noteq> []"
    using assms by (auto simp: loadAllowedKeys_def split: sum.splits os_error.splits if_splits)
  then show ?thesis using walk_keys_spec[of L os "walk dir" "[]" 0 keys] by simp
qed

section \<open>Properties\<close>

text \<open>
  C25: With an allowlist directory configured, a file reaches a machine only if some readable \<open>.pub\<close> file of
  that directory, of at most \<open>MaxKeyFileSize\<close> bytes, holds a key with the fingerprint of the key that the
  machine presents; otherwise the transfer fails.
\<close>

theorem allowlist_enforced:
  assumes cfg: "HostKeyAllowlistDir config \<noteq> []" and ssh: "CreateSSHClient L os walk config = (Inr c, config')"
    and lib: "handshake_checks X host_key" and send: "SendFileViaSFTPWithContext X address c p d w = (None, w')"
  shows "trusted_key L os (walk (HostKeyAllowlistDir config)) (FingerprintSHA256 L (host_key address))"
proof -
  obtain cfg1 where init: "initializeKeys L os config = (None, cfg1)" and cc: "createClientConfig L os walk cfg1 = Inr c"
    using ssh by (auto simp: CreateSSHClient_def split: prod.splits option.splits)
  have "HostKeyAllowlistDir cfg1 = HostKeyAllowlistDir config"
    using init by (auto simp: initializeKeys_def loadKeysFromFiles_def Let_def split: sum.splits if_splits)
  with cc cfg obtain keys where keys: "loadAllowedKeys L os walk (HostKeyAllowlistDir config) = Inr keys"
    and cb: "HostKeyCallback c = allowlist_callback L keys"
    by (auto simp: createClientConfig_def createAllowlistCallback_def Let_def bind_result_Inr_iff split: sum.splits)
  obtain h h' w1 w2 where "NewClientConn X h address c w1 = (Inr h', w2)"
    using send by (auto simp: SendFileViaSFTPWithContext_def split: prod.splits sum.splits)
  with lib have "HostKeyCallback c (host_key address) = None" unfolding handshake_checks_def by blast
  then have "map_of keys (FingerprintSHA256 L (host_key address)) \<noteq> None"
    by (auto simp: cb allowlist_callback_def Let_def split: if_splits)
  then have "FingerprintSHA256 L (host_key address) \<in> fst ` set keys" by (simp add: map_of_eq_None_iff)
  with loadAllowedKeys_spec[OF keys] show ?thesis by blast
qed

definition demo_lib :: "(string, string) ssh_lib" where
  "demo_lib = \<lparr>ParsePrivateKey = Inr, ParseAuthorizedKey = Inr, FingerprintSHA256 = id\<rparr>"

definition demo_sftp :: "(string, string, nat, string list) sftp_lib" where
  \<comment> \<open>every machine presents the key \<open>hostkey\<close>; the world lists what was written\<close>
  "demo_sftp = \<lparr>DialContext = (\<lambda>_ w. (Inr 0, w)),
     NewClientConn = (\<lambda>_ _ c w. (case HostKeyCallback c ''hostkey'' of None \<Rightarrow> Inr 1 | Some _ \<Rightarrow> Inl ''rejected'', w)),
     ssh_NewClient = (\<lambda>_ w. (2, w)), sftp_NewClient = (\<lambda>_ w. (Inr 3, w)), sftp_MkdirAll = (\<lambda>_ _ w. (None, w)),
     sftp_Create = (\<lambda>_ _ w. (Inr 4, w)), file_Write = (\<lambda>_ d w. (None, d # w)), Close = (\<lambda>_ w. w)\<rparr>"

definition demo_os :: os_state where
  "demo_os = \<lparr>os_env = (\<lambda>_. []), os_files = [''/keys/a.pub'' \<mapsto> \<lparr>f_mode = 0, f_content = ''hostkey''\<rparr>,
     ''/keys'' \<mapsto> \<lparr>f_mode = ModeDir, f_content = []\<rparr>], os_fault = (\<lambda>_ _. False)\<rparr>"

definition demo_walk :: "string \<Rightarrow> dir_entry list" where
  "demo_walk dir = [\<lparr>de_path = dir @ ''/a.pub'', de_name = ''a.pub'', de_isdir = False, de_size = Some 7, de_err = None\<rparr>]"

definition demo_ssh :: SSHConfig where
  "demo_ssh = \<lparr>PublicKey = [], PrivateKey = ''key'', PublicKeyPath = [], PrivateKeyPath = [], Username = ''peerpod'',
     Timeout = 30, HostKeyAllowlistDir = ''/keys'', EnableSFTP = True\<rparr>"

lemma demo_handshake: "handshake_checks demo_sftp (\<lambda>_. ''hostkey'')"
  by (auto simp: handshake_checks_def demo_sftp_def split: option.splits)

lemmas demo_defs = demo_lib_def demo_sftp_def demo_os_def demo_walk_def demo_ssh_def

theorem allowlist_enforced_witness:
  "\<exists>c. CreateSSHClient demo_lib demo_os demo_walk demo_ssh = (Inr c, demo_ssh) \<and>
     SendFileViaSFTPWithContext demo_sftp ''10.0.0.1:22'' c ''cidata/user-data'' ''data'' [] = (None, [''data'']) \<and>
     trusted_key demo_lib demo_os (demo_walk ''/keys'') ''hostkey''"
proof -
  define c where "c = \<lparr>User = ''peerpod'', Auth = [''key''], ClientTimeout = 30,
    HostKeyCallback = allowlist_callback demo_lib [(''hostkey'', True)]\<rparr>"
  have 1: "CreateSSHClient demo_lib demo_os demo_walk demo_ssh = (Inr c, demo_ssh)"
    by (simp add: c_def CreateSSHClient_def initializeKeys_def loadKeysFromFiles_def createClientConfig_def
        createAllowlistCallback_def loadAllowedKeys_def visit_key_def Stat_def ReadFile_def HasSuffix_def HasPrefix_def
        MaxAllowedHostKeys_def MaxKeyFileSize_def bind_result_def Let_def demo_defs)
  have 2: "SendFileViaSFTPWithContext demo_sftp ''10.0.0.1:22'' c ''cidata/user-data'' ''data'' [] = (None, [''data''])"
    by (simp add: c_def SendFileViaSFTPWithContext_def deferred_def allowlist_callback_def Let_def demo_defs ex_bool_eq)
  have "HostKeyAllowlistDir demo_ssh \<noteq> []" by (simp add: demo_ssh_def)
  from allowlist_enforced[OF this 1 demo_handshake 2]
  have "trusted_key demo_lib demo_os (demo_walk ''/keys'') ''hostkey''" by (simp add: demo_ssh_def demo_lib_def)
  with 1 2 show ?thesis by blast
qed

text \<open>
  An accepted allowlist is neither empty nor larger than \<open>MaxAllowedHostKeys\<close>.
\<close>

lemma allowlist_bounded:
  assumes "loadAllowedKeys L os walk dir = Inr keys"
  shows "0 < length keys \<and> length keys \<le> 100"
  using loadAllowedKeys_spec[OF assms] by (simp add: MaxAllowedHostKeys_def)

lemma allowlist_bounded_witness:
  "loadAllowedKeys demo_lib demo_os demo_walk ''/keys'' = Inr [(''hostkey'', True)] \<and>
   0 < length [(''hostkey'', True)] \<and> length [(''hostkey'', True)] \<le> 100"
proof -
  have "loadAllowedKeys demo_lib demo_os demo_walk ''/keys'' = Inr [(''hostkey'', True)]"
    by (simp add: loadAllowedKeys_def visit_key_def Stat_def ReadFile_def HasSuffix_def HasPrefix_def
        MaxAllowedHostKeys_def MaxKeyFileSize_def Let_def demo_defs)
  with allowlist_bounded[OF this] show ?thesis by blast
qed

end
