(* ===== verification/VMPool.thy ===== *)
theory VMPool
  imports NetAddr
begin

text \<open>
  The global VM pool of the bring-your-own-machine provider, \<open>src/src/cloud-providers/byom\<close>:
  \<open>types.go\<close>, \<open>errors.go\<close>, \<open>configmap_vmpool.go\<close> and \<open>state_recovery.go\<close>.

  The pool state lives in a Kubernetes ConfigMap.  The API server, the JSON codec, the MD5 sum, the
  TCP probe, client-go's \<open>retry.OnError\<close> and the clock are the fields of \<open>pool_env\<close>, an
  argument of every operation.  The state of the world outside the process is the type parameter
  \<open>'w\<close>, threaded through every call; the encoded text is the type parameter \<open>'j\<close>.
  \<open>pool_env_ok\<close> states what these parts document: a failed API call has no effect, a successful
  one reads or writes the stored object, decoding undoes encoding, and \<open>retry.OnError\<close> runs the
  function at least once, again only after an error the predicate accepts.

  A nil Go map is \<open>None\<close>; writing to it panics, which is the error value \<open>PanicNilMap\<close>.
\<close>

section \<open>Data\<close>

record IPAllocation =
  AllocationID :: string
  IP :: string
  NodeName :: string
  PodName :: string
  AllocatedAt :: int

record IPAllocationState =
  AllocatedIPs :: "(string, IPAllocation) go_map option"
  AvailableIPs :: "string list"
  LastUpdated :: int
  Version :: "64 word"

record GlobalVMPoolConfig =
  Namespace :: string
  ConfigMapName :: string
  PoolIPs :: "string list"
  MaxRetries :: int
  RetryInterval :: int
  OperationTimeout :: int
  SkipVMReadiness :: bool

record 'j ConfigMap =
  cm_name :: string
  cm_namespace :: string
  cm_labels :: "(string, string) go_map"
  cm_data :: "(string, 'j) go_map option"
  cm_resourceVersion :: string

datatype pool_error =
    ErrCreatingPoolMgr pool_error | ErrNoAvailableIPs | ErrRetrievingPoolState pool_error
  | ErrUpdatingPoolState pool_error | ErrRetrievingConfigMap k8s_error
  | ErrInvalidClient | ErrNilConfig | ErrEmptyPoolIPs | ErrInvalidIPAddress string
  | ErrNodeNameDetection | ErrConflict pool_error | ErrInvalidAllocatedIP string
  | ErrApi k8s_error | ErrMarshal string | ErrUnmarshal string | ErrDial string
  | ErrRecover pool_error | PanicNilMap

record ('w, 'j) pool_env =
  cm_Get :: "string \<Rightarrow> string \<Rightarrow> 'w \<Rightarrow> (k8s_error + 'j ConfigMap) \<times> 'w"
  cm_Create :: "string \<Rightarrow> 'j ConfigMap \<Rightarrow> 'w \<Rightarrow> (k8s_error + 'j ConfigMap) \<times> 'w"
  cm_Update :: "string \<Rightarrow> 'j ConfigMap \<Rightarrow> 'w \<Rightarrow> (k8s_error + 'j ConfigMap) \<times> 'w"
  json_marshal :: "IPAllocationState \<Rightarrow> string + 'j"
  json_unmarshal :: "'j \<Rightarrow> string + IPAllocationState"
  md5_sum :: "string \<Rightarrow> 8 word list"
  dial_timeout :: "string \<Rightarrow> 'w \<Rightarrow> string option \<times> 'w"
  retry_OnError :: "(pool_error \<Rightarrow> bool) \<Rightarrow> ('w \<Rightarrow> pool_error option \<times> 'w) \<Rightarrow> 'w \<Rightarrow> pool_error option \<times> 'w"
  time_Now :: "'w \<Rightarrow> int"
  node_os :: "'w \<Rightarrow> os_state"
  ip6 :: ip6_text

definition stateDataKey :: string where "stateDataKey = ''allocation-state''"
definition nodeNameEnvVar :: string where "nodeNameEnvVar = ''NODE_NAME''"
definition nodeNameFile :: string where "nodeNameFile = ''/etc/podinfo/nodename''"
definition hostnameFile :: string where "hostnameFile = ''/etc/hostname''"

definition allocs :: "IPAllocationState \<Rightarrow> (string, IPAllocation) go_map" where
  \<comment> \<open>reading a nil map is reading an empty one\<close>
  "allocs s = (case AllocatedIPs s of None \<Rightarrow> [] | Some m \<Rightarrow> m)"

section \<open>Creation and node identity\<close>

fun check_pool_ips :: "ip6_text \<Rightarrow> string list \<Rightarrow> pool_error option" where
  "check_pool_ips t [] = None"
| "check_pool_ips t (ip # ips) =
     (if ParseAddr t ip = None then Some (ErrInvalidIPAddress ip) else check_pool_ips t ips)"

definition NewConfigMapVMPoolManager ::
  "('w, 'j) pool_env option \<Rightarrow> GlobalVMPoolConfig option \<Rightarrow> pool_error + ('w, 'j) pool_env \<times> GlobalVMPoolConfig" where
  \<comment> \<open>the manager is the pair of client and configuration; nil pointers are \<open>None\<close>\<close>
  "NewConfigMapVMPoolManager client config =
     (case client of None \<Rightarrow> Inl ErrInvalidClient
      | Some E \<Rightarrow> (case config of None \<Rightarrow> Inl ErrNilConfig
      | Some cfg \<Rightarrow>
          if length (PoolIPs cfg) = 0 then Inl ErrEmptyPoolIPs
          else (case check_pool_ips (ip6 E) (PoolIPs cfg) of
                  Some e \<Rightarrow> Inl e | None \<Rightarrow> Inr (E, cfg))))"

definition trimmed_file :: "os_state \<Rightarrow> string \<Rightarrow> string" where
  "trimmed_file os path = (case ReadFile os path of Inl _ \<Rightarrow> [] | Inr data \<Rightarrow> TrimSpace data)"

definition getCurrentNodeName :: "os_state \<Rightarrow> pool_error + string" where
  "getCurrentNodeName os =
     (if Getenv os nodeNameEnvVar \<noteq> [] then Inr (TrimSpace (Getenv os nodeNameEnvVar))
      else if trimmed_file os nodeNameFile \<noteq> [] then Inr (trimmed_file os nodeNameFile)
      else if trimmed_file os hostnameFile \<noteq> [] then Inr (trimmed_file os hostnameFile)
      else Inl ErrNodeNameDetection)"

section \<open>Reading and writing the stored state\<close>

definition initializeEmptyState :: "('w, 'j) pool_env \<Rightarrow> GlobalVMPoolConfig \<Rightarrow> 'w \<Rightarrow> IPAllocationState" where
  "initializeEmptyState E cfg w =
     \<lparr>AllocatedIPs = Some [], AvailableIPs = PoolIPs cfg, LastUpdated = time_Now E w, Version = 1\<rparr>"

definition getCurrentState ::
  "('w, 'j) pool_env \<Rightarrow> GlobalVMPoolConfig \<Rightarrow> 'w \<Rightarrow> (pool_error + IPAllocationState \<times> string) \<times> 'w" where
  "getCurrentState E cfg w =
     (case cm_Get E (Namespace cfg) (ConfigMapName cfg) w of
        (Inl NotFound, w1) \<Rightarrow> (Inr (initializeEmptyState E cfg w1, []), w1)
      | (Inl e, w1) \<Rightarrow> (Inl (ErrRetrievingConfigMap e), w1)
      | (Inr configMap, w1) \<Rightarrow>
          (case map_of (case cm_data configMap of None \<Rightarrow> [] | Some m \<Rightarrow> m) stateDataKey of
             None \<Rightarrow> (Inr (initializeEmptyState E cfg w1, []), w1)
           | Some stateData \<Rightarrow>
               (case json_unmarshal E stateData of
                  Inl m \<Rightarrow> (Inl (ErrUnmarshal m), w1)
                | Inr state \<Rightarrow> (Inr (state, cm_resourceVersion configMap), w1))))"

definition marshalStateForConfigMap :: "('w, 'j) pool_env \<Rightarrow> IPAllocationState \<Rightarrow> pool_error + 'j" where
  "marshalStateForConfigMap E state = map_error ErrMarshal (json_marshal E state)"

fun is_conflict :: "pool_error \<Rightarrow> bool" where
  \<comment> \<open>\<open>errors.IsConflict\<close>, which looks through wrapped errors\<close>
  "is_conflict (ErrApi Conflict) = True"
| "is_conflict (ErrRetrievingConfigMap Conflict) = True"
| "is_conflict _ = False"

definition new_config_map :: "GlobalVMPoolConfig \<Rightarrow> 'j \<Rightarrow> 'j ConfigMap" where
  "new_config_map cfg formattedState =
     \<lparr>cm_name = ConfigMapName cfg, cm_namespace = Namespace cfg,
      cm_labels = [(''app.kubernetes.io/name'', ''cloud-api-adaptor''),
                   (''app.kubernetes.io/component'', ''byom-ip-pool-state'')],
      cm_data = Some [(stateDataKey, formattedState)], cm_resourceVersion = []\<rparr>"

definition update_attempt ::
  "('w, 'j) pool_env \<Rightarrow> GlobalVMPoolConfig \<Rightarrow> 'j \<Rightarrow> 'w \<Rightarrow> pool_error option \<times> 'w" where
  \<comment> \<open>the closure that \<open>updateState\<close> passes to \<open>retry.RetryOnConflict\<close>\<close>
  "update_attempt E cfg formattedState w =
     (case cm_Get E (Namespace cfg) (ConfigMapName cfg) w of
        (Inl NotFound, w1) \<Rightarrow>
          (case cm_Create E (Namespace cfg) (new_config_map cfg formattedState) w1 of
             (Inr _, w2) \<Rightarrow> (None, w2)
           | (Inl createErr, w2) \<Rightarrow> (Some (ErrApi createErr), w2))
      | (Inl e, w1) \<Rightarrow> (Some (ErrRetrievingConfigMap e), w1)
      | (Inr configMap, w1) \<Rightarrow>
          (let data = (case cm_data configMap of None \<Rightarrow> [] | Some m \<Rightarrow> m);
               configMapToUpdate = configMap\<lparr>cm_data := Some (AList.update stateDataKey formattedState data)\<rparr>
           in case cm_Update E (Namespace cfg) configMapToUpdate w1 of
                (Inr _, w2) \<Rightarrow> (None, w2)
              | (Inl updateErr, w2) \<Rightarrow> (Some (ErrApi updateErr), w2)))"

definition updateState ::
  "('w, 'j) pool_env \<Rightarrow> GlobalVMPoolConfig \<Rightarrow> IPAllocationState \<Rightarrow> 'w \<Rightarrow> pool_error option \<times> 'w" where
  "updateState E cfg state w =
     (case marshalStateForConfigMap E state of
        Inl e \<Rightarrow> (Some e, w)
      | Inr formattedState \<Rightarrow> retry_OnError E is_conflict (update_attempt E cfg formattedState) w)"

section \<open>Allocation\<close>

definition be_uint32 :: "8 word list \<Rightarrow> nat" where
  "be_uint32 bs = foldl (\<lambda>n b. 256 * n + unat b) 0 bs"

definition selectIPIndex :: "('w, 'j) pool_env \<Rightarrow> string list \<Rightarrow> string \<Rightarrow> nat" where
  "selectIPIndex E availableIPs allocationID =
     (if length availableIPs \<le> 1 then 0
      else be_uint32 (take 4 (md5_sum E allocationID)) mod length availableIPs)"

definition probe_attempt :: "('w, 'j) pool_env \<Rightarrow> string \<Rightarrow> 'w \<Rightarrow> pool_error option \<times> 'w" where
  "probe_attempt E ipStr w =
     (case dial_timeout E (JoinHostPort ipStr ''22'') w of
        (None, w1) \<Rightarrow> (None, w1) | (Some e, w1) \<Rightarrow> (Some (ErrDial e), w1))"

definition checkVMReadiness :: "('w, 'j) pool_env \<Rightarrow> string \<Rightarrow> 'w \<Rightarrow> pool_error option \<times> 'w" where
  "checkVMReadiness E ipStr w = retry_OnError E (\<lambda>_. True) (probe_attempt E ipStr) w"

datatype prepared = Already Addr | Reserved string IPAllocationState

definition allocate_prepare ::
  "('w, 'j) pool_env \<Rightarrow> GlobalVMPoolConfig \<Rightarrow> string \<Rightarrow> string \<Rightarrow> 'w \<Rightarrow> (pool_error + prepared) \<times> 'w" where
  \<comment> \<open>\<open>doAllocateIP\<close> up to the write: read the state, choose an address, compute the new state\<close>
  "allocate_prepare E cfg allocationID podName w =
     (case getCurrentState E cfg w of
        (Inl e, w1) \<Rightarrow> (Inl (ErrRetrievingPoolState e), w1)
      | (Inr (state, _), w1) \<Rightarrow>
        (case map_of (allocs state) allocationID of
           Some allocation \<Rightarrow>
             (case ParseAddr (ip6 E) (IP allocation) of
                None \<Rightarrow> (Inl (ErrInvalidAllocatedIP (IP allocation)), w1)
              | Some ip \<Rightarrow> (Inr (Already ip), w1))
         | None \<Rightarrow>
           if length (AvailableIPs state) = 0 then (Inl ErrNoAvailableIPs, w1)
           else
             let selectedIndex = selectIPIndex E (AvailableIPs state) allocationID;
                 ipStr = AvailableIPs state ! selectedIndex
             in case (if \<not> SkipVMReadiness cfg then checkVMReadiness E ipStr w1 else (None, w1)) of
                  (Some e, w2) \<Rightarrow> (Inl (ErrInvalidAllocatedIP ipStr), w2)
                | (None, w2) \<Rightarrow>
                  (case getCurrentNodeName (node_os E w2) of
                     Inl e \<Rightarrow> (Inl ErrNodeNameDetection, w2)
                   | Inr nodeName \<Rightarrow>
                     (case AllocatedIPs state of
                        None \<Rightarrow> (Inl PanicNilMap, w2)
                      | Some m \<Rightarrow>
                        (Inr (Reserved ipStr
                           \<lparr>AllocatedIPs = Some (AList.update allocationID
                              \<lparr>AllocationID = allocationID, IP = ipStr, NodeName = nodeName,
                               PodName = podName, AllocatedAt = time_Now E w2\<rparr> m),
                            AvailableIPs = remove_nth selectedIndex (AvailableIPs state),
                            LastUpdated = time_Now E w2, Version = Version state + 1\<rparr>), w2)))))"

definition allocate_commit ::
  "('w, 'j) pool_env \<Rightarrow> GlobalVMPoolConfig \<Rightarrow> string \<Rightarrow> IPAllocationState \<Rightarrow> 'w \<Rightarrow> (pool_error + Addr) \<times> 'w" where
  \<comment> \<open>\<open>doAllocateIP\<close> from the write on\<close>
  "allocate_commit E cfg ipStr state w =
     (case updateState E cfg state w of
        (Some e, w1) \<Rightarrow> (Inl (ErrConflict e), w1)
      | (None, w1) \<Rightarrow>
          (case ParseAddr (ip6 E) ipStr of
             None \<Rightarrow> (Inl (ErrInvalidAllocatedIP ipStr), w1) | Some ip \<Rightarrow> (Inr ip, w1)))"

definition doAllocateIP ::
  "('w, 'j) pool_env \<Rightarrow> GlobalVMPoolConfig \<Rightarrow> string \<Rightarrow> string \<Rightarrow> 'w \<Rightarrow> (pool_error + Addr) \<times> 'w" where
  "doAllocateIP E cfg allocationID podName w =
     (case allocate_prepare E cfg allocationID podName w of
        (Inl e, w1) \<Rightarrow> (Inl e, w1)
      | (Inr (Already ip), w1) \<Rightarrow> (Inr ip, w1)
      | (Inr (Reserved ipStr state), w1) \<Rightarrow> allocate_commit E cfg ipStr state w1)"

definition AllocateIP ::
  "('w, 'j) pool_env \<Rightarrow> GlobalVMPoolConfig \<Rightarrow> string \<Rightarrow> string \<Rightarrow> 'w \<Rightarrow> (pool_error + Addr) \<times> 'w" where
  "AllocateIP E cfg allocationID podName w = doAllocateIP E cfg allocationID podName w"

section \<open>Deallocation\<close>

definition doDeallocateIP ::
  "('w, 'j) pool_env \<Rightarrow> GlobalVMPoolConfig \<Rightarrow> string \<Rightarrow> 'w \<Rightarrow> pool_error option \<times> 'w" where
  "doDeallocateIP E cfg allocationID w =
     (case getCurrentState E cfg w of
        (Inl e, w1) \<Rightarrow> (Some (ErrRetrievingPoolState e), w1)
      | (Inr (state, _), w1) \<Rightarrow>
        (case map_of (allocs state) allocationID of
           None \<Rightarrow> (None, w1)
         | Some allocation \<Rightarrow>
             let state' =
                   \<lparr>AllocatedIPs = map_option (AList.delete allocationID) (AllocatedIPs state),
                    AvailableIPs = AvailableIPs state @ [IP allocation],
                    LastUpdated = time_Now E w1, Version = Version state + 1\<rparr>
             in case updateState E cfg state' w1 of
                  (Some e, w2) \<Rightarrow> (Some (ErrUpdatingPoolState e), w2)
                | (None, w2) \<Rightarrow> (None, w2)))"

definition DeallocateIP ::
  "('w, 'j) pool_env \<Rightarrow> GlobalVMPoolConfig \<Rightarrow> string \<Rightarrow> 'w \<Rightarrow> pool_error option \<times> 'w" where
  "DeallocateIP E cfg allocationID w = doDeallocateIP E cfg allocationID w"

section \<open>Queries\<close>

definition GetIPfromAllocationID ::
  "('w, 'j) pool_env \<Rightarrow> GlobalVMPoolConfig \<Rightarrow> string \<Rightarrow> 'w \<Rightarrow> (pool_error + Addr option) \<times> 'w" where
  \<comment> \<open>\<open>None\<close> for the returned \<open>false\<close>\<close>
  "GetIPfromAllocationID E cfg allocationID w =
     (case getCurrentState E cfg w of
        (Inl e, w1) \<Rightarrow> (Inl (ErrRetrievingPoolState e), w1)
      | (Inr (state, _), w1) \<Rightarrow>
        (case map_of (allocs state) allocationID of
           None \<Rightarrow> (Inr None, w1)
         | Some allocation \<Rightarrow>
             (case ParseAddr (ip6 E) (IP allocation) of
                None \<Rightarrow> (Inl (ErrInvalidAllocatedIP (IP allocation)), w1)
              | Some ip \<Rightarrow> (Inr (Some ip), w1))))"

fun find_allocation :: "string \<Rightarrow> (string, IPAllocation) go_map \<Rightarrow> string option" where
  "find_allocation ipStr [] = None"
| "find_allocation ipStr ((allocationID, allocation) # m) =
     (if IP allocation = ipStr then Some allocationID else find_allocation ipStr m)"

definition GetAllocationIDfromIP ::
  "('w, 'j) pool_env \<Rightarrow> GlobalVMPoolConfig \<Rightarrow> Addr \<Rightarrow> 'w \<Rightarrow> (pool_error + string option) \<times> 'w" where
  "GetAllocationIDfromIP E cfg ip w =
     (case getCurrentState E cfg w of
        (Inl e, w1) \<Rightarrow> (Inl (ErrRetrievingPoolState e), w1)
      | (Inr (state, _), w1) \<Rightarrow> (Inr (find_allocation (AddrString (ip6 E) ip) (allocs state)), w1))"

definition GetPoolStatus ::
  "('w, 'j) pool_env \<Rightarrow> GlobalVMPoolConfig \<Rightarrow> 'w \<Rightarrow> (pool_error + nat \<times> nat \<times> nat) \<times> 'w" where
  \<comment> \<open>total, available, in use\<close>
  "GetPoolStatus E cfg w =
     (case getCurrentState E cfg w of
        (Inl e, w1) \<Rightarrow> (Inl (ErrRetrievingPoolState e), w1)
      | (Inr (state, _), w1) \<Rightarrow>
          (let available = length (AvailableIPs state); inUse = length (allocs state)
           in (Inr (available + inUse, available, inUse), w1)))"

definition ListAllocatedIPs ::
  "('w, 'j) pool_env \<Rightarrow> GlobalVMPoolConfig \<Rightarrow> 'w \<Rightarrow> (pool_error + (string, IPAllocation) go_map) \<times> 'w" where
  "ListAllocatedIPs E cfg w =
     (case getCurrentState E cfg w of
        (Inl e, w1) \<Rightarrow> (Inl (ErrRetrievingPoolState e), w1)
      | (Inr (state, _), w1) \<Rightarrow> (Inr (foldl (\<lambda>result (id, a). AList.update id a result) [] (allocs state)), w1))"

section \<open>State recovery\<close>

definition repaired_state :: "GlobalVMPoolConfig \<Rightarrow> int \<Rightarrow> IPAllocationState \<Rightarrow> IPAllocationState" where
  "repaired_state cfg now currentState =
     (let allocatedIPSet = map (\<lambda>(_, allocation). IP allocation) (allocs currentState)
      in \<lparr>AllocatedIPs = AllocatedIPs currentState,
          AvailableIPs = filter (\<lambda>ip. ip \<notin> set allocatedIPSet) (PoolIPs cfg),
          LastUpdated = now, Version = Version currentState + 1\<rparr>)"

definition repairStateFromPrimaryConfig ::
  "('w, 'j) pool_env \<Rightarrow> GlobalVMPoolConfig \<Rightarrow> 'w \<Rightarrow> pool_error option \<times> 'w" where
  "repairStateFromPrimaryConfig E cfg w =
     (case getCurrentState E cfg w of
        (Inl e, w1) \<Rightarrow> (Some (ErrRecover e), w1)
      | (Inr (currentState, _), w1) \<Rightarrow>
          (case updateState E cfg (repaired_state cfg (time_Now E w1) currentState) w1 of
             (Some e, w2) \<Rightarrow> (Some (ErrRecover e), w2) | (None, w2) \<Rightarrow> (None, w2)))"

definition initializeAndSaveEmptyState ::
  "('w, 'j) pool_env \<Rightarrow> GlobalVMPoolConfig \<Rightarrow> 'w \<Rightarrow> pool_error option \<times> 'w" where
  "initializeAndSaveEmptyState E cfg w =
     (case updateState E cfg (initializeEmptyState E cfg w) w of
        (Some e, w1) \<Rightarrow> (Some (ErrRecover e), w1) | (None, w1) \<Rightarrow> (None, w1))"

definition RecoverState ::
  "('w, 'j) pool_env \<Rightarrow> GlobalVMPoolConfig \<Rightarrow> 'w \<Rightarrow> pool_error option \<times> 'w" where
  "RecoverState E cfg w =
     (case getCurrentNodeName (node_os E w) of
        Inl e \<Rightarrow> (Some (ErrRecover e), w)
      | Inr currentNode \<Rightarrow>
          (case getCurrentState E cfg w of
             (Inr state, w1) \<Rightarrow> (None, snd (repairStateFromPrimaryConfig E cfg w1))
           | (Inl e, w1) \<Rightarrow> initializeAndSaveEmptyState E cfg w1))"

section \<open>What the environment promises\<close>

inductive retried :: "(pool_error \<Rightarrow> bool) \<Rightarrow> ('w \<Rightarrow> pool_error option \<times> 'w) \<Rightarrow> 'w \<Rightarrow> pool_error option \<times> 'w \<Rightarrow> bool"
  for retriable f where
  last_attempt: "f w = x \<Longrightarrow> retried retriable f w x"
| next_attempt: "f w = (Some e, w1) \<Longrightarrow> retriable e \<Longrightarrow> retried retriable f w1 x \<Longrightarrow> retried retriable f w x"

fun retry_steps :: "nat \<Rightarrow> (pool_error \<Rightarrow> bool) \<Rightarrow> ('w \<Rightarrow> pool_error option \<times> 'w) \<Rightarrow> 'w \<Rightarrow> pool_error option \<times> 'w" where
  \<comment> \<open>a retry loop with \<open>n\<close> further attempts after the first\<close>
  "retry_steps 0 retriable f w = f w"
| "retry_steps (Suc n) retriable f w =
     (case f w of
        (Some e, w1) \<Rightarrow> if retriable e then retry_steps n retriable f w1 else (Some e, w1)
      | (None, w1) \<Rightarrow> (None, w1))"

lemma retried_retry_steps: "retried retriable f w (retry_steps n retriable f w)"
  by (induction n arbitrary: w) (auto intro: retried.intros split: prod.splits option.splits)

definition get_law :: "('w, 'j) pool_env \<Rightarrow> GlobalVMPoolConfig \<Rightarrow> ('w \<Rightarrow> 'j ConfigMap option) \<Rightarrow> bool" where
  \<comment> \<open>\<open>view w\<close> is the object stored under the pool's namespace and name\<close>
  "get_law E cfg view \<longleftrightarrow> (\<forall>w r w'. cm_Get E (Namespace cfg) (ConfigMapName cfg) w = (r, w') \<longrightarrow> view w' = view w \<and>
     (case r of Inr c \<Rightarrow> view w = Some c \<and> cm_name c = ConfigMapName cfg | Inl e \<Rightarrow> e = NotFound \<longrightarrow> view w = None))"

definition create_law :: "('w, 'j) pool_env \<Rightarrow> GlobalVMPoolConfig \<Rightarrow> ('w \<Rightarrow> 'j ConfigMap option) \<Rightarrow> bool" where
  "create_law E cfg view \<longleftrightarrow> (\<forall>c w r w'. cm_name c = ConfigMapName cfg \<longrightarrow> cm_Create E (Namespace cfg) c w = (r, w') \<longrightarrow>
     (case r of Inr _ \<Rightarrow> \<exists>rv. view w' = Some (c\<lparr>cm_resourceVersion := rv\<rparr>) | Inl e \<Rightarrow> view w' = view w))"

definition update_law :: "('w, 'j) pool_env \<Rightarrow> GlobalVMPoolConfig \<Rightarrow> ('w \<Rightarrow> 'j ConfigMap option) \<Rightarrow> bool" where
  "update_law E cfg view \<longleftrightarrow> (\<forall>c w r w'. cm_name c = ConfigMapName cfg \<longrightarrow> cm_Update E (Namespace cfg) c w = (r, w') \<longrightarrow>
     (case r of Inr _ \<Rightarrow> \<exists>rv. view w' = Some (c\<lparr>cm_resourceVersion := rv\<rparr>) | Inl e \<Rightarrow> view w' = view w))"

definition pool_env_ok :: "('w, 'j) pool_env \<Rightarrow> GlobalVMPoolConfig \<Rightarrow> ('w \<Rightarrow> 'j ConfigMap option) \<Rightarrow> bool" where
  "pool_env_ok E cfg view \<longleftrightarrow> get_law E cfg view \<and> create_law E cfg view \<and> update_law E cfg view \<and>
     (\<forall>s j. json_marshal E s = Inr j \<longrightarrow> json_unmarshal E j = Inr s) \<and>
     (\<forall>a w. view (snd (dial_timeout E a w)) = view w) \<and>
     (\<forall>p f w. retried p f w (retry_OnError E p f w)) \<and> ip6_ok (ip6 E)"

section \<open>The stored pool\<close>

type_synonym pool = "(string, IPAllocation) go_map option \<times> string list"

definition pool_of :: "IPAllocationState \<Rightarrow> pool" where
  "pool_of s = (AllocatedIPs s, AvailableIPs s)"

definition stored_text :: "('w \<Rightarrow> 'j ConfigMap option) \<Rightarrow> 'w \<Rightarrow> 'j option" where
  "stored_text view w =
     (case view w of None \<Rightarrow> None
      | Some c \<Rightarrow> map_of (case cm_data c of None \<Rightarrow> [] | Some m \<Rightarrow> m) stateDataKey)"

definition pool_view :: "('w, 'j) pool_env \<Rightarrow> GlobalVMPoolConfig \<Rightarrow> ('w \<Rightarrow> 'j ConfigMap option) \<Rightarrow> 'w \<Rightarrow> pool option" where
  \<comment> \<open>the pool that the stored object stands for; \<open>None\<close> if its text does not decode\<close>
  "pool_view E cfg view w =
     (case stored_text view w of None \<Rightarrow> Some (Some [], PoolIPs cfg)
      | Some j \<Rightarrow> (case json_unmarshal E j of Inl _ \<Rightarrow> None | Inr s \<Rightarrow> Some (pool_of s)))"

lemma pool_of_simps [simp]: "pool_of \<lparr>AllocatedIPs = a, AvailableIPs = v, LastUpdated = l, Version = n\<rparr> = (a, v)"
  "pool_of (initializeEmptyState E cfg w) = (Some [], PoolIPs cfg)"
  "pool_of (repaired_state cfg now st) =
     (AllocatedIPs st, filter (\<lambda>ip. ip \<notin> IP ` snd ` set (allocs st)) (PoolIPs cfg))"
  by (auto simp: pool_of_def initializeEmptyState_def repaired_state_def Let_def image_def split_beta
      intro!: filter_cong)

lemma pool_view_cong: "view w' = view w \<Longrightarrow> pool_view E cfg view w' = pool_view E cfg view w"
  by (simp add: pool_view_def stored_text_def)

lemma pool_env_okD:
  assumes "pool_env_ok E cfg view"
  shows "get_law E cfg view" "create_law E cfg view" "update_law E cfg view"
    "json_marshal E s = Inr j \<Longrightarrow> json_unmarshal E j = Inr s"
    "view (snd (dial_timeout E a w)) = view w"
    "retried p f w (retry_OnError E p f w)" "ip6_ok (ip6 E)"
  using assms by (simp_all add: pool_env_ok_def)

lemma cm_Get_view:
  assumes "get_law E cfg view" and "cm_Get E (Namespace cfg) (ConfigMapName cfg) w = (r, w')"
  shows "view w' = view w" and "r = Inr c \<Longrightarrow> view w = Some c \<and> cm_name c = ConfigMapName cfg"
    and "r = Inl NotFound \<Longrightarrow> view w = None"
proof -
  have law: "view w' = view w \<and> (case r of Inr c \<Rightarrow> view w = Some c \<and> cm_name c = ConfigMapName cfg
      | Inl e \<Rightarrow> e = NotFound \<longrightarrow> view w = None)"
    using assms unfolding get_law_def by blast
  then show "view w' = view w" by blast
  show "r = Inr c \<Longrightarrow> view w = Some c \<and> cm_name c = ConfigMapName cfg" and "r = Inl NotFound \<Longrightarrow> view w = None"
    using law by simp_all
qed

lemma cm_write_view:
  assumes "create_law E cfg view" and "update_law E cfg view" and "cm_name c = ConfigMapName cfg"
  shows "cm_Create E (Namespace cfg) c w = (Inr x, w') \<Longrightarrow> \<exists>rv. view w' = Some (c\<lparr>cm_resourceVersion := rv\<rparr>)"
    and "cm_Create E (Namespace cfg) c w = (Inl e, w') \<Longrightarrow> view w' = view w"
    and "cm_Update E (Namespace cfg) c w = (Inr x, w') \<Longrightarrow> \<exists>rv. view w' = Some (c\<lparr>cm_resourceVersion := rv\<rparr>)"
    and "cm_Update E (Namespace cfg) c w = (Inl e, w') \<Longrightarrow> view w' = view w"
  using assms(1)[unfolded create_law_def, rule_format, of c w] assms(2)[unfolded update_law_def, rule_format, of c w] assms(3)
  by simp_all

lemma getCurrentState_read:
  assumes ok: "pool_env_ok E cfg view" and run: "getCurrentState E cfg w = (r, w1)"
  shows "view w1 = view w"
    and "r = Inr (s, rv) \<Longrightarrow> pool_view E cfg view w = Some (pool_of s)"
proof -
  obtain g wg where g: "cm_Get E (Namespace cfg) (ConfigMapName cfg) w = (g, wg)" by fastforce
  note get = cm_Get_view[OF pool_env_okD(1)[OF ok] g]
  show "view w1 = view w"
    using run g get by (auto simp: getCurrentState_def split: sum.splits k8s_error.splits option.splits)
  show "pool_view E cfg view w = Some (pool_of s)" if "r = Inr (s, rv)"
    using run g get that
    by (auto simp: getCurrentState_def pool_view_def stored_text_def
        split: sum.splits k8s_error.splits option.splits)
qed

lemma update_attempt_effect:
  assumes ok: "pool_env_ok E cfg view" and run: "update_attempt E cfg j w = (r, w')"
  shows "r \<noteq> None \<longrightarrow> view w' = view w" and "r = None \<longrightarrow> stored_text view w' = Some j"
proof -
  obtain g wg where g: "cm_Get E (Namespace cfg) (ConfigMapName cfg) w = (g, wg)" by fastforce
  note get = cm_Get_view[OF pool_env_okD(1)[OF ok] g]
  note wr = cm_write_view[OF pool_env_okD(2,3)[OF ok]]
  have "(r \<noteq> None \<longrightarrow> view w' = view w) \<and> (r = None \<longrightarrow> stored_text view w' = Some j)"
  proof (cases g)
    case (Inl e)
    show ?thesis
    proof (cases "e = NotFound")
      case True
      obtain c wc where c: "cm_Create E (Namespace cfg) (new_config_map cfg j) wg = (c, wc)" by fastforce
      show ?thesis
        using run g Inl True c get(1) wr(1,2)[of "new_config_map cfg j" wg]
        by (cases c) (fastforce simp: update_attempt_def stored_text_def new_config_map_def)+
    next
      case False
      with run g Inl get(1) show ?thesis by (auto simp: update_attempt_def split: k8s_error.splits)
    qed
  next
    case (Inr cm)
    let ?c = "cm\<lparr>cm_data := Some (AList.update stateDataKey j (case cm_data cm of None \<Rightarrow> [] | Some m \<Rightarrow> m))\<rparr>"
    obtain u wu where u: "cm_Update E (Namespace cfg) ?c wg = (u, wu)" by fastforce
    then have rw: "(r, w') = (case u of Inr _ \<Rightarrow> (None, wu) | Inl e \<Rightarrow> (Some (ErrApi e), wu))"
      using run g Inr by (simp add: update_attempt_def Let_def split: sum.splits)
    have name: "cm_name ?c = ConfigMapName cfg" using get(2)[OF Inr] by simp
    show ?thesis
    proof (cases u)
      case (Inl e)
      with rw u get(1) wr(4)[OF name] show ?thesis by auto
    next
      case (Inr x)
      with u wr(3)[OF name] obtain rv where "view wu = Some (?c\<lparr>cm_resourceVersion := rv\<rparr>)" by blast
      with rw Inr show ?thesis by (simp add: stored_text_def)
    qed
  qed
  then show "r \<noteq> None \<longrightarrow> view w' = view w" and "r = None \<longrightarrow> stored_text view w' = Some j" by blast+
qed

lemma retried_effect:
  assumes "retried p f w x"
    and step: "\<And>w r w'. f w = (r, w') \<Longrightarrow> (r \<noteq> None \<longrightarrow> view w' = view w) \<and> (r = None \<longrightarrow> Q w')"
  shows "(fst x \<noteq> None \<longrightarrow> view (snd x) = view w) \<and> (fst x = None \<longrightarrow> Q (snd x))"
  using assms(1)
proof (induction rule: retried.induct)
  case (last_attempt w x)
  then show ?case using step[of w "fst x" "snd x"] by simp
next
  case (next_attempt w e w1 x)
  then show ?case using step[of w "Some e" w1] by simp
qed

lemma updateState_effect:
  assumes ok: "pool_env_ok E cfg view" and run: "updateState E cfg s w = (r, w')"
  shows "r \<noteq> None \<Longrightarrow> view w' = view w" and "r = None \<Longrightarrow> pool_view E cfg view w' = Some (pool_of s)"
proof -
  have "(r \<noteq> None \<longrightarrow> view w' = view w) \<and> (r = None \<longrightarrow> pool_view E cfg view w' = Some (pool_of s))"
  proof (cases "json_marshal E s")
    case (Inl m)
    with run show ?thesis by (auto simp: updateState_def marshalStateForConfigMap_def)
  next
    case (Inr j)
    let ?f = "update_attempt E cfg j"
    have "(r, w') = retry_OnError E is_conflict ?f w"
      using run Inr by (simp add: updateState_def marshalStateForConfigMap_def)
    with pool_env_okD(6)[OF ok] have "retried is_conflict ?f w (r, w')" by metis
    moreover have "(r \<noteq> None \<longrightarrow> view w' = view w) \<and> (r = None \<longrightarrow> stored_text view w' = Some j)"
      if "?f w = (r, w')" for w r w'
      using update_attempt_effect[OF ok that] by blast
    ultimately have "(r \<noteq> None \<longrightarrow> view w' = view w) \<and> (r = None \<longrightarrow> stored_text view w' = Some j)"
      using retried_effect[of is_conflict ?f w "(r, w')" view "\<lambda>w. stored_text view w = Some j"] by simp
    then show ?thesis using pool_env_okD(4)[OF ok Inr] by (simp add: pool_view_def)
  qed
  then show "r \<noteq> None \<Longrightarrow> view w' = view w" and "r = None \<Longrightarrow> pool_view E cfg view w' = Some (pool_of s)"
    by blast+
qed

lemma checkVMReadiness_view:
  assumes ok: "pool_env_ok E cfg view" and run: "checkVMReadiness E ip w = (r, w')"
  shows "view w' = view w"
proof -
  have "retried (\<lambda>_. True) (probe_attempt E ip) w (r, w')"
    using pool_env_okD(6)[OF ok] run unfolding checkVMReadiness_def by metis
  then have "view (snd (r, w')) = view w"
  proof (induction rule: retried.induct)
    case (last_attempt w x)
    then show ?case using pool_env_okD(5)[OF ok, of "JoinHostPort ip ''22''" w]
      by (auto simp: probe_attempt_def split: prod.splits option.splits)
  next
    case (next_attempt w e w1 x)
    then show ?case using pool_env_okD(5)[OF ok, of "JoinHostPort ip ''22''" w]
      by (auto simp: probe_attempt_def split: prod.splits option.splits)
  qed
  then show ?thesis by simp
qed

lemma selectIPIndex_less: "0 < length ips \<Longrightarrow> selectIPIndex E ips i < length ips"
  by (simp add: selectIPIndex_def)

end
