(* ===== verification/VMPoolCorrect.thy ===== *)
theory VMPoolCorrect
  imports VMPool
begin

text \<open>
  Correctness of the VM pool.  The locale \<open>vm_pool\<close> is the contract of the Go interface
  \<open>GlobalVMPoolManager\<close> (\<open>byom/types.go\<close>) in terms of an owner map and a set of free
  addresses; \<open>ConfigMapVMPoolManager\<close> is shown to meet it, for every environment that keeps
  its documented behaviour and every pool in a consistent state.
\<close>

record 's GlobalVMPoolManager =
  mgr_AllocateIP :: "string \<Rightarrow> string \<Rightarrow> 's \<Rightarrow> (pool_error + Addr) \<times> 's"
  mgr_DeallocateIP :: "string \<Rightarrow> 's \<Rightarrow> pool_error option \<times> 's"
  mgr_GetIPfromAllocationID :: "string \<Rightarrow> 's \<Rightarrow> (pool_error + Addr option) \<times> 's"
  mgr_GetAllocationIDfromIP :: "Addr \<Rightarrow> 's \<Rightarrow> (pool_error + string option) \<times> 's"
  mgr_GetPoolStatus :: "'s \<Rightarrow> (pool_error + nat \<times> nat \<times> nat) \<times> 's"
  mgr_RecoverState :: "'s \<Rightarrow> pool_error option \<times> 's"
  mgr_ListAllocatedIPs :: "'s \<Rightarrow> (pool_error + (string, IPAllocation) go_map) \<times> 's"

definition ConfigMapVMPoolManager :: "('w, 'j) pool_env \<Rightarrow> GlobalVMPoolConfig \<Rightarrow> 'w GlobalVMPoolManager" where
  "ConfigMapVMPoolManager E cfg =
     \<lparr>mgr_AllocateIP = AllocateIP E cfg, mgr_DeallocateIP = DeallocateIP E cfg,
      mgr_GetIPfromAllocationID = GetIPfromAllocationID E cfg,
      mgr_GetAllocationIDfromIP = GetAllocationIDfromIP E cfg,
      mgr_GetPoolStatus = GetPoolStatus E cfg, mgr_RecoverState = RecoverState E cfg,
      mgr_ListAllocatedIPs = ListAllocatedIPs E cfg\<rparr>"

section \<open>Consistent pools\<close>

definition ips_of :: "(string, IPAllocation) go_map \<Rightarrow> string list" where
  "ips_of m = map (\<lambda>(_, a). IP a) m"

definition canonical :: "ip6_text \<Rightarrow> string \<Rightarrow> bool" where
  "canonical t ip \<longleftrightarrow> (\<exists>a. a \<noteq> AddrZero \<and> ip = AddrString t a)"

definition pool_ok :: "ip6_text \<Rightarrow> pool \<Rightarrow> bool" where
  \<comment> \<open>no address twice, neither free and allocated; every address in canonical text\<close>
  "pool_ok t p = (case p of (None, _) \<Rightarrow> False
     | (Some m, av) \<Rightarrow> wf_map m \<and> (\<forall>(i, a)\<in>set m. AllocationID a = i) \<and>
         distinct (av @ ips_of m) \<and> (\<forall>ip\<in>set (av @ ips_of m). canonical t ip))"

definition pool_owner :: "pool \<Rightarrow> string \<rightharpoonup> string" where
  "pool_owner p i = (case p of (None, _) \<Rightarrow> None | (Some m, _) \<Rightarrow> map_option IP (map_of m i))"

definition cm_owner :: "('w, 'j) pool_env \<Rightarrow> GlobalVMPoolConfig \<Rightarrow> ('w \<Rightarrow> 'j ConfigMap option) \<Rightarrow> 'w \<Rightarrow> string \<rightharpoonup> string" where
  "cm_owner E cfg view w = (case pool_view E cfg view w of None \<Rightarrow> Map.empty | Some p \<Rightarrow> pool_owner p)"

definition cm_free :: "('w, 'j) pool_env \<Rightarrow> GlobalVMPoolConfig \<Rightarrow> ('w \<Rightarrow> 'j ConfigMap option) \<Rightarrow> 'w \<Rightarrow> string set" where
  "cm_free E cfg view w = (case pool_view E cfg view w of None \<Rightarrow> {} | Some p \<Rightarrow> set (snd p))"

definition cm_inv :: "('w, 'j) pool_env \<Rightarrow> GlobalVMPoolConfig \<Rightarrow> ('w \<Rightarrow> 'j ConfigMap option) \<Rightarrow> 'w \<Rightarrow> bool" where
  "cm_inv E cfg view w \<longleftrightarrow> pool_env_ok E cfg view \<and>
     (case pool_view E cfg view w of None \<Rightarrow> False | Some p \<Rightarrow> pool_ok (ip6 E) p)"

lemma pool_okE:
  assumes "pool_ok t p"
  obtains m av where "p = (Some m, av)" "wf_map m" "\<And>i a. (i, a) \<in> set m \<Longrightarrow> AllocationID a = i"
    "distinct av" "distinct (ips_of m)" "set av \<inter> set (ips_of m) = {}"
    "\<And>ip. ip \<in> set av \<or> ip \<in> set (ips_of m) \<Longrightarrow> canonical t ip"
  using assms by (cases p; cases "fst p") (fastforce simp: pool_ok_def)+

lemma cm_invE:
  assumes "cm_inv E cfg view w"
  obtains m av where "pool_env_ok E cfg view" "pool_view E cfg view w = Some (Some m, av)" "pool_ok (ip6 E) (Some m, av)"
proof -
  obtain p where "pool_view E cfg view w = Some p" "pool_ok (ip6 E) p" and ok: "pool_env_ok E cfg view"
    using assms by (auto simp: cm_inv_def split: option.splits)
  moreover from this(2) obtain m av where "p = (Some m, av)" by (rule pool_okE)
  ultimately show ?thesis using that by simp
qed

lemma cm_abs_simps:
  assumes "pool_view E cfg view w = Some (Some m, av)"
  shows "cm_owner E cfg view w = (\<lambda>i. map_option IP (map_of m i))" "cm_free E cfg view w = set av"
  using assms by (auto simp: cm_owner_def cm_free_def pool_owner_def)

lemma cm_keep:
  assumes "view v = view w"
  shows "cm_inv E cfg view v = cm_inv E cfg view w" "cm_owner E cfg view v = cm_owner E cfg view w"
    "cm_free E cfg view v = cm_free E cfg view w"
  using pool_view_cong[where view = view and w = w and w' = v and E = E and cfg = cfg, OF assms]
  by (simp_all add: cm_inv_def cm_owner_def cm_free_def)

lemma ips_of_in: "map_of m i = Some a \<Longrightarrow> IP a \<in> set (ips_of m)"
  by (force simp: ips_of_def dest: map_of_SomeD)

lemma ips_of_inj:
  assumes "distinct (ips_of m)" "map_of m i = Some a" "map_of m j = Some b" "IP a = IP b"
  shows "i = j"
proof -
  have "inj_on (\<lambda>(_, a). IP a) (set m)" using assms(1) by (simp add: ips_of_def distinct_map)
  then have "(i, a) = (j, b)" using assms map_of_SomeD[of m i a] map_of_SomeD[of m j b]
    by (intro inj_onD[of "\<lambda>(_, a). IP a" "set m" "(i, a)" "(j, b)"]) simp_all
  then show ?thesis by simp
qed

lemma canonical_parse:
  assumes "ip6_ok t" "canonical t ip"
  obtains a where "ParseAddr t ip = Some a" "AddrString t a = ip"
  using assms ParseAddr_AddrString by (auto simp: canonical_def)

lemma pool_ok_allocate:
  assumes ok: "pool_ok t (Some m, av)" and k: "k < length av" and new: "map_of m i = None"
    and a: "AllocationID a = i" "IP a = av ! k"
  shows "pool_ok t (Some (AList.update i a m), remove_nth k av)"
proof -
  from ok have wf: "wf_map m" and ids: "\<forall>(i, a)\<in>set m. AllocationID a = i"
    and dist: "distinct (av @ ips_of m)" and can: "\<forall>ip\<in>set (av @ ips_of m). canonical t ip"
    by (auto simp: pool_ok_def)
  have upd: "AList.update i a m = m @ [(i, a)]" using new by (rule update_new_key)
  have "mset (remove_nth k av @ ips_of (m @ [(i, a)])) = mset (av @ ips_of m)"
    using mset_remove_nth[OF k] a(2) by (simp add: ips_of_def)
  then have "distinct (remove_nth k av @ ips_of (m @ [(i, a)]))"
    and "set (remove_nth k av @ ips_of (m @ [(i, a)])) = set (av @ ips_of m)"
    using dist mset_eq_imp_distinct_iff mset_eq_setD by blast+
  moreover have "wf_map (m @ [(i, a)])" using wf new by (auto simp: map_of_eq_None_iff)
  ultimately show ?thesis using ids can a(1) by (auto simp: pool_ok_def upd)
qed

lemma pool_ok_deallocate:
  assumes ok: "pool_ok t (Some m, av)" and i: "map_of m i = Some a"
  shows "pool_ok t (Some (AList.delete i m), av @ [IP a])"
proof -
  from ok have wf: "wf_map m" and ids: "\<forall>(i, a)\<in>set m. AllocationID a = i"
    and dist: "distinct (av @ ips_of m)" and can: "\<forall>ip\<in>set (av @ ips_of m). canonical t ip"
    by (auto simp: pool_ok_def)
  have "mset (ips_of m) = image_mset (\<lambda>(_, a). IP a) (mset m)" by (simp add: ips_of_def)
  also have "\<dots> = add_mset (IP a) (mset (ips_of (AList.delete i m)))"
    by (simp add: mset_delete_key[OF wf i] ips_of_def)
  finally have "mset ((av @ [IP a]) @ ips_of (AList.delete i m)) = mset (av @ ips_of m)" by simp
  then have "distinct ((av @ [IP a]) @ ips_of (AList.delete i m))"
    and "set ((av @ [IP a]) @ ips_of (AList.delete i m)) = set (av @ ips_of m)"
    using dist mset_eq_imp_distinct_iff mset_eq_setD by blast+
  moreover have "\<forall>(i, a)\<in>set (AList.delete i m). AllocationID a = i"
    using ids by (auto simp: AList.delete_eq)
  ultimately show ?thesis using wf can by (simp add: pool_ok_def)
qed

section \<open>The contract of the pool manager\<close>

locale vm_pool =
  fixes mgr :: "'s GlobalVMPoolManager"
    and t :: ip6_text
    and owner :: "'s \<Rightarrow> string \<rightharpoonup> string"
    and free :: "'s \<Rightarrow> string set"
    and inv :: "'s \<Rightarrow> bool"
  assumes owner_inj: "inv s \<Longrightarrow> owner s i = Some ip \<Longrightarrow> owner s j = Some ip \<Longrightarrow> i = j"
    and owner_not_free: "inv s \<Longrightarrow> owner s i = Some ip \<Longrightarrow> ip \<notin> free s"
    and allocate_ok: "inv s \<Longrightarrow> mgr_AllocateIP mgr i p s = (Inr a, s') \<Longrightarrow>
      inv s' \<and> owner s' i = Some (AddrString t a) \<and> ParseAddr t (AddrString t a) = Some a \<and>
      (if owner s i = None
       then AddrString t a \<in> free s \<and> owner s' = (owner s)(i \<mapsto> AddrString t a) \<and> free s' = free s - {AddrString t a}
       else owner s' = owner s \<and> free s' = free s)"
    and allocate_err: "inv s \<Longrightarrow> mgr_AllocateIP mgr i p s = (Inl e, s') \<Longrightarrow>
      inv s' \<and> owner s' = owner s \<and> free s' = free s"
    and deallocate_ok: "inv s \<Longrightarrow> mgr_DeallocateIP mgr i s = (None, s') \<Longrightarrow>
      inv s' \<and> owner s' = (owner s)(i := None) \<and> free s' = free s \<union> set_option (owner s i)"
    and deallocate_err: "inv s \<Longrightarrow> mgr_DeallocateIP mgr i s = (Some e, s') \<Longrightarrow>
      inv s' \<and> owner s' = owner s \<and> free s' = free s"
    and lookup_ok: "inv s \<Longrightarrow> mgr_GetAllocationIDfromIP mgr a s = (r, s') \<Longrightarrow>
      inv s' \<and> owner s' = owner s \<and> free s' = free s \<and>
      (case r of Inl e \<Rightarrow> True
       | Inr None \<Rightarrow> AddrString t a \<notin> ran (owner s)
       | Inr (Some i) \<Rightarrow> owner s i = Some (AddrString t a))"
begin

lemma allocate_then_deallocate:
  assumes "inv s" "owner s i = None" "mgr_AllocateIP mgr i p s = (Inr a, s')"
    and "mgr_DeallocateIP mgr i s' = (None, s'')"
  shows "inv s'' \<and> owner s'' = owner s \<and> free s'' = free s"
  using allocate_ok[OF assms(1,3)] deallocate_ok[of s' i s''] assms(2,4) by (auto simp: fun_upd_idem)

lemma allocate_again:
  assumes "inv s" "mgr_AllocateIP mgr i p s = (Inr a, s')" "mgr_AllocateIP mgr i q s' = (Inr b, s'')"
  shows "b = a \<and> owner s'' = owner s' \<and> free s'' = free s'"
proof -
  have 1: "inv s'" "owner s' i = Some (AddrString t a)" "ParseAddr t (AddrString t a) = Some a"
    using allocate_ok[OF assms(1,2)] by auto
  have 2: "owner s'' i = Some (AddrString t b)" "ParseAddr t (AddrString t b) = Some b" "owner s'' = owner s'" "free s'' = free s'"
    using allocate_ok[OF 1(1) assms(3)] 1(2) by auto
  then have "AddrString t b = AddrString t a" using 1(2) by simp
  then show ?thesis using 1(3) 2 by simp
qed

lemma allocated_distinct:
  assumes "inv s" "i \<noteq> j" "mgr_AllocateIP mgr i p s = (Inr a, s')" "mgr_AllocateIP mgr j q s' = (Inr b, s'')"
  shows "a \<noteq> b"
proof
  assume "a = b"
  have 1: "inv s'" "owner s' i = Some (AddrString t a)" using allocate_ok[OF assms(1,3)] by auto
  note 2 = allocate_ok[OF 1(1) assms(4)]
  then have "owner s'' i = Some (AddrString t a)" using 1(2) assms(2) by (auto split: if_splits)
  moreover have "owner s'' j = Some (AddrString t a)" "inv s''" using 2 \<open>a = b\<close> by auto
  ultimately show False using owner_inj assms(2) by blast
qed

end

section \<open>The ConfigMap manager meets the contract\<close>

lemma allocate_prepare_effect:
  assumes ok: "pool_env_ok E cfg view" and pv: "pool_view E cfg view w = Some (Some m, av)"
    and run: "allocate_prepare E cfg i p w = (r, w1)"
  shows "view w1 = view w"
    and "r = Inr (Already ip) \<Longrightarrow> \<exists>a. map_of m i = Some a \<and> ParseAddr (ip6 E) (IP a) = Some ip"
    and "r = Inr (Reserved ipStr st) \<Longrightarrow> map_of m i = None \<and> (\<exists>k n now. k < length av \<and> ipStr = av ! k \<and>
      pool_of st = (Some (AList.update i \<lparr>AllocationID = i, IP = av ! k, NodeName = n, PodName = p, AllocatedAt = now\<rparr> m),
        remove_nth k av))"
proof -
  obtain g wg where g: "getCurrentState E cfg w = (g, wg)" by fastforce
  note read = getCurrentState_read[OF ok g]
  have sel: "selectIPIndex E av i < length av" if "av \<noteq> []" using selectIPIndex_less that by auto
  have "view w1 = view w \<and> (\<forall>ip. r = Inr (Already ip) \<longrightarrow> (\<exists>a. map_of m i = Some a \<and> ParseAddr (ip6 E) (IP a) = Some ip))
    \<and> (\<forall>ipStr st. r = Inr (Reserved ipStr st) \<longrightarrow> map_of m i = None \<and> (\<exists>k n now. k < length av \<and> ipStr = av ! k \<and>
      pool_of st = (Some (AList.update i \<lparr>AllocationID = i, IP = av ! k, NodeName = n, PodName = p, AllocatedAt = now\<rparr> m),
        remove_nth k av)))"
  proof (cases g)
    case (Inl e)
    with run g read(1) show ?thesis by (auto simp: allocate_prepare_def)
  next
    case (Inr sr)
    obtain s rv where s: "sr = (s, rv)" by fastforce
    with read(2) pv Inr have st: "AllocatedIPs s = Some m" "AvailableIPs s = av" by (simp_all add: pool_of_def)
    then have al: "allocs s = m" by (simp add: allocs_def)
    show ?thesis
    proof (cases "map_of m i")
      case (Some a)
      with run g Inr s st al read(1) show ?thesis
        by (auto simp: allocate_prepare_def split: option.splits)
    next
      case None
      let ?k = "selectIPIndex E av i"
      let ?chk = "if \<not> SkipVMReadiness cfg then checkVMReadiness E (av ! ?k) wg else (None, wg)"
      obtain c wc where c: "?chk = (c, wc)" by fastforce
      have vc: "view wc = view wg" using c checkVMReadiness_view[OF ok] by (auto split: if_splits)
      show ?thesis
        using run g Inr s st al None read(1) vc sel c
        by (auto simp: allocate_prepare_def pool_of_def Let_def
            intro!: exI[of _ "selectIPIndex E (AvailableIPs s) i"] exI[of _ "time_Now E _"]
            split: if_splits option.splits sum.splits)
    qed
  qed
  then show "view w1 = view w"
    and "r = Inr (Already ip) \<Longrightarrow> \<exists>a. map_of m i = Some a \<and> ParseAddr (ip6 E) (IP a) = Some ip"
    and "r = Inr (Reserved ipStr st) \<Longrightarrow> map_of m i = None \<and> (\<exists>k n now. k < length av \<and> ipStr = av ! k \<and>
      pool_of st = (Some (AList.update i \<lparr>AllocationID = i, IP = av ! k, NodeName = n, PodName = p, AllocatedAt = now\<rparr> m),
        remove_nth k av))"
    by blast+
qed

lemma AllocateIP_effect:
  assumes inv: "cm_inv E cfg view w" and run: "AllocateIP E cfg i p w = (r, w')"
  shows "cm_inv E cfg view w' \<and>
    (case r of
       Inl e \<Rightarrow> view w' = view w
     | Inr ip \<Rightarrow> cm_owner E cfg view w' i = Some (AddrString (ip6 E) ip) \<and>
         ParseAddr (ip6 E) (AddrString (ip6 E) ip) = Some ip \<and>
         (if cm_owner E cfg view w i = None
          then AddrString (ip6 E) ip \<in> cm_free E cfg view w \<and>
            cm_owner E cfg view w' = (cm_owner E cfg view w)(i \<mapsto> AddrString (ip6 E) ip) \<and>
            cm_free E cfg view w' = cm_free E cfg view w - {AddrString (ip6 E) ip}
          else view w' = view w))"
proof -
  from inv obtain m av where ok: "pool_env_ok E cfg view" and pv: "pool_view E cfg view w = Some (Some m, av)"
    and pok: "pool_ok (ip6 E) (Some m, av)" by (rule cm_invE)
  note abs = cm_abs_simps[OF pv]
  have keep: "cm_inv E cfg view v" if "view v = view w" for v
    using inv cm_keep(1)[where view = view, OF that] by simp
  obtain q w1 where q: "allocate_prepare E cfg i p w = (q, w1)" by fastforce
  note prep = allocate_prepare_effect[OF ok pv q]
  consider (err) e where "q = Inl e" | (alr) ip where "q = Inr (Already ip)" | (res) ipStr st where "q = Inr (Reserved ipStr st)"
    by (metis prepared.exhaust sum.exhaust)
  then show ?thesis
  proof cases
    case err
    with run q prep(1) keep show ?thesis by (auto simp: AllocateIP_def doAllocateIP_def)
  next
    case alr
    from prep(2)[OF alr] obtain a where a: "map_of m i = Some a" "ParseAddr (ip6 E) (IP a) = Some ip" by blast
    with pok have "canonical (ip6 E) (IP a)" using ips_of_in[OF a(1)] by (auto simp: pool_ok_def)
    with a(2) pool_env_okD(7)[OF ok] have "AddrString (ip6 E) ip = IP a" by (metis canonical_parse option.inject)
    with run q alr prep keep a abs cm_keep(2)[where view = view, OF prep(1)] show ?thesis
      by (auto simp: AllocateIP_def doAllocateIP_def)
  next
    case res
    from prep(3)[OF res] obtain k n now where k: "k < length av" "ipStr = av ! k" and new: "map_of m i = None"
      and st: "pool_of st = (Some (AList.update i \<lparr>AllocationID = i, IP = av ! k, NodeName = n, PodName = p, AllocatedAt = now\<rparr> m),
        remove_nth k av)" by blast
    define a where "a = \<lparr>AllocationID = i, IP = av ! k, NodeName = n, PodName = p, AllocatedAt = now\<rparr>"
    have a: "AllocationID a = i" "IP a = av ! k" by (simp_all add: a_def)
    note st = st[folded a_def]
    have "canonical (ip6 E) ipStr" using pok k by (auto simp: pool_ok_def)
    with pool_env_okD(7)[OF ok] obtain ip where ip: "ParseAddr (ip6 E) ipStr = Some ip" "AddrString (ip6 E) ip = ipStr"
      by (rule canonical_parse)
    obtain u w2 where u: "updateState E cfg st w1 = (u, w2)" by fastforce
    note upd = updateState_effect[OF ok u]
    have rw: "(r, w') = (case u of None \<Rightarrow> (Inr ip, w2) | Some e \<Rightarrow> (Inl (ErrConflict e), w2))"
      using run q res u ip by (simp add: AllocateIP_def doAllocateIP_def allocate_commit_def split: option.splits)
    show ?thesis
    proof (cases u)
      case None
      then have pv': "pool_view E cfg view w2 = Some (Some (AList.update i a m), remove_nth k av)"
        using upd(2) st by simp
      have "cm_inv E cfg view w2"
        using ok pool_ok_allocate[OF pok k(1) new a] by (simp add: cm_inv_def pv')
      moreover have "distinct av" using pok by (simp add: pool_ok_def)
      ultimately show ?thesis
        using rw None ip k a new distinct_remove_nth[OF _ k(1)]
        by (auto simp: fun_eq_iff cm_abs_simps[OF pv'] abs)
    next
      case (Some e)
      with upd(1) prep(1) rw keep show ?thesis by auto
    qed
  qed
qed

lemma DeallocateIP_effect:
  assumes inv: "cm_inv E cfg view w" and run: "DeallocateIP E cfg i w = (r, w')"
  shows "cm_inv E cfg view w' \<and>
    (case r of
       Some e \<Rightarrow> view w' = view w
     | None \<Rightarrow> cm_owner E cfg view w' = (cm_owner E cfg view w)(i := None) \<and>
         cm_free E cfg view w' = cm_free E cfg view w \<union> set_option (cm_owner E cfg view w i))"
proof -
  from inv obtain m av where ok: "pool_env_ok E cfg view" and pv: "pool_view E cfg view w = Some (Some m, av)"
    and pok: "pool_ok (ip6 E) (Some m, av)" by (rule cm_invE)
  note abs = cm_abs_simps[OF pv]
  have keep: "cm_inv E cfg view v \<and> cm_owner E cfg view v = cm_owner E cfg view w \<and> cm_free E cfg view v = cm_free E cfg view w"
    if "view v = view w" for v
    using inv cm_keep[where view = view, OF that] by simp
  obtain g wg where g: "getCurrentState E cfg w = (g, wg)" by fastforce
  note read = getCurrentState_read[OF ok g]
  show ?thesis
  proof (cases g)
    case (Inl e)
    with run g read(1) keep show ?thesis by (auto simp: DeallocateIP_def doDeallocateIP_def)
  next
    case (Inr sr)
    obtain s rv where s: "sr = (s, rv)" by fastforce
    with read(2) pv Inr have st: "AllocatedIPs s = Some m" "AvailableIPs s = av" by (simp_all add: pool_of_def)
    then have al: "allocs s = m" by (simp add: allocs_def)
    show ?thesis
    proof (cases "map_of m i")
      case None
      with run g Inr s al read(1) have "r = None" "view w' = view w" by (auto simp: DeallocateIP_def doDeallocateIP_def)
      with keep[of w'] None show ?thesis by (auto simp: abs fun_eq_iff)
    next
      case (Some a)
      let ?st = "\<lparr>AllocatedIPs = Some (AList.delete i m), AvailableIPs = av @ [IP a],
        LastUpdated = time_Now E wg, Version = Version s + 1\<rparr>"
      obtain u w2 where u: "updateState E cfg ?st wg = (u, w2)" by fastforce
      note upd = updateState_effect[OF ok u]
      have rw: "(r, w') = (map_option ErrUpdatingPoolState u, w2)"
        using run g Inr s st al Some u by (auto simp: DeallocateIP_def doDeallocateIP_def Let_def split: option.splits)
      show ?thesis
      proof (cases u)
        case None
        then have pv': "pool_view E cfg view w2 = Some (Some (AList.delete i m), av @ [IP a])" using upd(2) by simp
        have "cm_inv E cfg view w2"
          using ok pool_ok_deallocate[OF pok Some] by (simp add: cm_inv_def pv')
        with rw None Some show ?thesis by (auto simp: cm_abs_simps[OF pv'] abs fun_eq_iff)
      next
        case (Some e)
        with upd(1) read(1) rw keep[of w2] show ?thesis by auto
      qed
    qed
  qed
qed

lemma find_allocation_spec:
  "case find_allocation ip m of None \<Rightarrow> \<forall>(i, a)\<in>set m. IP a \<noteq> ip | Some i \<Rightarrow> \<exists>a. (i, a) \<in> set m \<and> IP a = ip"
  by (induction m) (auto split: option.splits if_splits)

lemma GetAllocationIDfromIP_effect:
  assumes inv: "cm_inv E cfg view w" and run: "GetAllocationIDfromIP E cfg a w = (r, w')"
  shows "view w' = view w \<and>
    (case r of Inl e \<Rightarrow> True
     | Inr None \<Rightarrow> AddrString (ip6 E) a \<notin> ran (cm_owner E cfg view w)
     | Inr (Some i) \<Rightarrow> cm_owner E cfg view w i = Some (AddrString (ip6 E) a))"
proof -
  from inv obtain m av where ok: "pool_env_ok E cfg view" and pv: "pool_view E cfg view w = Some (Some m, av)"
    and pok: "pool_ok (ip6 E) (Some m, av)" by (rule cm_invE)
  obtain g wg where g: "getCurrentState E cfg w = (g, wg)" by fastforce
  note read = getCurrentState_read[OF ok g]
  show ?thesis
  proof (cases g)
    case (Inl e)
    with run g read(1) show ?thesis by (auto simp: GetAllocationIDfromIP_def)
  next
    case (Inr sr)
    obtain s rv where s: "sr = (s, rv)" by fastforce
    with read(2) pv Inr have "AllocatedIPs s = Some m" by (simp add: pool_of_def)
    then have al: "allocs s = m" by (simp add: allocs_def)
    have wf: "wf_map m" using pok by (simp add: pool_ok_def)
    from run g Inr s al have r: "r = Inr (find_allocation (AddrString (ip6 E) a) m)" "w' = wg"
      by (auto simp: GetAllocationIDfromIP_def)
    show ?thesis
    proof (cases "find_allocation (AddrString (ip6 E) a) m")
      case None
      with find_allocation_spec[of m "AddrString (ip6 E) a"] r read(1) show ?thesis
        by (auto simp: cm_abs_simps[OF pv] ran_def dest: map_of_SomeD)
    next
      case (Some i)
      with find_allocation_spec[of m "AddrString (ip6 E) a"] obtain b where "(i, b) \<in> set m" "IP b = AddrString (ip6 E) a"
        by auto
      with r read(1) wf Some show ?thesis by (simp add: cm_abs_simps[OF pv])
    qed
  qed
qed

lemma cm_owner_unique:
  assumes "cm_inv E cfg view w" "cm_owner E cfg view w i = Some ip"
  shows "ip \<notin> cm_free E cfg view w" and "cm_owner E cfg view w j = Some ip \<Longrightarrow> i = j"
proof -
  from assms(1) obtain m av where pv: "pool_view E cfg view w = Some (Some m, av)" and "pool_ok (ip6 E) (Some m, av)"
    by (rule cm_invE)
  then have "distinct (ips_of m)" "set av \<inter> set (ips_of m) = {}" by (auto simp: pool_ok_def)
  with assms(2) show "ip \<notin> cm_free E cfg view w" and "cm_owner E cfg view w j = Some ip \<Longrightarrow> i = j"
    using ips_of_in ips_of_inj by (auto simp: cm_abs_simps[OF pv])
qed

interpretation cm_pool: vm_pool "ConfigMapVMPoolManager E cfg" "ip6 E" "cm_owner E cfg view" "cm_free E cfg view"
    "cm_inv E cfg view"
  for E :: "('w, 'j) pool_env" and cfg view
proof (unfold_locales, unfold ConfigMapVMPoolManager_def GlobalVMPoolManager.simps, goal_cases)
  case (1 s i ip j)
  then show ?case by (rule cm_owner_unique(2))
next
  case (2 s i ip)
  then show ?case by (rule cm_owner_unique(1))
next
  case (3 s i p a s')
  show ?case
  proof (cases "cm_owner E cfg view s i = None")
    case False
    then have "view s' = view s" using AllocateIP_effect[OF 3] by simp
    then show ?thesis using AllocateIP_effect[OF 3] False cm_keep[of view s' s] by simp
  qed (use AllocateIP_effect[OF 3] in simp)
next
  case (4 s i p e s')
  then show ?case using AllocateIP_effect[OF 4] cm_keep[of view s' s] by simp
next
  case (5 s i s')
  then show ?case using DeallocateIP_effect[OF 5] by simp
next
  case (6 s i e s')
  then show ?case using DeallocateIP_effect[OF 6] cm_keep[of view s' s] by simp
next
  case (7 s a r s')
  then show ?case using GetAllocationIDfromIP_effect[OF 7] cm_keep[of view s' s] by simp
qed

end
