(* ===== verification/VMPoolProps.thy ===== *)
theory VMPoolProps
  imports VMPoolCorrect
begin

text \<open>
  What the VM pool guarantees over whole runs.  \<open>pool_reach\<close> closes a cluster without stored
  state under every operation of the manager, failed ones included, and under changes of the world
  that leave the pool's ConfigMap alone; the invariant holds on all of it.  \<open>mem_env\<close> is an
  API server in memory on which the hypotheses are witnessed.
\<close>

section \<open>An API server in memory\<close>

type_synonym mem_world = "((string \<times> string) \<times> IPAllocationState ConfigMap) list"

definition mem_Get :: "string \<Rightarrow> string \<Rightarrow> mem_world \<Rightarrow> (k8s_error + IPAllocationState ConfigMap) \<times> mem_world" where
  "mem_Get ns n w = (case map_of w (ns, n) of None \<Rightarrow> (Inl NotFound, w) | Some c \<Rightarrow> (Inr (c\<lparr>cm_name := n\<rparr>), w))"

definition mem_Create :: "string \<Rightarrow> IPAllocationState ConfigMap \<Rightarrow> mem_world \<Rightarrow> (k8s_error + IPAllocationState ConfigMap) \<times> mem_world" where
  "mem_Create ns c w = (case map_of w (ns, cm_name c) of
       Some _ \<Rightarrow> (Inl AlreadyExists, w)
     | None \<Rightarrow> (Inr c, AList.update (ns, cm_name c) (c\<lparr>cm_resourceVersion := ''1''\<rparr>) w))"

definition mem_Update :: "string \<Rightarrow> IPAllocationState ConfigMap \<Rightarrow> mem_world \<Rightarrow> (k8s_error + IPAllocationState ConfigMap) \<times> mem_world" where
  \<comment> \<open>optimistic concurrency: the object must carry the stored resource version\<close>
  "mem_Update ns c w = (case map_of w (ns, cm_name c) of
       None \<Rightarrow> (Inl NotFound, w)
     | Some old \<Rightarrow> if cm_resourceVersion old \<noteq> cm_resourceVersion c then (Inl Conflict, w)
         else (Inr c, AList.update (ns, cm_name c) (c\<lparr>cm_resourceVersion := CHR ''1'' # cm_resourceVersion c\<rparr>) w))"

definition mem_view :: "GlobalVMPoolConfig \<Rightarrow> mem_world \<Rightarrow> IPAllocationState ConfigMap option" where
  "mem_view cfg w = map_option (cm_name_update (\<lambda>_. ConfigMapName cfg)) (map_of w (Namespace cfg, ConfigMapName cfg))"

definition mem_env :: "(mem_world, IPAllocationState) pool_env" where
  "mem_env = \<lparr>cm_Get = mem_Get, cm_Create = mem_Create, cm_Update = mem_Update,
     json_marshal = Inr, json_unmarshal = Inr, md5_sum = (\<lambda>_. [0, 0, 0, 0]),
     dial_timeout = (\<lambda>_ w. (None, w)), retry_OnError = retry_steps 4, time_Now = (\<lambda>_. 0),
     node_os = (\<lambda>_. \<lparr>os_env = (\<lambda>k. if k = nodeNameEnvVar then ''worker-0'' else []), os_files = Map.empty, os_fault = (\<lambda>_ _. False)\<rparr>),
     ip6 = decimal_ip6\<rparr>"

lemma mem_rename: "cm_name c = n \<Longrightarrow> c\<lparr>cm_resourceVersion := rv, cm_name := n\<rparr> = c\<lparr>cm_resourceVersion := rv\<rparr>"
  by (cases c) simp

lemma mem_env_ok: "pool_env_ok mem_env cfg (mem_view cfg)"
  by (auto simp: mem_rename pool_env_ok_def mem_env_def get_law_def create_law_def update_law_def mem_Get_def mem_Create_def
      mem_Update_def mem_view_def retried_retry_steps ip6_ok_decimal split: option.splits if_splits)

definition mem_cfg :: GlobalVMPoolConfig where
  "mem_cfg = \<lparr>Namespace = ''ns'', ConfigMapName = ''state'', PoolIPs = [''10.0.0.1'', ''10.0.0.2''],
     MaxRetries = 5, RetryInterval = 1, OperationTimeout = 10, SkipVMReadiness = False\<rparr>"

definition pool_cfg_ok :: "ip6_text \<Rightarrow> GlobalVMPoolConfig \<Rightarrow> bool" where
  \<comment> \<open>what \<open>vmPoolIPs.Set\<close> produces: distinct addresses in canonical text\<close>
  "pool_cfg_ok t cfg \<longleftrightarrow> distinct (PoolIPs cfg) \<and> (\<forall>ip\<in>set (PoolIPs cfg). canonical t ip)"

lemma canonical_ipv4: "ip = string4 w \<Longrightarrow> canonical t ip"
  unfolding canonical_def by (rule exI[of _ "Addr4 w"]) simp

lemma mem_ips: "''10.0.0.1'' = string4 0x0A000001" "''10.0.0.2'' = string4 0x0A000002"
  by (simp_all add: string4_def digits_of.simps)

lemma mem_parse: "ParseAddr t ''10.0.0.1'' = Some (Addr4 0x0A000001)" "ParseAddr t ''10.0.0.2'' = Some (Addr4 0x0A000002)"
  by (simp_all only: mem_ips ParseAddr_string4)

lemma mem_cfg_ok: "pool_cfg_ok decimal_ip6 mem_cfg"
proof -
  note mem_ips
  then have "canonical decimal_ip6 ''10.0.0.1''" "canonical decimal_ip6 ''10.0.0.2''" by (blast intro: canonical_ipv4)+
  then show ?thesis by (simp add: pool_cfg_ok_def mem_cfg_def)
qed

section \<open>State recovery\<close>

lemma pool_ok_empty: "pool_cfg_ok t cfg \<Longrightarrow> pool_ok t (Some [], PoolIPs cfg)"
  by (simp add: pool_ok_def pool_cfg_ok_def ips_of_def)

lemma set_ips_of: "set (ips_of m) = IP ` snd ` set m"
  by (force simp: ips_of_def)

lemma pool_ok_repaired:
  assumes cfg: "pool_cfg_ok t cfg" and m: "AllocatedIPs st = Some m" "wf_map m" "\<forall>(i, a)\<in>set m. AllocationID a = i"
    and ips: "distinct (ips_of m)" "\<forall>ip\<in>set (ips_of m). canonical t ip"
  shows "pool_ok t (pool_of (repaired_state cfg now st))"
proof -
  have "allocs st = m" using m(1) by (simp add: allocs_def)
  then show ?thesis using assms by (auto simp: pool_ok_def pool_cfg_ok_def set_ips_of)
qed

lemma repair_effect:
  assumes ok: "pool_env_ok E cfg view" and pv: "pool_view E cfg view w = Some (Some m, av)"
    and run: "repairStateFromPrimaryConfig E cfg w = (r, w')"
  shows "r \<noteq> None \<Longrightarrow> view w' = view w"
    and "r = None \<Longrightarrow> \<exists>now st. AllocatedIPs st = Some m \<and> pool_view E cfg view w' = Some (pool_of (repaired_state cfg now st))"
proof -
  obtain g wg where g: "getCurrentState E cfg w = (g, wg)" by fastforce
  note read = getCurrentState_read[OF ok g]
  have "(r \<noteq> None \<longrightarrow> view w' = view w) \<and>
    (r = None \<longrightarrow> (\<exists>now st. AllocatedIPs st = Some m \<and> pool_view E cfg view w' = Some (pool_of (repaired_state cfg now st))))"
  proof (cases g)
    case (Inl e)
    with run g read(1) show ?thesis by (auto simp: repairStateFromPrimaryConfig_def)
  next
    case (Inr sr)
    obtain s rv where s: "sr = (s, rv)" by fastforce
    with read(2) pv Inr have st: "AllocatedIPs s = Some m" by (simp add: pool_of_def)
    let ?s = "repaired_state cfg (time_Now E wg) s"
    obtain u wu where u: "updateState E cfg ?s wg = (u, wu)" by fastforce
    note upd = updateState_effect[OF ok u]
    have "r = map_option ErrRecover u" "w' = wu"
      using run g Inr s u by (auto simp: repairStateFromPrimaryConfig_def split: option.splits)
    with upd read(1) st show ?thesis by auto
  qed
  then show "r \<noteq> None \<Longrightarrow> view w' = view w"
    and "r = None \<Longrightarrow> \<exists>now st. AllocatedIPs st = Some m \<and> pool_view E cfg view w' = Some (pool_of (repaired_state cfg now st))"
    by blast+
qed

lemma initializeAndSave_effect:
  assumes ok: "pool_env_ok E cfg view" and run: "initializeAndSaveEmptyState E cfg w = (r, w')"
  shows "r \<noteq> None \<Longrightarrow> view w' = view w" and "r = None \<Longrightarrow> pool_view E cfg view w' = Some (Some [], PoolIPs cfg)"
proof -
  obtain u wu where u: "updateState E cfg (initializeEmptyState E cfg w) w = (u, wu)" by fastforce
  note upd = updateState_effect[OF ok u]
  have "r = map_option ErrRecover u" "w' = wu"
    using run u by (auto simp: initializeAndSaveEmptyState_def split: option.splits)
  with upd show "r \<noteq> None \<Longrightarrow> view w' = view w"
    and "r = None \<Longrightarrow> pool_view E cfg view w' = Some (Some [], PoolIPs cfg)" by auto
qed

lemma ran_owner: "wf_map m \<Longrightarrow> ran (\<lambda>i. map_option IP (map_of m i)) = IP ` snd ` set m"
proof (rule set_eqI)
  fix x
  assume "wf_map m"
  then have "map_of m i = Some a \<longleftrightarrow> (i, a) \<in> set m" for i a by simp
  then show "x \<in> ran (\<lambda>i. map_option IP (map_of m i)) \<longleftrightarrow> x \<in> IP ` snd ` set m"
    by (simp add: ran_def image_iff) force
qed

lemma RecoverState_effect:
  assumes inv: "cm_inv E cfg view w" and cfg: "pool_cfg_ok (ip6 E) cfg" and run: "RecoverState E cfg w = (r, w')"
  obtains (unchanged) "view w' = view w"
  | (repaired) "cm_inv E cfg view w'" "cm_owner E cfg view w' = cm_owner E cfg view w"
      "cm_free E cfg view w' = set (PoolIPs cfg) - ran (cm_owner E cfg view w)"
  | (wiped) "cm_inv E cfg view w'" "cm_owner E cfg view w' = Map.empty" "cm_free E cfg view w' = set (PoolIPs cfg)"
proof -
  from inv obtain m av where ok: "pool_env_ok E cfg view" and pv: "pool_view E cfg view w = Some (Some m, av)"
    and pok: "pool_ok (ip6 E) (Some m, av)" by (rule cm_invE)
  obtain g wg where g: "getCurrentState E cfg w = (g, wg)" by fastforce
  note read = getCurrentState_read[OF ok g]
  note pvg = pool_view_cong[where view = view and w = w and w' = wg, OF read(1), of E cfg, unfolded pv]
  consider "w' = w" | (repair) rr where "repairStateFromPrimaryConfig E cfg wg = (rr, w')"
    | (init) rr where "initializeAndSaveEmptyState E cfg wg = (rr, w')"
    using run g by (cases "repairStateFromPrimaryConfig E cfg wg") (auto simp: RecoverState_def split: sum.splits)
  then show thesis
  proof cases
    case repair
    show thesis
    proof (cases rr)
      case (Some e)
      with repair_effect(1)[OF ok pvg repair] read(1) unchanged show thesis by simp
    next
      case None
      then obtain now st where st: "AllocatedIPs st = Some m"
        and pv': "pool_view E cfg view w' = Some (pool_of (repaired_state cfg now st))"
        using repair_effect(2)[OF ok pvg repair] by blast
      have "pool_ok (ip6 E) (pool_of (repaired_state cfg now st))"
        using pok by (intro pool_ok_repaired[OF cfg st]) (auto simp: pool_ok_def)
      moreover have al: "allocs st = m" using st by (simp add: allocs_def)
      moreover have "IP ` snd ` set m = ran (cm_owner E cfg view w)"
        using pok ran_owner[of m] by (simp add: pool_ok_def cm_abs_simps[OF pv])
      ultimately show thesis
        using ok pv' st cm_abs_simps[OF pv'[unfolded pool_of_simps st]]
        by (intro repaired) (auto simp: cm_inv_def cm_abs_simps[OF pv])
    qed
  next
    case init
    show thesis
    proof (cases rr)
      case (Some e)
      with initializeAndSave_effect(1)[OF ok init] read(1) unchanged show thesis by simp
    next
      case None
      note pv' = initializeAndSave_effect(2)[OF ok init None]
      then show thesis
        using ok pool_ok_empty[OF cfg] by (intro wiped) (auto simp: cm_inv_def cm_abs_simps[OF pv'])
    qed
  qed (use unchanged in simp)
qed

section \<open>Reachable pools\<close>

inductive pool_reach :: "('w, 'j) pool_env \<Rightarrow> GlobalVMPoolConfig \<Rightarrow> ('w \<Rightarrow> 'j ConfigMap option) \<Rightarrow> 'w \<Rightarrow> bool"
  for E cfg view where
  fresh: "view w = None \<Longrightarrow> pool_reach E cfg view w"
| elsewhere: "pool_reach E cfg view w \<Longrightarrow> view w' = view w \<Longrightarrow> pool_reach E cfg view w'"
| allocate: "pool_reach E cfg view w \<Longrightarrow> AllocateIP E cfg i p w = (r, w') \<Longrightarrow> pool_reach E cfg view w'"
| deallocate: "pool_reach E cfg view w \<Longrightarrow> DeallocateIP E cfg i w = (d, w') \<Longrightarrow> pool_reach E cfg view w'"
| recover: "pool_reach E cfg view w \<Longrightarrow> RecoverState E cfg w = (d, w') \<Longrightarrow> pool_reach E cfg view w'"

definition pool_full :: "('w, 'j) pool_env \<Rightarrow> GlobalVMPoolConfig \<Rightarrow> ('w \<Rightarrow> 'j ConfigMap option) \<Rightarrow> 'w \<Rightarrow> bool" where
  \<comment> \<open>consistent, and the free and the allocated addresses are exactly the configured ones\<close>
  "pool_full E cfg view w \<longleftrightarrow> cm_inv E cfg view w \<and>
     cm_free E cfg view w \<union> ran (cm_owner E cfg view w) = set (PoolIPs cfg)"

lemma pool_full_keep: "view v = view w \<Longrightarrow> pool_full E cfg view v = pool_full E cfg view w"
  using cm_keep[of view v w] by (simp add: pool_full_def)

lemma pool_full_allocate:
  assumes full: "pool_full E cfg view w" and run: "AllocateIP E cfg i p w = (r, w')"
  shows "pool_full E cfg view w'"
proof -
  have inv: "cm_inv E cfg view w" using full by (simp add: pool_full_def)
  note eff = AllocateIP_effect[OF inv run]
  show ?thesis
  proof (cases "view w' = view w")
    case True
    then show ?thesis using full pool_full_keep[of view w' w] by simp
  next
    case False
    with eff obtain ip where "cm_owner E cfg view w i = None" "ip \<in> cm_free E cfg view w"
      "cm_owner E cfg view w' = (cm_owner E cfg view w)(i \<mapsto> ip)" "cm_free E cfg view w' = cm_free E cfg view w - {ip}"
      by (auto split: sum.splits if_splits)
    with eff full show ?thesis by (auto simp: pool_full_def ran_map_upd)
  qed
qed

lemma ran_delete:
  assumes "\<And>j ip. m i = Some ip \<Longrightarrow> m j = Some ip \<Longrightarrow> i = j"
  shows "set_option (m i) \<union> ran (m(i := None)) = ran m"
  using assms by (force simp: ran_def)

lemma pool_full_deallocate:
  assumes full: "pool_full E cfg view w" and run: "DeallocateIP E cfg i w = (r, w')"
  shows "pool_full E cfg view w'"
proof -
  have inv: "cm_inv E cfg view w" using full by (simp add: pool_full_def)
  note eff = DeallocateIP_effect[OF inv run]
  show ?thesis
  proof (cases r)
    case None
    have "set_option (cm_owner E cfg view w i) \<union> ran ((cm_owner E cfg view w)(i := None)) = ran (cm_owner E cfg view w)"
      using cm_owner_unique(2)[OF inv] by (rule ran_delete)
    with None eff full show ?thesis by (auto simp: pool_full_def)
  next
    case (Some e)
    with eff full pool_full_keep[of view w' w] show ?thesis by simp
  qed
qed

lemma pool_full_recover:
  assumes full: "pool_full E cfg view w" and cfg: "pool_cfg_ok (ip6 E) cfg" and run: "RecoverState E cfg w = (r, w')"
  shows "pool_full E cfg view w'"
proof -
  have inv: "cm_inv E cfg view w" using full by (simp add: pool_full_def)
  from inv cfg run show ?thesis
  proof (cases rule: RecoverState_effect)
    case unchanged
    then show ?thesis using full pool_full_keep[of view w' w] by simp
  next
    case repaired
    then show ?thesis using full by (auto simp: pool_full_def)
  next
    case wiped
    then show ?thesis by (simp add: pool_full_def)
  qed
qed

lemma pool_full_fresh:
  assumes "pool_env_ok E cfg view" "pool_cfg_ok (ip6 E) cfg" "view w = None"
  shows "pool_full E cfg view w"
proof -
  have "pool_view E cfg view w = Some (Some [], PoolIPs cfg)" using assms(3) by (simp add: pool_view_def stored_text_def)
  then show ?thesis using assms pool_ok_empty by (auto simp: pool_full_def cm_inv_def cm_owner_def cm_free_def pool_owner_def ran_def)
qed

lemma pool_reach_full:
  assumes "pool_env_ok E cfg view" "pool_cfg_ok (ip6 E) cfg" "pool_reach E cfg view w"
  shows "pool_full E cfg view w"
  using assms(3)
proof (induction rule: pool_reach.induct)
  case (fresh w)
  then show ?case by (rule pool_full_fresh[OF assms(1,2)])
next
  case (elsewhere w w')
  then show ?case using pool_full_keep[of view w' w] by simp
qed (blast intro: pool_full_allocate pool_full_deallocate pool_full_recover[OF _ assms(2)])+

section \<open>Guarantees\<close>

lemmas mgr_simps = ConfigMapVMPoolManager_def GlobalVMPoolManager.simps

text \<open>
  C1: In every state of the pool that the operations reach from a cluster without stored state, in any
  order and with any API failures, no address is held by two allocations, no held address is offered as
  free, and the free and held addresses together are exactly the configured ones: none leaks, none appears.
\<close>

theorem pool_exclusive:
  assumes "pool_env_ok E cfg view" "pool_cfg_ok (ip6 E) cfg" "pool_reach E cfg view w"
  shows "inj_on (cm_owner E cfg view w) (dom (cm_owner E cfg view w)) \<and>
    ran (cm_owner E cfg view w) \<inter> cm_free E cfg view w = {} \<and>
    cm_free E cfg view w \<union> ran (cm_owner E cfg view w) = set (PoolIPs cfg)"
proof -
  have full: "pool_full E cfg view w" using assms by (rule pool_reach_full)
  then have inv: "cm_inv E cfg view w" by (simp add: pool_full_def)
  have "inj_on (cm_owner E cfg view w) (dom (cm_owner E cfg view w))"
    using cm_pool.owner_inj[OF inv] by (fastforce simp: inj_on_def dom_def)
  moreover have "ran (cm_owner E cfg view w) \<inter> cm_free E cfg view w = {}"
    using cm_pool.owner_not_free[OF inv] by (auto simp: ran_def)
  ultimately show ?thesis using full by (simp add: pool_full_def)
qed

lemma mem_reach: "pool_reach mem_env cfg (mem_view cfg) (snd (AllocateIP mem_env cfg i p []))"
  by (rule pool_reach.allocate[of _ _ _ "[]" i p, OF pool_reach.fresh prod.collapse[symmetric]]) (simp add: mem_view_def)

lemma mem_ip6 [simp]: "ip6 mem_env = decimal_ip6" by (simp add: mem_env_def)

theorem pool_exclusive_witness:
  "let w = snd (AllocateIP mem_env mem_cfg ''a'' ''pod'' []) in
     pool_env_ok mem_env mem_cfg (mem_view mem_cfg) \<and> pool_cfg_ok (ip6 mem_env) mem_cfg \<and>
     pool_reach mem_env mem_cfg (mem_view mem_cfg) w \<and>
     ran (cm_owner mem_env mem_cfg (mem_view mem_cfg) w) \<inter> cm_free mem_env mem_cfg (mem_view mem_cfg) w = {}"
  using pool_exclusive[OF mem_env_ok _ mem_reach, of mem_cfg "''a''" "''pod''"] mem_env_ok mem_cfg_ok mem_reach
  by (simp add: Let_def)

lemmas mem_defs = mem_env_def mem_cfg_def mem_Get_def mem_Create_def mem_Update_def mem_view_def
  AllocateIP_def doAllocateIP_def allocate_prepare_def allocate_commit_def getCurrentState_def initializeEmptyState_def
  checkVMReadiness_def probe_attempt_def numeral_eq_Suc getCurrentNodeName_def Getenv_def
  selectIPIndex_def be_uint32_def remove_nth_def updateState_def update_attempt_def marshalStateForConfigMap_def
  new_config_map_def allocs_def map_error_def DeallocateIP_def doDeallocateIP_def

lemma mem_inv: "cm_inv mem_env mem_cfg (mem_view mem_cfg) []"
  using pool_full_fresh[OF mem_env_ok, of mem_cfg "[]"] mem_cfg_ok by (simp add: pool_full_def mem_view_def)

lemma mem_alloc:
  "AllocateIP mem_env mem_cfg ''a'' ''pod'' [] = (Inr (Addr4 0x0A000001), snd (AllocateIP mem_env mem_cfg ''a'' ''pod'' []))"
  by (simp add: mem_defs mem_parse Let_def)

lemma mem_alloc2:
  defines "w1 \<equiv> snd (AllocateIP mem_env mem_cfg ''a'' ''pod'' [])"
  shows "AllocateIP mem_env mem_cfg ''b'' ''pod'' w1 = (Inr (Addr4 0x0A000002), snd (AllocateIP mem_env mem_cfg ''b'' ''pod'' w1))"
    and "AllocateIP mem_env mem_cfg ''a'' ''pod2'' w1 = (Inr (Addr4 0x0A000001), w1)"
    and "DeallocateIP mem_env mem_cfg ''a'' w1 = (None, snd (DeallocateIP mem_env mem_cfg ''a'' w1))"
  by (simp_all add: w1_def mem_defs mem_parse Let_def)

text \<open>
  Two allocation requests for different instances never receive the same address from a consistent
  pool, as long as the first allocation has been written before the second reads the state.
\<close>

lemma allocate_distinct:
  assumes "cm_inv E cfg view w" "i \<noteq> j"
    and "AllocateIP E cfg i p w = (Inr a, w')" "AllocateIP E cfg j q w' = (Inr b, w'')"
  shows "a \<noteq> b"
  using cm_pool.allocated_distinct[of E cfg view w i j p a w' q b w''] assms by (simp add: mgr_simps)

lemma allocate_distinct_witness:
  "fst (AllocateIP mem_env mem_cfg ''b'' ''pod'' (snd (AllocateIP mem_env mem_cfg ''a'' ''pod'' []))) = Inr (Addr4 0x0A000002) \<and>
   Addr4 0x0A000001 \<noteq> Addr4 0x0A000002"
  using allocate_distinct[OF mem_inv _ mem_alloc mem_alloc2(1)] by (subst mem_alloc2(1)) simp

text \<open>
  C11: Allocating an address for a new instance and releasing it again leaves the owner of every other
  instance and the set of free addresses as they were.
\<close>

theorem allocate_deallocate:
  assumes "cm_inv E cfg view w" "cm_owner E cfg view w i = None"
    and "AllocateIP E cfg i p w = (Inr a, w')" "DeallocateIP E cfg i w' = (None, w'')"
  shows "cm_inv E cfg view w'' \<and> cm_owner E cfg view w'' = cm_owner E cfg view w \<and> cm_free E cfg view w'' = cm_free E cfg view w"
  using cm_pool.allocate_then_deallocate[of E cfg view w i p a w' w''] assms by (simp add: mgr_simps)

theorem allocate_deallocate_witness:
  "cm_free mem_env mem_cfg (mem_view mem_cfg)
     (snd (DeallocateIP mem_env mem_cfg ''a'' (snd (AllocateIP mem_env mem_cfg ''a'' ''pod'' [])))) = {''10.0.0.1'', ''10.0.0.2''}"
proof -
  have "cm_owner mem_env mem_cfg (mem_view mem_cfg) [] ''a'' = None"
    by (simp add: cm_owner_def pool_view_def stored_text_def mem_view_def pool_owner_def)
  from allocate_deallocate[OF mem_inv this mem_alloc mem_alloc2(3)] show ?thesis
    by (simp add: cm_free_def pool_view_def stored_text_def mem_view_def[of _ "[]"]) (simp add: mem_cfg_def)
qed

text \<open>
  Allocation is idempotent per instance: asking again for an instance that holds an address returns
  that address and changes neither the owners nor the free addresses.
\<close>

lemma allocate_idempotent:
  assumes "cm_inv E cfg view w"
    and "AllocateIP E cfg i p w = (Inr a, w')" "AllocateIP E cfg i q w' = (Inr b, w'')"
  shows "b = a \<and> cm_owner E cfg view w'' = cm_owner E cfg view w' \<and> cm_free E cfg view w'' = cm_free E cfg view w'"
  using cm_pool.allocate_again[of E cfg view w i p a w' q b w''] assms by (simp add: mgr_simps)

lemma allocate_idempotent_witness:
  "let w = snd (AllocateIP mem_env mem_cfg ''a'' ''pod'' []) in
     AllocateIP mem_env mem_cfg ''a'' ''pod2'' w = (Inr (Addr4 0x0A000001), w) \<and>
     cm_owner mem_env mem_cfg (mem_view mem_cfg) w = cm_owner mem_env mem_cfg (mem_view mem_cfg) w"
  using allocate_idempotent[OF mem_inv mem_alloc mem_alloc2(2)] mem_alloc2(2) by (simp add: Let_def)

text \<open>
  In a reachable pool the status counts are right: the total is the number of configured addresses,
  the available count the number of free addresses and the in-use count the number of instances that hold one.
\<close>

lemma pool_status_counts:
  assumes env: "pool_env_ok E cfg view" and cfg: "pool_cfg_ok (ip6 E) cfg" and "pool_reach E cfg view w"
    and run: "GetPoolStatus E cfg w = (Inr (tot, available, inUse), w')"
  shows "tot = length (PoolIPs cfg) \<and> available = card (cm_free E cfg view w) \<and>
    inUse = card (dom (cm_owner E cfg view w)) \<and> tot = available + inUse"
proof -
  have full: "pool_full E cfg view w" using assms(1-3) by (rule pool_reach_full)
  then have "cm_inv E cfg view w" by (simp add: pool_full_def)
  then obtain m av where pv: "pool_view E cfg view w = Some (Some m, av)" and pok: "pool_ok (ip6 E) (Some m, av)" by (rule cm_invE)
  obtain g wg where g: "getCurrentState E cfg w = (g, wg)" by fastforce
  with run obtain s rv where s: "g = Inr (s, rv)" by (auto simp: GetPoolStatus_def split: sum.splits)
  with getCurrentState_read(2)[OF env g] pv have st: "AllocatedIPs s = Some m" "AvailableIPs s = av" by (simp_all add: pool_of_def)
  then have n: "available = length av" "inUse = length m" "tot = length av + length m"
    using run g s by (auto simp: GetPoolStatus_def allocs_def Let_def)
  have dist: "distinct (av @ ips_of m)" and wf: "wf_map m" using pok by (auto simp: pool_ok_def)
  have "set (av @ ips_of m) = set (PoolIPs cfg)"
    using full ran_owner[OF wf] by (simp add: pool_full_def cm_abs_simps[OF pv] set_ips_of)
  then have "length (av @ ips_of m) = length (PoolIPs cfg)"
    using dist cfg distinct_card[of "av @ ips_of m"] distinct_card[of "PoolIPs cfg"] by (simp add: pool_cfg_ok_def)
  moreover have "length (ips_of m) = length m" by (simp add: ips_of_def)
  moreover have "dom (cm_owner E cfg view w) = set (map fst m)"
    unfolding cm_abs_simps[OF pv] by (auto simp: dom_map_of_conv_image_fst[symmetric])
  then have "card (dom (cm_owner E cfg view w)) = length m" using distinct_card[OF wf] by simp
  moreover have "card (set av) = length av" using dist by (simp add: distinct_card)
  ultimately show ?thesis using n by (simp add: cm_abs_simps[OF pv])
qed

lemma pool_status_counts_witness:
  "let w = snd (AllocateIP mem_env mem_cfg ''a'' ''pod'' []) in
     GetPoolStatus mem_env mem_cfg w = (Inr (2, 1, 1), w) \<and> card (cm_free mem_env mem_cfg (mem_view mem_cfg) w) = 1"
proof -
  let ?w = "snd (AllocateIP mem_env mem_cfg ''a'' ''pod'' [])"
  have run: "GetPoolStatus mem_env mem_cfg ?w = (Inr (2, 1, 1), ?w)"
    by (simp add: mem_defs mem_parse Let_def GetPoolStatus_def)
  with pool_status_counts[OF mem_env_ok _ mem_reach run] mem_cfg_ok show ?thesis by (simp add: Let_def)
qed

text \<open>
  C10: Repairing the stored state from the configuration makes it consistent, whatever free list was
  stored, provided the stored allocations hold distinct well-formed addresses; it keeps every allocation
  and offers exactly the configured addresses that no allocation holds.
\<close>

theorem repair_consistent:
  assumes env: "pool_env_ok E cfg view" and cfg: "pool_cfg_ok (ip6 E) cfg"
    and pv: "pool_view E cfg view w = Some (Some m, av)"
    and m: "wf_map m" "\<forall>(i, a)\<in>set m. AllocationID a = i" "distinct (ips_of m)" "\<forall>ip\<in>set (ips_of m). canonical (ip6 E) ip"
    and run: "repairStateFromPrimaryConfig E cfg w = (None, w')"
  shows "cm_inv E cfg view w' \<and> cm_owner E cfg view w' = cm_owner E cfg view w \<and>
    cm_free E cfg view w' = set (PoolIPs cfg) - ran (cm_owner E cfg view w)"
proof -
  obtain now st where st: "AllocatedIPs st = Some m" and pv': "pool_view E cfg view w' = Some (pool_of (repaired_state cfg now st))"
    using repair_effect(2)[OF env pv run] by blast
  have "pool_ok (ip6 E) (pool_of (repaired_state cfg now st))" using cfg st m by (rule pool_ok_repaired)
  moreover have "allocs st = m" using st by (simp add: allocs_def)
  ultimately show ?thesis
    using env pv' st ran_owner[OF m(1)] cm_abs_simps[OF pv'[unfolded pool_of_simps st]]
    by (auto simp: cm_inv_def cm_abs_simps[OF pv])
qed

definition mem_bad :: mem_world where
  \<comment> \<open>a stored state whose free list repeats an address, names a held one and misses a configured one\<close>
  "mem_bad = [((''ns'', ''state''), \<lparr>cm_name = ''state'', cm_namespace = ''ns'', cm_labels = [],
     cm_data = Some [(stateDataKey, \<lparr>AllocatedIPs = Some [(''a'', \<lparr>AllocationID = ''a'', IP = ''10.0.0.1'',
       NodeName = ''n'', PodName = ''p'', AllocatedAt = 0\<rparr>)], AvailableIPs = [''10.0.0.1'', ''10.0.0.1''],
       LastUpdated = 0, Version = 7\<rparr>)], cm_resourceVersion = ''1''\<rparr>)]"

theorem repair_consistent_witness:
  "let w = snd (repairStateFromPrimaryConfig mem_env mem_cfg mem_bad) in
     repairStateFromPrimaryConfig mem_env mem_cfg mem_bad = (None, w) \<and> cm_inv mem_env mem_cfg (mem_view mem_cfg) w"
proof -
  let ?w = "snd (repairStateFromPrimaryConfig mem_env mem_cfg mem_bad)"
  define m where "m = [(''a'', \<lparr>AllocationID = ''a'', IP = ''10.0.0.1'', NodeName = ''n'', PodName = ''p'', AllocatedAt = 0\<rparr>)]"
  have run: "repairStateFromPrimaryConfig mem_env mem_cfg mem_bad = (None, ?w)"
    by (simp add: repairStateFromPrimaryConfig_def mem_defs mem_bad_def Let_def)
  have pv: "pool_view mem_env mem_cfg (mem_view mem_cfg) mem_bad = Some (Some m, [''10.0.0.1'', ''10.0.0.1''])"
    by (simp add: m_def pool_view_def stored_text_def mem_defs mem_bad_def pool_of_def)
  have "canonical decimal_ip6 ''10.0.0.1''" using mem_cfg_ok by (simp add: pool_cfg_ok_def mem_cfg_def)
  with repair_consistent[OF mem_env_ok _ pv _ _ _ _ run] run mem_cfg_ok show ?thesis
    by (simp add: Let_def m_def ips_of_def)
qed

text \<open>
  C39: A recovery that cannot read the stored state because the API server answers with an error other
  than "not found" overwrites it: when it then succeeds, every allocation is forgotten and all configured
  addresses are free again, although the stored state was neither missing nor corrupt.
\<close>

theorem recover_forgets:
  assumes env: "pool_env_ok E cfg view" and node: "getCurrentNodeName (node_os E w) = Inr n"
    and get: "cm_Get E (Namespace cfg) (ConfigMapName cfg) w = (Inl e, w1)" "e \<noteq> NotFound"
    and run: "RecoverState E cfg w = (None, w')"
  shows "cm_owner E cfg view w' = Map.empty \<and> cm_free E cfg view w' = set (PoolIPs cfg)"
proof -
  have "initializeAndSaveEmptyState E cfg w1 = (None, w')"
    using node get run by (cases e) (simp_all add: RecoverState_def getCurrentState_def)
  from initializeAndSave_effect(2)[OF env this] show ?thesis
    by (simp add: cm_owner_def cm_free_def pool_owner_def fun_eq_iff)
qed

definition flaky_Get :: "string \<Rightarrow> string \<Rightarrow> mem_world \<times> nat \<Rightarrow> (k8s_error + IPAllocationState ConfigMap) \<times> mem_world \<times> nat" where
  \<comment> \<open>the next \<open>k\<close> reads time out\<close>
  "flaky_Get ns n = (\<lambda>(w, k). if 0 < k then (Inl (ApiError ''timeout''), (w, k - 1))
     else (case mem_Get ns n w of (r, w') \<Rightarrow> (r, (w', k))))"

definition flaky_env :: "(mem_world \<times> nat, IPAllocationState) pool_env" where
  "flaky_env = \<lparr>cm_Get = flaky_Get,
     cm_Create = (\<lambda>ns c (w, k). case mem_Create ns c w of (r, w') \<Rightarrow> (r, (w', k))),
     cm_Update = (\<lambda>ns c (w, k). case mem_Update ns c w of (r, w') \<Rightarrow> (r, (w', k))),
     json_marshal = Inr, json_unmarshal = Inr, md5_sum = (\<lambda>_. [0, 0, 0, 0]),
     dial_timeout = (\<lambda>_ w. (None, w)), retry_OnError = retry_steps 4, time_Now = (\<lambda>_. 0),
     node_os = (\<lambda>_. \<lparr>os_env = (\<lambda>k. if k = nodeNameEnvVar then ''worker-0'' else []), os_files = Map.empty,
       os_fault = (\<lambda>_ _. False)\<rparr>), ip6 = decimal_ip6\<rparr>"

lemma flaky_env_ok: "pool_env_ok flaky_env cfg (\<lambda>(w, k). mem_view cfg w)"
  by (auto simp: mem_rename pool_env_ok_def flaky_env_def flaky_Get_def get_law_def create_law_def update_law_def mem_Get_def
      mem_Create_def mem_Update_def mem_view_def retried_retry_steps ip6_ok_decimal split: option.splits if_splits)

theorem recover_forgets_witness:
  "let v = (\<lambda>(w, k). mem_view mem_cfg w); w' = snd (RecoverState flaky_env mem_cfg (mem_bad, 1)) in
     cm_owner flaky_env mem_cfg v (mem_bad, 1) ''a'' = Some ''10.0.0.1'' \<and>
     RecoverState flaky_env mem_cfg (mem_bad, 1) = (None, w') \<and> cm_owner flaky_env mem_cfg v w' = Map.empty"
proof -
  let ?w = "snd (RecoverState flaky_env mem_cfg (mem_bad, 1))"
  have "getCurrentNodeName (node_os flaky_env (mem_bad, 1)) = Inr (TrimSpace ''worker-0'')"
    by (simp add: flaky_env_def getCurrentNodeName_def Getenv_def)
  moreover have "cm_Get flaky_env (Namespace mem_cfg) (ConfigMapName mem_cfg) (mem_bad, 1) = (Inl (ApiError ''timeout''), (mem_bad, 0))"
    by (simp add: flaky_env_def flaky_Get_def)
  moreover have run: "RecoverState flaky_env mem_cfg (mem_bad, 1) = (None, ?w)"
    by (simp add: RecoverState_def initializeAndSaveEmptyState_def flaky_env_def flaky_Get_def mem_defs mem_bad_def Let_def)
  ultimately have "cm_owner flaky_env mem_cfg (\<lambda>(w, k). mem_view mem_cfg w) ?w = Map.empty"
    using recover_forgets[OF flaky_env_ok] by blast
  moreover have "cm_owner flaky_env mem_cfg (\<lambda>(w, k). mem_view mem_cfg w) (mem_bad, 1) ''a'' = Some ''10.0.0.1''"
    by (simp add: cm_owner_def pool_view_def stored_text_def flaky_env_def mem_defs mem_bad_def pool_owner_def pool_of_def)
  ultimately show ?thesis using run by (simp add: Let_def)
qed


lemma mem_race:
  defines "st i \<equiv> (case fst (allocate_prepare mem_env mem_cfg i ''pod'' []) of Inr (Reserved _ s) \<Rightarrow> s)"
  shows "allocate_prepare mem_env mem_cfg ''a'' ''pod'' [] = (Inr (Reserved ''10.0.0.1'' (st ''a'')), [])"
    and "allocate_prepare mem_env mem_cfg ''b'' ''pod'' [] = (Inr (Reserved ''10.0.0.1'' (st ''b'')), [])"
    and "fst (allocate_commit mem_env mem_cfg ''10.0.0.1'' (st ''a'') []) = Inr (Addr4 0x0A000001)"
    and "fst (allocate_commit mem_env mem_cfg ''10.0.0.1'' (st ''b'') (snd (allocate_commit mem_env mem_cfg ''10.0.0.1'' (st ''a'') [])))
      = Inr (Addr4 0x0A000001)"
  by (simp_all add: st_def mem_defs mem_parse Let_def)


text \<open>
  Losing the race to create the ConfigMap is not retried: when the first attempt of
  \<open>updateState\<close> ends with "already exists", that error is the result.
\<close>

lemma already_exists_not_retried:
  assumes env: "pool_env_ok E cfg view" and "marshalStateForConfigMap E state = Inr j"
    and att: "update_attempt E cfg j w = (Some (ErrApi AlreadyExists), w1)"
  shows "updateState E cfg state w = (Some (ErrApi AlreadyExists), w1)"
proof -
  have "retried is_conflict (update_attempt E cfg j) w (updateState E cfg state w)"
    using pool_env_okD(6)[OF env] assms(2) by (simp add: updateState_def)
  then show ?thesis using att by cases auto
qed

definition late_env :: "(mem_world, IPAllocationState) pool_env" where
  \<comment> \<open>another node creates the ConfigMap between the read and the creation\<close>
  "late_env = mem_env\<lparr>cm_Create := \<lambda>ns c w. (Inl AlreadyExists, w)\<rparr>"

lemma late_env_ok: "pool_env_ok late_env cfg (mem_view cfg)"
  using mem_env_ok[of cfg] by (simp add: pool_env_ok_def late_env_def get_law_def create_law_def update_law_def)

lemma already_exists_not_retried_witness:
  "updateState late_env mem_cfg (initializeEmptyState late_env mem_cfg []) [] = (Some (ErrApi AlreadyExists), [])"
  by (rule already_exists_not_retried[OF late_env_ok])
    (simp_all add: late_env_def mem_defs)

end
