(* ===== verification/VMPoolFlag.thy ===== *)
theory VMPoolFlag
  imports VMPoolProps
begin

text \<open>
  The flag value \<open>vmPoolIPs\<close> of \<open>src/src/cloud-providers/byom/types.go\<close>: a comma separated list of
  addresses and address ranges.  \<open>expand_range\<close> is the loop over a range; its first argument is the
  number of iterations that the bound \<open>maxRangeIPs\<close> still allows, so the recursion is the loop itself.
\<close>

datatype flag_error = ErrRangeAddrs string | ErrRangeOrder string | ErrSingleAddr string

definition vmPoolIPs_String :: "string list \<Rightarrow> string" where
  "vmPoolIPs_String v = Join v '',''"

fun expand_range :: "ip6_text \<Rightarrow> nat \<Rightarrow> Addr \<Rightarrow> Addr \<Rightarrow> string list" where
  "expand_range t 0 ip endIP = []"
| "expand_range t (Suc n) ip endIP =
     AddrString t ip # (if ip = endIP then [] else expand_range t n (Next_addr ip) endIP)"

definition pool_entry :: "ip6_text \<Rightarrow> int \<Rightarrow> string \<Rightarrow> flag_error + string list" where
  "pool_entry t maxRangeIPs entry =
     (case Cut entry ''-'' of
        Some (start, end) \<Rightarrow>
          (case (ParseAddr t start, ParseAddr t end) of
             (Some startIP, Some endIP) \<Rightarrow>
               if \<not> addr_less startIP endIP then Inl (ErrRangeOrder entry)
               else Inr (expand_range t (nat maxRangeIPs) startIP endIP)
           | _ \<Rightarrow> Inl (ErrRangeAddrs entry))
      | None \<Rightarrow>
          (case ParseAddr t entry of None \<Rightarrow> Inl (ErrSingleAddr entry) | Some ip \<Rightarrow> Inr [AddrString t ip]))"

fun pool_entries :: "ip6_text \<Rightarrow> int \<Rightarrow> string list \<Rightarrow> flag_error + string list" where
  "pool_entries t maxRangeIPs [] = Inr []"
| "pool_entries t maxRangeIPs (entry # entries) =
     (if TrimSpace entry = [] then pool_entries t maxRangeIPs entries
      else bind_result (pool_entry t maxRangeIPs (TrimSpace entry))
        (\<lambda>ips. bind_result (pool_entries t maxRangeIPs entries) (\<lambda>rest. Inr (ips @ rest))))"

fun dedup :: "string list \<Rightarrow> string list \<Rightarrow> string list" where
  \<comment> \<open>the loop over \<open>allIPs\<close> with the keys of \<open>validIPs\<close> seen so far\<close>
  "dedup validIPs [] = []"
| "dedup validIPs (ip # ips) =
     (if ip \<in> set validIPs then dedup validIPs ips else ip # dedup (ip # validIPs) ips)"

definition vmPoolIPs_Set :: "ip6_text \<Rightarrow> int \<Rightarrow> string \<Rightarrow> flag_error + string list" where
  \<comment> \<open>the new value of the flag; on an error the old value stays\<close>
  "vmPoolIPs_Set t maxRangeIPs value =
     (if length value = 0 then Inr []
      else bind_result (pool_entries t maxRangeIPs (Split value (CHR '','')))
        (\<lambda>allIPs. Inr (dedup [] allIPs)))"

section \<open>Lemmas\<close>

lemma set_dedup: "set (dedup seen xs) = set xs - set seen"
  by (induction seen xs rule: dedup.induct) auto

lemma distinct_dedup: "distinct (dedup seen xs)"
  by (induction seen xs rule: dedup.induct) (auto simp: set_dedup)

lemma dedup_distinct: "distinct xs \<Longrightarrow> set seen \<inter> set xs = {} \<Longrightarrow> dedup seen xs = xs"
  by (induction seen xs rule: dedup.induct) auto

lemma expand_range_strings: "ip \<in> set (expand_range t n a b) \<Longrightarrow> \<exists>x. ip = AddrString t x"
  by (induction t n a b rule: expand_range.induct) (auto split: if_splits)

lemma pool_entry_strings: "pool_entry t n e = Inr ips \<Longrightarrow> ip \<in> set ips \<Longrightarrow> \<exists>x. ip = AddrString t x"
  by (auto simp: pool_entry_def intro: expand_range_strings split: option.splits if_splits)

lemma pool_entries_strings: "pool_entries t n es = Inr ips \<Longrightarrow> ip \<in> set ips \<Longrightarrow> \<exists>x. ip = AddrString t x"
  by (induction t n es arbitrary: ips rule: pool_entries.induct)
    (auto simp: bind_result_Inr_iff intro: pool_entry_strings split: if_splits)

lemma parse_invalid: "ParseAddr t ''invalid IP'' = None"
  by (simp add: ParseAddr_def)

lemma check_pool_ips_None: "check_pool_ips t ips = None \<longleftrightarrow> (\<forall>ip\<in>set ips. ParseAddr t ip \<noteq> None)"
  by (induction ips) auto

lemma expand_range_v4:
  assumes "a \<le> b"
  shows "expand_range t n (Addr4 a) (Addr4 b) =
    map (\<lambda>k. string4 (word_of_nat k)) [unat a ..< min (Suc (unat b)) (unat a + n)]"
  using assms
proof (induction n arbitrary: a)
  case (Suc n)
  show ?case
  proof (cases "a = b")
    case True
    then show ?thesis by (simp add: min_def)
  next
    case False
    then have lt: "a < b" using Suc(2) by simp
    then have "Suc (unat a) < 2 ^ 32" using unsigned_less[where ?'a = nat and w = b] by (simp add: word_less_nat_alt)
    then have suc: "unat (a + 1) = Suc (unat a)" by (simp add: unat_word_ariths)
    then have nz: "a + 1 \<noteq> 0" by (metis nat.distinct(1) unat_0)
    moreover have "a + 1 \<le> b" using lt suc by (simp add: word_le_nat_alt word_less_nat_alt)
    ultimately have rest: "expand_range t n (Addr4 (a + 1)) (Addr4 b) =
        map (\<lambda>k. string4 (word_of_nat k)) [Suc (unat a) ..< min (Suc (unat b)) (Suc (unat a) + n)]"
      using Suc(1)[of "a + 1"] suc by simp
    define hi where "hi = min (Suc (unat b)) (unat a + Suc n)"
    have "unat a < hi" "min (Suc (unat b)) (Suc (unat a) + n) = hi"
      using lt by (simp_all add: hi_def word_less_nat_alt)
    then show ?thesis using False nz rest upt_conv_Cons[of "unat a" hi] unfolding hi_def[symmetric] by simp
  qed
qed simp

section \<open>Properties\<close>

text \<open>
  When the flag is accepted and the pool manager accepts the configuration built from it, the pool
  consists of distinct addresses in canonical text, which is what the pool operations rely on.
\<close>

lemma flag_pool_ok:
  assumes set: "vmPoolIPs_Set (ip6 E) n value = Inr ips" and "PoolIPs cfg = ips"
    and new: "NewConfigMapVMPoolManager (Some E) (Some cfg) = Inr mgr"
  shows "pool_cfg_ok (ip6 E) cfg \<and> PoolIPs cfg \<noteq> []"
proof -
  have chk: "check_pool_ips (ip6 E) ips = None" and "ips \<noteq> []"
    using new \<open>PoolIPs cfg = ips\<close> by (auto simp: NewConfigMapVMPoolManager_def split: option.splits if_splits)
  then obtain all where all: "pool_entries (ip6 E) n (Split value (CHR '','')) = Inr all" "ips = dedup [] all"
    using set by (auto simp: vmPoolIPs_Set_def bind_result_Inr_iff split: if_splits)
  have "canonical (ip6 E) ip" if "ip \<in> set ips" for ip
  proof -
    have "ip \<in> set all" using that all(2) by (simp add: set_dedup)
    from pool_entries_strings[OF all(1) this] obtain x where x: "ip = AddrString (ip6 E) x" by blast
    moreover have "x \<noteq> AddrZero" using chk that x parse_invalid[of "ip6 E"] by (auto simp: check_pool_ips_None)
    ultimately show ?thesis by (auto simp: canonical_def)
  qed
  then show ?thesis using \<open>PoolIPs cfg = ips\<close> \<open>ips \<noteq> []\<close> all(2) by (auto simp: pool_cfg_ok_def distinct_dedup)
qed

text \<open>
  C31: A range of IPv4 addresses expands to exactly the addresses from its first to its last in order, cut off
  after \<open>maxRangeIPs\<close> of them; no successor wraps around.
\<close>

theorem range_expands:
  assumes "a < b"
  shows "pool_entry t n (string4 a @ ''-'' @ string4 b) =
    Inr (map (\<lambda>k. string4 (word_of_nat k)) [unat a ..< min (Suc (unat b)) (unat a + nat n)])"
proof -
  have "CHR ''-'' \<notin> set (string4 a)" using string4_chars[of "CHR ''-''" a] by auto
  then have "Cut (string4 a @ ''-'' @ string4 b) ''-'' = Some (string4 a, string4 b)" using Cut_at_char by simp
  then show ?thesis using assms expand_range_v4[of a b] by (simp add: pool_entry_def)
qed

theorem range_expands_witness:
  "(0x0A000001::32 word) < 0x0A000003 \<and>
   pool_entry decimal_ip6 2 (string4 0x0A000001 @ ''-'' @ string4 0x0A000003) = Inr [''10.0.0.1'', ''10.0.0.2'']"
proof -
  have "[0x0A000001 ..< min (Suc (unat (0x0A000003::32 word))) (0x0A000001 + nat 2)] = [0x0A000001, 0x0A000002 :: nat]"
    by (simp add: upt_rec)
  then show ?thesis using range_expands[of "0x0A000001" "0x0A000003" decimal_ip6 2] by (simp add: mem_ips)
qed

lemma pool_entries_v4: "pool_entries t n (map string4 ws) = Inr (map string4 ws)"
proof (induction ws)
  case (Cons w ws)
  have "list_all (\<lambda>c. \<not> is_space c) (string4 w)"
    using string4_chars[of _ w] by (fastforce simp: list_all_iff is_space_def is_digit_def)
  then have "TrimSpace (string4 w) = string4 w" by (rule TrimSpace_no_space)
  moreover have "Cut (string4 w) ''-'' = None"
    using Cut_Some[of "string4 w" "''-''"] string4_chars[of "CHR ''-''" w] by (cases "Cut (string4 w) ''-''") auto
  ultimately show ?case using Cons by (simp add: pool_entry_def bind_result_def)
qed simp

text \<open>
  C32: Printing a pool of distinct IPv4 addresses and reading the text back gives the same pool.
\<close>

theorem vm_pool_flag_roundtrip:
  assumes "distinct ws"
  shows "vmPoolIPs_Set t n (vmPoolIPs_String (map string4 ws)) = Inr (map string4 ws)"
proof (cases "ws = []")
  case True
  then show ?thesis by (simp add: vmPoolIPs_Set_def vmPoolIPs_String_def)
next
  case False
  have inj: "inj string4" using ParseAddr_string4[of decimal_ip6] by (metis Addr.inject(1) injI option.inject)
  have sep: "\<forall>x\<in>set (map string4 ws). CHR '','' \<notin> set x" using string4_chars[of "CHR '',''"] by auto
  have "Split (Join (map string4 ws) '','') (CHR '','') = map string4 ws"
    using sep False by (intro Split_Join) auto
  moreover have "Join (map string4 ws) '','' \<noteq> []" using False by (cases ws; cases "tl ws") auto
  moreover have "dedup [] (map string4 ws) = map string4 ws"
    using assms inj by (intro dedup_distinct) (auto simp: distinct_map intro: inj_on_subset)
  ultimately show ?thesis by (simp add: vmPoolIPs_Set_def vmPoolIPs_String_def pool_entries_v4 bind_result_def)
qed

theorem vm_pool_flag_roundtrip_witness:
  "distinct [0x0A000001, 0x0A000002 :: 32 word] \<and>
   vmPoolIPs_Set decimal_ip6 100 ''10.0.0.1,10.0.0.2'' = Inr [''10.0.0.1'', ''10.0.0.2'']"
  using vm_pool_flag_roundtrip[of "[0x0A000001, 0x0A000002]" decimal_ip6 100]
  by (simp add: vmPoolIPs_String_def mem_ips[symmetric])

end
