(* ===== verification/ByomProvider.thy ===== *)
theory ByomProvider
  imports ProviderIface ProviderCommon SshUtil VMPoolFlag
begin

text \<open>
  The bring-your-own-machine provider, \<open>src/src/cloud-providers/byom\<close>: \<open>provider.go\<close>,
  \<open>namespace.go\<close>, \<open>manager.go\<close>.  An instance is a machine of the pool, named by its address.  The provider is
  a client of the pool manager (the locale \<open>vm_pool\<close>) and of the file transfer of \<open>SshUtil\<close>.
\<close>

section \<open>Configuration\<close>

record Config =
  VMPoolIPs :: "string list"
  SSHUserName :: string
  SSHPubKeyPath :: string
  SSHPrivKeyPath :: string
  SSHPubKey :: string
  SSHPrivKey :: string
  SSHTimeout :: int
  SSHHostKeyAllowlistDir :: string
  PoolNamespace :: string
  PoolConfigMapName :: string

definition Redact :: "Config \<Rightarrow> Config" where
  "Redact c = c\<lparr>SSHPrivKey := ''**********''\<rparr>"

definition byom_flag_defaults :: Config where
  \<comment> \<open>\<open>ParseCmd\<close> on an empty command line\<close>
  "byom_flag_defaults = \<lparr>VMPoolIPs = [], SSHUserName = ''peerpod'', SSHPubKeyPath = ''/root/.ssh/id_rsa.pub'',
     SSHPrivKeyPath = ''/root/.ssh/id_rsa'', SSHPubKey = [], SSHPrivKey = [], SSHTimeout = 30,
     SSHHostKeyAllowlistDir = [], PoolNamespace = [], PoolConfigMapName = ''byom-ip-pool-state''\<rparr>"

definition LoadEnv :: "ip6_text \<Rightarrow> int \<Rightarrow> os_state \<Rightarrow> Config \<Rightarrow> Config" where
  "LoadEnv t maxRangeIPs os byomcfg =
     (let vmPoolIPsEnv = Getenv os ''VM_POOL_IPS'';
          byomcfg = (if vmPoolIPsEnv \<noteq> []
                     then (case vmPoolIPs_Set t maxRangeIPs vmPoolIPsEnv of
                             Inl _ \<Rightarrow> byomcfg | Inr ips \<Rightarrow> byomcfg\<lparr>VMPoolIPs := ips\<rparr>)
                     else byomcfg)
      in byomcfg
        \<lparr>SSHUserName := DefaultToEnv os (SSHUserName byomcfg) ''SSH_USERNAME'' ''peerpod'',
         SSHPubKeyPath := DefaultToEnv os (SSHPubKeyPath byomcfg) ''SSH_PUB_KEY_PATH'' ''/root/.ssh/id_rsa.pub'',
         SSHPrivKeyPath := DefaultToEnv os (SSHPrivKeyPath byomcfg) ''SSH_PRIV_KEY_PATH'' ''/root/.ssh/id_rsa'',
         PoolNamespace := DefaultToEnv os (PoolNamespace byomcfg) ''POOL_NAMESPACE'' [],
         PoolConfigMapName := DefaultToEnv os (PoolConfigMapName byomcfg) ''POOL_CONFIGMAP_NAME'' ''byom-ip-pool-state''\<rparr>)"

section \<open>Namespace detection\<close>

definition ServiceAccountNamespaceFile :: string where
  "ServiceAccountNamespaceFile = ''/var/run/secrets/kubernetes.io/serviceaccount/namespace''"

definition DefaultNamespace :: string where
  "DefaultNamespace = ''confidential-containers-system''"

definition detectCurrentNamespaceWithFile :: "os_state \<Rightarrow> string \<Rightarrow> string option" where
  "detectCurrentNamespaceWithFile os namespaceFile =
     (let fromFile = (case ReadFile os namespaceFile of Inl _ \<Rightarrow> [] | Inr data \<Rightarrow> TrimSpace data);
          fromEnv = TrimSpace (Getenv os ''POD_NAMESPACE'')
      in if fromFile \<noteq> [] then Some fromFile else if fromEnv \<noteq> [] then Some fromEnv else None)"

definition detectCurrentNamespace :: "os_state \<Rightarrow> string option" where
  "detectCurrentNamespace os = detectCurrentNamespaceWithFile os ServiceAccountNamespaceFile"

definition getCurrentNamespaceWithDefault :: "os_state \<Rightarrow> string" where
  "getCurrentNamespaceWithDefault os =
     (case detectCurrentNamespace os of Some namespace \<Rightarrow> namespace | None \<Rightarrow> DefaultNamespace)"

section \<open>The provider\<close>

definition userDataFile :: string where "userDataFile = ''/media/cidata/user-data''"
definition rebootFile :: string where "rebootFile = ''/media/cidata/reboot''"

record ('k, 's, 'h, 'w) byomProvider =
  serviceConfig :: Config
  globalPoolMgr :: "'w GlobalVMPoolManager"
  sshConfig :: "('k, 's) ClientConfig"

definition sendFileViaSFTPWithChroot ::
  "('k, 's, 'h, 'w) sftp_lib \<Rightarrow> string \<Rightarrow> ('k, 's) ClientConfig \<Rightarrow> string \<Rightarrow> string \<Rightarrow> 'w \<Rightarrow> ssh_error option \<times> 'w" where
  "sendFileViaSFTPWithChroot X address c remotePath content w =
     SendFileViaSFTPWithContext X address c (TrimPrefix remotePath ''/media/'') content w"

definition sendConfigFile ::
  "('k, 's, 'h, 'w) sftp_lib \<Rightarrow> ip6_text \<Rightarrow> ('k, 's, 'h, 'w) byomProvider \<Rightarrow> string \<Rightarrow> Addr \<Rightarrow> 'w \<Rightarrow> ssh_error option \<times> 'w" where
  "sendConfigFile X t p userData ip w =
     sendFileViaSFTPWithChroot X (JoinHostPort (AddrString t ip) ''22'') (sshConfig p) userDataFile userData w"

definition sendRebootFile ::
  "('k, 's, 'h, 'w) sftp_lib \<Rightarrow> ip6_text \<Rightarrow> ('k, 's, 'h, 'w) byomProvider \<Rightarrow> Addr \<Rightarrow> 'w \<Rightarrow> ssh_error option \<times> 'w" where
  "sendRebootFile X t p ip w =
     sendFileViaSFTPWithChroot X (JoinHostPort (AddrString t ip) ''22'') (sshConfig p) rebootFile ''reboot'' w"

definition byom_CreateInstance ::
  "('k, 's, 'h, 'w) sftp_lib \<Rightarrow> ip6_text \<Rightarrow> ('k, 's, 'h, 'w) byomProvider \<Rightarrow> string \<Rightarrow> string \<Rightarrow> string + string \<Rightarrow>
    InstanceTypeSpec \<Rightarrow> 'w \<Rightarrow> (provider_error + Instance) \<times> 'w" where
  "byom_CreateInstance X t p podName sandboxID cloudConfig spec w =
     (let allocationID = podName @ ''-'' @ sandboxID
      in case mgr_AllocateIP (globalPoolMgr p) allocationID podName w of
           (Inl e, w) \<Rightarrow> (Inl (ErrAllocate allocationID), w)
         | (Inr ip, w) \<Rightarrow>
             (case cloudConfig of
                Inl e \<Rightarrow> (Inl (ErrGenerate e), snd (mgr_DeallocateIP (globalPoolMgr p) allocationID w))
              | Inr cloudConfigData \<Rightarrow>
                  (case sendConfigFile X t p cloudConfigData ip w of
                     (Some e, w) \<Rightarrow> (Inl (ErrSendConfig (AddrString t ip)), snd (mgr_DeallocateIP (globalPoolMgr p) allocationID w))
                   | (None, w) \<Rightarrow>
                       (Inr \<lparr>ID = AddrString t ip, Name = ''byom-'' @ AddrString t ip, IPs = [ip]\<rparr>, w))))"

definition byom_DeleteInstance ::
  "('k, 's, 'h, 'w) sftp_lib \<Rightarrow> ip6_text \<Rightarrow> ('k, 's, 'h, 'w) byomProvider \<Rightarrow> string \<Rightarrow> 'w \<Rightarrow> provider_error option \<times> 'w" where
  "byom_DeleteInstance X t p instanceID w =
     (if instanceID = [] then (None, w)
      else (case ParseAddr t instanceID of
              None \<Rightarrow> (Some (ErrInvalidID instanceID), w)
            | Some ip \<Rightarrow>
                (let w = snd (sendRebootFile X t p ip w)
                 in case mgr_GetAllocationIDfromIP (globalPoolMgr p) ip w of
                      (Inl e, w) \<Rightarrow> (Some (ErrLookup (AddrString t ip)), w)
                    | (Inr None, w) \<Rightarrow> (None, w)
                    | (Inr (Some allocationID), w) \<Rightarrow>
                        (case mgr_DeallocateIP (globalPoolMgr p) allocationID w of
                           (Some e, w) \<Rightarrow> (Some (ErrDeallocate allocationID), w)
                         | (None, w) \<Rightarrow> (None, w)))))"

definition byom_Teardown :: "'w \<Rightarrow> provider_error option \<times> 'w" where
  "byom_Teardown w = (None, w)"

definition byom_ConfigVerifier :: "('k, 's, 'h, 'w) byomProvider \<Rightarrow> provider_error option" where
  "byom_ConfigVerifier p =
     (if length (VMPoolIPs (serviceConfig p)) = 0 then Some (ErrConfig ''vm-pool-ips is required'')
      else if SSHUserName (serviceConfig p) = [] then Some (ErrConfig ''ssh-username is required'')
      else if SSHPrivKey (serviceConfig p) = [] then Some (ErrConfig ''SSH private key is required'')
      else None)"

definition byom_Provider :: "('k, 's, 'h, 'w) sftp_lib \<Rightarrow> ip6_text \<Rightarrow> ('k, 's, 'h, 'w) byomProvider \<Rightarrow> 'w Provider" where
  "byom_Provider X t p =
     \<lparr>CreateInstance = byom_CreateInstance X t p, DeleteInstance = byom_DeleteInstance X t p,
      Teardown = byom_Teardown, ConfigVerifier = byom_ConfigVerifier p\<rparr>"

section \<open>Creation of the provider\<close>

datatype new_provider_error = ErrSSHClient ssh_error | ErrInCluster string | ErrCreatingPoolMgr pool_error

definition byom_ssh_config :: "Config \<Rightarrow> SSHConfig" where
  "byom_ssh_config config =
     \<lparr>PublicKey = SSHPubKey config, PrivateKey = SSHPrivKey config, PublicKeyPath = SSHPubKeyPath config,
      PrivateKeyPath = SSHPrivKeyPath config, Username = SSHUserName config, Timeout = SSHTimeout config,
      HostKeyAllowlistDir = SSHHostKeyAllowlistDir config, EnableSFTP = True\<rparr>"

definition byom_pool_config :: "os_state \<Rightarrow> Config \<Rightarrow> GlobalVMPoolConfig" where
  \<comment> \<open>durations in milliseconds\<close>
  "byom_pool_config os config =
     \<lparr>Namespace = (if PoolNamespace config = [] then getCurrentNamespaceWithDefault os else PoolNamespace config),
      ConfigMapName = PoolConfigMapName config, PoolIPs = VMPoolIPs config, MaxRetries = 5, RetryInterval = 100,
      OperationTimeout = 30000, SkipVMReadiness = False\<rparr>"

definition byom_NewProvider ::
  "('k, 's) ssh_lib \<Rightarrow> (string \<Rightarrow> dir_entry list) \<Rightarrow> string + ('w, 'j) pool_env \<Rightarrow> os_state \<Rightarrow> Config \<Rightarrow> 'w \<Rightarrow>
    (new_provider_error + ('k, 's, 'h, 'w) byomProvider) \<times> 'w" where
  \<comment> \<open>the third argument is the outcome of building the in-cluster client\<close>
  "byom_NewProvider L walk kubeClient os config w =
     (case CreateSSHClient L os walk (byom_ssh_config config) of
        (Inl e, _) \<Rightarrow> (Inl (ErrSSHClient e), w)
      | (Inr sshClientConf, sshc) \<Rightarrow>
          (let config = config\<lparr>SSHPubKey := PublicKey sshc, SSHPrivKey := PrivateKey sshc\<rparr>
           in case kubeClient of
                Inl e \<Rightarrow> (Inl (ErrInCluster e), w)
              | Inr E \<Rightarrow>
                  (case NewConfigMapVMPoolManager (Some E) (Some (byom_pool_config os config)) of
                     Inl e \<Rightarrow> (Inl (ErrCreatingPoolMgr e), w)
                   | Inr (E, cfg) \<Rightarrow>
                       (let w = snd (mgr_RecoverState (ConfigMapVMPoolManager E cfg) w);
                            w = snd (mgr_GetPoolStatus (ConfigMapVMPoolManager E cfg) w)
                        in (Inr \<lparr>serviceConfig = config, globalPoolMgr = ConfigMapVMPoolManager E cfg, sshConfig = sshClientConf\<rparr>, w)))))"

section \<open>The provider as a client of the pool\<close>

lemma sendConfigFile_view: "sftp_frame X view \<Longrightarrow> sendConfigFile X t p d a w = (r, w') \<Longrightarrow> view w' = view w"
  by (auto simp: sendConfigFile_def sendFileViaSFTPWithChroot_def intro: SendFile_view)

lemma sendRebootFile_view: "sftp_frame X view \<Longrightarrow> view (snd (sendRebootFile X t p a w)) = view w"
  unfolding sendRebootFile_def sendFileViaSFTPWithChroot_def by (rule SendFile_view) (auto simp: prod_eq_iff)

lemma ran_upd_None:
  assumes "m j = Some v" "\<forall>k. m k = Some v \<longrightarrow> k = j"
  shows "ran (m(j := None)) = ran m - {v}"
proof (rule set_eqI)
  fix x
  have "x \<in> ran (m(j := None)) \<longleftrightarrow> (\<exists>k. k \<noteq> j \<and> m k = Some x)" by (auto simp: ran_def)
  also have "\<dots> \<longleftrightarrow> (\<exists>k. m k = Some x) \<and> x \<noteq> v" using assms by (metis option.inject)
  finally show "x \<in> ran (m(j := None)) \<longleftrightarrow> x \<in> ran m - {v}" by (simp add: ran_def)
qed

locale byom_machines = vm_pool mgr t owner free inv
  for mgr :: "'w GlobalVMPoolManager" and t owner free inv +
  fixes X :: "('k, 's, 'h, 'w) sftp_lib"
    and p :: "('k, 's, 'h, 'w) byomProvider"
  assumes mgr: "globalPoolMgr p = mgr"
    and owner_parse: "inv s \<Longrightarrow> owner s i = Some ip \<Longrightarrow> \<exists>a. ip = AddrString t a \<and> ParseAddr t ip = Some a"
    and send_frame: "inv s \<Longrightarrow> sendConfigFile X t p d a s = (r, s') \<Longrightarrow> inv s' \<and> owner s' = owner s \<and> free s' = free s"
    and reboot_frame: "inv s \<Longrightarrow> sendRebootFile X t p a s = (r, s') \<Longrightarrow> inv s' \<and> owner s' = owner s \<and> free s' = free s"
begin

lemma live_parse: "inv s \<Longrightarrow> i \<in> ran (owner s) \<Longrightarrow> \<exists>a. i = AddrString t a \<and> ParseAddr t i = Some a"
  unfolding ran_def using owner_parse by blast

lemma create_success:
  assumes "inv s" "byom_CreateInstance X t p pod sid cc spec s = (Inr i, s')"
  obtains a d s1 where "mgr_AllocateIP mgr (pod @ ''-'' @ sid) pod s = (Inr a, s1)" "cc = Inr d"
    "inv s'" "owner s' = owner s1" "free s' = free s1" "ID i = AddrString t a" "IPs i = [a]"
proof -
  from assms(2) obtain a d s1 where al: "mgr_AllocateIP mgr (pod @ ''-'' @ sid) pod s = (Inr a, s1)" and "cc = Inr d"
    and send: "sendConfigFile X t p d a s1 = (None, s')" and i: "i = \<lparr>ID = AddrString t a, Name = ''byom-'' @ AddrString t a, IPs = [a]\<rparr>"
    by (auto simp: byom_CreateInstance_def mgr Let_def split: prod.splits sum.splits option.splits)
  have "inv s1" using allocate_ok[OF assms(1) al] by simp
  from send_frame[OF this send] have "inv s'" "owner s' = owner s1" "free s' = free s1" by simp_all
  with al \<open>cc = Inr d\<close> i show thesis by (intro that) auto
qed

lemma create_failure:
  assumes "inv s" "byom_CreateInstance X t p pod sid cc spec s = (Inl e, s')"
  obtains "inv s'" "owner s' = owner s" "free s' = free s"
  | a s1 s2 where "mgr_AllocateIP mgr (pod @ ''-'' @ sid) pod s = (Inr a, s1)" "inv s2" "owner s2 = owner s1" "free s2 = free s1"
      "s' = snd (mgr_DeallocateIP mgr (pod @ ''-'' @ sid) s2)"
proof (cases "mgr_AllocateIP mgr (pod @ ''-'' @ sid) pod s")
  case (Pair r s1)
  show thesis
  proof (cases r)
    case (Inl e1)
    with Pair assms(2) have "s' = s1" by (simp add: byom_CreateInstance_def mgr)
    moreover have "inv s1 \<and> owner s1 = owner s \<and> free s1 = free s" using Pair Inl by (intro allocate_err[OF assms(1)]) simp
    ultimately show thesis using that(1) by blast
  next
    case (Inr a)
    then have al: "mgr_AllocateIP mgr (pod @ ''-'' @ sid) pod s = (Inr a, s1)" using Pair by simp
    have inv1: "inv s1" using allocate_ok[OF assms(1) al] by simp
    show thesis
    proof (cases cc)
      case (Inl e2)
      with al assms(2) have "s' = snd (mgr_DeallocateIP mgr (pod @ ''-'' @ sid) s1)" by (simp add: byom_CreateInstance_def mgr)
      with that(2)[OF al inv1 refl refl] show thesis .
    next
      case (Inr d)
      with al assms(2) obtain e3 s2 where send: "sendConfigFile X t p d a s1 = (Some e3, s2)"
        and "s' = snd (mgr_DeallocateIP mgr (pod @ ''-'' @ sid) s2)"
        by (auto simp: byom_CreateInstance_def mgr split: prod.splits option.splits)
      moreover have "inv s2" "owner s2 = owner s1" "free s2 = free s1" using send_frame[OF inv1 send] by simp_all
      ultimately show thesis using that(2)[OF al] by blast
    qed
  qed
qed

lemma create_rollback:
  assumes "inv s" "owner s (pod @ ''-'' @ sid) = None" "byom_CreateInstance X t p pod sid cc spec s = (Inl e, s')"
    and dealloc: "\<And>s. inv s \<Longrightarrow> fst (mgr_DeallocateIP mgr (pod @ ''-'' @ sid) s) = None"
  shows "inv s' \<and> owner s' = owner s \<and> free s' = free s"
  using assms(1,3)
proof (cases rule: create_failure)
  case (2 a s1 s2)
  have "mgr_DeallocateIP mgr (pod @ ''-'' @ sid) s2 = (None, s')" using dealloc[OF 2(2)] 2(5) by (simp add: prod_eq_iff)
  from deallocate_ok[OF 2(2) this] allocate_ok[OF assms(1) 2(1)] 2(3,4) assms(2)
  show ?thesis by (auto simp: fun_upd_idem)
qed auto

lemma delete_success:
  assumes "inv s" "byom_DeleteInstance X t p i s = (None, s')"
  shows "inv s' \<and> ran (owner s') \<subseteq> ran (owner s) \<and> (i \<in> ran (owner s) \<longrightarrow> ran (owner s') = ran (owner s) - {i})"
proof (cases "ParseAddr t i")
  case None
  then have "i \<notin> ran (owner s)" using live_parse[OF assms(1)] by force
  moreover have "s' = s" using assms(2) None by (auto simp: byom_DeleteInstance_def split: if_splits)
  ultimately show ?thesis using assms(1) by simp
next
  case (Some a)
  have i_eq: "i = AddrString t a" if "i \<in> ran (owner s)" using live_parse[OF assms(1) that] Some by force
  have ne: "i \<noteq> []" using Some by (auto simp: ParseAddr_def)
  obtain rr s1 where rb: "sendRebootFile X t p a s = (rr, s1)" by fastforce
  then have s1: "inv s1" "owner s1 = owner s" "free s1 = free s" using reboot_frame[OF assms(1) rb] by simp_all
  obtain r s2 where look: "mgr_GetAllocationIDfromIP mgr a s1 = (r, s2)" by fastforce
  note l = lookup_ok[OF s1(1) look]
  show ?thesis
  proof (cases r)
    case (Inl e)
    with assms(2) Some ne look show ?thesis by (simp add: byom_DeleteInstance_def mgr rb)
  next
    case (Inr o1)
    show ?thesis
    proof (cases o1)
      case None
      with assms(2) Some ne look Inr have "s' = s2" by (simp add: byom_DeleteInstance_def mgr rb)
      with l Inr None s1 i_eq show ?thesis by auto
    next
      case (Some j)
      with assms(2) \<open>ParseAddr t i = Some a\<close> ne look Inr have "mgr_DeallocateIP mgr j s2 = (None, s')"
        by (auto simp: byom_DeleteInstance_def mgr rb split: prod.splits option.splits)
      from deallocate_ok[OF _ this] l s1 have "inv s'" "owner s' = (owner s)(j := None)" by auto
      moreover have j: "owner s j = Some (AddrString t a)" using l Inr Some s1 by simp
      then have "ran ((owner s)(j := None)) = ran (owner s) - {AddrString t a}"
        using owner_inj[OF assms(1) _ j] by (intro ran_upd_None) blast+
      ultimately show ?thesis using i_eq by auto
    qed
  qed
qed

lemma delete_owner:
  assumes "inv s" "owner s j = Some i" "byom_DeleteInstance X t p i s = (None, s')"
  shows "inv s' \<and> owner s' = (owner s)(j := None) \<and> free s' = insert i (free s)"
proof -
  obtain a where a: "i = AddrString t a" "ParseAddr t i = Some a" using owner_parse[OF assms(1,2)] by blast
  have ne: "i \<noteq> []" using a(2) by (auto simp: ParseAddr_def)
  obtain rr s1 where rb: "sendRebootFile X t p a s = (rr, s1)" by fastforce
  then have s1: "inv s1" "owner s1 = owner s" "free s1 = free s" using reboot_frame[OF assms(1) rb] by simp_all
  obtain r s2 where look: "mgr_GetAllocationIDfromIP mgr a s1 = (r, s2)" by fastforce
  note l = lookup_ok[OF s1(1) look]
  have "i \<in> ran (owner s)" using assms(2) by (auto simp: ran_def)
  then obtain k where k: "r = Inr (Some k)" "mgr_DeallocateIP mgr k s2 = (None, s')"
    using assms(3) a ne look l s1(2)
    by (auto simp: byom_DeleteInstance_def mgr rb split: sum.splits option.splits prod.splits)
  then have "k = j" using l s1 a(1) owner_inj[OF assms(1) _ assms(2)] by simp
  with deallocate_ok[OF _ k(2)] l s1 assms(2) show ?thesis by simp
qed

lemma delete_failure:
  assumes "inv s" "byom_DeleteInstance X t p i s = (Some e, s')"
  shows "inv s' \<and> owner s' = owner s \<and> free s' = free s"
proof (cases "ParseAddr t i")
  case None
  then show ?thesis using assms by (auto simp: byom_DeleteInstance_def split: if_splits)
next
  case (Some a)
  have ne: "i \<noteq> []" using Some by (auto simp: ParseAddr_def)
  obtain rr s1 where rb: "sendRebootFile X t p a s = (rr, s1)" by fastforce
  then have s1: "inv s1" "owner s1 = owner s" "free s1 = free s" using reboot_frame[OF assms(1) rb] by simp_all
  obtain r s2 where look: "mgr_GetAllocationIDfromIP mgr a s1 = (r, s2)" by fastforce
  note l = lookup_ok[OF s1(1) look]
  consider "s' = s2" | j e' where "mgr_DeallocateIP mgr j s2 = (Some e', s')"
    using assms(2) Some ne look
    by (auto simp: byom_DeleteInstance_def mgr rb split: sum.splits prod.splits option.splits)
  then show ?thesis
  proof cases
    case 1
    then show ?thesis using l s1 by simp
  next
    case 2
    then show ?thesis using deallocate_err[OF _ 2] l s1 by simp
  qed
qed

end

sublocale byom_machines \<subseteq> byom_cloud: cloud_provider "byom_Provider X t p" "\<lambda>s. ran (owner s)" inv
proof (unfold_locales, unfold byom_Provider_def Provider.simps, goal_cases)
  case (1 w pod sid cc spec i w')
  then obtain a s1 where al: "mgr_AllocateIP mgr (pod @ ''-'' @ sid) pod w = (Inr a, s1)" and i: "ID i = AddrString t a" "IPs i = [a]"
    and w': "inv w'" "owner w' = owner s1"
    by (rule create_success)
  note al = allocate_ok[OF 1(1) al]
  then have "AddrString t a \<in> ran (owner s1)" by (auto simp: ran_def)
  moreover have "ran (owner s1) = insert (AddrString t a) (ran (owner w))"
  proof (cases "owner w (pod @ ''-'' @ sid)")
    case None
    then show ?thesis using al by (simp add: ran_map_upd)
  next
    case (Some x)
    then show ?thesis using al \<open>AddrString t a \<in> ran (owner s1)\<close> by (simp add: insert_absorb)
  qed
  ultimately show ?case using i w' by auto
next
  case (2 w pod sid cc spec e w')
  then show ?case
  proof (cases rule: create_failure)
    case (2 a s1 s2)
    obtain r s3 where d: "mgr_DeallocateIP mgr (pod @ ''-'' @ sid) s2 = (r, s3)" by fastforce
    then show ?thesis using deallocate_ok[OF 2(2)] deallocate_err[OF 2(2)] 2(5) by (cases r) auto
  qed simp
next
  case (3 w i w')
  then show ?case by (rule delete_success)
next
  case (4 w i e w')
  then show ?case using delete_failure by simp
next
  case (5 w r w')
  then show ?case by (simp add: byom_DeleteInstance_def)
qed

section \<open>The provider on the ConfigMap pool\<close>

definition byom_inv ::
  "('w, 'j) pool_env \<Rightarrow> GlobalVMPoolConfig \<Rightarrow> ('w \<Rightarrow> 'j ConfigMap option) \<Rightarrow> ('k, 's, 'h, 'w) sftp_lib \<Rightarrow> 'w \<Rightarrow> bool" where
  "byom_inv E cfg view X w \<longleftrightarrow> cm_inv E cfg view w \<and> sftp_frame X view"

lemma cm_owner_parse:
  assumes "cm_inv E cfg view w" "cm_owner E cfg view w i = Some ip"
  shows "\<exists>a. ip = AddrString (ip6 E) a \<and> ParseAddr (ip6 E) ip = Some a"
proof -
  from assms(1) obtain m av where env: "pool_env_ok E cfg view" and pv: "pool_view E cfg view w = Some (Some m, av)"
    and "pool_ok (ip6 E) (Some m, av)" by (rule cm_invE)
  moreover have "ip \<in> set (ips_of m)" using assms(2) ips_of_in by (auto simp: cm_abs_simps[OF pv])
  ultimately have "canonical (ip6 E) ip" by (auto simp: pool_ok_def)
  with pool_env_okD(7)[OF env] show ?thesis by (metis canonical_parse)
qed

interpretation cm_byom: byom_machines "ConfigMapVMPoolManager E cfg" "ip6 E" "cm_owner E cfg view" "cm_free E cfg view"
    "byom_inv E cfg view X" X "p\<lparr>globalPoolMgr := ConfigMapVMPoolManager E cfg\<rparr>"
  for E :: "('w, 'j) pool_env" and cfg view and X :: "('k, 's, 'h, 'w) sftp_lib" and p
proof (unfold_locales, unfold byom_inv_def, goal_cases)
  case (1 s i ip j)
  then show ?case using cm_pool.owner_inj[of E cfg view s i ip j] by simp
next
  case (2 s i ip)
  then show ?case using cm_pool.owner_not_free[of E cfg view s i ip] by simp
next
  case (3 s i p a s')
  then show ?case using cm_pool.allocate_ok[of E cfg view s i p a s'] by simp
next
  case (4 s i p e s')
  then show ?case using cm_pool.allocate_err[of E cfg view s i p e s'] by simp
next
  case (5 s i s')
  then show ?case using cm_pool.deallocate_ok[of E cfg view s i s'] by simp
next
  case (6 s i e s')
  then show ?case using cm_pool.deallocate_err[of E cfg view s i e s'] by simp
next
  case (7 s a r s')
  then show ?case using cm_pool.lookup_ok[of E cfg view s a r s'] by simp
next
  case (9 s i ip)
  then show ?case using cm_owner_parse[of E cfg view s i ip] by simp
next
  case (10 s d a r s')
  then have "view s' = view s" by (intro sendConfigFile_view[of X view]) blast+
  then show ?case using 10 cm_keep[of view s' s E cfg] by simp
next
  case (11 s a r s')
  then have "view s' = view s" using sendRebootFile_view[of X view "ip6 E" "p\<lparr>globalPoolMgr := ConfigMapVMPoolManager E cfg\<rparr>" a s] by simp
  then show ?case using 11 cm_keep[of view s' s E cfg] by simp
qed simp

section \<open>Properties\<close>

lemma with_mgr: "globalPoolMgr p = m \<Longrightarrow> p\<lparr>globalPoolMgr := m\<rparr> = p"
  by (cases p) simp

text \<open>
  C12: Deleting the instance that creation returned gives its machine back: the owners and the free machines
  are those from before the creation.  The instance is named by an address that was free.
\<close>

theorem byom_create_delete:
  assumes inv: "cm_inv E cfg view w" "sftp_frame X view" and mgr: "globalPoolMgr p = ConfigMapVMPoolManager E cfg"
    and new: "cm_owner E cfg view w (pod @ ''-'' @ sid) = None"
    and create: "byom_CreateInstance X (ip6 E) p pod sid cc spec w = (Inr i, w1)"
    and delete: "byom_DeleteInstance X (ip6 E) p (ID i) w1 = (None, w2)"
  shows "ID i \<in> cm_free E cfg view w \<and> cm_owner E cfg view w1 (pod @ ''-'' @ sid) = Some (ID i) \<and>
    cm_inv E cfg view w2 \<and> cm_owner E cfg view w2 = cm_owner E cfg view w \<and> cm_free E cfg view w2 = cm_free E cfg view w"
proof -
  note p = with_mgr[OF mgr]
  have binv: "byom_inv E cfg view X w" using inv by (simp add: byom_inv_def)
  obtain a d s1 where al: "mgr_AllocateIP (ConfigMapVMPoolManager E cfg) (pod @ ''-'' @ sid) pod w = (Inr a, s1)"
    and w1: "byom_inv E cfg view X w1" "cm_owner E cfg view w1 = cm_owner E cfg view s1" "cm_free E cfg view w1 = cm_free E cfg view s1"
      "ID i = AddrString (ip6 E) a"
    using cm_byom.create_success[of E cfg view X w p pod sid cc spec i w1, unfolded p, OF binv create] by metis
  note al = cm_byom.allocate_ok[OF binv al]
  have own: "cm_owner E cfg view w1 (pod @ ''-'' @ sid) = Some (ID i)" using al w1 by simp
  from cm_byom.delete_owner[of E cfg view X w1 _ "ID i" p w2, unfolded p, OF w1(1) own delete] al w1 new own
  show ?thesis by (auto simp: byom_inv_def fun_eq_iff)
qed

definition mem_sftp :: "(string, string, nat, mem_world) sftp_lib" where
  "mem_sftp = \<lparr>DialContext = (\<lambda>_ w. (Inr 0, w)), NewClientConn = (\<lambda>_ _ _ w. (Inr 1, w)),
     ssh_NewClient = (\<lambda>_ w. (2, w)), sftp_NewClient = (\<lambda>_ w. (Inr 3, w)), sftp_MkdirAll = (\<lambda>_ _ w. (None, w)),
     sftp_Create = (\<lambda>_ _ w. (Inr 4, w)), file_Write = (\<lambda>_ _ w. (None, w)), Close = (\<lambda>_ w. w)\<rparr>"

definition mem_provider :: "(string, string, nat, mem_world) byomProvider" where
  "mem_provider = \<lparr>serviceConfig = byom_flag_defaults, globalPoolMgr = ConfigMapVMPoolManager mem_env mem_cfg,
     sshConfig = \<lparr>User = ''peerpod'', Auth = [], ClientTimeout = 30, HostKeyCallback = createStatelessTOFUCallback\<rparr>\<rparr>"

definition mem_spec :: InstanceTypeSpec where
  "mem_spec = \<lparr>InstanceType = [], VCPUs = 0, Memory = 0, Arch = [], GPUs = 0, Image = [], MultiNic = False\<rparr>"

lemma mem_sftp_frame: "sftp_frame mem_sftp view"
  by (simp add: sftp_frame_def mem_sftp_def)

lemma mem_send: "SendFileViaSFTPWithContext mem_sftp a c p d w = (None, w)"
  by (simp add: SendFileViaSFTPWithContext_def mem_sftp_def deferred_def)

lemma mem_fresh: "cm_owner mem_env mem_cfg (mem_view mem_cfg) [] i = None"
  by (simp add: cm_owner_def pool_view_def stored_text_def mem_view_def pool_owner_def)

lemmas byom_defs = byom_CreateInstance_def byom_DeleteInstance_def mem_provider_def sendConfigFile_def sendRebootFile_def
  sendFileViaSFTPWithChroot_def mem_send ConfigMapVMPoolManager_def Let_def

lemma mem_create:
  "byom_CreateInstance mem_sftp decimal_ip6 mem_provider ''pod'' ''s'' (Inr ''data'') mem_spec [] =
    (Inr \<lparr>ID = ''10.0.0.1'', Name = ''byom-10.0.0.1'', IPs = [Addr4 0x0A000001]\<rparr>, snd (AllocateIP mem_env mem_cfg ''pod-s'' ''pod'' []))"
  by (simp add: byom_defs mem_defs mem_parse) (simp add: mem_ips[symmetric])

lemma mem_delete:
  "fst (byom_DeleteInstance mem_sftp decimal_ip6 mem_provider ''10.0.0.1'' (snd (AllocateIP mem_env mem_cfg ''pod-s'' ''pod'' []))) = None"
  by (simp add: byom_defs mem_defs mem_parse GetAllocationIDfromIP_def mem_ips(1)[symmetric])

theorem byom_create_delete_witness:
  "\<exists>i w1 w2. byom_CreateInstance mem_sftp decimal_ip6 mem_provider ''pod'' ''s'' (Inr ''data'') mem_spec [] = (Inr i, w1) \<and>
     byom_DeleteInstance mem_sftp decimal_ip6 mem_provider (ID i) w1 = (None, w2) \<and>
     cm_free mem_env mem_cfg (mem_view mem_cfg) w2 = cm_free mem_env mem_cfg (mem_view mem_cfg) []"
proof -
  let ?w1 = "snd (AllocateIP mem_env mem_cfg ''pod-s'' ''pod'' [])"
  let ?w2 = "snd (byom_DeleteInstance mem_sftp decimal_ip6 mem_provider ''10.0.0.1'' ?w1)"
  have del: "byom_DeleteInstance mem_sftp decimal_ip6 mem_provider ''10.0.0.1'' ?w1 = (None, ?w2)"
    using mem_delete by (simp add: prod_eq_iff)
  have "globalPoolMgr mem_provider = ConfigMapVMPoolManager mem_env mem_cfg" by (simp add: mem_provider_def)
  from byom_create_delete[OF mem_inv mem_sftp_frame this mem_fresh, of "''pod''" "''s''" "Inr ''data''" mem_spec _ ?w1 ?w2]
    mem_create del
  have "cm_free mem_env mem_cfg (mem_view mem_cfg) ?w2 = cm_free mem_env mem_cfg (mem_view mem_cfg) []" by simp
  with mem_create del show ?thesis by (metis Instance.select_convs(1))
qed



text \<open>
  A process that reads its configuration only from the environment, as the PeerPod controller does, has
  the zero value for the maximal range size; every address range of the pool then expands to nothing.
\<close>

lemma env_only_range_lost:
  assumes "a < b"
  shows "VMPoolIPs (LoadEnv t 0 (Setenv ''VM_POOL_IPS'' (string4 a @ ''-'' @ string4 b) os) c) = []"
proof -
  let ?v = "string4 a @ ''-'' @ string4 b"
  have "c \<in> set ?v \<Longrightarrow> is_digit c \<or> c = CHR ''.'' \<or> c = CHR ''-''" for c using string4_chars[of c] by auto
  then have "list_all (\<lambda>c. \<not> is_space c) ?v" "CHR '','' \<notin> set ?v" by (fastforce simp: list_all_iff is_space_def is_digit_def)+
  then have "TrimSpace ?v = ?v" "Split ?v (CHR '','') = [?v]" by (simp_all add: TrimSpace_no_space Split_no_sep)
  moreover have "pool_entry t 0 ?v = Inr []"
  proof -
    have "CHR ''-'' \<notin> set (string4 a)" using string4_chars[of "CHR ''-''" a] by auto
    then have "Cut ?v ''-'' = Some (string4 a, string4 b)" using Cut_at_char by simp
    then show ?thesis using assms by (simp add: pool_entry_def)
  qed
  ultimately have "vmPoolIPs_Set t 0 ?v = Inr []" by (simp add: vmPoolIPs_Set_def bind_result_def)
  then show ?thesis by (simp add: LoadEnv_def Setenv_def Getenv_def Let_def)
qed

lemma env_only_range_lost_witness:
  "VMPoolIPs (LoadEnv decimal_ip6 0 (Setenv ''VM_POOL_IPS'' (string4 0x0A000001 @ ''-'' @ string4 0x0A000032) demo_os) byom_flag_defaults) = []"
  using env_only_range_lost[of "0x0A000001" "0x0A000032" decimal_ip6 demo_os byom_flag_defaults] by simp

lemma GetPoolStatus_view:
  assumes "pool_env_ok E cfg view"
  shows "view (snd (GetPoolStatus E cfg w)) = view w"
proof -
  obtain g wg where g: "getCurrentState E cfg w = (g, wg)" by fastforce
  then show ?thesis using getCurrentState_read(1)[OF assms g] by (auto simp: GetPoolStatus_def Let_def split: sum.splits)
qed

lemma byom_pool_config_keys [simp]: "byom_pool_config os (config\<lparr>SSHPubKey := a, SSHPrivKey := b\<rparr>) = byom_pool_config os config"
  by (simp add: byom_pool_config_def)


definition mem_config :: Config where
  "mem_config = byom_flag_defaults\<lparr>VMPoolIPs := PoolIPs mem_cfg, SSHPubKeyPath := [], SSHPrivKey := ''key'', PoolNamespace := ''ns'',
     PoolConfigMapName := ''state''\<rparr>"


end
