(* ===== verification/PeerPodCtrl.thy ===== *)
theory PeerPodCtrl
  imports K8sOps ByomProvider
begin

text \<open>
  The PeerPod controller, \<open>src/src/peerpod-ctrl/controllers/peerpod_controller.go\<close>: it deletes the cloud instance of a
  PeerPod that is being deleted, and deletes older PeerPods of the same pod.

  The API client of the controller is the record \<open>ctrl_api\<close> over the world \<open>'w\<close>, which also holds the instances.
  A provider manager (\<open>provider.Get\<close>, \<open>LoadEnv\<close>, \<open>NewProvider\<close>) is an entry of the argument \<open>clouds\<close>.  The index
  expression \<open>OwnerReferences[0]\<close> panics on a PeerPod without owners; the result \<open>Panic\<close> stands for that.
\<close>

record 'w ctrl_api =
  ctrl_Get :: "string \<times> string \<Rightarrow> 'w \<Rightarrow> k8s_error + PeerPod"
  ctrl_List :: "'w \<Rightarrow> k8s_error + PeerPod list"
  ctrl_Delete :: "PeerPod \<Rightarrow> 'w \<Rightarrow> k8s_error option \<times> 'w"
  ctrl_Update :: "PeerPod \<Rightarrow> 'w \<Rightarrow> k8s_error option \<times> 'w"
  ctrl_ConfigMap :: "string \<Rightarrow> string \<Rightarrow> 'w \<Rightarrow> k8s_error + (string, string) go_map option"
  ctrl_Secret :: "string \<Rightarrow> string \<Rightarrow> 'w \<Rightarrow> k8s_error + (string, string) go_map option"

type_synonym 'w cloud_manager = "os_state \<Rightarrow> 'w \<Rightarrow> (string + 'w Provider) \<times> 'w"

record 'w PeerPodReconciler =
  Providers :: "(string, 'w Provider) go_map"
  ctrl_os :: os_state
  ctrl_world :: 'w

datatype rec_result = Done | Failed_api k8s_error | Failed_provider provider_error | Failed_create string | Panic

definition ppConfigMap :: string where "ppConfigMap = ''peer-pods-cm''"
definition ppSecret :: string where "ppSecret = ''peer-pods-secret''"

definition set_env_all :: "(string, string) go_map \<Rightarrow> os_state \<Rightarrow> os_state" where
  "set_env_all m os = fold (\<lambda>(k, v). Setenv k v) m os"

definition cloudConfigsGetter :: "'w ctrl_api \<Rightarrow> 'w \<Rightarrow> os_state \<Rightarrow> bool \<times> os_state" where
  \<comment> \<open>whether the configuration was found, and the environment afterwards\<close>
  "cloudConfigsGetter A w os =
     (let ns = Getenv os ''PEERPODS_NAMESPACE''
      in if ns = [] then (False, os)
         else
           (let cm = (case ctrl_ConfigMap A ns ppConfigMap w of Inl _ \<Rightarrow> None | Inr d \<Rightarrow> d);
                secret = (case ctrl_Secret A ns ppSecret w of Inl _ \<Rightarrow> None | Inr d \<Rightarrow> d);
                os = set_env_all (case cm of None \<Rightarrow> [] | Some m \<Rightarrow> m) os;
                os = set_env_all (case secret of None \<Rightarrow> [] | Some m \<Rightarrow> m) os
            in (\<not> (cm = None \<and> secret = None), os)))"

definition GetProvider ::
  "(string \<Rightarrow> 'w cloud_manager option) \<Rightarrow> os_state \<Rightarrow> string \<Rightarrow> 'w \<Rightarrow> (string + 'w Provider) \<times> 'w" where
  "GetProvider clouds os cloudName w =
     (case clouds cloudName of
        None \<Rightarrow> (Inl (cloudName @ '' cloud provider not supported''), w)
      | Some new \<Rightarrow> new os w)"

definition isOldPeerPod :: "PeerPod \<Rightarrow> PeerPod \<Rightarrow> bool option" where
  \<comment> \<open>\<open>None\<close> for the index panic\<close>
  "isOldPeerPod pp cur =
     (case (pp_OwnerUIDs pp, pp_OwnerUIDs cur) of
        (o1 # _, o2 # _) \<Rightarrow> Some (o1 = o2 \<and> pp_UID pp \<noteq> pp_UID cur \<and> pp_Created pp < pp_Created cur)
      | _ \<Rightarrow> None)"

fun delete_old :: "'w ctrl_api \<Rightarrow> PeerPod \<Rightarrow> PeerPod list \<Rightarrow> 'w \<Rightarrow> rec_result \<times> 'w" where
  "delete_old A pp [] w = (Done, w)"
| "delete_old A pp (item # items) w =
     (case isOldPeerPod item pp of
        None \<Rightarrow> (Panic, w)
      | Some old \<Rightarrow> delete_old A pp items (if old then snd (ctrl_Delete A item w) else w))"

definition ContainsFinalizer :: "PeerPod \<Rightarrow> bool" where
  "ContainsFinalizer pp \<longleftrightarrow> ppFinalizer \<in> set (pp_Finalizers pp)"

definition RemoveFinalizer :: "PeerPod \<Rightarrow> PeerPod" where
  "RemoveFinalizer pp = pp\<lparr>pp_Finalizers := filter (\<lambda>f. f \<noteq> ppFinalizer) (pp_Finalizers pp)\<rparr>"

definition lookup_provider ::
  "(string \<Rightarrow> 'w cloud_manager option) \<Rightarrow> string \<Rightarrow> 'w PeerPodReconciler \<Rightarrow> (string + 'w Provider) \<times> 'w PeerPodReconciler" where
  "lookup_provider clouds name r =
     (case map_of (Providers r) name of
        Some p \<Rightarrow> (Inr p, r)
      | None \<Rightarrow>
          (case GetProvider clouds (ctrl_os r) name (ctrl_world r) of
             (Inl e, w) \<Rightarrow> (Inl e, r\<lparr>ctrl_world := w\<rparr>)
           | (Inr p, w) \<Rightarrow> (Inr p, r\<lparr>ctrl_world := w, Providers := AList.update name p (Providers r)\<rparr>)))"

definition finalize_peerpod ::
  "'w ctrl_api \<Rightarrow> (string \<Rightarrow> 'w cloud_manager option) \<Rightarrow> PeerPod \<Rightarrow> 'w PeerPodReconciler \<Rightarrow> rec_result \<times> 'w PeerPodReconciler" where
  \<comment> \<open>the branch of \<open>Reconcile\<close> for a PeerPod with a deletion timestamp\<close>
  "finalize_peerpod A clouds pp r =
     (if ContainsFinalizer pp
      then (case lookup_provider clouds (pp_CloudProvider pp) r of
              (Inl e, r) \<Rightarrow> (Failed_create e, r)
            | (Inr p, r) \<Rightarrow>
                (case DeleteInstance p (pp_InstanceID pp) (ctrl_world r) of
                   (Some e, w) \<Rightarrow> (Failed_provider e, r\<lparr>ctrl_world := w\<rparr>)
                 | (None, w) \<Rightarrow>
                     (case ctrl_Update A (RemoveFinalizer pp) w of
                        (None, w) \<Rightarrow> (Done, r\<lparr>ctrl_world := w\<rparr>)
                      | (Some NotFound, w) \<Rightarrow> (Done, r\<lparr>ctrl_world := w\<rparr>)
                      | (Some e, w) \<Rightarrow> (Failed_api e, r\<lparr>ctrl_world := w\<rparr>))))
      else (Done, r))"

definition Reconcile ::
  "'w ctrl_api \<Rightarrow> (string \<Rightarrow> 'w cloud_manager option) \<Rightarrow> string \<times> string \<Rightarrow> 'w PeerPodReconciler \<Rightarrow> rec_result \<times> 'w PeerPodReconciler" where
  "Reconcile A clouds req r =
     (let r = (if length (Providers r) = 0 then r\<lparr>ctrl_os := snd (cloudConfigsGetter A (ctrl_world r) (ctrl_os r))\<rparr> else r)
      in case ctrl_Get A req (ctrl_world r) of
           Inl NotFound \<Rightarrow> (Done, r)
         | Inl e \<Rightarrow> (Failed_api e, r)
         | Inr pp \<Rightarrow>
             if \<not> pp_Deleting pp
             then (case ctrl_List A (ctrl_world r) of
                     Inl e \<Rightarrow> (Failed_api e, r)
                   | Inr items \<Rightarrow>
                       (case delete_old A pp items (ctrl_world r) of (res, w) \<Rightarrow> (res, r\<lparr>ctrl_world := w\<rparr>)))
             else finalize_peerpod A clouds pp r)"

section \<open>What the API promises\<close>

definition api_frame :: "'w ctrl_api \<Rightarrow> ('w \<Rightarrow> 'v) \<Rightarrow> bool" where
  \<comment> \<open>writing PeerPod objects does not touch the part \<open>view\<close> of the world\<close>
  "api_frame A view \<longleftrightarrow> (\<forall>pp w. view (snd (ctrl_Update A pp w)) = view w) \<and> (\<forall>pp w. view (snd (ctrl_Delete A pp w)) = view w)"

definition api_stores :: "'w ctrl_api \<Rightarrow> ('w \<Rightarrow> (string \<times> string) \<Rightarrow> PeerPod option) \<Rightarrow> bool" where
  \<comment> \<open>a successful update stores the object, or removes it once it is being deleted and has no finalizer; a failed one has no effect\<close>
  "api_stores A pps \<longleftrightarrow> (\<forall>pp w r w'. ctrl_Update A pp w = (r, w') \<longrightarrow>
     pps w' = (if r = None
       then (pps w)((pp_Namespace pp, pp_Name pp) := (if pp_Deleting pp \<and> pp_Finalizers pp = [] then None else Some pp))
       else pps w))"

section \<open>Lemmas\<close>

lemma lookup_known: "map_of (Providers r) n = Some p \<Longrightarrow> lookup_provider clouds n r = (Inr p, r)"
  by (simp add: lookup_provider_def)

lemma Reconcile_deleting:
  assumes "Providers r \<noteq> []" "ctrl_Get A req (ctrl_world r) = Inr pp" "pp_Deleting pp"
  shows "Reconcile A clouds req r = finalize_peerpod A clouds pp r"
  using assms by (simp add: Reconcile_def Let_def)

lemma api_frameD: "api_frame A view \<Longrightarrow> ctrl_Update A pp w = (x, w') \<Longrightarrow> view w' = view w"
  unfolding api_frame_def by (metis snd_conv)

lemma delete_old_view:
  assumes "api_frame A view"
  shows "view (snd (delete_old A pp items w)) = view w"
  using assms by (induction A pp items w rule: delete_old.induct) (auto simp: api_frame_def split: option.splits)

section \<open>Properties\<close>


definition mem_api :: "mem_world ctrl_api" where
  \<comment> \<open>one PeerPod that is being deleted; the pool's world holds the instances\<close>
  "mem_api = \<lparr>ctrl_Get = (\<lambda>(ns, n) _. Inr \<lparr>pp_Name = n, pp_Namespace = ns, pp_UID = ''u'', pp_Finalizers = [ppFinalizer],
       pp_OwnerUIDs = [''pod''], pp_Created = 0, pp_Deleting = True, pp_InstanceID = ''10.0.0.1'', pp_CloudProvider = ''byom''\<rparr>),
     ctrl_List = (\<lambda>_. Inr []), ctrl_Delete = (\<lambda>_ w. (None, w)), ctrl_Update = (\<lambda>_ w. (None, w)),
     ctrl_ConfigMap = (\<lambda>_ _ _. Inl NotFound), ctrl_Secret = (\<lambda>_ _ _. Inl NotFound)\<rparr>"

definition mem_byom :: "mem_world Provider" where
  "mem_byom = byom_Provider mem_sftp decimal_ip6 mem_provider"

lemma mem_byom_contract:
  "cloud_provider mem_byom (\<lambda>w. ran (cm_owner mem_env mem_cfg (mem_view mem_cfg) w)) (byom_inv mem_env mem_cfg (mem_view mem_cfg) mem_sftp)"
proof -
  have "mem_provider\<lparr>globalPoolMgr := ConfigMapVMPoolManager mem_env mem_cfg\<rparr> = mem_provider"
    by (rule with_mgr) (simp add: mem_provider_def)
  with cm_byom.byom_cloud.cloud_provider_axioms[where E = mem_env and cfg = mem_cfg and view = "mem_view mem_cfg" and X = mem_sftp and p = mem_provider] show ?thesis
    by (simp add: mem_byom_def)
qed

lemma mem_byom_live:
  defines "w \<equiv> snd (AllocateIP mem_env mem_cfg ''pod-s'' ''pod'' [])"
  shows "byom_inv mem_env mem_cfg (mem_view mem_cfg) mem_sftp w" "''10.0.0.1'' \<in> ran (cm_owner mem_env mem_cfg (mem_view mem_cfg) w)"
proof -
  have "CreateInstance mem_byom ''pod'' ''s'' (Inr ''data'') mem_spec [] =
      (Inr \<lparr>ID = ''10.0.0.1'', Name = ''byom-10.0.0.1'', IPs = [Addr4 0x0A000001]\<rparr>, w)"
    using mem_create by (simp add: mem_byom_def byom_Provider_def w_def)
  moreover have "byom_inv mem_env mem_cfg (mem_view mem_cfg) mem_sftp []" by (simp add: byom_inv_def mem_inv mem_sftp_frame)
  ultimately show "byom_inv mem_env mem_cfg (mem_view mem_cfg) mem_sftp w"
    "''10.0.0.1'' \<in> ran (cm_owner mem_env mem_cfg (mem_view mem_cfg) w)"
    using cloud_provider.create_ok[OF mem_byom_contract] by fastforce+
qed



definition stubborn :: "PeerPod list Provider" where
  \<comment> \<open>a provider whose deletions fail\<close>
  "stubborn = \<lparr>CreateInstance = (\<lambda>_ _ _ _ w. (Inl (ErrCloud ''quota''), w)), DeleteInstance = (\<lambda>_ w. (Some (ErrCloud ''busy''), w)),
     Teardown = (\<lambda>w. (None, w)), ConfigVerifier = None\<rparr>"

definition list_api :: "PeerPod list ctrl_api" where
  "list_api = \<lparr>ctrl_Get = (\<lambda>k w. case filter (\<lambda>p. (pp_Namespace p, pp_Name p) = k) w of [] \<Rightarrow> Inl NotFound | p # _ \<Rightarrow> Inr p),
     ctrl_List = (\<lambda>w. Inr w), ctrl_Delete = (\<lambda>p w. (None, map (\<lambda>q. if q = p then q\<lparr>pp_Deleting := True\<rparr> else q) w)),
     ctrl_Update = (\<lambda>p w. (None, let w' = filter (\<lambda>q. (pp_Namespace q, pp_Name q) \<noteq> (pp_Namespace p, pp_Name p)) w
        in if pp_Deleting p \<and> pp_Finalizers p = [] then w' else p # w')),
     ctrl_ConfigMap = (\<lambda>_ _ _. Inl NotFound), ctrl_Secret = (\<lambda>_ _ _. Inl NotFound)\<rparr>"

definition list_pps :: "PeerPod list \<Rightarrow> string \<times> string \<Rightarrow> PeerPod option" where
  "list_pps w k = (case filter (\<lambda>p. (pp_Namespace p, pp_Name p) = k) w of [] \<Rightarrow> None | p # _ \<Rightarrow> Some p)"

lemma filter_other: "k \<noteq> key \<Longrightarrow> filter (\<lambda>p. f p = k) (filter (\<lambda>q. f q \<noteq> key) w) = filter (\<lambda>p. f p = k) w"
  by (induction w) auto

lemma list_api_stores: "api_stores list_api list_pps"
proof -
  have "list_pps (snd (ctrl_Update list_api pp w)) =
      (list_pps w)((pp_Namespace pp, pp_Name pp) := (if pp_Deleting pp \<and> pp_Finalizers pp = [] then None else Some pp))" for pp w
  proof
    fix k
    have "filter (\<lambda>p. (pp_Namespace p, pp_Name p) = key) (filter (\<lambda>q. (pp_Namespace q, pp_Name q) \<noteq> key) w) = []" for key
      by (induction w) auto
    then show "list_pps (snd (ctrl_Update list_api pp w)) k =
        ((list_pps w)((pp_Namespace pp, pp_Name pp) := (if pp_Deleting pp \<and> pp_Finalizers pp = [] then None else Some pp))) k"
      using filter_other[of k "(pp_Namespace pp, pp_Name pp)" "\<lambda>p. (pp_Namespace p, pp_Name p)" w]
      by (cases "k = (pp_Namespace pp, pp_Name pp)") (auto simp: list_api_def list_pps_def Let_def simp del: filter_filter)
  qed
  then show ?thesis by (auto simp: api_stores_def list_api_def)
qed




end
