(* ===== verification/CloudServiceProps.thy ===== *)
theory CloudServiceProps
  imports CloudService PeerPodCtrl
begin

text \<open>
  Properties of the cloud service: what it keeps of its sandbox map, that stopping a VM undoes starting it at every provider that meets the
  contract \<open>cloud_provider\<close>, and what goes wrong when a VM is stopped while it is being started.
\<close>

section \<open>Operations that do not touch the instances\<close>

definition env_frame :: "'w service_env \<Rightarrow> ('w \<Rightarrow> 'v) \<Rightarrow> bool" where
  \<comment> \<open>the collaborators other than the provider leave the view alone\<close>
  "env_frame E v \<longleftrightarrow>
     (\<forall>p w. v (snd (wn_iface_Inspect E p w)) = v w) \<and> (\<forall>p i c w. v (snd (wn_iface_Setup E p i c w)) = v w) \<and>
     (\<forall>p c w. v (snd (wn_iface_Teardown E p c w)) = v w) \<and> (\<forall>a u p w. v (snd (proxy_Start E a u p w)) = v w) \<and>
     (\<forall>a w. v (snd (proxy_Shutdown E a w)) = v w) \<and> (\<forall>i w. v (snd (InitPP E i w)) = v w) \<and>
     (\<forall>c i w. v (snd (ssh_Start E c i w)) = v w) \<and> (\<forall>c i w. v (DisconnectPP E c i w) = v w) \<and>
     (\<forall>n pp w. v (snd (peerpods_Post (env_kube E) n pp w)) = v w) \<and> (\<forall>n pp w. v (snd (peerpods_RemoveFinalizers (env_kube E) n pp w)) = v w)"

lemma env_frameD:
  assumes "env_frame E v"
  shows "v (snd (wn_iface_Setup E p i c w)) = v w" "v (snd (wn_iface_Teardown E p c w)) = v w" "v (snd (proxy_Start E a u q w)) = v w"
    "v (snd (proxy_Shutdown E a w)) = v w" "v (snd (ssh_Start E ci i w)) = v w" "v (DisconnectPP E ci sid w) = v w"
    "v (snd (peerpods_Post (env_kube E) n pp w)) = v w" "v (snd (peerpods_RemoveFinalizers (env_kube E) n m w)) = v w"
  using assms unfolding env_frame_def by auto

lemma OwnPeerPod_frame: "env_frame E v \<Longrightarrow> v (snd (snd (OwnPeerPod (env_kube E) sfx p pod ns i w))) = v w"
  using env_frameD(7)[of E v] by (auto simp: OwnPeerPod_def Let_def split: sum.splits prod.splits option.splits) (metis snd_conv)+

lemma ReleasePeerPod_frame: "env_frame E v \<Longrightarrow> v (snd (snd (ReleasePeerPod (env_kube E) p pod ns i w))) = v w"
  using env_frameD(8)[of E v] by (auto simp: ReleasePeerPod_def Let_def split: sum.splits prod.splits option.splits) (metis snd_conv)+

lemma own_peerpod_frame:
  assumes "env_frame E v"
  shows "v (svc_world (own_peerpod E sb iid s)) = v (svc_world s)" "sandboxes (own_peerpod E sb iid s) = sandboxes s"
    "sshClient (own_peerpod E sb iid s) = sshClient s" "serverConfig (own_peerpod E sb iid s) = serverConfig s"
  using OwnPeerPod_frame[OF assms] by (auto simp: own_peerpod_def split: option.splits prod.splits) (metis snd_conv)

lemma start_proxy_frame:
  assumes "env_frame E v" "start_proxy E sb ip port s = (r, s')"
  shows "v (svc_world s') = v (svc_world s)" "sandboxes s' = sandboxes s"
proof -
  obtain ev w where p: "proxy_Start E (agentProxy sb) (JoinHostPort ip port) AgentURLPath (svc_world s) = (ev, w)" by fastforce
  have w: "v w = v (svc_world s)" using env_frameD(3)[OF assms(1)] p by (metis snd_conv)
  show "v (svc_world s') = v (svc_world s)" "sandboxes s' = sandboxes s"
    using assms(2) p w env_frameD(4)[OF assms(1)] by (auto simp: start_proxy_def split: proxy_event.splits option.splits)
qed

lemma start_ssh_frame:
  assumes "env_frame E v" "start_ssh E sb ips s = (r, s')"
  shows "v (svc_world s') = v (svc_world s)" "sandboxes s' = sandboxes s"
proof -
  have "v (snd (ssh_Start E ci ips (svc_world s))) = v (svc_world s)" for ci by (rule env_frameD(5)[OF assms(1)])
  then show "v (svc_world s') = v (svc_world s)" "sandboxes s' = sandboxes s"
    using assms(2) by (auto simp: start_ssh_def split: if_splits option.splits prod.splits sum.splits) (metis snd_conv)+
qed

lemma setInstance_some:
  "map_of (sandboxes s) sid = Some sb \<Longrightarrow>
   setInstance sid iid iname s = (None, s\<lparr>sandboxes := AList.update sid (sb\<lparr>instanceID := iid, instanceName := iname\<rparr>) (sandboxes s)\<rparr>)"
  by (simp add: setInstance_def)

lemma start_finish_frame:
  assumes fr: "env_frame E v" and run: "start_finish E sid sb i s = (r, s')" and sb: "map_of (sandboxes s) sid = Some sb'"
  shows "v (svc_world s') = v (svc_world s)"
    "sandboxes s' = AList.update sid (sb'\<lparr>instanceID := ID i, instanceName := Instance.Name i\<rparr>) (sandboxes s)"
proof -
  let ?s0 = "own_peerpod E sb (ID i) s"
  let ?m = "AList.update sid (sb'\<lparr>instanceID := ID i, instanceName := Instance.Name i\<rparr>) (sandboxes s)"
  let ?s1 = "?s0\<lparr>sandboxes := ?m\<rparr>"
  have v1: "v (svc_world ?s1) = v (svc_world s)" and m1: "sandboxes ?s1 = ?m" using own_peerpod_frame[OF fr] by simp_all
  have set: "setInstance sid (ID i) (Instance.Name i) ?s0 = (None, ?s1)"
    using setInstance_some[of ?s0 sid sb'] sb own_peerpod_frame[OF fr] by simp
  obtain rs s2 where ssh: "start_ssh E sb (IPs i) ?s1 = (rs, s2)" by fastforce
  note f2 = start_ssh_frame[OF fr ssh]
  have tun: "v (snd (wn_iface_Setup E (netNSPath sb) (IPs i) (podNetwork sb) (svc_world s2))) = v (svc_world s2)" by (rule env_frameD(1)[OF fr])
  have run2: "start_finish E sid sb i s =
     (if IPs i = [] then (Inl NoInstanceIP, ?s1)
      else case rs of
             Inl e \<Rightarrow> (Inl e, s2)
           | Inr (instanceIP, forwarderPort) \<Rightarrow>
               (case wn_iface_Setup E (netNSPath sb) (IPs i) (podNetwork sb) (svc_world s2) of
                  (Inl e, w) \<Rightarrow> (Inl (TunnelFailed e), s2\<lparr>svc_world := w\<rparr>)
                | (Inr _, w) \<Rightarrow> start_proxy E sb instanceIP forwarderPort (s2\<lparr>svc_world := w\<rparr>)))"
    using ssh by (simp add: start_finish_def set Let_def split: sum.splits prod.splits)
  obtain t w where st: "wn_iface_Setup E (netNSPath sb) (IPs i) (podNetwork sb) (svc_world s2) = (t, w)" by fastforce
  have w: "v w = v (svc_world s)" using tun st f2 v1 by simp
  have "v (svc_world s') = v (svc_world s) \<and> sandboxes s' = ?m"
  proof (cases "IPs i = [] \<or> \<not> is_ok rs \<or> \<not> is_ok t")
    case True
    then show ?thesis using run run2 st w f2 v1 m1 by (auto split: sum.splits prod.splits if_splits)
  next
    case False
    then obtain ip port where "start_proxy E sb ip port (s2\<lparr>svc_world := w\<rparr>) = (r, s')"
      using run run2 st by (cases rs; cases t) (auto split: prod.splits)
    from start_proxy_frame[OF fr this] show ?thesis using w f2 m1 by simp
  qed
  then show "v (svc_world s') = v (svc_world s)" "sandboxes s' = ?m" by simp_all
qed

lemma delete_instance_frame:
  assumes fr: "env_frame E v"
  shows "sandboxes (delete_instance E sb s) = sandboxes s"
    "v (svc_world (delete_instance E sb s)) = v (snd (DeleteInstance (env_provider E) (instanceID sb) (svc_world s)))"
proof -
  obtain d w where d: "DeleteInstance (env_provider E) (instanceID sb) (svc_world s) = (d, w)" by fastforce
  have "v (snd (snd (ReleasePeerPod (env_kube E) p (podName sb) (podNamespace sb) (instanceID sb) w))) = v w" for p
    by (rule ReleasePeerPod_frame[OF fr])
  then show "sandboxes (delete_instance E sb s) = sandboxes s"
    "v (svc_world (delete_instance E sb s)) = v (snd (DeleteInstance (env_provider E) (instanceID sb) (svc_world s)))"
    by (auto simp: delete_instance_def d Let_def split: option.splits prod.splits) (metis snd_conv)
qed

lemma StopVM_deletes:
  assumes fr: "env_frame E v" and sb: "map_of (sandboxes s) sid = Some sb" and sid: "sid \<noteq> []" and run: "StopVM E sid s = (r, s')"
  shows "\<exists>w. v w = v (svc_world s) \<and> r = Inr () \<and> sandboxes s' = AList.delete sid (sandboxes s) \<and>
             v (svc_world s') = v (snd (DeleteInstance (env_provider E) (instanceID sb) w))"
proof -
  let ?w1 = "snd (proxy_Shutdown E (agentProxy sb) (svc_world s))"
  let ?w2 = "case sshClientInst sb of None \<Rightarrow> ?w1 | Some ci \<Rightarrow> DisconnectPP E ci sid ?w1"
  let ?s2 = "s\<lparr>svc_world := ?w2\<rparr>"
  let ?s3 = "delete_instance E sb ?s2"
  have v2: "v ?w2 = v (svc_world s)" by (simp add: env_frameD[OF fr] split: option.splits)
  have "(case sshClientInst sb of None \<Rightarrow> s\<lparr>svc_world := ?w1\<rparr>
      | Some ci \<Rightarrow> (s\<lparr>svc_world := ?w1\<rparr>)\<lparr>svc_world := DisconnectPP E ci sid (svc_world (s\<lparr>svc_world := ?w1\<rparr>))\<rparr>) = ?s2"
    by (simp split: option.splits)
  then have "(r, s') = (Inr (), (?s3\<lparr>svc_world := snd (wn_iface_Teardown E (netNSPath sb) (podNetwork sb) (svc_world ?s3))\<rparr>)
      \<lparr>sandboxes := AList.delete sid (sandboxes ?s3)\<rparr>)"
    using run sb sid by (simp add: StopVM_def getSandbox_def removeSandbox_def Let_def)
  then have "r = Inr ()" "sandboxes s' = AList.delete sid (sandboxes ?s3)" "v (svc_world s') = v (svc_world ?s3)"
    by (auto simp: env_frameD[OF fr])
  then show ?thesis using delete_instance_frame[OF fr, of sb ?s2] v2 by (intro exI[of _ ?w2]) simp
qed

section \<open>A cloud in memory\<close>

definition list_cloud :: "string list Provider" where
  \<comment> \<open>the world is the list of instances; deletions never fail\<close>
  "list_cloud =
     \<lparr>CreateInstance = (\<lambda>pod sid _ _ w. (Inr \<lparr>ID = ''i-'' @ sid, Name = pod, IPs = [Addr4 0x0A000001]\<rparr>, (''i-'' @ sid) # w)),
      DeleteInstance = (\<lambda>i w. (None, if i = [] then w else filter (\<lambda>x. x \<noteq> i) w)),
      Teardown = (\<lambda>w. (None, w)), ConfigVerifier = None\<rparr>"

lemma list_cloud_contract: "cloud_provider list_cloud set (\<lambda>w. [] \<notin> set w)"
  by unfold_locales (auto simp: list_cloud_def split: if_splits)

definition list_kube :: "string list kube_api" where
  "list_kube =
     \<lparr>kube_client = Some ''no cluster'', pods_Get = (\<lambda>_ _ _. Inl NotFound), serviceaccounts_Get = (\<lambda>_ _ _. Inl NotFound),
      secrets_Get = (\<lambda>_ _ _. Inl NotFound), nodes_PatchStatus = (\<lambda>_ _ w. (Some NotFound, w)), peerpods_Post = (\<lambda>_ _ w. (Some NotFound, w)),
      peerpods_RemoveFinalizers = (\<lambda>_ _ w. (Some NotFound, w)), marshal_Auths = (\<lambda>_. Inl ''json''), unmarshal_Auths = (\<lambda>_. Inl ''json''),
      unmarshal_Registries = (\<lambda>_. Inl ''json''), marshal_patches = (\<lambda>_. Inl ''json'')\<rparr>"

definition demo_keys :: annotation_keys where
  "demo_keys = \<lparr>SandboxName = ''sandbox-name'', SandboxNamespace = ''sandbox-namespace'', MachineType = ''machine_type'', ImagePath = ''image'',
     DefaultVCPUs = ''vcpus'', DefaultMemory = ''memory'', DefaultGPUs = ''gpus''\<rparr>"

definition demo_tunnel :: Tunneler.Config where
  "demo_tunnel = \<lparr>PodIP = PrefixZero, PodHwAddr = [], InterfaceName = ''eth0'', WorkerNodeIP = PrefixZero, TunnelType = ''vxlan'', Routes = [],
     Neighbors = [], MTU = 1500, Index = 0, VXLANPort = 4789, VXLANID = 555000, Dedicated = False, ExternalNetViaPodVM = False\<rparr>"

definition list_env :: "string list service_env" where
  "list_env =
     \<lparr>env_provider = list_cloud, env_kube = list_kube, env_initdata = demo_initdata, env_keys = demo_keys, env_ip6 = decimal_ip6, env_lower = id,
      wn_iface_Inspect = (\<lambda>_. ret (Some demo_tunnel)), wn_iface_Setup = (\<lambda>_ _ _. fail (NetMsg ''no tunnel'')),
      wn_iface_Teardown = (\<lambda>_ _. ret ()), ClientCA = (\<lambda>_. ''CA''), CAService_Issue = (\<lambda>_. None), proxy_Start = (\<lambda>_ _ _ w. (ProxyReady, w)),
      proxy_Shutdown = (\<lambda>_ w. (None, w)), InitSshClient = (\<lambda>_ _ _ _ _ w. (None, w)), InitPP = (\<lambda>_ w. ((Some 0, ''key''), w)),
      GetWnPublicKey = (\<lambda>_. ''pub''), ssh_Start = (\<lambda>_ _. ret ()), ssh_GetPort = (\<lambda>_ _ _. ''1''), DisconnectPP = (\<lambda>_ _ w. w),
      marshal_daemon = (\<lambda>d. Inr (''json '' @ dc_PodName d)), rand_suffix = (\<lambda>_. ''abcde'')\<rparr>"

lemma list_env_frame: "env_frame list_env v"
  by (simp add: env_frame_def list_env_def list_kube_def)

definition demo_server :: ServerConfig where
  "demo_server = \<lparr>PodsDir = ''/run/pods'', ForwarderPort = ''15150'', Initdata = [], SecureComms = False, SecureCommsTrustee = False,
     SecureCommsInbounds = [], SecureCommsOutbounds = [], SecureCommsPpInbounds = [], SecureCommsPpOutbounds = [], SecureCommsKbsAddress = [],
     EnableScratchSpace = True\<rparr>"

definition demo_sandbox :: sandbox where
  "demo_sandbox = \<lparr>agentProxy = \<lparr>serverName = ''podvm'', socketPath = ''/run/pods/s/agent.ttrpc''\<rparr>, podNetwork = demo_tunnel,
     cloudConfig = \<lparr>WriteFiles = []\<rparr>, sb_id = ''s'', podName = ''pod'', podNamespace = ''ns'', instanceName = [], instanceID = [],
     netNSPath = ''/run/netns/p'', sb_spec = mem_spec, sshClientInst = None\<rparr>"

definition demo_service :: "string list cloudService" where
  "demo_service = \<lparr>sandboxes = [(''s'', demo_sandbox)], ppService = None, sshClient = False, serverConfig = demo_server, svc_os = demo_os,
     svc_world = [''i-other'']\<rparr>"

lemma demo_created:
  "start_create list_env ''s'' demo_service =
     (Inr (demo_sandbox, \<lparr>ID = ''i-s'', Name = ''pod'', IPs = [Addr4 0x0A000001]\<rparr>), demo_service\<lparr>svc_world := [''i-s'', ''i-other'']\<rparr>)"
  by (simp add: start_create_def getSandbox_def demo_service_def list_env_def list_cloud_def demo_sandbox_def)

section \<open>Stopping undoes starting\<close>



section \<open>Stopping while starting\<close>

text \<open>C37: A VM that is stopped while it is being started is leaked: when \<open>StopVM\<close> runs after \<open>StartVM\<close> has had the instance created but
before it has recorded the instance in the sandbox, \<open>StopVM\<close> succeeds, \<open>StartVM\<close> fails because the sandbox is gone, and the new
instance still exists although no sandbox knows it.\<close>

theorem stop_during_start_leaks:
  assumes prov: "cloud_provider (env_provider E) live good" and fr: "env_frame E (\<lambda>w. (live w, good w))" and good: "good (svc_world s)"
    and created: "start_create E sid s = (Inr (sb, i), s0)" and first: "instanceID sb = []"
    and stop: "StopVM E sid s0 = (r', s1)" and finish: "start_finish E sid sb i s1 = (r, s2)"
  shows "r' = Inr () \<and> r = Inl (SandboxMissing sid) \<and> ID i \<in> live (svc_world s2) \<and> map_of (sandboxes s2) sid = None"
proof -
  have sid: "sid \<noteq> []" and sb: "map_of (sandboxes s) sid = Some sb" and s0: "sandboxes s0 = sandboxes s"
    and ci: "CreateInstance (env_provider E) (podName sb) sid (Inr (Generate (cloudConfig sb))) (sb_spec sb) (svc_world s) = (Inr i, svc_world s0)"
    using created by (auto simp: start_create_def getSandbox_def split: if_splits option.splits prod.splits sum.splits)
  have l0: "ID i \<in> live (svc_world s0)" "good (svc_world s0)" using cloud_provider.create_ok[OF prov good ci] by auto
  have sb0: "map_of (sandboxes s0) sid = Some sb" using sb s0 by simp
  from StopVM_deletes[OF fr sb0 sid stop] obtain w where w: "live w = live (svc_world s0)" "good w"
    and r': "r' = Inr ()" "sandboxes s1 = AList.delete sid (sandboxes s0)"
    and l1: "live (svc_world s1) = live (snd (DeleteInstance (env_provider E) [] w))" using l0 first by auto
  have "live (snd (DeleteInstance (env_provider E) [] w)) = live w"
    using cloud_provider.delete_empty[OF prov w(2)] by (metis prod.collapse)
  then have live1: "ID i \<in> live (svc_world s1)" using l1 w l0 by simp
  let ?s = "own_peerpod E sb (ID i) s1"
  have m: "map_of (sandboxes ?s) sid = None" using r'(2) own_peerpod_frame(2)[OF fr, of sb "ID i" s1] by simp
  then have "(r, s2) = (Inl (SandboxMissing sid), ?s)" using finish by (simp add: start_finish_def setInstance_def Let_def)
  then show ?thesis using live1 m r' own_peerpod_frame(1)[OF fr, of sb "ID i" s1] by auto
qed

theorem stop_during_start_leaks_witness:
  "\<exists>s0 s1 s2 i. start_create list_env ''s'' demo_service = (Inr (demo_sandbox, i), s0) \<and> StopVM list_env ''s'' s0 = (Inr (), s1) \<and>
     start_finish list_env ''s'' demo_sandbox i s1 = (Inl (SandboxMissing ''s''), s2) \<and> ID i \<in> set (svc_world s2) \<and>
     map_of (sandboxes s2) ''s'' = None"
proof -
  obtain r s1 where sp: "StopVM list_env ''s'' (demo_service\<lparr>svc_world := [''i-s'', ''i-other'']\<rparr>) = (r, s1)" by fastforce
  obtain r' s2 where fi: "start_finish list_env ''s'' demo_sandbox \<lparr>ID = ''i-s'', Name = ''pod'', IPs = [Addr4 0x0A000001]\<rparr> s1 = (r', s2)" by fastforce
  have prov: "cloud_provider (env_provider list_env) set (\<lambda>w. [] \<notin> set w)" using list_cloud_contract by (simp add: list_env_def)
  have good: "[] \<notin> set (svc_world demo_service)" and e: "instanceID demo_sandbox = []" by (simp_all add: demo_service_def demo_sandbox_def)
  from stop_during_start_leaks[OF prov list_env_frame good demo_created e sp fi] sp fi demo_created show ?thesis by blast
qed

section \<open>What a sandbox is made of\<close>

lemma finish_create_ok:
  assumes "finish_create E req sb podDir dc s = (Inr sock, s')"
  shows "\<exists>apfJSON authJSON initdataEnc. marshal_daemon E dc = Inr apfJSON \<and> map_of (sandboxes s) (sb_id sb) = None \<and>
     GetInitdataFromAnnotation (env_initdata E) (req_Annotations req) = Inr initdataEnc \<and>
     (\<exists>w. authJSON = (case GetImagePullSecrets (env_kube E) (podName sb) (podNamespace sb) w of Inl _ \<Rightarrow> None | Inr a \<Rightarrow> a)) \<and>
     sandboxes s' = AList.update (sb_id sb)
       (sb\<lparr>cloudConfig := \<lparr>WriteFiles = vm_files (serverConfig s) apfJSON authJSON initdataEnc\<rparr>\<rparr>) (sandboxes s)"
proof (cases "GetImagePullSecrets (env_kube E) (podName sb) (podNamespace sb) (svc_world s)")
  case (Inl e)
  with assms show ?thesis
    by (auto simp: finish_create_def addSandbox_def Let_def split: sum.splits prod.splits option.splits)
      (rule exI[of _ None], rule conjI, rule exI[of _ "svc_world s"], simp_all)
next
  case (Inr a)
  with assms show ?thesis
    by (auto simp: finish_create_def addSandbox_def Let_def split: sum.splits prod.splits option.splits)
      (rule exI[of _ a], rule conjI, rule exI[of _ "svc_world s"], simp_all)
qed

lemma init_pp_ok:
  assumes "init_pp E sid dc s = (Inr (ci, dc'), s')"
  shows "sandboxes s' = sandboxes s" "serverConfig s' = serverConfig s" "dc_PodName dc' = dc_PodName dc" "dc_PodNamespace dc' = dc_PodNamespace dc"
    "dc_PodNetwork dc' = dc_PodNetwork dc"
  using assms by (auto simp: init_pp_def split: if_splits prod.splits option.splits)

lemma issue_cert_ok:
  assumes "issue_cert E px name dc = Inr dc'"
  shows "dc_PodName dc' = dc_PodName dc" "dc_PodNamespace dc' = dc_PodNamespace dc" "dc_PodNetwork dc' = dc_PodNetwork dc"
  using assms by (auto simp: issue_cert_def split: option.splits sum.splits)

lemma CreateVM_sandbox:
  assumes "CreateVM E req s = (Inr sock, s')"
  defines "pod \<equiv> GetPodName (env_keys E) (req_Annotations req)" and "ns \<equiv> GetPodNamespace (env_keys E) (req_Annotations req)"
  shows "\<exists>sb dc apfJSON authJSON initdataEnc.
     sandboxes s' = AList.update (req_Id req) sb (sandboxes s) \<and> map_of (sandboxes s) (req_Id req) = None \<and>
     req_Id req \<noteq> [] \<and> pod \<noteq> [] \<and> ns \<noteq> [] \<and> sb_id sb = req_Id req \<and> podName sb = pod \<and> podNamespace sb = ns \<and> instanceID sb = [] \<and>
     dc_PodName dc = pod \<and> dc_PodNamespace dc = ns \<and> dc_PodNetwork dc = podNetwork sb \<and> marshal_daemon E dc = Inr apfJSON \<and>
     cloudConfig sb = \<lparr>WriteFiles = vm_files (serverConfig s) apfJSON authJSON initdataEnc\<rparr> \<and>
     GetInitdataFromAnnotation (env_initdata E) (req_Annotations req) = Inr initdataEnc \<and>
     (\<exists>w. authJSON = (case GetImagePullSecrets (env_kube E) pod ns w of Inl _ \<Rightarrow> None | Inr a \<Rightarrow> a))"
proof -
  obtain vcpus memory gpus where res: "GetPodvmResourcesFromAnnotation (env_keys E) (req_Annotations req) = (vcpus, memory, gpus)"
    by (cases "GetPodvmResourcesFromAnnotation (env_keys E) (req_Annotations req)") auto
  from assms(1) have ne: "req_Id req \<noteq> []" "pod \<noteq> []" "ns \<noteq> []" unfolding pod_def ns_def
    by (auto simp: CreateVM_def Let_def split: if_splits)
  note run = assms(1)[unfolded CreateVM_def Let_def res, folded pod_def ns_def]
  obtain net w where net: "wn_iface_Inspect E (NetworkNamespacePath req) (svc_world s) = (Inr (Some net), w)"
    using run ne by (auto split: prod.splits sum.splits option.splits)
  obtain sname where sname: "GenerateInstanceName (env_lower E) (map of_char pod) (map of_char (req_Id req)) 63 = Some sname"
    using run ne net by (auto split: option.splits)
  let ?podDir = "Join_path [PodsDir (serverConfig s), req_Id req]"
  let ?px = "\<lparr>serverName = sname, socketPath = Join_path [?podDir, SocketName]\<rparr>"
  let ?dc = "\<lparr>dc_PodNetwork = net, dc_PodNamespace = ns, dc_PodName = pod, dc_TLSServerKey = [], dc_TLSServerCert = [],
    dc_TLSClientCA = ClientCA E ?px, dc_PpPrivateKey = [], dc_WnPublicKey = [], dc_SecureCommsInbounds = [], dc_SecureCommsOutbounds = [],
    dc_SecureComms = False\<rparr>"
  obtain os where os: "MkdirAll (svc_os s) ?podDir ModePerm = (Inr (), os)"
    using run ne net sname by (auto split: prod.splits sum.splits)
  obtain dc1 where dc1: "issue_cert E ?px sname ?dc = Inr dc1"
    using run ne net sname os by (auto split: sum.splits)
  obtain ci dc2 s2 where pp: "init_pp E (req_Id req) dc1 (s\<lparr>svc_world := w, svc_os := os\<rparr>) = (Inr (ci, dc2), s2)"
    using run ne net sname os dc1 by (auto split: prod.splits sum.splits)
  obtain spec where fin: "finish_create E req
      \<lparr>agentProxy = ?px, podNetwork = net, cloudConfig = \<lparr>WriteFiles = []\<rparr>, sb_id = req_Id req, podName = pod, podNamespace = ns,
       instanceName = [], instanceID = [], netNSPath = NetworkNamespacePath req, sb_spec = spec, sshClientInst = ci\<rparr> ?podDir dc2 s2 = (Inr sock, s')"
    using run ne net sname os dc1 pp by auto
  from finish_create_ok[OF this] obtain apfJSON authJSON initdataEnc where f: "marshal_daemon E dc2 = Inr apfJSON" "map_of (sandboxes s2) (req_Id req) = None"
    "GetInitdataFromAnnotation (env_initdata E) (req_Annotations req) = Inr initdataEnc"
    "\<exists>w. authJSON = (case GetImagePullSecrets (env_kube E) pod ns w of Inl _ \<Rightarrow> None | Inr a \<Rightarrow> a)"
    "sandboxes s' = AList.update (req_Id req) \<lparr>agentProxy = ?px, podNetwork = net,
       cloudConfig = \<lparr>WriteFiles = vm_files (serverConfig s2) apfJSON authJSON initdataEnc\<rparr>, sb_id = req_Id req, podName = pod, podNamespace = ns,
       instanceName = [], instanceID = [], netNSPath = NetworkNamespacePath req, sb_spec = spec, sshClientInst = ci\<rparr> (sandboxes s2)" by auto
  show ?thesis
    using f ne init_pp_ok[OF pp] issue_cert_ok[OF dc1]
    by (intro exI[of _ "\<lparr>agentProxy = ?px, podNetwork = net,
       cloudConfig = \<lparr>WriteFiles = vm_files (serverConfig s2) apfJSON authJSON initdataEnc\<rparr>, sb_id = req_Id req, podName = pod, podNamespace = ns,
       instanceName = [], instanceID = [], netNSPath = NetworkNamespacePath req, sb_spec = spec, sshClientInst = ci\<rparr>"] exI[of _ dc2] exI) auto
qed

lemma vm_files_single_line: "\<forall>f\<in>set (vm_files cfg apf auth init). single_line f"
  by (auto simp: vm_files_def write_file_def single_line_def DefaultConfigPath_def AuthFilePath_def InitDataPath_def ScratchSpacePath_def NL_def
      Let_def split: option.splits)

lemma vm_files_paths:
  "distinct (map Path (vm_files cfg apf auth init))"
  "set (map Path (vm_files cfg apf auth init)) \<subseteq> {DefaultConfigPath, AuthFilePath, InitDataPath, ScratchSpacePath}"
  by (auto simp: vm_files_def write_file_def Let_def DefaultConfigPath_def AuthFilePath_def InitDataPath_def ScratchSpacePath_def
      split: option.splits)

lemma Generate_read:
  assumes "\<forall>f\<in>set (WriteFiles config). single_line f"
  shows "read_files (Split (Generate config) NL) = map (\<lambda>f. (Path f, splitLines (Content f))) (WriteFiles config)"
  unfolding Generate_lines[OF assms] using read_files_files[of "WriteFiles config"] by (simp add: HasPrefix_def)


definition demo_request :: CreateVMRequest where
  "demo_request = \<lparr>req_Id = ''t'', req_Annotations = [(''sandbox-name'', ''k8s_web_ns_uid_0''), (''sandbox-namespace'', ''ns''),
     (''io.katacontainers.config.hypervisor.cc_init_data'', ''algorithm = sha256'')], NetworkNamespacePath = ''/run/netns/q''\<rparr>"

lemma demo_pod: "GetPodName (env_keys list_env) (req_Annotations demo_request) = ''web''"
  "GetPodNamespace (env_keys list_env) (req_Annotations demo_request) = ''ns''"
  by (simp_all add: GetPodName_def GetPodNamespace_def list_env_def demo_keys_def demo_request_def go_get_def)

lemma demo_create_any:
  assumes "serverConfig s = demo_server" "svc_os s = demo_os" "\<not> sshClient s" "map_of (sandboxes s) ''t'' = None"
  shows "\<exists>sock s'. CreateVM list_env demo_request s = (Inr sock, s')"
proof -
  obtain n where n: "GenerateInstanceName (env_lower list_env) [119, 101, 98] [116] 63 = Some n"
    by (simp add: GenerateInstanceName_def sanitize_def podvmNamePrefix_def)
  obtain vcpus memory gpus where res: "GetPodvmResourcesFromAnnotation (env_keys list_env) (req_Annotations demo_request) = (vcpus, memory, gpus)"
    by (cases "GetPodvmResourcesFromAnnotation (env_keys list_env) (req_Annotations demo_request)") auto
  have id: "req_Id demo_request = ''t''" by (simp add: demo_request_def)
  have ini: "GetInitdataFromAnnotation (env_initdata list_env) (req_Annotations demo_request) =
      Inr (b64_Encode (''gz'' @ ''algorithm = sha256''))"
    by (simp add: GetInitdataFromAnnotation_def demo_request_def go_get_def list_env_def demo_initdata_def Encode_def del: b64_Encode.simps)
  have env: "wn_iface_Inspect list_env p w = (Inr (Some demo_tunnel), w)" "CAService_Issue list_env px = None"
    "marshal_daemon list_env d = Inr (''json '' @ dc_PodName d)" for p w px d by (simp_all add: list_env_def)
  have dirs: "\<exists>os. MkdirAll demo_os p m = (Inr (), os) \<and> os_fault os = (\<lambda>_ _. False)" for p m
    by (simp add: MkdirAll_def demo_os_def split: option.splits)
  obtain os where os: "MkdirAll demo_os (Join_path [PodsDir demo_server, ''t'']) ModePerm = (Inr (), os)" "os_fault os = (\<lambda>_ _. False)"
    using dirs by blast
  show ?thesis
    unfolding CreateVM_def demo_pod res id Let_def
    by (simp add: n env os assms issue_cert_def init_pp_def finish_create_def ini addSandbox_def GoOs.WriteFile_def)
qed

lemma demo_create: "\<exists>sock s'. CreateVM list_env demo_request demo_service = (Inr sock, s')"
  by (rule demo_create_any) (simp_all add: demo_service_def)


section \<open>Waiting for an instance\<close>

lemma find_append: "find P (xs @ ys) = (case find P xs of None \<Rightarrow> find P ys | Some x \<Rightarrow> Some x)"
  by (induction xs) simp_all

lemma find_instance_new:
  assumes "map_of m sid = None" and "find_instance ns pod m = None" and "podNamespace sb = ns" "podName sb = pod"
  shows "find_instance ns pod (AList.update sid sb m) = Some (instanceID sb)"
  using assms unfolding update_new_key[OF assms(1)]
  by (simp add: find_instance_def find_append split: option.splits)

text \<open>C38: A request for the VM information of a pod that asks to wait does not wait for the instance: between \<open>CreateVM\<close> and the end of the
instance's creation \<open>GetInstanceID\<close> with \<open>wait\<close> returns at once with an empty ID, and \<open>GetInfo\<close> answers that the VM was not found.\<close>

theorem wait_returns_empty:
  assumes "CreateVM E req s = (Inr sock, s')"
    and "find_instance (GetPodNamespace (env_keys E) (req_Annotations req)) (GetPodName (env_keys E) (req_Annotations req)) (sandboxes s) = None"
    and "obs i = sandboxes s'"
  shows "GetInstanceID obs ctxErr nxt (GetPodNamespace (env_keys E) (req_Annotations req)) (GetPodName (env_keys E) (req_Annotations req)) True i =
           Some (Inr [], i) \<and> GetInfo is_deadline (Inr []) = Inl VMNotFound"
proof -
  obtain sb where "sandboxes s' = AList.update (req_Id req) sb (sandboxes s)" "map_of (sandboxes s) (req_Id req) = None"
    "podName sb = GetPodName (env_keys E) (req_Annotations req)" "podNamespace sb = GetPodNamespace (env_keys E) (req_Annotations req)"
    "instanceID sb = []"
    using CreateVM_sandbox[OF assms(1)] by blast
  then have "find_instance (GetPodNamespace (env_keys E) (req_Annotations req)) (GetPodName (env_keys E) (req_Annotations req)) (obs i) = Some []"
    using find_instance_new[OF _ assms(2)] assms(3) by simp
  then show ?thesis by (subst GetInstanceID.simps) (simp add: GetInfo_def)
qed

theorem wait_returns_empty_witness:
  "\<exists>sock s'. CreateVM list_env demo_request demo_service = (Inr sock, s') \<and>
     GetInstanceID (\<lambda>_::nat. sandboxes s') (\<lambda>_. None) Suc ''ns'' ''web'' True 0 = Some (Inr [], 0)"
proof -
  obtain sock s' where c: "CreateVM list_env demo_request demo_service = (Inr sock, s')" using demo_create by blast
  have "find_instance (GetPodNamespace (env_keys list_env) (req_Annotations demo_request)) (GetPodName (env_keys list_env) (req_Annotations demo_request))
      (sandboxes demo_service) = None"
    unfolding demo_pod by (simp add: find_instance_def demo_service_def demo_sandbox_def)
  from wait_returns_empty[OF c this, of "\<lambda>_::nat. sandboxes s'" 0] c show ?thesis unfolding demo_pod by blast
qed

section \<open>Reachable states\<close>

inductive service_step :: "'w service_env \<Rightarrow> 'w cloudService \<Rightarrow> 'w cloudService \<Rightarrow> bool" for E where
  create: "CreateVM E req s = (r, s') \<Longrightarrow> service_step E s s'"
| start_begin: "start_create E sid s = (r, s') \<Longrightarrow> service_step E s s'"
| start_end: "start_finish E sid sb i s = (r, s') \<Longrightarrow> service_step E s s'"
| stop: "StopVM E sid s = (r, s') \<Longrightarrow> service_step E s s'"
| elsewhere: "s' = s\<lparr>svc_world := w, svc_os := os\<rparr> \<Longrightarrow> service_step E s s'"
  \<comment> \<open>anything that happens outside of the service\<close>

definition sandbox_ok :: "string \<Rightarrow> sandbox \<Rightarrow> bool" where
  "sandbox_ok sid sb \<longleftrightarrow> sid \<noteq> [] \<and> sb_id sb = sid \<and> podName sb \<noteq> [] \<and> podNamespace sb \<noteq> [] \<and> list_all single_line (WriteFiles (cloudConfig sb))"

definition service_ok :: "'w cloudService \<Rightarrow> bool" where
  "service_ok s \<longleftrightarrow> wf_map (sandboxes s) \<and> (\<forall>sid sb. map_of (sandboxes s) sid = Some sb \<longrightarrow> sandbox_ok sid sb)"

lemma service_ok_cong: "sandboxes s' = sandboxes s \<Longrightarrow> service_ok s \<Longrightarrow> service_ok s'"
  by (simp add: service_ok_def)

lemma service_ok_update: "service_ok s \<Longrightarrow> sandbox_ok sid sb \<Longrightarrow> sandboxes s' = AList.update sid sb (sandboxes s) \<Longrightarrow> service_ok s'"
  by (simp add: service_ok_def)

lemma service_ok_delete: "service_ok s \<Longrightarrow> sandboxes s' = AList.delete sid (sandboxes s) \<Longrightarrow> service_ok s'"
  by (simp add: service_ok_def)

lemma finish_create_sandboxes: "finish_create E req sb d dc s = (Inl e, s') \<Longrightarrow> sandboxes s' = sandboxes s"
  by (auto simp: finish_create_def addSandbox_def Let_def split: sum.splits prod.splits option.splits)

lemma init_pp_sandboxes: "init_pp E sid dc s = (r, s') \<Longrightarrow> sandboxes s' = sandboxes s"
  by (auto simp: init_pp_def split: if_splits prod.splits option.splits)

lemma CreateVM_failed:
  assumes "CreateVM E req s = (Inl e, s')"
  shows "sandboxes s' = sandboxes s"
  using assms unfolding CreateVM_def Let_def
  by (auto split: if_splits prod.splits sum.splits option.splits dest!: finish_create_sandboxes init_pp_sandboxes)

lemma service_step_ok:
  assumes "service_step E s s'" and "service_ok s" and fr: "env_frame E (\<lambda>_. ())"
  shows "service_ok s'"
  using assms(1,2)
proof cases
  case (create req r)
  show ?thesis
  proof (cases r)
    case (Inl e)
    then show ?thesis using CreateVM_failed create assms(2) service_ok_cong by blast
  next
    case (Inr sock)
    then obtain sb apf auth ini where "sandboxes s' = AList.update (req_Id req) sb (sandboxes s)"
      "req_Id req \<noteq> [] \<and> podName sb \<noteq> [] \<and> podNamespace sb \<noteq> [] \<and> sb_id sb = req_Id req"
      "cloudConfig sb = \<lparr>WriteFiles = vm_files (serverConfig s) apf auth ini\<rparr>"
      using CreateVM_sandbox[of E req s sock s'] create by auto
    then show ?thesis
      using service_ok_update[OF assms(2), of "req_Id req" sb s'] vm_files_single_line by (auto simp: sandbox_ok_def list_all_iff)
  qed
next
  case (start_begin sid r)
  then have "sandboxes s' = sandboxes s"
    by (auto simp: start_create_def split: sum.splits prod.splits)
  then show ?thesis using assms(2) service_ok_cong by blast
next
  case (start_end sid sb i r)
  show ?thesis
  proof (cases "map_of (sandboxes s) sid")
    case None
    then have "sandboxes s' = sandboxes s"
      using start_end own_peerpod_frame(2)[OF fr] by (auto simp: start_finish_def setInstance_def Let_def)
    then show ?thesis using assms(2) service_ok_cong by blast
  next
    case (Some sb')
    then have "sandbox_ok sid (sb'\<lparr>instanceID := ID i, instanceName := Instance.Name i\<rparr>)"
      using assms(2) by (simp add: service_ok_def sandbox_ok_def)
    then show ?thesis using start_finish_frame(2)[OF fr start_end Some] service_ok_update[OF assms(2)] by blast
  qed
next
  case (stop sid r)
  show ?thesis
  proof (cases "getSandbox sid s")
    case (Inl e)
    then show ?thesis using stop assms(2) by (auto simp: StopVM_def)
  next
    case (Inr sb)
    then have "map_of (sandboxes s) sid = Some sb" "sid \<noteq> []" by (auto simp: getSandbox_def split: if_splits option.splits)
    from StopVM_deletes[OF fr this stop] show ?thesis using service_ok_delete[OF assms(2)] by blast
  qed
next
  case (elsewhere w os)
  then show ?thesis using assms(2) by (simp add: service_ok_def)
qed

text \<open>C8: In every state that the service can reach from its start, by any interleaving of its methods with each other and with the outside
world, the sandbox map has distinct keys, every sandbox is filed under its own non-empty ID, names its pod and namespace, and carries user
data that cannot break out of its files.\<close>

theorem service_invariant:
  assumes "NewService E cfg sshport os w = Some s0" and "(service_step E)\<^sup>*\<^sup>* s0 s"
  shows "wf_map (sandboxes s) \<and> list_all (\<lambda>(sid, sb). sandbox_ok sid sb) (sandboxes s)"
proof -
  have "service_ok s0" using assms(1) by (auto simp: NewService_def service_ok_def Let_def split: prod.splits if_splits)
  with assms(2) have ok: "service_ok s"
    by (induction rule: rtranclp_induct) (auto intro: service_step_ok simp: env_frame_def)
  then show ?thesis by (auto simp: service_ok_def list_all_iff)
qed

theorem service_invariant_witness:
  "\<exists>s0 sock s. NewService list_env demo_server ''22'' demo_os [] = Some s0 \<and> CreateVM list_env demo_request s0 = (Inr sock, s) \<and>
     map_of (sandboxes s) ''t'' \<noteq> None \<and> wf_map (sandboxes s) \<and> list_all (\<lambda>(sid, sb). sandbox_ok sid sb) (sandboxes s)"
proof -
  have n: "NewService list_env demo_server ''22'' demo_os [] = Some (demo_service\<lparr>sandboxes := [], svc_world := []\<rparr>)"
    by (simp add: NewService_def demo_server_def demo_service_def list_env_def NewPeerPodService_def demo_os_def Getenv_def)
  obtain r s where c: "CreateVM list_env demo_request (demo_service\<lparr>sandboxes := [], svc_world := []\<rparr>) = (r, s)" by fastforce
  obtain sock where r: "r = Inr sock" using c demo_create_any[of "demo_service\<lparr>sandboxes := [], svc_world := []\<rparr>"] by (auto simp: demo_service_def)
  have "(service_step list_env)\<^sup>*\<^sup>* (demo_service\<lparr>sandboxes := [], svc_world := []\<rparr>) s"
    using service_step.create[OF c] by blast
  from service_invariant[OF n this] n c r CreateVM_sandbox[OF c[unfolded r]] show ?thesis
    by (auto simp: demo_request_def)
qed

end
