(* ===== verification/Webhook.thy ===== *)
theory Webhook
  imports GoOs
begin

text \<open>
  The admission webhook, \<open>src/src/webhook/pkg/mutating_webhook\<close> and \<open>src/src/webhook/pkg/utils\<close>: the resource requests
  and limits of a pod are summed up into annotations that size the pod VM, and every container loses its own
  resource specification, apart from the extended resource that counts pod VMs.

  The type \<open>'q\<close> of quantities and the functions on it are those of \<open>k8s.io/apimachinery\<close> and \<open>k8s.io/cloud-provider\<close>,
  the record \<open>quantity_lib\<close>; \<open>quantity_ok\<close> states their documented behaviour through the value of a quantity in units of
  \<open>10\<^sup>-\<^sup>9\<close>, the smallest fraction a quantity holds.  The fields of a pod and of a container that the webhook does not look
  at are the type variables \<open>'m\<close> and \<open>'c\<close>.
\<close>

section \<open>Data\<close>

datatype q_format = BinarySI | DecimalSI

record 'q quantity_lib =
  q_New :: "q_format \<Rightarrow> 'q"
  q_Add :: "'q \<Rightarrow> 'q \<Rightarrow> 'q"
  q_Cmp :: "'q \<Rightarrow> 'q \<Rightarrow> int"
  q_IsZero :: "'q \<Rightarrow> bool"
  q_Sign :: "'q \<Rightarrow> int"
  q_Value :: "'q \<Rightarrow> int"
  q_MilliValue :: "'q \<Rightarrow> int"
  q_String :: "'q \<Rightarrow> string"
  q_MustParse :: "string \<Rightarrow> 'q"
  RoundUpToMiB :: "'q \<Rightarrow> string + int"

record 'q ResourceRequirements =
  Requests :: "(string, 'q) go_map"
  Limits :: "(string, 'q) go_map"
  Claims :: "string list"

record ('q, 'c) Container =
  Resources :: "'q ResourceRequirements"
  c_rest :: 'c

record ('q, 'c, 'm) Pod =
  Annotations :: "(string, string) go_map option"
  RuntimeClassName :: "string option"
  Containers :: "('q, 'c) Container list"
  InitContainers :: "('q, 'c) Container list"
  pod_rest :: 'm

datatype webhook_error = PanicIndex

definition ResourceCPU :: string where "ResourceCPU = ''cpu''"
definition ResourceMemory :: string where "ResourceMemory = ''memory''"
definition RUNTIME_CLASS_NAME_DEFAULT :: string where "RUNTIME_CLASS_NAME_DEFAULT = ''kata-remote''"
definition POD_VM_EXTENDED_RESOURCE_DEFAULT :: string where
  "POD_VM_EXTENDED_RESOURCE_DEFAULT = ''kata.peerpods.io/vm''"
definition PEERPODS_CPU_ANNOTATION :: string where
  "PEERPODS_CPU_ANNOTATION = ''io.katacontainers.config.hypervisor.default_vcpus''"
definition PEERPODS_MEMORY_ANNOTATION :: string where
  "PEERPODS_MEMORY_ANNOTATION = ''io.katacontainers.config.hypervisor.default_memory''"
definition GPU_RESOURCE_NAME :: string where "GPU_RESOURCE_NAME = ''nvidia.com/gpu''"
definition PEERPODS_GPU_ANNOTATION :: string where
  "PEERPODS_GPU_ANNOTATION = ''io.katacontainers.config.hypervisor.default_gpus''"

section \<open>Package utils\<close>

definition getResourceQuantity :: "'q quantity_lib \<Rightarrow> string \<Rightarrow> 'q" where
  "getResourceQuantity Q resourceName =
     (if resourceName = ResourceMemory then q_New Q BinarySI else q_New Q DecimalSI)"

fun add_quantities :: "'q quantity_lib \<Rightarrow> string \<Rightarrow> ('q ResourceRequirements \<Rightarrow> (string, 'q) go_map)
    \<Rightarrow> ('q, 'c) Container list \<Rightarrow> 'q \<Rightarrow> 'q" where
  \<comment> \<open>one of the loops over the containers\<close>
  "add_quantities Q resourceName field [] acc = acc"
| "add_quantities Q resourceName field (container # cs) acc =
     add_quantities Q resourceName field cs
       (case map_of (field (Resources container)) resourceName of
          Some q \<Rightarrow> q_Add Q acc q | None \<Rightarrow> acc)"

definition GetResourceRequestQuantity :: "'q quantity_lib \<Rightarrow> ('q, 'c, 'm) Pod \<Rightarrow> string \<Rightarrow> 'q" where
  "GetResourceRequestQuantity Q pod resourceName =
     (let requestQuantity = getResourceQuantity Q resourceName;
          requestQuantity = add_quantities Q resourceName Requests (Containers pod) requestQuantity
      in add_quantities Q resourceName Requests (InitContainers pod) requestQuantity)"

definition GetResourceRequest :: "'q quantity_lib \<Rightarrow> ('q, 'c, 'm) Pod \<Rightarrow> string \<Rightarrow> int" where
  "GetResourceRequest Q pod resourceName =
     (let requestQuantity = GetResourceRequestQuantity Q pod resourceName
      in if resourceName = ResourceCPU then q_MilliValue Q requestQuantity else q_Value Q requestQuantity)"

definition GetResourceLimitQuantity :: "'q quantity_lib \<Rightarrow> ('q, 'c, 'm) Pod \<Rightarrow> string \<Rightarrow> 'q" where
  "GetResourceLimitQuantity Q pod resourceName =
     (let limitQuantity = getResourceQuantity Q resourceName;
          limitQuantity = add_quantities Q resourceName Limits (Containers pod) limitQuantity
      in add_quantities Q resourceName Limits (InitContainers pod) limitQuantity)"

definition ConvertMemoryQuantityToMib :: "'q quantity_lib \<Rightarrow> 'q \<Rightarrow> string \<times> string option" where
  \<comment> \<open>the string and the error; the string is \<open>0\<close> with an error\<close>
  "ConvertMemoryQuantityToMib Q memoryQuantity =
     (case RoundUpToMiB Q memoryQuantity of
        Inl e \<Rightarrow> (''0'', Some e)
      | Inr memoryQuantityMib \<Rightarrow> (FormatInt10 memoryQuantityMib, None))"

section \<open>The mutation\<close>

definition cpu_annotation :: "'q quantity_lib \<Rightarrow> 'q \<Rightarrow> 'q \<Rightarrow> (string, string) go_map \<Rightarrow> (string, string) go_map" where
  "cpu_annotation Q cpuRequest cpuLimit annotations =
     (if \<not> q_IsZero Q cpuRequest \<and> q_Cmp Q cpuLimit cpuRequest \<ge> 0
      then AList.update PEERPODS_CPU_ANNOTATION (FormatInt10 (q_Value Q cpuLimit)) annotations
      else if q_Sign Q cpuRequest = 1
      then AList.update PEERPODS_CPU_ANNOTATION (FormatInt10 (q_Value Q cpuRequest)) annotations
      else annotations)"

definition memory_annotation :: "'q quantity_lib \<Rightarrow> 'q \<Rightarrow> 'q \<Rightarrow> (string, string) go_map \<Rightarrow> (string, string) go_map" where
  \<comment> \<open>an error of the conversion is only logged\<close>
  "memory_annotation Q memoryRequest memoryLimit annotations =
     (if \<not> q_IsZero Q memoryRequest \<and> q_Cmp Q memoryLimit memoryRequest \<ge> 0
      then AList.update PEERPODS_MEMORY_ANNOTATION (fst (ConvertMemoryQuantityToMib Q memoryLimit)) annotations
      else if q_Sign Q memoryRequest = 1
      then AList.update PEERPODS_MEMORY_ANNOTATION (fst (ConvertMemoryQuantityToMib Q memoryRequest)) annotations
      else annotations)"

definition gpu_annotation :: "'q quantity_lib \<Rightarrow> 'q \<Rightarrow> (string, string) go_map \<Rightarrow> (string, string) go_map" where
  "gpu_annotation Q gpuRequest annotations =
     (if q_Sign Q gpuRequest = 1
      then AList.update PEERPODS_GPU_ANNOTATION (q_String Q gpuRequest) annotations
      else annotations)"

definition no_resources :: "'q ResourceRequirements" where
  "no_resources = \<lparr>Requests = [], Limits = [], Claims = []\<rparr>"

definition podVmExtResource :: "os_state \<Rightarrow> string" where
  "podVmExtResource os =
     (let e = Getenv os ''POD_VM_EXTENDED_RESOURCE'' in if e = [] then POD_VM_EXTENDED_RESOURCE_DEFAULT else e)"

definition defaultContainerResourceRequirements :: "'q quantity_lib \<Rightarrow> os_state \<Rightarrow> 'q ResourceRequirements" where
  "defaultContainerResourceRequirements Q os =
     no_resources\<lparr>Requests := [(podVmExtResource os, q_MustParse Q ''1'')],
                  Limits := [(podVmExtResource os, q_MustParse Q ''1'')]\<rparr>"

definition clear_resources :: "('q, 'c) Container list \<Rightarrow> ('q, 'c) Container list" where
  "clear_resources cs = map (\<lambda>c. c\<lparr>Resources := no_resources\<rparr>) cs"

definition adjustResourceSpec :: "'q quantity_lib \<Rightarrow> os_state \<Rightarrow> ('q, 'c, 'm) Pod \<Rightarrow> webhook_error + ('q, 'c, 'm) Pod" where
  "adjustResourceSpec Q os pod =
     (let cpuRequest = GetResourceRequestQuantity Q pod ResourceCPU;
          cpuLimit = GetResourceLimitQuantity Q pod ResourceCPU;
          memoryRequest = GetResourceRequestQuantity Q pod ResourceMemory;
          memoryLimit = GetResourceLimitQuantity Q pod ResourceMemory;
          gpuRequest = GetResourceRequestQuantity Q pod GPU_RESOURCE_NAME;
          annotations = (case Annotations pod of None \<Rightarrow> [] | Some m \<Rightarrow> m);
          annotations = cpu_annotation Q cpuRequest cpuLimit annotations;
          annotations = memory_annotation Q memoryRequest memoryLimit annotations;
          annotations = gpu_annotation Q gpuRequest annotations;
          pod = pod\<lparr>Annotations := Some annotations, Containers := clear_resources (Containers pod),
                    InitContainers := clear_resources (InitContainers pod)\<rparr>
      in case Containers pod of
           [] \<Rightarrow> Inl PanicIndex
         | c # cs \<Rightarrow> Inr (pod\<lparr>Containers := c\<lparr>Resources := defaultContainerResourceRequirements Q os\<rparr> # cs\<rparr>))"

definition target_class :: "os_state \<Rightarrow> string" where
  "target_class os =
     (let e = Getenv os ''TARGET_RUNTIMECLASS'' in if e = [] then RUNTIME_CLASS_NAME_DEFAULT else e)"

definition mutatePod :: "'q quantity_lib \<Rightarrow> os_state \<Rightarrow> ('q, 'c, 'm) Pod \<Rightarrow> webhook_error + ('q, 'c, 'm) Pod" where
  "mutatePod Q os pod =
     (if RuntimeClassName pod \<noteq> Some (target_class os) then Inr pod
      else adjustResourceSpec Q os pod)"

section \<open>The admission handler\<close>

datatype 'raw admission_response = Errored int string | PatchResponseFromRaw 'raw 'raw

record ('q, 'c, 'm, 'raw) webhook_codec =
  adm_Decode :: "'raw \<Rightarrow> string + ('q, 'c, 'm) Pod"
  json_MarshalPod :: "('q, 'c, 'm) Pod \<Rightarrow> string + 'raw"

definition StatusBadRequest :: int where "StatusBadRequest = 400"
definition StatusInternalServerError :: int where "StatusInternalServerError = 500"

definition Handle :: "('q, 'c, 'm, 'raw) webhook_codec \<Rightarrow> 'q quantity_lib \<Rightarrow> os_state \<Rightarrow> 'raw
    \<Rightarrow> webhook_error + 'raw admission_response" where
  "Handle J Q os raw =
     (case adm_Decode J raw of
        Inl e \<Rightarrow> Inr (Errored StatusBadRequest e)
      | Inr pod \<Rightarrow>
          bind_result (mutatePod Q os pod) (\<lambda>mutatedPod.
            case json_MarshalPod J mutatedPod of
              Inl e \<Rightarrow> Inr (Errored StatusInternalServerError e)
            | Inr marshaledPod \<Rightarrow> Inr (PatchResponseFromRaw raw marshaledPod)))"

section \<open>What the library promises of quantities\<close>

definition ceil_div :: "int \<Rightarrow> int \<Rightarrow> int" where
  "ceil_div a b = (a + b - 1) div b"

definition nano :: int where "nano = 10 ^ 9"
definition MiB :: int where "MiB = 2 ^ 20"

definition quantity_ok :: "'q quantity_lib \<Rightarrow> ('q \<Rightarrow> int) \<Rightarrow> bool" where
  "quantity_ok Q val \<longleftrightarrow>
     (\<forall>f. val (q_New Q f) = 0) \<and> (\<forall>a b. val (q_Add Q a b) = val a + val b) \<and>
     (\<forall>a b. q_Cmp Q a b = sgn (val a - val b)) \<and> (\<forall>a. q_IsZero Q a \<longleftrightarrow> val a = 0) \<and> (\<forall>a. q_Sign Q a = sgn (val a)) \<and>
     (\<forall>a. 0 \<le> val a \<longrightarrow> val a \<le> nano * int64_max \<longrightarrow> q_Value Q a = ceil_div (val a) nano) \<and>
     (\<forall>a. 0 \<le> val a \<longrightarrow> val a < nano * int64_max \<longrightarrow> RoundUpToMiB Q a = Inr (ceil_div (q_Value Q a) MiB)) \<and>
     (\<forall>a. nano * int64_max \<le> val a \<longrightarrow> \<not> is_ok (RoundUpToMiB Q a))"

lemma quantity_okD:
  assumes "quantity_ok Q val"
  shows "val (q_New Q f) = 0" "val (q_Add Q a b) = val a + val b" "q_Cmp Q a b = sgn (val a - val b)"
    "q_IsZero Q a \<longleftrightarrow> val a = 0" "q_Sign Q a = sgn (val a)"
    "0 \<le> val a \<Longrightarrow> val a \<le> nano * int64_max \<Longrightarrow> q_Value Q a = ceil_div (val a) nano"
    "0 \<le> val a \<Longrightarrow> val a < nano * int64_max \<Longrightarrow> RoundUpToMiB Q a = Inr (ceil_div (q_Value Q a) MiB)"
    "nano * int64_max \<le> val a \<Longrightarrow> \<not> is_ok (RoundUpToMiB Q a)"
  using assms unfolding quantity_ok_def by blast+

lemma ceil_div_ge:
  assumes "0 < b"
  shows "a \<le> b * ceil_div a b"
proof -
  have "b * ceil_div a b = a + b - 1 - (a + b - 1) mod b"
    unfolding ceil_div_def by (rule minus_mod_eq_mult_div[symmetric])
  with pos_mod_bound[OF assms, of "a + b - 1"] show ?thesis by linarith
qed

lemma ceil_div_less:
  assumes "0 < b"
  shows "b * ceil_div a b < a + b"
proof -
  have "b * ceil_div a b = a + b - 1 - (a + b - 1) mod b"
    unfolding ceil_div_def by (rule minus_mod_eq_mult_div[symmetric])
  with pos_mod_sign[OF assms, of "a + b - 1"] show ?thesis by linarith
qed

lemma ceil_div_bounds:
  assumes "0 < b" "0 \<le> a" "a \<le> b * m"
  shows "0 \<le> ceil_div a b" and "ceil_div a b \<le> m" and "0 < a \<Longrightarrow> 0 < ceil_div a b"
proof -
  show "0 \<le> ceil_div a b" using assms by (simp add: ceil_div_def pos_imp_zdiv_nonneg_iff)
  have "b * ceil_div a b < b * (m + 1)" using ceil_div_less[OF assms(1), of a] assms(3) by (simp add: distrib_left)
  then show "ceil_div a b \<le> m" using assms(1) by simp
  have "0 < ceil_div a b" if "0 < a"
  proof -
    have "0 < b * ceil_div a b" using ceil_div_ge[OF assms(1), of a] that by linarith
    then show ?thesis using assms(1) by (simp add: zero_less_mult_iff)
  qed
  then show "0 < a \<Longrightarrow> 0 < ceil_div a b" .
qed

definition amount :: "('q \<Rightarrow> int) \<Rightarrow> string \<Rightarrow> (string, 'q) go_map \<Rightarrow> int" where
  "amount val r m = (case map_of m r of None \<Rightarrow> 0 | Some q \<Rightarrow> val q)"

definition pod_total :: "('q \<Rightarrow> int) \<Rightarrow> ('q ResourceRequirements \<Rightarrow> (string, 'q) go_map) \<Rightarrow> string \<Rightarrow> ('q, 'c, 'm) Pod \<Rightarrow> int" where
  "pod_total val field r pod = (\<Sum>c\<leftarrow>Containers pod @ InitContainers pod. amount val r (field (Resources c)))"

lemma val_add_quantities:
  "quantity_ok Q val \<Longrightarrow>
     val (add_quantities Q r field cs acc) = val acc + (\<Sum>c\<leftarrow>cs. amount val r (field (Resources c)))"
  by (induction cs arbitrary: acc) (simp_all add: amount_def quantity_okD split: option.splits)

lemma val_getResourceQuantity: "quantity_ok Q val \<Longrightarrow> val (getResourceQuantity Q r) = 0"
  by (simp add: getResourceQuantity_def quantity_okD)

lemma val_request: "quantity_ok Q val \<Longrightarrow> val (GetResourceRequestQuantity Q pod r) = pod_total val Requests r pod"
  by (simp add: GetResourceRequestQuantity_def val_add_quantities val_getResourceQuantity pod_total_def)

lemma val_limit: "quantity_ok Q val \<Longrightarrow> val (GetResourceLimitQuantity Q pod r) = pod_total val Limits r pod"
  by (simp add: GetResourceLimitQuantity_def val_add_quantities val_getResourceQuantity pod_total_def)

section \<open>Annotations\<close>

lemma annotation_keys_distinct [simp]:
  "PEERPODS_CPU_ANNOTATION \<noteq> PEERPODS_MEMORY_ANNOTATION" "PEERPODS_CPU_ANNOTATION \<noteq> PEERPODS_GPU_ANNOTATION"
  "PEERPODS_MEMORY_ANNOTATION \<noteq> PEERPODS_GPU_ANNOTATION" "PEERPODS_MEMORY_ANNOTATION \<noteq> PEERPODS_CPU_ANNOTATION"
  "PEERPODS_GPU_ANNOTATION \<noteq> PEERPODS_CPU_ANNOTATION" "PEERPODS_GPU_ANNOTATION \<noteq> PEERPODS_MEMORY_ANNOTATION"
  by (simp_all add: PEERPODS_CPU_ANNOTATION_def PEERPODS_MEMORY_ANNOTATION_def PEERPODS_GPU_ANNOTATION_def)

lemma annotation_other [simp]:
  "k \<noteq> PEERPODS_CPU_ANNOTATION \<Longrightarrow> map_of (cpu_annotation Q r l a) k = map_of a k"
  "k \<noteq> PEERPODS_MEMORY_ANNOTATION \<Longrightarrow> map_of (memory_annotation Q r l a) k = map_of a k"
  "k \<noteq> PEERPODS_GPU_ANNOTATION \<Longrightarrow> map_of (gpu_annotation Q r a) k = map_of a k"
  by (simp_all add: cpu_annotation_def memory_annotation_def gpu_annotation_def)

lemma prefer_limit_iff:
  assumes ok: "quantity_ok Q val" and pos: "0 < val r"
  shows "\<not> q_IsZero Q r \<and> q_Cmp Q l r \<ge> 0 \<longleftrightarrow> val r \<le> val l" and "q_Sign Q r = 1"
proof -
  show "\<not> q_IsZero Q r \<and> q_Cmp Q l r \<ge> 0 \<longleftrightarrow> val r \<le> val l"
    using pos unfolding quantity_okD(3,4)[OF ok] by (simp add: sgn_if)
  show "q_Sign Q r = 1" using pos unfolding quantity_okD(5)[OF ok] by simp
qed

lemma cpu_annotation_value:
  assumes ok: "quantity_ok Q val" and pos: "0 < val r" and bound: "val r \<le> nano * int64_max" "val l \<le> nano * int64_max"
  shows "map_of (cpu_annotation Q r l a) PEERPODS_CPU_ANNOTATION = Some (FormatInt10 (ceil_div (max (val r) (val l)) nano))"
proof (cases "val r \<le> val l")
  case True
  then have "q_Value Q l = ceil_div (val l) nano" using pos bound by (intro quantity_okD(6)[OF ok]) linarith+
  with True prefer_limit_iff(1)[OF ok pos, of l] prefer_limit_iff(2)[OF ok pos] show ?thesis by (simp add: cpu_annotation_def max_absorb2)
next
  case False
  have "q_Value Q r = ceil_div (val r) nano" using pos bound by (intro quantity_okD(6)[OF ok]) linarith+
  with False prefer_limit_iff(1)[OF ok pos, of l] prefer_limit_iff(2)[OF ok pos] show ?thesis by (auto simp: cpu_annotation_def max_absorb1)
qed

lemma mib_value:
  assumes ok: "quantity_ok Q val" and "0 \<le> val q" "val q < nano * int64_max"
  shows "ConvertMemoryQuantityToMib Q q = (FormatInt10 (ceil_div (ceil_div (val q) nano) MiB), None)"
  using quantity_okD(6,7)[OF ok, of q] assms(2,3) by (simp add: ConvertMemoryQuantityToMib_def)

lemma memory_annotation_value:
  assumes ok: "quantity_ok Q val" and pos: "0 < val r" and bound: "val r < nano * int64_max" "val l < nano * int64_max"
  shows "map_of (memory_annotation Q r l a) PEERPODS_MEMORY_ANNOTATION =
           Some (FormatInt10 (ceil_div (ceil_div (max (val r) (val l)) nano) MiB))"
proof (cases "val r \<le> val l")
  case True
  with mib_value[OF ok, of l] prefer_limit_iff(1)[OF ok pos, of l] prefer_limit_iff(2)[OF ok pos] pos bound show ?thesis
    by (simp add: memory_annotation_def max_absorb2)
next
  case False
  with mib_value[OF ok, of r] prefer_limit_iff(1)[OF ok pos, of l] prefer_limit_iff(2)[OF ok pos] pos bound show ?thesis
    by (auto simp: memory_annotation_def max_absorb1)
qed

lemma no_annotation:
  assumes ok: "quantity_ok Q val" and "val r = 0"
  shows "cpu_annotation Q r l a = a" "memory_annotation Q r l a = a" "gpu_annotation Q r a = a"
  using assms(2) by (simp_all add: cpu_annotation_def memory_annotation_def gpu_annotation_def quantity_okD(4,5)[OF ok])

section \<open>The mutated pod\<close>

definition vm_annotations :: "'q quantity_lib \<Rightarrow> ('q, 'c, 'm) Pod \<Rightarrow> (string, string) go_map" where
  "vm_annotations Q pod =
     gpu_annotation Q (GetResourceRequestQuantity Q pod GPU_RESOURCE_NAME)
       (memory_annotation Q (GetResourceRequestQuantity Q pod ResourceMemory) (GetResourceLimitQuantity Q pod ResourceMemory)
         (cpu_annotation Q (GetResourceRequestQuantity Q pod ResourceCPU) (GetResourceLimitQuantity Q pod ResourceCPU)
           (case Annotations pod of None \<Rightarrow> [] | Some m \<Rightarrow> m)))"

definition vm_containers :: "'q quantity_lib \<Rightarrow> os_state \<Rightarrow> ('q, 'c) Container list \<Rightarrow> ('q, 'c) Container list" where
  "vm_containers Q os cs =
     (case clear_resources cs of [] \<Rightarrow> [] | c # cs \<Rightarrow> c\<lparr>Resources := defaultContainerResourceRequirements Q os\<rparr> # cs)"

lemma mutatePod_target:
  assumes "mutatePod Q os pod = Inr pod'" and "RuntimeClassName pod = Some (target_class os)"
  shows "pod' = pod\<lparr>Annotations := Some (vm_annotations Q pod), Containers := vm_containers Q os (Containers pod),
                    InitContainers := clear_resources (InitContainers pod)\<rparr>" and "Containers pod \<noteq> []"
  using assms
  by (auto simp: mutatePod_def adjustResourceSpec_def Let_def vm_annotations_def vm_containers_def clear_resources_def split: list.splits)

lemma mutatePod_succeeds:
  "RuntimeClassName pod \<noteq> Some (target_class os) \<or> Containers pod \<noteq> [] \<Longrightarrow> \<exists>pod'. mutatePod Q os pod = Inr pod'"
  by (auto simp: mutatePod_def adjustResourceSpec_def Let_def clear_resources_def split: list.splits)

lemma pod_total_clear:
  "r \<noteq> podVmExtResource os \<Longrightarrow> field \<in> {Requests, Limits} \<Longrightarrow>
     pod_total val field r (pod\<lparr>Annotations := a, Containers := vm_containers Q os cs, InitContainers := clear_resources ics\<rparr>) = 0"
  by (auto simp: pod_total_def vm_containers_def clear_resources_def no_resources_def amount_def
      defaultContainerResourceRequirements_def comp_def split: list.splits)

lemma clear_resources_idem [simp]: "clear_resources (clear_resources cs) = clear_resources cs"
  by (simp add: clear_resources_def comp_def)

lemma vm_containers_idem [simp]: "vm_containers Q os (vm_containers Q os cs) = vm_containers Q os cs"
  by (cases cs) (simp_all add: vm_containers_def clear_resources_def comp_def)

text \<open>C16: The mutation is idempotent, so the webhook may see a pod again on an update: a second pass changes neither the sizing
  annotations nor the containers, provided the extended resource does not bear the name of a resource that is summed up.\<close>

theorem webhook_idempotent:
  assumes ok: "quantity_ok Q val"
    and ext: "podVmExtResource os \<notin> {ResourceCPU, ResourceMemory, GPU_RESOURCE_NAME}"
    and m: "mutatePod Q os pod = Inr pod'"
  shows "mutatePod Q os pod' = Inr pod'"
proof (cases "RuntimeClassName pod = Some (target_class os)")
  case True
  note p = mutatePod_target[OF m True]
  have z: "val (GetResourceRequestQuantity Q pod' r) = 0" if "r \<in> {ResourceCPU, ResourceMemory, GPU_RESOURCE_NAME}" for r
    using ext that unfolding val_request[OF ok] p(1) by (intro pod_total_clear) auto
  have "Annotations pod' = Some (vm_annotations Q pod)" using p(1) by simp
  then have "vm_annotations Q pod' = vm_annotations Q pod"
    unfolding vm_annotations_def[of Q pod'] by (simp add: no_annotation[OF ok z])
  moreover have "RuntimeClassName pod' = Some (target_class os)" using p(1) True by simp
  moreover have "Containers pod' \<noteq> []"
    using p by (cases "Containers pod") (simp_all add: vm_containers_def clear_resources_def)
  ultimately show ?thesis
    using mutatePod_succeeds[of pod' os Q] mutatePod_target[of Q os pod'] p(1) by auto
next
  case False
  then show ?thesis using m by (simp add: mutatePod_def)
qed

definition int_quantities :: "int quantity_lib" where
  \<comment> \<open>quantities as integers in units of \<open>10\<^sup>-\<^sup>9\<close>\<close>
  "int_quantities = \<lparr>q_New = (\<lambda>_. 0), q_Add = (+), q_Cmp = (\<lambda>a b. sgn (a - b)), q_IsZero = (\<lambda>a. a = 0), q_Sign = sgn,
     q_Value = (\<lambda>a. ceil_div a nano), q_MilliValue = (\<lambda>a. ceil_div a (10 ^ 6)), q_String = (\<lambda>a. FormatInt10 (ceil_div a nano)),
     q_MustParse = (\<lambda>s. case ParseInt10 s of Inl _ \<Rightarrow> 0 | Inr n \<Rightarrow> nano * n),
     RoundUpToMiB = (\<lambda>a. if a < nano * int64_max then Inr (ceil_div (ceil_div a nano) MiB) else Inl ''too great'')\<rparr>"

lemma int_quantities_ok: "quantity_ok int_quantities id"
  by (auto simp: quantity_ok_def int_quantities_def)

definition demo_container :: "int \<Rightarrow> int \<Rightarrow> int \<Rightarrow> (int, string) Container" where
  "demo_container cpu climit mem =
     \<lparr>Resources = \<lparr>Requests = [(ResourceCPU, cpu), (ResourceMemory, mem)], Limits = [(ResourceCPU, climit)], Claims = []\<rparr>, c_rest = ''app''\<rparr>"

definition demo_pod :: "(int, string, string) Pod" where
  \<comment> \<open>1.5 CPUs requested with a limit of 2.5, 100 bytes more than 1 MiB\<close>
  "demo_pod = \<lparr>Annotations = None, RuntimeClassName = Some ''kata-remote'',
     Containers = [demo_container 500000000 1500000000 (nano * MiB), demo_container 1000000000 1000000000 (nano * 100)],
     InitContainers = [], pod_rest = ''web''\<rparr>"

definition plain_os :: os_state where
  "plain_os = \<lparr>os_env = (\<lambda>_. []), os_files = Map.empty, os_fault = (\<lambda>_ _. False)\<rparr>"

theorem webhook_idempotent_witness:
  "\<exists>pod'. mutatePod int_quantities plain_os demo_pod = Inr pod' \<and> mutatePod int_quantities plain_os pod' = Inr pod' \<and> pod' \<noteq> demo_pod"
proof -
  have t: "RuntimeClassName demo_pod = Some (target_class plain_os)"
    by (simp add: demo_pod_def target_class_def plain_os_def Getenv_def RUNTIME_CLASS_NAME_DEFAULT_def)
  obtain pod' where p: "mutatePod int_quantities plain_os demo_pod = Inr pod'"
    using mutatePod_succeeds[of demo_pod plain_os int_quantities] by (auto simp: demo_pod_def)
  have "podVmExtResource plain_os \<notin> {ResourceCPU, ResourceMemory, GPU_RESOURCE_NAME}"
    by (simp add: podVmExtResource_def plain_os_def Getenv_def POD_VM_EXTENDED_RESOURCE_DEFAULT_def ResourceCPU_def
        ResourceMemory_def GPU_RESOURCE_NAME_def)
  from webhook_idempotent[OF int_quantities_ok this p] have "mutatePod int_quantities plain_os pod' = Inr pod'" .
  moreover have "pod' \<noteq> demo_pod" using mutatePod_target(1)[OF p t] by (auto simp: demo_pod_def)
  ultimately show ?thesis using p by blast
qed

end
