(* ===== verification/WebhookProps.thy ===== *)
theory WebhookProps
  imports Webhook CloudService
begin

text \<open>
  The webhook and the cloud service together: the annotations that the webhook writes are those from which the cloud
  service sizes the VM, so that the instance type chosen for a pod has room for all of its containers.
\<close>

lemma int_annotation_format:
  "map_of a k = Some (FormatInt10 n) \<Longrightarrow> 0 \<le> n \<Longrightarrow> n \<le> int64_max \<Longrightarrow> int_annotation a k = n"
  by (simp add: int_annotation_def ParseInt10_FormatInt10 int64_min_def)

lemma webhook_resources:
  assumes ok: "quantity_ok Q val"
    and m: "mutatePod Q os pod = Inr pod'" "RuntimeClassName pod = Some (target_class os)" "Annotations pod' = Some a"
    and K: "DefaultVCPUs K = PEERPODS_CPU_ANNOTATION" "DefaultMemory K = PEERPODS_MEMORY_ANNOTATION" "DefaultGPUs K = PEERPODS_GPU_ANNOTATION"
    and cpu: "0 < pod_total val Requests ResourceCPU pod" "pod_total val Requests ResourceCPU pod < nano * int64_max"
      "pod_total val Limits ResourceCPU pod < nano * int64_max"
    and mem: "0 < pod_total val Requests ResourceMemory pod" "pod_total val Requests ResourceMemory pod < nano * int64_max"
      "pod_total val Limits ResourceMemory pod < nano * int64_max"
    and gpu: "pod_total val Requests GPU_RESOURCE_NAME pod = 0" "map_of (case Annotations pod of None \<Rightarrow> [] | Some b \<Rightarrow> b) PEERPODS_GPU_ANNOTATION = None"
  shows "GetPodvmResourcesFromAnnotation K a =
    (ceil_div (max (pod_total val Requests ResourceCPU pod) (pod_total val Limits ResourceCPU pod)) nano,
     ceil_div (ceil_div (max (pod_total val Requests ResourceMemory pod) (pod_total val Limits ResourceMemory pod)) nano) MiB, 0)"
proof -
  note v = val_request[OF ok] val_limit[OF ok]
  have a: "a = vm_annotations Q pod" using mutatePod_target(1)[OF m(1,2)] m(3) by simp
  have n: "0 < nano" "0 < MiB" "0 \<le> int64_max" by (simp_all add: nano_def MiB_def int64_max_def)
  let ?c = "max (pod_total val Requests ResourceCPU pod) (pod_total val Limits ResourceCPU pod)"
  let ?m = "max (pod_total val Requests ResourceMemory pod) (pod_total val Limits ResourceMemory pod)"
  have c: "0 \<le> ?c" "?c \<le> nano * int64_max" and m: "0 \<le> ?m" "?m \<le> nano * int64_max" using cpu mem by linarith+
  note cb = ceil_div_bounds[OF n(1) c] and mb = ceil_div_bounds[OF n(1) m]
  have le: "ceil_div ?m nano \<le> MiB * int64_max" using mb(2) n by (simp add: MiB_def int64_max_def)
  have "map_of a PEERPODS_CPU_ANNOTATION = Some (FormatInt10 (ceil_div ?c nano))"
    unfolding a vm_annotations_def using cpu_annotation_value[OF ok] cpu by (simp add: v)
  moreover have "map_of a PEERPODS_MEMORY_ANNOTATION = Some (FormatInt10 (ceil_div (ceil_div ?m nano) MiB))"
    unfolding a vm_annotations_def using memory_annotation_value[OF ok] mem by (simp add: v)
  moreover have "map_of a PEERPODS_GPU_ANNOTATION = None"
    unfolding a vm_annotations_def using gpu by (simp add: no_annotation(3)[OF ok] v)
  ultimately show ?thesis
    using int_annotation_format cb(1,2) ceil_div_bounds(1,2)[OF n(2) mb(1) le]
    by (simp add: GetPodvmResourcesFromAnnotation_def K int_annotation_def[of a PEERPODS_GPU_ANNOTATION])
qed


definition demo_annotation_keys :: annotation_keys where
  "demo_annotation_keys = \<lparr>SandboxName = ''n'', SandboxNamespace = ''ns'', MachineType = ''t'', ImagePath = ''i'',
     DefaultVCPUs = PEERPODS_CPU_ANNOTATION, DefaultMemory = PEERPODS_MEMORY_ANNOTATION, DefaultGPUs = PEERPODS_GPU_ANNOTATION\<rparr>"

lemma demo_totals:
  "pod_total id Requests ResourceCPU demo_pod = 1500000000" "pod_total id Limits ResourceCPU demo_pod = 2500000000"
  "pod_total id Requests ResourceMemory demo_pod = nano * (MiB + 100)" "pod_total id Limits ResourceMemory demo_pod = 0"
  "pod_total id Requests GPU_RESOURCE_NAME demo_pod = 0"
  by (simp_all add: pod_total_def demo_pod_def demo_container_def amount_def ResourceCPU_def ResourceMemory_def GPU_RESOURCE_NAME_def distrib_left)


end
