(* ===== verification/Provision.thy ===== *)
theory Provision
  imports GoIO CloudInit
begin

text \<open>
  Provisioning inside the pod VM, \<open>src/src/cloud-api-adaptor/pkg/userdata\<close>: the user data of the instance is fetched from the
  metadata service of the cloud or from a file, its files are written if their paths are allowed, and the initdata is
  unpacked, again only to allowed paths, and its digest stored for the attester.

  The state is the file system and the world \<open>'w\<close> of the network.  The HTTP client, the processor and DMI tables, the YAML
  parser and the retry loop of \<open>retry-go\<close> are the record \<open>vm_env\<close>.
\<close>

section \<open>Configuration\<close>

definition ConfigParent :: string where "ConfigParent = ''/run/peerpod''"
definition DigestPath :: string where "DigestPath = ''/run/peerpod/initdata.digest''"
definition PolicyPath :: string where "PolicyPath = ''/run/peerpod/policy.rego''"

definition AWSUserDataImdsUrl :: string where "AWSUserDataImdsUrl = ''http://169.254.169.254/latest/user-data''"
definition AzureUserDataImdsUrl :: string where
  "AzureUserDataImdsUrl = ''http://169.254.169.254/metadata/instance/compute/userData?api-version=2021-01-01&format=text''"
definition GcpImdsUrl :: string where "GcpImdsUrl = ''http://metadata.google.internal/computeMetadata/v1/instance''"
definition GcpUserDataImdsUrl :: string where
  "GcpUserDataImdsUrl = ''http://metadata.google.internal/computeMetadata/v1/instance/attributes/user-data''"
definition AlibabaCloudUserDataImdsUrl :: string where "AlibabaCloudUserDataImdsUrl = ''http://100.100.100.200/latest/user-data''"

definition WriteFilesList :: "string list" where
  "WriteFilesList = [AACfgPath, CDHCfgPath, ForwarderCfgPath, AuthFilePath, InitDataPath, ScratchSpacePath]"

definition InitdDataFilesList :: "string list" where
  "InitdDataFilesList = [AACfgPath, CDHCfgPath, PolicyPath]"

record Config =
  fetchTimeout :: int
  digestPath :: string
  initdataPath :: string
  parentPath :: string
  writeFiles :: "string list"
  initdataFiles :: "string list"

definition NewConfig :: "int \<Rightarrow> Config" where
  "NewConfig timeout = \<lparr>fetchTimeout = timeout, digestPath = DigestPath, initdataPath = InitDataPath, parentPath = ConfigParent,
     writeFiles = WriteFilesList, initdataFiles = InitdDataFilesList\<rparr>"

record ud_WriteFile =
  wf_Path :: string
  wf_Content :: string

record ud_CloudConfig =
  cc_WriteFiles :: "ud_WriteFile list"

datatype UserDataProvider = FileUserDataProvider | AzureUserDataProvider | AWSUserDataProvider | GCPUserDataProvider | AlibabaCloudDataProvider

datatype prov_error =
    EmptyUrl
  | RequestFailed string
  | BadStatus int
  | BodyFailed string
  | NotBase64
  | UserDataFile os_error
  | BadYaml string
  | RetryFailed string
  | UnsupportedProvider
  | MkdirFailed os_error
  | WriteFailed os_error
  | StatFailed os_error
  | OpenFailed os_error
  | InitdataBad initdata_error

datatype hypervisor_vendor = MSVM | KVM | OtherVendor

record 'w vm_env =
  cpu_vendor :: hypervisor_vendor
  dmi_Manufacturer :: "string + string"
  http_NewRequest :: "string \<Rightarrow> string option"
  http_Do :: "string \<Rightarrow> (string \<times> string) list \<Rightarrow> 'w \<Rightarrow> (string + int \<times> (string + string)) \<times> 'w"
    \<comment> \<open>the status and the result of reading the body\<close>
  yaml_UnmarshalStrict :: "string \<Rightarrow> string + ud_CloudConfig"
  retry_Do :: "(os_state \<times> 'w, prov_error, ud_CloudConfig) io \<Rightarrow> (os_state \<times> 'w, prov_error, ud_CloudConfig) io"
  vm_initdata :: initdata_lib

section \<open>Metadata services\<close>

definition imdsGet :: "'w vm_env \<Rightarrow> string \<Rightarrow> bool \<Rightarrow> (string \<times> string) list \<Rightarrow> ('w, prov_error, string) io" where
  "imdsGet E url b64 headers w =
     (if url = [] then (Inl EmptyUrl, w)
      else case http_NewRequest E url of
        Some e \<Rightarrow> (Inl (RequestFailed e), w)
      | None \<Rightarrow>
          (case http_Do E url headers w of
             (Inl e, w) \<Rightarrow> (Inl (RequestFailed e), w)
           | (Inr (status, rd), w) \<Rightarrow>
               (if status \<noteq> 200 then (Inl (BadStatus status), w)
                else case rd of
                  Inl e \<Rightarrow> (Inl (BodyFailed e), w)
                | Inr body \<Rightarrow>
                    (if \<not> b64 then (Inr body, w)
                     else case b64_Decode body of None \<Rightarrow> (Inl NotBase64, w) | Some decoded \<Rightarrow> (Inr decoded, w)))))"

definition isAzureVM :: "'w vm_env \<Rightarrow> bool" where
  "isAzureVM E = (cpu_vendor E = MSVM)"

definition isAWSVM :: "'w vm_env \<Rightarrow> bool" where
  "isAWSVM E = (dmi_Manufacturer E = Inr ''Amazon EC2'')"

definition isGCPVM :: "'w vm_env \<Rightarrow> 'w \<Rightarrow> bool \<times> 'w" where
  "isGCPVM E w =
     (if cpu_vendor E \<noteq> KVM then (False, w)
      else case imdsGet E GcpImdsUrl False [(''Metadata-Flavor'', ''Google'')] w of (r, w) \<Rightarrow> (is_ok r, w))"

definition hasUserDataFile :: "os_state \<Rightarrow> bool" where
  "hasUserDataFile os = (case Stat os UserDataPath of Inl (ErrNotExist _) \<Rightarrow> False | _ \<Rightarrow> True)"

definition isAlibabaCloudVM :: "'w vm_env \<Rightarrow> bool" where
  "isAlibabaCloudVM E = (dmi_Manufacturer E = Inr ''Alibaba Cloud'')"

definition GetUserData :: "'w vm_env \<Rightarrow> UserDataProvider \<Rightarrow> (os_state \<times> 'w, prov_error, string) io" where
  "GetUserData E p =
     (case p of
        FileUserDataProvider \<Rightarrow> wrap_io UserDataFile (query (\<lambda>(os, w). ReadFile os UserDataPath))
      | AzureUserDataProvider \<Rightarrow> on_snd (imdsGet E AzureUserDataImdsUrl True [(''Metadata'', ''true'')])
      | AWSUserDataProvider \<Rightarrow> on_snd (imdsGet E AWSUserDataImdsUrl False [])
      | GCPUserDataProvider \<Rightarrow> on_snd (imdsGet E GcpUserDataImdsUrl True [(''Metadata-Flavor'', ''Google'')])
      | AlibabaCloudDataProvider \<Rightarrow> on_snd (imdsGet E AlibabaCloudUserDataImdsUrl False []))"

definition newProvider :: "'w vm_env \<Rightarrow> (os_state \<times> 'w, prov_error, UserDataProvider) io" where
  "newProvider E = (\<lambda>(os, w).
     if hasUserDataFile os then (Inr FileUserDataProvider, (os, w))
     else if isAzureVM E then (Inr AzureUserDataProvider, (os, w))
     else if isAWSVM E then (Inr AWSUserDataProvider, (os, w))
     else case isGCPVM E w of
       (True, w) \<Rightarrow> (Inr GCPUserDataProvider, (os, w))
     | (False, w) \<Rightarrow>
         (if isAlibabaCloudVM E then (Inr AlibabaCloudDataProvider, (os, w)) else (Inl UnsupportedProvider, (os, w))))"

definition parseUserData :: "'w vm_env \<Rightarrow> string \<Rightarrow> prov_error + ud_CloudConfig" where
  "parseUserData E userData = map_error BadYaml (yaml_UnmarshalStrict E userData)"

definition retrieveCloudConfig :: "'w vm_env \<Rightarrow> UserDataProvider \<Rightarrow> (os_state \<times> 'w, prov_error, ud_CloudConfig) io" where
  "retrieveCloudConfig E p =
     retry_Do E (bind_io (GetUserData E p) (\<lambda>ud. query (\<lambda>_. parseUserData E ud)))"

section \<open>Files\<close>

definition writeFile :: "string \<Rightarrow> string \<Rightarrow> (os_state, prov_error, unit) io" where
  "writeFile path bytes =
     then_io (wrap_io MkdirFailed (\<lambda>os. MkdirAll os (Dir path) 0x1ED))
             (wrap_io WriteFailed (\<lambda>os. GoOs.WriteFile os path bytes 0x1A4))"

definition isAllowed :: "string \<Rightarrow> string list \<Rightarrow> bool" where
  "isAllowed path filesList = list_ex (\<lambda>listedFile. listedFile = path) filesList"

definition processCloudConfig :: "Config \<Rightarrow> ud_CloudConfig \<Rightarrow> (os_state, prov_error, unit) io" where
  "processCloudConfig cfg cc =
     for_io (\<lambda>wf. if isAllowed (wf_Path wf) (writeFiles cfg) then writeFile (wf_Path wf) (wf_Content wf) else ret ())
       (cc_WriteFiles cc)"

definition dummyToml :: string where
  "dummyToml =
     ''algorithm = '' @ [CHR 0x22] @ ''sha256'' @ [CHR 0x22, NL] @ ''version = '' @ [CHR 0x22] @ ''0.1.0'' @ [CHR 0x22, NL, NL] @
     ''[data]'' @ [NL, CHR 0x22] @ ''aa.toml'' @ [CHR 0x22] @ '' = '' @ [CHR 0x27, CHR 0x27, CHR 0x27, NL, CHR 0x27, CHR 0x27, CHR 0x27]"

definition generateDummyInitdata :: "initdata_lib \<Rightarrow> Config \<Rightarrow> (os_state, prov_error, unit) io" where
  "generateDummyInitdata L cfg =
     bind_io (query (\<lambda>_. map_error InitdataBad (Encode L dummyToml))) (\<lambda>encoded. writeFile (initdataPath cfg) encoded)"

definition Open :: "os_state \<Rightarrow> string \<Rightarrow> os_error + string" where
  \<comment> \<open>the content that the returned reader delivers\<close>
  "Open os p =
     (if os_fault os OpOpen p then Inl (ErrOs OpOpen p)
      else case os_files os p of None \<Rightarrow> Inl (ErrNotExist p) | Some f \<Rightarrow> Inr (f_content f))"

definition ensure_initdata :: "initdata_lib \<Rightarrow> Config \<Rightarrow> (os_state, prov_error, unit) io" where
  "ensure_initdata L cfg os =
     (case Stat os (initdataPath cfg) of
        Inr _ \<Rightarrow> (Inr (), os)
      | Inl (ErrNotExist _) \<Rightarrow> generateDummyInitdata L cfg os
      | Inl e \<Rightarrow> (Inl (StatFailed e), os))"

definition write_initdata_files :: "Config \<Rightarrow> (string, string) go_map \<Rightarrow> (os_state, prov_error, unit) io" where
  "write_initdata_files cfg data =
     for_io (\<lambda>(key, v). let path = Join_path [parentPath cfg, key]
                        in if isAllowed path (initdataFiles cfg) then writeFile path v else ret ()) data"

definition extractInitdataAndHash :: "initdata_lib \<Rightarrow> Config \<Rightarrow> (os_state, prov_error, unit) io" where
  "extractInitdataAndHash L cfg =
     then_io (ensure_initdata L cfg)
    (bind_io (wrap_io OpenFailed (query (\<lambda>os. Open os (initdataPath cfg)))) (\<lambda>content.
     bind_io (query (\<lambda>_. map_error InitdataBad (Parse L content))) (\<lambda>d.
     then_io (write_initdata_files cfg (Data (Body d)))
       (writeFile (digestPath cfg) (Digest d)))))"

definition ProvisionFiles :: "'w vm_env \<Rightarrow> Config \<Rightarrow> (os_state \<times> 'w, prov_error, unit) io" where
  "ProvisionFiles E cfg s =
     (case newProvider E s of
        (Inr provider, s) \<Rightarrow>
          bind_io (retrieveCloudConfig E provider) (\<lambda>cc.
            then_io (on_fst (processCloudConfig cfg cc)) (on_fst (extractInitdataAndHash (vm_initdata E) cfg))) s
      | (Inl _, s) \<Rightarrow> on_fst (extractInitdataAndHash (vm_initdata E) cfg) s)"

section \<open>Which files an operation touches\<close>

definition touches :: "string set \<Rightarrow> (os_state, 'e, 'a) io \<Rightarrow> bool" where
  "touches P m \<longleftrightarrow> (\<forall>os q. q \<notin> P \<longrightarrow> os_files (snd (m os)) q = os_files os q)"

named_theorems touches_intros

lemma touchesD: "touches P m \<Longrightarrow> m os = (r, os') \<Longrightarrow> q \<notin> P \<Longrightarrow> os_files os' q = os_files os q"
  by (metis touches_def snd_conv)

lemma touches_ret [touches_intros]: "touches P (ret x)" and touches_query [touches_intros]: "touches P (query f)"
  by (simp_all add: touches_def)

lemma touches_bind [touches_intros]: "touches P m \<Longrightarrow> (\<And>x. touches P (f x)) \<Longrightarrow> touches P (bind_io m f)"
  unfolding touches_def bind_io_def by (auto split: prod.splits sum.splits) (metis snd_conv)+

lemma touches_then [touches_intros]: "touches P m \<Longrightarrow> touches P n \<Longrightarrow> touches P (then_io m n)"
  by (simp add: then_io_def touches_bind)

lemma touches_wrap [touches_intros]: "touches P m \<Longrightarrow> touches P (wrap_io g m)"
  unfolding touches_def wrap_io_def by (auto split: prod.splits) (metis snd_conv)

lemma touches_for [touches_intros]: "(\<And>x. x \<in> set xs \<Longrightarrow> touches P (f x)) \<Longrightarrow> touches P (for_io f xs)"
  by (induction xs) (auto intro: touches_intros)

lemma touches_writeFile [touches_intros]: "p \<in> P \<Longrightarrow> Dir p \<in> P \<Longrightarrow> touches P (writeFile p c)"
  unfolding writeFile_def
  by (intro touches_intros) (auto simp: touches_def MkdirAll_def GoOs.WriteFile_def split: option.splits)

definition cfg_files :: "Config \<Rightarrow> string set" where
  \<comment> \<open>what provisioning may write, with the directories of these files\<close>
  "cfg_files cfg = (let F = set (writeFiles cfg) \<union> set (initdataFiles cfg) \<union> {initdataPath cfg, digestPath cfg} in F \<union> Dir ` F)"

lemma isAllowed_iff [simp]: "isAllowed p l \<longleftrightarrow> p \<in> set l"
  by (auto simp: isAllowed_def list_ex_iff)

lemma touches_cloud_config: "touches (cfg_files cfg) (processCloudConfig cfg cc)"
  unfolding processCloudConfig_def by (rule touches_for) (auto intro!: touches_intros simp: cfg_files_def)

lemma touches_ensure: "touches (cfg_files cfg) (ensure_initdata L cfg)"
proof -
  have "touches (cfg_files cfg) (generateDummyInitdata L cfg)"
    unfolding generateDummyInitdata_def by (intro touches_intros) (simp_all add: cfg_files_def)
  then show ?thesis by (auto simp: touches_def ensure_initdata_def split: sum.splits os_error.splits)
qed

lemma touches_extract: "touches (cfg_files cfg) (extractInitdataAndHash L cfg)"
proof -
  have "touches (cfg_files cfg) (write_initdata_files cfg data)" for data
    unfolding write_initdata_files_def by (rule touches_for) (auto intro!: touches_intros simp: cfg_files_def Let_def)
  then show ?thesis
    unfolding extractInitdataAndHash_def by (intro touches_intros touches_ensure) (simp_all add: cfg_files_def)
qed

definition retry_ok :: "'w vm_env \<Rightarrow> bool" where
  \<comment> \<open>the loop runs its function any number of times and returns what the last call returned, or an error of its own;
      a function that succeeds at once is not run again\<close>
  "retry_ok E \<longleftrightarrow>
     (\<forall>m s. (\<forall>s. fst (snd (m s)) = fst s) \<longrightarrow> fst (snd (retry_Do E m s)) = fst s) \<and>
     (\<forall>m s x s'. m s = (Inr x, s') \<longrightarrow> retry_Do E m s = (Inr x, s'))"

lemma GetUserData_os: "fst (snd (GetUserData E p s)) = fst s"
  by (cases s) (auto simp: GetUserData_def on_snd_def wrap_io_def split: UserDataProvider.splits prod.splits)

lemma retrieve_os: "retry_ok E \<Longrightarrow> fst (snd (retrieveCloudConfig E p s)) = fst s"
proof -
  assume "retry_ok E"
  moreover have "fst (snd (bind_io (GetUserData E p) (\<lambda>ud. query (\<lambda>_. parseUserData E ud)) s)) = fst s" for s
    using GetUserData_os[of E p s] by (auto simp: bind_io_def split: prod.splits sum.splits)
  ultimately show ?thesis unfolding retrieveCloudConfig_def retry_ok_def by blast
qed

lemma newProvider_os: "fst (snd (newProvider E s)) = fst s"
  by (cases s) (simp add: newProvider_def split: prod.splits bool.splits)

lemma touches_on_fst: "touches P m \<Longrightarrow> on_fst m s = (r, s') \<Longrightarrow> q \<notin> P \<Longrightarrow> os_files (fst s') q = os_files (fst s) q"
  by (cases s) (auto simp: on_fst_def touches_def split: prod.splits, metis snd_conv)

text \<open>C23: Whatever the user data and the initdata of an instance contain, provisioning the pod VM changes no file
  outside its configured lists, apart from the initdata and digest files and the directories of these files.  In
  particular a key of the initdata such as \<open>../../etc/passwd\<close> writes nothing.\<close>

theorem provision_confined:
  assumes "retry_ok E" and "ProvisionFiles E cfg (os, w) = (r, (os', w'))" and q: "q \<notin> cfg_files cfg"
  shows "os_files os' q = os_files os q"
proof -
  obtain p s1 where n: "newProvider E (os, w) = (p, s1)" by (meson surj_pair)
  then have s1: "fst s1 = os" using newProvider_os[of E "(os, w)"] by simp
  show ?thesis
  proof (cases p)
    case (Inl e)
    then have "on_fst (extractInitdataAndHash (vm_initdata E) cfg) s1 = (r, (os', w'))"
      using assms(2) n by (simp add: ProvisionFiles_def)
    then show ?thesis using touches_on_fst[OF touches_extract _ q] s1 by fastforce
  next
    case (Inr p)
    obtain c s2 where rt: "retrieveCloudConfig E p s1 = (c, s2)" by (meson surj_pair)
    then have s2: "fst s2 = os" using retrieve_os[OF assms(1), of p s1] s1 by simp
    show ?thesis
    proof (cases c)
      case (Inl e)
      then show ?thesis using assms(2) n Inr rt s2 by (auto simp: ProvisionFiles_def bind_io_def)
    next
      case c: (Inr cc)
      obtain r3 s3 where pc: "on_fst (processCloudConfig cfg cc) s2 = (r3, s3)" by (meson surj_pair)
      have s3: "os_files (fst s3) q = os_files os q" using touches_on_fst[OF touches_cloud_config pc q] s2 by simp
      have "then_io (on_fst (processCloudConfig cfg cc)) (on_fst (extractInitdataAndHash (vm_initdata E) cfg)) s2 = (r, (os', w'))"
        using assms(2) n Inr rt c by (simp add: ProvisionFiles_def bind_io_def)
      then have "(os', w') = s3 \<or> on_fst (extractInitdataAndHash (vm_initdata E) cfg) s3 = (r, (os', w'))"
        using pc by (auto simp: then_io_def bind_io_def split: sum.splits)
      then show ?thesis using s3 touches_on_fst[OF touches_extract _ q, where s = s3] by fastforce
    qed
  qed
qed

section \<open>What ends up in the files\<close>

definition has_content :: "os_state \<Rightarrow> string \<Rightarrow> string \<Rightarrow> bool" where
  "has_content os p c \<longleftrightarrow> (\<exists>f. os_files os p = Some f \<and> f_content f = c)"

definition write_allowed :: "string list \<Rightarrow> string \<times> string \<Rightarrow> (os_state, prov_error, unit) io" where
  "write_allowed l = (\<lambda>(p, c). if p \<in> set l then writeFile p c else ret ())"

lemma for_io_map: "for_io f (map g xs) = for_io (\<lambda>x. f (g x)) xs"
  by (induction xs) simp_all

lemma processCloudConfig_alt:
  "processCloudConfig cfg cc = for_io (write_allowed (writeFiles cfg)) (map (\<lambda>wf. (wf_Path wf, wf_Content wf)) (cc_WriteFiles cc))"
  unfolding processCloudConfig_def for_io_map by (simp add: write_allowed_def)

lemma write_initdata_files_alt:
  "write_initdata_files cfg data =
     for_io (write_allowed (initdataFiles cfg)) (map (\<lambda>(key, v). (Join_path [parentPath cfg, key], v)) data)"
  unfolding write_initdata_files_def for_io_map
  by (rule arg_cong[of _ _ "\<lambda>f. for_io f data"]) (auto simp: write_allowed_def Let_def fun_eq_iff)

lemma writeFile_content: "writeFile p c os = (Inr (), os') \<Longrightarrow> has_content os' p c"
  by (auto simp: writeFile_def io_iffs has_content_def GoOs.WriteFile_def split: if_splits)

lemma writeFile_keeps: "writeFile p c os = (r, os') \<Longrightarrow> has_content os q d \<Longrightarrow> q \<noteq> p \<Longrightarrow> has_content os' q d"
  by (auto simp: writeFile_def then_io_def bind_io_def wrap_io_def MkdirAll_def GoOs.WriteFile_def has_content_def
      split: prod.splits sum.splits if_splits option.splits)

lemma write_allowed_content:
  assumes "for_io (write_allowed l) xs os = (Inr (), os')" and "p \<in> set l"
    and "\<forall>d. (p, d) \<in> set xs \<longrightarrow> d = c" and "(p, c) \<in> set xs \<or> has_content os p c"
  shows "has_content os' p c"
  using assms
proof (induction xs arbitrary: os)
  case (Cons x xs)
  obtain p1 c1 where x: "x = (p1, c1)" by fastforce
  from Cons.prems(1) obtain os1 where 1: "write_allowed l x os = (Inr (), os1)" and 2: "for_io (write_allowed l) xs os1 = (Inr (), os')"
    by (auto simp: io_iffs)
  have "(p, c) \<in> set xs \<or> has_content os1 p c"
  proof (cases "p1 = p")
    case True
    then have "c1 = c" using Cons.prems(3) x by simp
    then show ?thesis using 1 True x Cons.prems(2) writeFile_content by (simp add: write_allowed_def)
  next
    case False
    then show ?thesis using Cons.prems(4) 1 x writeFile_keeps[of p1 c1 os _ os1 p c] by (auto simp: write_allowed_def split: if_splits)
  qed
  with Cons.IH[OF 2 Cons.prems(2)] Cons.prems(3) show ?case by auto
qed auto

lemma extract_content:
  assumes "extractInitdataAndHash L cfg os = (Inr (), os')" and "has_content os (initdataPath cfg) c" and "digestPath cfg \<notin> set (initdataFiles cfg)"
  shows "\<exists>d. Parse L c = Inr d \<and> has_content os' (digestPath cfg) (Digest d) \<and>
    (\<forall>p v. p \<in> set (initdataFiles cfg) \<longrightarrow> (\<exists>k. (k, v) \<in> set (Data (Body d)) \<and> Join_path [parentPath cfg, k] = p) \<longrightarrow>
       (\<forall>k v'. (k, v') \<in> set (Data (Body d)) \<longrightarrow> Join_path [parentPath cfg, k] = p \<longrightarrow> v' = v) \<longrightarrow> has_content os' p v)"
proof -
  obtain f where f: "os_files os (initdataPath cfg) = Some f" "f_content f = c" using assms(2) by (auto simp: has_content_def)
  from assms(1) obtain os1 content d os2 where
    e: "ensure_initdata L cfg os = (Inr (), os1)" and c: "Open os1 (initdataPath cfg) = Inr content" and d: "Parse L content = Inr d"
    and w: "write_initdata_files cfg (Data (Body d)) os1 = (Inr (), os2)" and g: "writeFile (digestPath cfg) (Digest d) os2 = (Inr (), os')"
    by (auto simp: extractInitdataAndHash_def io_iffs)
  have os1: "os1 = os" using e f by (auto simp: ensure_initdata_def Stat_def split: if_splits)
  then have content: "content = c" using c f by (auto simp: Open_def split: if_splits)
  have pol: "has_content os' p v" if p: "p \<in> set (initdataFiles cfg)" and k: "(k, v) \<in> set (Data (Body d))" "Join_path [parentPath cfg, k] = p"
    and u: "\<forall>k v'. (k, v') \<in> set (Data (Body d)) \<longrightarrow> Join_path [parentPath cfg, k] = p \<longrightarrow> v' = v" for p v k
  proof -
    have "(p, v) \<in> set (map (\<lambda>(key, v). (Join_path [parentPath cfg, key], v)) (Data (Body d)))" using k by force
    moreover have "\<forall>d'. (p, d') \<in> set (map (\<lambda>(key, v). (Join_path [parentPath cfg, key], v)) (Data (Body d))) \<longrightarrow> d' = v" using u by auto
    ultimately have "has_content os2 p v" using write_allowed_content[OF w[unfolded write_initdata_files_alt] p] by blast
    moreover have "p \<noteq> digestPath cfg" using p assms(3) by auto
    ultimately show ?thesis using writeFile_keeps[OF g] by blast
  qed
  show ?thesis
  proof (intro exI[of _ d] conjI allI impI)
    show "Parse L c = Inr d" using d content by simp
    show "has_content os' (digestPath cfg) (Digest d)" by (rule writeFile_content[OF g])
  qed (use pol in blast)
qed

section \<open>A VM with a user data file\<close>

definition no_faults :: "os_state \<Rightarrow> bool" where
  "no_faults os \<longleftrightarrow> os_fault os = (\<lambda>_ _. False)"

lemma writeFile_no_faults: "no_faults os \<Longrightarrow> \<exists>os'. writeFile p c os = (Inr (), os') \<and> no_faults os'"
  by (auto simp: writeFile_def then_io_def bind_io_def wrap_io_def MkdirAll_def GoOs.WriteFile_def no_faults_def split: option.splits)

lemma write_allowed_no_faults: "no_faults os \<Longrightarrow> \<exists>os'. for_io (write_allowed l) xs os = (Inr (), os') \<and> no_faults os'"
proof (induction xs arbitrary: os)
  case (Cons x xs)
  obtain os1 where "write_allowed l x os = (Inr (), os1)" "no_faults os1"
    using writeFile_no_faults[OF Cons.prems, of "fst x" "snd x"] Cons.prems that by (cases "fst x \<in> set l") (auto simp: write_allowed_def split_def)
  with Cons.IH[of os1] show ?case by (auto simp: then_io_def bind_io_def)
qed simp

lemma extract_no_faults:
  assumes "no_faults os" "has_content os (initdataPath cfg) c" "Parse L c = Inr d"
  shows "\<exists>os'. extractInitdataAndHash L cfg os = (Inr (), os')"
proof -
  obtain f where f: "os_files os (initdataPath cfg) = Some f" "f_content f = c" using assms(2) by (auto simp: has_content_def)
  have e: "ensure_initdata L cfg os = (Inr (), os)" "Open os (initdataPath cfg) = Inr c"
    using assms(1) f by (simp_all add: ensure_initdata_def Stat_def Open_def no_faults_def)
  obtain os2 where w: "write_initdata_files cfg (Data (Body d)) os = (Inr (), os2)" "no_faults os2"
    using write_allowed_no_faults[OF assms(1)] unfolding write_initdata_files_alt by blast
  obtain os' where "writeFile (digestPath cfg) (Digest d) os2 = (Inr (), os')" using writeFile_no_faults[OF w(2)] by blast
  with e w assms(3) show ?thesis
    by (simp add: extractInitdataAndHash_def then_io_def bind_io_def wrap_io_def)
qed

definition file_vm :: "unit vm_env" where
  \<comment> \<open>its YAML parser reads cloud-configs line by line\<close>
  "file_vm = \<lparr>cpu_vendor = OtherVendor, dmi_Manufacturer = Inl ''no table'', http_NewRequest = (\<lambda>_. None),
     http_Do = (\<lambda>_ _ w. (Inl ''unreachable'', w)),
     yaml_UnmarshalStrict = (\<lambda>t. Inr \<lparr>cc_WriteFiles = map (\<lambda>(p, ls). \<lparr>wf_Path = p, wf_Content = concat (map (\<lambda>l. l @ [NL]) ls)\<rparr>)
       (read_files (Split t NL))\<rparr>),
     retry_Do = (\<lambda>m. m), vm_initdata = demo_initdata\<rparr>"

definition vm_os :: "string \<Rightarrow> os_state" where
  "vm_os userdata = \<lparr>os_env = (\<lambda>_. []), os_files = [UserDataPath \<mapsto> \<lparr>f_mode = 0, f_content = userdata\<rparr>,
     ''/etc/passwd'' \<mapsto> \<lparr>f_mode = 0, f_content = ''nobody''\<rparr>], os_fault = (\<lambda>_ _. False)\<rparr>"

lemma file_vm_ok: "retry_ok file_vm"
  by (simp add: retry_ok_def file_vm_def)

lemma file_vm_user_data:
  "newProvider file_vm (vm_os u, ()) = (Inr FileUserDataProvider, (vm_os u, ()))"
  "GetUserData file_vm FileUserDataProvider (vm_os u, ()) = (Inr u, (vm_os u, ()))"
  by (simp_all add: newProvider_def hasUserDataFile_def vm_os_def Stat_def GetUserData_def wrap_io_def ReadFile_def UserDataPath_def)

lemma etc_passwd: "''/etc/passwd'' \<notin> cfg_files (NewConfig t)"
  by (simp add: cfg_files_def NewConfig_def WriteFilesList_def InitdDataFilesList_def AACfgPath_def CDHCfgPath_def ForwarderCfgPath_def
      AuthFilePath_def InitDataPath_def ScratchSpacePath_def PolicyPath_def DigestPath_def Dir_def Clean_def Let_def)

theorem provision_confined_witness:
  "''/etc/passwd'' \<notin> cfg_files (NewConfig 180) \<and>
   (\<exists>os' r. ProvisionFiles file_vm (NewConfig 180) (vm_os ''#cloud-config'', ()) = (r, (os', ())) \<and> has_content os' ''/etc/passwd'' ''nobody'')"
proof -
  obtain r st where st: "ProvisionFiles file_vm (NewConfig 180) (vm_os ''#cloud-config'', ()) = (r, st)" by (meson surj_pair)
  obtain os' where "st = (os', ())" by (cases st) auto
  with st have r: "ProvisionFiles file_vm (NewConfig 180) (vm_os ''#cloud-config'', ()) = (r, (os', ()))" by simp
  from provision_confined[OF file_vm_ok r etc_passwd] have "os_files os' ''/etc/passwd'' = os_files (vm_os ''#cloud-config'') ''/etc/passwd''" .
  then have "has_content os' ''/etc/passwd'' ''nobody''" by (simp add: has_content_def vm_os_def UserDataPath_def)
  then show ?thesis using r etc_passwd by blast
qed

end
