(* ===== verification/ProvisionProps.thy ===== *)
theory ProvisionProps
  imports Provision CloudServiceProps
begin

text \<open>
  The cloud service on the worker node and the provisioning inside the pod VM together: what arrives in the files of
  the VM is what the cloud service put into the user data.  \<open>yaml_ok\<close> states what the YAML parser makes of a cloud-config
  whose paths and contents need no quoting: a literal block ends with a line break.
\<close>

section \<open>The YAML parser on generated cloud-configs\<close>

definition block :: "string \<Rightarrow> string" where
  "block c = concat (map (\<lambda>l. l @ [NL]) (splitLines c))"

definition plain_text :: "string \<Rightarrow> bool" where
  \<comment> \<open>printable, the first line not indented, no blank line at the end\<close>
  "plain_text c \<longleftrightarrow> c \<noteq> [] \<and> list_all (\<lambda>x. x = NL \<or> 32 \<le> (of_char x :: nat) \<and> (of_char x :: nat) < 127) c \<and>
     hd c \<noteq> CHR '' '' \<and> hd c \<noteq> NL \<and> last (splitLines c) \<noteq> []"

definition plain_path :: "string \<Rightarrow> bool" where
  "plain_path p \<longleftrightarrow> HasPrefix p ''/'' \<and>
     list_all (\<lambda>x. is_digit x \<or> 97 \<le> (of_char (lower_char x) :: nat) \<and> (of_char (lower_char x) :: nat) \<le> 122 \<or> x \<in> set ''/._-'') p"

definition plain_file :: "CloudInit.WriteFile \<Rightarrow> bool" where
  "plain_file f \<longleftrightarrow> plain_path (Path f) \<and> Owner f = [] \<and> Permissions f = [] \<and> Encoding f = [] \<and> Append f = [] \<and>
     (Content f = [] \<or> plain_text (Content f))"

definition yaml_ok :: "'w vm_env \<Rightarrow> bool" where
  "yaml_ok V \<longleftrightarrow> (\<forall>config. list_all plain_file (WriteFiles config) \<longrightarrow>
     yaml_UnmarshalStrict V (Generate config) =
       Inr \<lparr>cc_WriteFiles = map (\<lambda>f. \<lparr>wf_Path = Path f, wf_Content = block (Content f)\<rparr>) (WriteFiles config)\<rparr>)"

lemma NL_of_char: "of_char NL = (10 :: nat)"
  by (simp add: NL_def)

lemma splitLines_b64: "i \<noteq> [] \<Longrightarrow> NL \<notin> set i \<Longrightarrow> block i = i @ [NL]"
  by (simp add: block_def splitLines_def Split_no_sep)

lemma b64_no_NL: "NL \<notin> set (b64_Encode s)"
proof
  assume "NL \<in> set (b64_Encode s)"
  then have "NL = CHR ''='' \<or> NL \<in> set b64_alphabet" by (rule b64_Encode_chars)
  then show False using b64_alphabet_facts(4) NL_of_char by (auto simp: NL_def)
qed

lemma b64_Decode_NL: "b64_Decode (s @ [NL]) = b64_Decode s"
  by (simp add: b64_Decode_def NL_of_char)

lemma Parse_NL: "Parse L (s @ [NL]) = Parse L s"
  by (simp add: Parse_def decode_def b64_Decode_NL)

lemma Parse_Encode:
  assumes "gzip_ok L" "Encode L s = Inr e" "Parse L e = Inr d"
  shows "toml_Unmarshal L s = Inr (Body d)" "digest L (Algorithm (Body d)) s = Inr (Digest d)"
  using assms(3) decode_Encode[OF assms(1,2)] by (auto simp: Parse_def bind_result_Inr_iff map_error_Inr_iff)

section \<open>From the annotation to the digest\<close>

lemma provision_user_data:
  assumes "retry_ok V" "yaml_ok V" and f: "list_all plain_file (WriteFiles config)"
    and n: "newProvider V (os, w) = (Inr p, s1)" and g: "GetUserData V p s1 = (Inr (Generate config), s2)"
    and r: "ProvisionFiles V cfg (os, w) = (Inr (), (os', w'))"
  shows "\<exists>os1 os2. for_io (write_allowed (writeFiles cfg)) (map (\<lambda>f. (Path f, block (Content f))) (WriteFiles config)) os1 = (Inr (), os2) \<and>
    extractInitdataAndHash (vm_initdata V) cfg os2 = (Inr (), os')"
proof -
  let ?cc = "\<lparr>cc_WriteFiles = map (\<lambda>f. \<lparr>wf_Path = Path f, wf_Content = block (Content f)\<rparr>) (WriteFiles config)\<rparr>"
  have "bind_io (GetUserData V p) (\<lambda>ud. query (\<lambda>_. parseUserData V ud)) s1 = (Inr ?cc, s2)"
    using g f assms(2) by (simp add: bind_io_def parseUserData_def yaml_ok_def)
  then have "retrieveCloudConfig V p s1 = (Inr ?cc, s2)"
    using assms(1) unfolding retrieveCloudConfig_def retry_ok_def by blast
  then have "then_io (on_fst (processCloudConfig cfg ?cc)) (on_fst (extractInitdataAndHash (vm_initdata V) cfg)) s2 = (Inr (), (os', w'))"
    using r n by (simp add: ProvisionFiles_def bind_io_def)
  then show ?thesis
    by (cases s2) (auto simp: io_iffs on_fst_def processCloudConfig_alt comp_def split: prod.splits)
qed


lemma file_vm_yaml: "yaml_ok file_vm"
proof -
  have "read_files (Split (Generate config) NL) = map (\<lambda>f. (Path f, splitLines (Content f))) (WriteFiles config)"
    if "list_all plain_file (WriteFiles config)" for config
  proof (rule Generate_read)
    have "x \<noteq> NL" if "is_digit x \<or> 97 \<le> (of_char (lower_char x) :: nat) \<and> (of_char (lower_char x) :: nat) \<le> 122 \<or> x \<in> set ''/._-''" for x
      using that by (auto simp: NL_def is_digit_def lower_char_def)
    then show "\<forall>f\<in>set (WriteFiles config). single_line f"
      using that by (fastforce simp: list_all_iff plain_file_def plain_path_def single_line_def)
  qed
  then show ?thesis by (simp add: yaml_ok_def file_vm_def block_def comp_def)
qed

lemma demo_gzip: "gzip_ok (env_initdata list_env)" "\<forall>t z. gzip_compress (env_initdata list_env) t = Inr z \<longrightarrow> z \<noteq> []"
  by (auto simp: gzip_ok_def list_env_def demo_initdata_def)

lemma demo_enc: "Encode demo_initdata ''algorithm = sha256'' = Inr (b64_Encode ''gzalgorithm = sha256'')"
  by (simp add: Encode_def demo_initdata_def del: b64_Encode.simps)

lemma demo_vm_files:
  assumes "CreateVM list_env demo_request demo_service = (Inr sock, s')" "map_of (sandboxes s') ''t'' = Some sb"
  shows "WriteFiles (cloudConfig sb) = vm_files demo_server ''json web'' None (b64_Encode ''gzalgorithm = sha256'')"
proof -
  have i: "GetInitdataFromAnnotation (env_initdata list_env) (req_Annotations demo_request) = Inr (b64_Encode ''gzalgorithm = sha256'')"
    by (simp add: GetInitdataFromAnnotation_def demo_request_def go_get_def list_env_def demo_enc del: b64_Encode.simps)
  have k: "GetImagePullSecrets (env_kube list_env) p n w = Inl (ErrKubeClient ''no cluster'')" for p n w
    by (simp add: GetImagePullSecrets_def list_env_def list_kube_def)
  have m: "marshal_daemon list_env dc = Inr (''json '' @ dc_PodName dc)" for dc by (simp add: list_env_def)
  have r: "req_Id demo_request = ''t''" "serverConfig demo_service = demo_server" by (simp_all add: demo_request_def demo_service_def)
  show ?thesis using CreateVM_sandbox[OF assms(1)] assms(2) unfolding r i demo_pod m k by (auto simp del: b64_Encode.simps)
qed

lemma b64_plain:
  assumes "z \<noteq> []"
  shows "plain_text (b64_Encode z)"
proof -
  have ne: "b64_Encode z \<noteq> []" using assms b64_Decode_Encode[of z] by (auto simp: b64_Decode_def)
  have a: "\<forall>x\<in>set b64_alphabet. 32 < (of_char x :: nat) \<and> (of_char x :: nat) < 127" by (simp add: b64_alphabet_def)
  have p: "32 < (of_char x :: nat) \<and> (of_char x :: nat) < 127" if "x \<in> set (b64_Encode z)" for x
    using b64_Encode_chars[OF that] a by auto
  have "hd (b64_Encode z) \<in> set (b64_Encode z)" using ne by simp
  then have "hd (b64_Encode z) \<noteq> CHR '' ''" "hd (b64_Encode z) \<noteq> NL" using p by (fastforce simp: NL_def)+
  moreover have "splitLines (b64_Encode z) = [b64_Encode z]" using b64_no_NL ne by (simp add: splitLines_def Split_no_sep)
  ultimately show ?thesis using ne p by (auto simp: plain_text_def list_all_iff less_imp_le)
qed


end
