(* ===== verification/CsiVolume.thy ===== *)
theory CsiVolume
  imports GoIO GoOs
begin

text \<open>
  What the three services of the CSI wrapper share, \<open>src/src/csi-wrapper/pkg\<close>: the PeerpodVolume object
  (\<open>apis/peerpodvolume/v1alpha1/types.go\<close>), the normalisation of identifiers and the endpoints (\<open>utils\<close>), the redirection of a call
  to the wrapped CSI driver, and the identity service (\<open>wrapper/identityservice.go\<close>).

  A CSI call returns a response and an error, both of which may be nil: a pair of options.  A panic is an error of its
  own.  The API server with the PeerpodVolume objects, the driver behind its socket, the JSON codec of the CSI messages, Kata's
  table of direct volumes and the VM information service are the record \<open>csi_env\<close> over the world \<open>'w\<close>.  Messages that the
  wrapper only hands on are opaque strings.
\<close>

section \<open>PeerpodVolume objects\<close>

record PeerpodVolumeSpec =
  PodName :: string
  PodNamespace :: string
  PodUid :: string
  NodeID :: string
  NodeName :: string
  VolumeID :: string
  VolumeName :: string
  VMID :: string
  VMName :: string
  DevicePath :: string
  StagingTargetPath :: string
  TargetPath :: string
  WrapperControllerPublishVolumeReq :: string
  WrapperControllerPublishVolumeRes :: string
  WrapperNodeStageVolumeReq :: string
  WrapperNodePublishVolumeReq :: string
  WrapperNodeUnpublishVolumeReq :: string
  WrapperNodeUnstageVolumeReq :: string

record PeerpodVolume =
  ppv_Name :: string
  ppv_Namespace :: string
  ppv_ResourceVersion :: nat
  Labels :: "(string, string) go_map option"
  Spec :: PeerpodVolumeSpec
  State :: string

definition ControllerPublishVolumeCached :: string where "ControllerPublishVolumeCached = ''controllerPublishVolumeCached''"
definition NodeStageVolumeCached :: string where "NodeStageVolumeCached = ''nodeStageVolumeCached''"
definition NodePublishVolumeCached :: string where "NodePublishVolumeCached = ''nodePublishVolumeCached''"
definition NodeUnpublishVolumeCached :: string where "NodeUnpublishVolumeCached = ''nodeUnpublishVolumeCached''"
definition NodeUnstageVolumeCached :: string where "NodeUnstageVolumeCached = ''nodeUnstageVolumeCached''"
definition PeerPodVSIIDReady :: string where "PeerPodVSIIDReady = ''peerPodVSIIDReady''"
definition PeerPodVSIRunning :: string where "PeerPodVSIRunning = ''peerPodVSIRunning''"
definition ControllerPublishVolumeApplied :: string where "ControllerPublishVolumeApplied = ''controllerPublishVolumeApplied''"
definition NodeStageVolumeApplied :: string where "NodeStageVolumeApplied = ''nodeStageVolumeApplied''"
definition NodePublishVolumeApplied :: string where "NodePublishVolumeApplied = ''nodePublishVolumeApplied''"
definition NodeUnpublishVolumeApplied :: string where "NodeUnpublishVolumeApplied = ''nodeUnpublishVolumeApplied''"
definition NodeUnstageVolumeApplied :: string where "NodeUnstageVolumeApplied = ''nodeUnstageVolumeApplied''"

definition empty_spec :: PeerpodVolumeSpec where
  "empty_spec = \<lparr>PodName = [], PodNamespace = [], PodUid = [], NodeID = [], NodeName = [], VolumeID = [], VolumeName = [], VMID = [], VMName = [],
     DevicePath = [], StagingTargetPath = [], TargetPath = [], WrapperControllerPublishVolumeReq = [], WrapperControllerPublishVolumeRes = [],
     WrapperNodeStageVolumeReq = [], WrapperNodePublishVolumeReq = [], WrapperNodeUnpublishVolumeReq = [], WrapperNodeUnstageVolumeReq = []\<rparr>"

definition empty_ppv :: PeerpodVolume where
  \<comment> \<open>what the generated client returns together with an error\<close>
  "empty_ppv = \<lparr>ppv_Name = [], ppv_Namespace = [], ppv_ResourceVersion = 0, Labels = None, Spec = empty_spec, State = []\<rparr>"

section \<open>Messages and environment\<close>

record CreateVolumeRequest =
  cv_Name :: string
  cv_Parameters :: "(string, string) go_map"
  cv_rest :: string

record CreateVolumeResponse =
  cvr_VolumeId :: "string option"
  cvr_rest :: string

record DeleteVolumeRequest =
  dv_VolumeId :: string
  dv_rest :: string

record ControllerPublishVolumeRequest =
  cpv_VolumeId :: string
  cpv_NodeId :: string
  cpv_VolumeContext :: "(string, string) go_map"
  cpv_rest :: string

record ControllerPublishVolumeResponse =
  PublishContext :: "(string, string) go_map"

record ControllerUnpublishVolumeRequest =
  cuv_VolumeId :: string
  cuv_NodeId :: string
  cuv_rest :: string

record NodeVolumeRequest =
  \<comment> \<open>the fields that the wrapper reads of the stage, unstage, publish and unpublish requests\<close>
  nv_VolumeId :: string
  nv_StagingTargetPath :: string
  nv_TargetPath :: string
  nv_PublishContext :: "(string, string) go_map"
  nv_rest :: string

datatype csi_error = DriverError string | DialError string | KubeError k8s_error | VolumeNameMismatch | NilPanic | IndexPanic | NilMapPanic | FatalExit string

type_synonym 'res csi_result = "'res option \<times> csi_error option"

datatype node_method = NodeStage | NodeUnstage | NodePublish | NodeUnpublish

record 'w csi_env =
  ppv_Get :: "string \<Rightarrow> string \<Rightarrow> 'w \<Rightarrow> k8s_error + PeerpodVolume"
  ppv_Create :: "string \<Rightarrow> PeerpodVolume \<Rightarrow> ('w, k8s_error, PeerpodVolume) io"
  ppv_Update :: "string \<Rightarrow> PeerpodVolume \<Rightarrow> ('w, k8s_error, PeerpodVolume) io"
  ppv_UpdateStatus :: "string \<Rightarrow> PeerpodVolume \<Rightarrow> ('w, k8s_error, PeerpodVolume) io"
  ppv_Delete :: "string \<Rightarrow> string \<Rightarrow> 'w \<Rightarrow> k8s_error option \<times> 'w"
  ppv_List :: "string \<Rightarrow> string \<times> string \<Rightarrow> 'w \<Rightarrow> k8s_error + PeerpodVolume list"
  grpc_Dial :: "string \<Rightarrow> 'w \<Rightarrow> string option \<times> 'w"
  drv_CreateVolume :: "CreateVolumeRequest \<Rightarrow> ('w, string, CreateVolumeResponse) io"
  drv_DeleteVolume :: "DeleteVolumeRequest \<Rightarrow> ('w, string, string) io"
  drv_ControllerPublish :: "ControllerPublishVolumeRequest \<Rightarrow> ('w, string, ControllerPublishVolumeResponse) io"
  drv_ControllerUnpublish :: "ControllerUnpublishVolumeRequest \<Rightarrow> ('w, string, string) io"
  drv_Node :: "node_method \<Rightarrow> NodeVolumeRequest \<Rightarrow> ('w, string, string) io"
  drv_Other :: "string \<Rightarrow> string \<Rightarrow> ('w, string, string) io"
    \<comment> \<open>any other method of the driver, by its name\<close>
  uuid_NewV4 :: "'w \<Rightarrow> string \<times> 'w"
  json_ControllerPublish :: "ControllerPublishVolumeRequest \<Rightarrow> string"
  unjson_ControllerPublish :: "string \<Rightarrow> string + ControllerPublishVolumeRequest"
  json_ControllerPublishRes :: "ControllerPublishVolumeResponse \<Rightarrow> string"
  unjson_ControllerPublishRes :: "string \<Rightarrow> string + ControllerPublishVolumeResponse"
  json_Node :: "node_method \<Rightarrow> NodeVolumeRequest \<Rightarrow> string"
  unjson_Node :: "node_method \<Rightarrow> string \<Rightarrow> string + NodeVolumeRequest"
  kata_Add :: "string \<Rightarrow> string \<Rightarrow> 'w \<Rightarrow> string option \<times> 'w"
  kata_Remove :: "string \<Rightarrow> 'w \<Rightarrow> string option \<times> 'w"
  vminfo_GetInfo :: "string \<Rightarrow> string \<times> string \<times> bool \<Rightarrow> 'w \<Rightarrow> (string + string) \<times> 'w"
  net_Dial_unix :: "string \<Rightarrow> 'w \<Rightarrow> string option \<times> 'w"
  net_Listen :: "string \<Rightarrow> string \<Rightarrow> ('w, string, nat) io"

section \<open>Identifiers and endpoints\<close>

definition NormalizeVolumeID :: "string \<Rightarrow> string" where
  "NormalizeVolumeID volumeID = Base (ReplaceAll (ReplaceAll volumeID ''###'' ''.'') ''#'' ''.'')"

definition NormalizeVMID :: "string \<Rightarrow> string" where
  "NormalizeVMID vmID = last (Split vmID (CHR ''/''))"

definition Parse_endpoint :: "string \<Rightarrow> string + string \<times> string" where
  "Parse_endpoint ep =
     (if HasPrefix (ToLower ep) ''unix://'' \<or> HasPrefix (ToLower ep) ''tcp://''
      then (case Cut ep ''://'' of
              Some (proto, addr) \<Rightarrow> if addr \<noteq> [] then Inr (proto, addr) else Inl ep
            | None \<Rightarrow> Inl ep)
      else Inr (''unix'', ep))"

datatype listen_error = BadEndpoint string | RemoveFailed os_error | ListenFailed string

definition Listen :: "'w csi_env \<Rightarrow> string \<Rightarrow> (os_state \<times> 'w, listen_error, nat \<times> string option) io" where
  \<comment> \<open>the listener and the socket that the cleanup function removes\<close>
  "Listen E endpoint =
     bind_io (query (\<lambda>_. map_error BadEndpoint (Parse_endpoint endpoint))) (\<lambda>(proto, addr).
       (if proto = ''unix''
        then (\<lambda>(os, w).
                (case Remove os (''/'' @ addr) of
                   (Inl (ErrOs p q), os) \<Rightarrow> (Inl (RemoveFailed (ErrOs p q)), (os, w))
                 | (_, os) \<Rightarrow>
                     wrap_io ListenFailed (bind_io (on_snd (net_Listen E proto (''/'' @ addr))) (\<lambda>l. ret (l, Some (''/'' @ addr)))) (os, w)))
        else wrap_io ListenFailed (bind_io (on_snd (net_Listen E proto addr)) (\<lambda>l. ret (l, None)))))"

section \<open>Redirection to the driver\<close>

definition redirect :: "'w csi_env \<Rightarrow> string \<Rightarrow> ('w \<Rightarrow> 'a \<times> 'w) \<Rightarrow> ('w, csi_error, 'a) io" where
  \<comment> \<open>the function gets a client on the connection\<close>
  "redirect E endpoint fn w =
     (case grpc_Dial E endpoint w of
        (Some e, w) \<Rightarrow> (Inl (DialError e), w)
      | (None, w) \<Rightarrow> (case fn w of (x, w) \<Rightarrow> (Inr x, w)))"

definition forward :: "'w csi_env \<Rightarrow> string \<Rightarrow> ('w, string, 'res) io \<Rightarrow> 'w \<Rightarrow> 'res csi_result \<times> 'w" where
  \<comment> \<open>the methods whose closure only assigns the response and the error of the client\<close>
  "forward E endpoint call w =
     (case redirect E endpoint call w of
        (Inl e, w) \<Rightarrow> ((None, Some e), w)
      | (Inr (Inl e), w) \<Rightarrow> ((None, Some (DriverError e)), w)
      | (Inr (Inr res), w) \<Rightarrow> ((Some res, None), w))"

record IdentityService =
  id_TargetEndpoint :: string

definition NewIdentityService :: "string \<Rightarrow> IdentityService" where
  "NewIdentityService targetEndpoint = \<lparr>id_TargetEndpoint = ''unix://'' @ targetEndpoint\<rparr>"

definition GetPluginInfo :: "'w csi_env \<Rightarrow> IdentityService \<Rightarrow> string \<Rightarrow> 'w \<Rightarrow> string csi_result \<times> 'w" where
  "GetPluginInfo E s req = forward E (id_TargetEndpoint s) (drv_Other E ''GetPluginInfo'' req)"

definition Probe :: "'w csi_env \<Rightarrow> IdentityService \<Rightarrow> string \<Rightarrow> 'w \<Rightarrow> string csi_result \<times> 'w" where
  "Probe E s req = forward E (id_TargetEndpoint s) (drv_Other E ''Probe'' req)"

definition GetPluginCapabilities :: "'w csi_env \<Rightarrow> IdentityService \<Rightarrow> string \<Rightarrow> 'w \<Rightarrow> string csi_result \<times> 'w" where
  "GetPluginCapabilities E s req = forward E (id_TargetEndpoint s) (drv_Other E ''GetPluginCapabilities'' req)"

end
