(* ===== verification/CsiController.thy ===== *)
theory CsiController
  imports CsiVolume
begin

text \<open>
  The controller service of the CSI wrapper, \<open>src/src/csi-wrapper/pkg/wrapper/controllerservice.go\<close>.  Attaching a volume of a peer pod is
  only recorded in its PeerpodVolume object, with a made-up answer for the worker node, and replayed with the identity of the
  pod VM once that is known.
\<close>

definition PeerpodParamKey :: string where "PeerpodParamKey = ''peerpod''"
definition peerpodVolumeNamePlaceholder :: string where "peerpodVolumeNamePlaceholder = ''peerpod-volume-name-placeholder''"
definition PublishInfoVolumeID :: string where "PublishInfoVolumeID = ''volume-id''"
definition PublishInfoNodeID :: string where "PublishInfoNodeID = ''node-id''"
definition PublishInfoStatus :: string where "PublishInfoStatus = ''attach-status''"
definition PublishInfoDevicePath :: string where "PublishInfoDevicePath = ''device-path''"
definition PublishInfoRequestID :: string where "PublishInfoRequestID = ''request-id''"

record ControllerService =
  TargetEndpoint :: string
  Namespace :: string

definition NewControllerService :: "string \<Rightarrow> string \<Rightarrow> ControllerService" where
  "NewControllerService targetEndpoint namespace = \<lparr>TargetEndpoint = ''unix://'' @ targetEndpoint, Namespace = namespace\<rparr>"

definition azureVM_match :: "string \<Rightarrow> bool" where
  \<comment> \<open>\<open>azureVMRegexp\<close>: a resource ID of a VM or of a VM of a scale set, without regard to case\<close>
  "azureVM_match v =
     (case Split v (CHR ''/'') of
        e # a # sub # b # grp # c # d # rest \<Rightarrow>
          e = [] \<and> EqualFold a ''subscriptions'' \<and> sub \<noteq> [] \<and> EqualFold b ''resourceGroups'' \<and> grp \<noteq> [] \<and>
          EqualFold c ''providers'' \<and> EqualFold d ''Microsoft.Compute'' \<and>
          (case rest of
             [k, n] \<Rightarrow> EqualFold k ''virtualMachines'' \<and> n \<noteq> []
           | [k, g, k', n] \<Rightarrow> EqualFold k ''virtualMachineScaleSets'' \<and> g \<noteq> [] \<and> EqualFold k' ''virtualMachines'' \<and> n \<noteq> []
           | _ \<Rightarrow> False)
      | _ \<Rightarrow> False)"

section \<open>Creation and deletion\<close>

definition createPeerpodVolume :: "'w csi_env \<Rightarrow> ControllerService \<Rightarrow> string \<Rightarrow> string \<Rightarrow> ('w, k8s_error, PeerpodVolume) io" where
  "createPeerpodVolume E s volumeID volumeName =
     ppv_Create E (Namespace s)
       \<lparr>ppv_Name = volumeID, ppv_Namespace = Namespace s, ppv_ResourceVersion = 0, Labels = Some [(''volumeName'', volumeName)],
        Spec = empty_spec\<lparr>VolumeID := volumeID, VolumeName := volumeName\<rparr>, State = []\<rparr>"

definition of_redirect :: "(csi_error + 'res csi_result) \<times> 'w \<Rightarrow> 'res csi_result \<times> 'w" where
  \<comment> \<open>\<open>if e := s.redirect(...); e != nil { return nil, e }; return\<close>\<close>
  "of_redirect r = (case r of (Inl e, w) \<Rightarrow> ((None, Some e), w) | (Inr x, w) \<Rightarrow> (x, w))"

definition CreateVolume :: "'w csi_env \<Rightarrow> ControllerService \<Rightarrow> CreateVolumeRequest \<Rightarrow> 'w \<Rightarrow> CreateVolumeResponse csi_result \<times> 'w" where
  "CreateVolume E s req w =
     of_redirect (redirect E (TargetEndpoint s) (\<lambda>w.
       (let peerpod = go_get [] (cv_Parameters req) PeerpodParamKey;
            req = (if peerpod \<noteq> [] then req\<lparr>cv_Parameters := AList.delete PeerpodParamKey (cv_Parameters req)\<rparr> else req)
        in case drv_CreateVolume E req w of
             (Inl e, w) \<Rightarrow> ((None, Some (if peerpod \<noteq> [] then NilPanic else DriverError e)), w)
           | (Inr res, w) \<Rightarrow>
               (if peerpod \<noteq> []
                then (case cvr_VolumeId res of
                        None \<Rightarrow> ((None, Some NilPanic), w)
                      | Some volumeID \<Rightarrow>
                          (case createPeerpodVolume E s (NormalizeVolumeID volumeID) (cv_Name req) w of (_, w) \<Rightarrow> ((Some res, None), w)))
                else ((Some res, None), w)))) w)"

definition DeleteVolume :: "'w csi_env \<Rightarrow> ControllerService \<Rightarrow> DeleteVolumeRequest \<Rightarrow> 'w \<Rightarrow> string csi_result \<times> 'w" where
  \<comment> \<open>the error of the driver is overwritten by that of the lookup\<close>
  "DeleteVolume E s req w =
     of_redirect (redirect E (TargetEndpoint s) (\<lambda>w.
       (case drv_DeleteVolume E req w of
          (r, w) \<Rightarrow>
            (let res = (case r of Inl _ \<Rightarrow> None | Inr x \<Rightarrow> Some x); volumeID = NormalizeVolumeID (dv_VolumeId req)
             in case ppv_Get E (Namespace s) volumeID w of
                  Inl e \<Rightarrow> ((res, Some (KubeError e)), w)
                | Inr _ \<Rightarrow> (case ppv_Delete E (Namespace s) volumeID w of (_, w) \<Rightarrow> ((res, None), w))))) w)"

section \<open>Attaching\<close>

definition set_label :: "string \<Rightarrow> string \<Rightarrow> PeerpodVolume \<Rightarrow> csi_error + PeerpodVolume" where
  \<comment> \<open>an assignment to a nil map panics\<close>
  "set_label k v p = (case Labels p of None \<Rightarrow> Inl NilMapPanic | Some m \<Rightarrow> Inr (p\<lparr>Labels := Some (AList.update k v m)\<rparr>))"

definition fake_context :: "string \<Rightarrow> string \<Rightarrow> (string, string) go_map" where
  "fake_context volumeID requestID =
     [(PublishInfoVolumeID, volumeID), (PublishInfoNodeID, []), (PublishInfoStatus, ''attached''), (PublishInfoDevicePath, ''/dev/fff''),
      (PublishInfoRequestID, requestID)]"

definition publish_cached :: "'w csi_env \<Rightarrow> ControllerService \<Rightarrow> ControllerPublishVolumeRequest \<Rightarrow> PeerpodVolume \<Rightarrow> 'w
    \<Rightarrow> ControllerPublishVolumeResponse csi_result \<times> 'w" where
  \<comment> \<open>the part of \<open>ControllerPublishVolume\<close> for a volume that has an object\<close>
  "publish_cached E s req saved w =
     (case uuid_NewV4 E w of
        (requestID, w) \<Rightarrow>
          (let volumeID = NormalizeVolumeID (cpv_VolumeId req);
               res = \<lparr>PublishContext = fake_context volumeID requestID\<rparr>
           in case set_label ''nodeID'' (cpv_NodeId req) saved of
                Inl e \<Rightarrow> ((None, Some e), w)
              | Inr saved \<Rightarrow>
                  (case ppv_Update E (Namespace s)
                          (saved\<lparr>Spec := (Spec saved)\<lparr>NodeID := cpv_NodeId req,
                             WrapperControllerPublishVolumeReq := json_ControllerPublish E req,
                             WrapperControllerPublishVolumeRes := json_ControllerPublishRes E res\<rparr>\<rparr>) w of
                     (Inl e, w) \<Rightarrow> ((Some res, Some (KubeError e)), w)
                   | (Inr saved, w) \<Rightarrow>
                       (case ppv_UpdateStatus E (Namespace s) (saved\<lparr>State := ControllerPublishVolumeCached\<rparr>) w of
                          (Inl e, w) \<Rightarrow> ((Some res, Some (KubeError e)), w)
                        | (Inr _, w) \<Rightarrow> ((Some res, None), w)))))"

definition ControllerPublishVolume :: "'w csi_env \<Rightarrow> ControllerService \<Rightarrow> ControllerPublishVolumeRequest \<Rightarrow> 'w
    \<Rightarrow> ControllerPublishVolumeResponse csi_result \<times> 'w" where
  "ControllerPublishVolume E s req w =
     (let volumeID = NormalizeVolumeID (cpv_VolumeId req)
      in case ppv_Get E (Namespace s) volumeID w of
           Inr saved \<Rightarrow> publish_cached E s req saved w
         | Inl _ \<Rightarrow>
             (let peerPod = go_get [] (cpv_VolumeContext req) PeerpodParamKey
              in case (if peerPod = [] then redirect E (TargetEndpoint s) (drv_ControllerPublish E req) w else (Inr (Inl []), w)) of
                   (Inl e, w) \<Rightarrow> ((None, Some e), w)
                 | (Inr _, w) \<Rightarrow>
                     (case createPeerpodVolume E s volumeID peerpodVolumeNamePlaceholder w of
                        (Inl e, w) \<Rightarrow> ((None, Some (KubeError e)), w)
                      | (Inr saved, w) \<Rightarrow>
                          publish_cached E s (req\<lparr>cpv_VolumeContext := AList.delete PeerpodParamKey (cpv_VolumeContext req)\<rparr>) saved w)))"

section \<open>Detaching\<close>

definition cleared :: "PeerpodVolume \<Rightarrow> PeerpodVolume" where
  "cleared p =
     p\<lparr>Labels := Some [(''volumeName'', VolumeName (Spec p))],
       Spec := (Spec p)\<lparr>NodeID := [], DevicePath := [], NodeName := [], PodName := [], PodNamespace := [], PodUid := [], StagingTargetPath := [],
         TargetPath := [], VMID := [], VMName := [], WrapperControllerPublishVolumeReq := [], WrapperControllerPublishVolumeRes := [],
         WrapperNodePublishVolumeReq := [], WrapperNodeStageVolumeReq := [], WrapperNodeUnpublishVolumeReq := [],
         WrapperNodeUnstageVolumeReq := []\<rparr>\<rparr>"

definition ControllerUnpublishVolume :: "'w csi_env \<Rightarrow> ControllerService \<Rightarrow> ControllerUnpublishVolumeRequest \<Rightarrow> 'w
    \<Rightarrow> string csi_result \<times> 'w" where
  "ControllerUnpublishVolume E s req w =
     (let volumeID = NormalizeVolumeID (cuv_VolumeId req)
      in case ppv_Get E (Namespace s) volumeID w of
           Inl _ \<Rightarrow> forward E (TargetEndpoint s) (drv_ControllerUnpublish E req) w
         | Inr saved \<Rightarrow>
             (let w = (if Contains_str (State saved) ''Applied''
                       then snd (redirect E (TargetEndpoint s) (drv_ControllerUnpublish E (req\<lparr>cuv_NodeId := VMID (Spec saved)\<rparr>)) w)
                       else w)
              in case ppv_Update E (Namespace s) (cleared saved) w of
                   (r, w) \<Rightarrow>
                     (let updated = (case r of Inl _ \<Rightarrow> empty_ppv | Inr u \<Rightarrow> u)
                      in case ppv_UpdateStatus E (Namespace s) (updated\<lparr>State := []\<rparr>) w of (_, w) \<Rightarrow> ((Some [], None), w))))"

section \<open>Replaying the attachment for the pod VM\<close>

definition vm_node_id :: "string \<Rightarrow> string" where
  "vm_node_id vsiID = (if azureVM_match vsiID then Base vsiID else vsiID)"

definition record_attached :: "'w csi_env \<Rightarrow> ControllerService \<Rightarrow> PeerpodVolume \<Rightarrow> ControllerPublishVolumeResponse \<Rightarrow> 'w \<Rightarrow> 'w" where
  \<comment> \<open>what \<open>SyncHandler\<close> does with the driver's answer\<close>
  "record_attached E s p response w =
     (case ppv_Update E (Namespace s)
             (p\<lparr>Spec := (Spec p)\<lparr>WrapperControllerPublishVolumeRes := json_ControllerPublishRes E response,
                DevicePath := go_get [] (PublishContext response) ''device-path''\<rparr>\<rparr>) w of
        (Inl _, w) \<Rightarrow> w
      | (Inr updated, w) \<Rightarrow> snd (ppv_UpdateStatus E (Namespace s) (updated\<lparr>State := ControllerPublishVolumeApplied\<rparr>) w))"

definition cs_SyncHandler :: "'w csi_env \<Rightarrow> ControllerService \<Rightarrow> PeerpodVolume \<Rightarrow> 'w \<Rightarrow> 'w" where
  "cs_SyncHandler E s p w =
     (if State p = PeerPodVSIIDReady \<and> DevicePath (Spec p) = []
      then (case unjson_ControllerPublish E (WrapperControllerPublishVolumeReq (Spec p)) of
              Inl _ \<Rightarrow> w
            | Inr modifiedRequest \<Rightarrow>
                snd (redirect E (TargetEndpoint s) (\<lambda>w.
                  (case drv_ControllerPublish E (modifiedRequest\<lparr>cpv_NodeId := vm_node_id (VMID (Spec p))\<rparr>) w of
                     (Inl _, w) \<Rightarrow> ((), w)
                   | (Inr response, w) \<Rightarrow> ((), record_attached E s p response w))) w))
      else w)"

section \<open>Calls handed on to the driver\<close>

definition ValidateVolumeCapabilities :: "'w csi_env \<Rightarrow> ControllerService \<Rightarrow> string \<Rightarrow> 'w \<Rightarrow> string csi_result \<times> 'w" where
  "ValidateVolumeCapabilities E s req = forward E (TargetEndpoint s) (drv_Other E ''ValidateVolumeCapabilities'' req)"

definition ListVolumes :: "'w csi_env \<Rightarrow> ControllerService \<Rightarrow> string \<Rightarrow> 'w \<Rightarrow> string csi_result \<times> 'w" where
  "ListVolumes E s req = forward E (TargetEndpoint s) (drv_Other E ''ListVolumes'' req)"

definition GetCapacity :: "'w csi_env \<Rightarrow> ControllerService \<Rightarrow> string \<Rightarrow> 'w \<Rightarrow> string csi_result \<times> 'w" where
  "GetCapacity E s req = forward E (TargetEndpoint s) (drv_Other E ''GetCapacity'' req)"

definition ControllerGetCapabilities :: "'w csi_env \<Rightarrow> ControllerService \<Rightarrow> string \<Rightarrow> 'w \<Rightarrow> string csi_result \<times> 'w" where
  "ControllerGetCapabilities E s req = forward E (TargetEndpoint s) (drv_Other E ''ControllerGetCapabilities'' req)"

definition CreateSnapshot :: "'w csi_env \<Rightarrow> ControllerService \<Rightarrow> string \<Rightarrow> 'w \<Rightarrow> string csi_result \<times> 'w" where
  "CreateSnapshot E s req = forward E (TargetEndpoint s) (drv_Other E ''CreateSnapshot'' req)"

definition DeleteSnapshot :: "'w csi_env \<Rightarrow> ControllerService \<Rightarrow> string \<Rightarrow> 'w \<Rightarrow> string csi_result \<times> 'w" where
  "DeleteSnapshot E s req = forward E (TargetEndpoint s) (drv_Other E ''DeleteSnapshot'' req)"

definition ListSnapshots :: "'w csi_env \<Rightarrow> ControllerService \<Rightarrow> string \<Rightarrow> 'w \<Rightarrow> string csi_result \<times> 'w" where
  "ListSnapshots E s req = forward E (TargetEndpoint s) (drv_Other E ''ListSnapshots'' req)"

definition ControllerExpandVolume :: "'w csi_env \<Rightarrow> ControllerService \<Rightarrow> string \<Rightarrow> 'w \<Rightarrow> string csi_result \<times> 'w" where
  "ControllerExpandVolume E s req = forward E (TargetEndpoint s) (drv_Other E ''ControllerExpandVolume'' req)"

definition ControllerGetVolume :: "'w csi_env \<Rightarrow> ControllerService \<Rightarrow> string \<Rightarrow> 'w \<Rightarrow> string csi_result \<times> 'w" where
  "ControllerGetVolume E s req = forward E (TargetEndpoint s) (drv_Other E ''ControllerGetVolume'' req)"

end
