(* ===== verification/CsiNode.thy ===== *)
theory CsiNode
  imports CsiController
begin

text \<open>
  The node service of the CSI wrapper on the worker node, \<open>src/src/csi-wrapper/pkg/wrapper/nodeservice.go\<close>: the requests of the
  kubelet for a volume of a peer pod are recorded in its PeerpodVolume object, and the identity of the pod VM is asked of the
  VM information service of the cloud API adaptor.
\<close>

definition DefaultKubeletLibDir :: string where "DefaultKubeletLibDir = ''/var/lib/kubelet''"
definition DefaultKubeletDataDir :: string where "DefaultKubeletDataDir = ''/var/data/kubelet''"
definition DefaultMountInfo :: string where
  "DefaultMountInfo = ''{'' @ [CHR 0x22] @ ''Device'' @ [CHR 0x22] @ '': '' @ [CHR 0x22] @ ''/dev/zero'' @ [CHR 0x22] @ '', '' @ [CHR 0x22] @
     ''fstype'' @ [CHR 0x22] @ '': '' @ [CHR 0x22] @ ''ext4'' @ [CHR 0x22] @ ''}''"

record NodeService =
  ns_TargetEndpoint :: string
  ns_Namespace :: string
  VMIDInformationEndpoint :: string

definition addKataDirectVolume :: "'w csi_env \<Rightarrow> string \<Rightarrow> 'w \<Rightarrow> 'w" where
  "addKataDirectVolume E volumePath w = snd (kata_Add E volumePath DefaultMountInfo w)"

definition removeKataDirectVolume :: "'w csi_env \<Rightarrow> string \<Rightarrow> 'w \<Rightarrow> 'w" where
  "removeKataDirectVolume E volumePath w = snd (kata_Remove E volumePath w)"

definition NewNodeService :: "'w csi_env \<Rightarrow> string \<Rightarrow> string \<Rightarrow> string \<Rightarrow> 'w \<Rightarrow> NodeService \<times> 'w" where
  "NewNodeService E targetEndpoint namespace vmIDInformationEndpoint w =
     (\<lparr>ns_TargetEndpoint = ''unix://'' @ targetEndpoint, ns_Namespace = namespace, VMIDInformationEndpoint = vmIDInformationEndpoint\<rparr>,
      addKataDirectVolume E DefaultKubeletDataDir (addKataDirectVolume E DefaultKubeletLibDir w))"

definition getPodUIDandVolumeName :: "string \<Rightarrow> csi_error + string \<times> string" where
  "getPodUIDandVolumeName targetPath =
     (let paths = Split targetPath (CHR ''/'')
      in if length paths \<le> 8 then Inl IndexPanic else Inr (paths ! 5, paths ! 8))"

section \<open>Publishing on the worker node\<close>

definition named_for_pod :: "string \<Rightarrow> PeerpodVolume \<Rightarrow> csi_error + PeerpodVolume" where
  \<comment> \<open>pod UID and volume name from the target path\<close>
  "named_for_pod targetPath saved =
     bind_result (getPodUIDandVolumeName targetPath) (\<lambda>(podUid, volumeName).
     bind_result (set_label ''podUid'' podUid (saved\<lparr>Spec := (Spec saved)\<lparr>TargetPath := targetPath\<rparr>\<rparr>)) (\<lambda>saved.
       (let saved = saved\<lparr>Spec := (Spec saved)\<lparr>PodUid := podUid\<rparr>\<rparr>; savedVolumeName = VolumeName (Spec saved)
        in if volumeName \<noteq> savedVolumeName \<and> savedVolumeName \<noteq> peerpodVolumeNamePlaceholder then Inl VolumeNameMismatch
           else if savedVolumeName = peerpodVolumeNamePlaceholder
           then bind_result (set_label ''volumeName'' volumeName saved)
                  (\<lambda>saved. Inr (saved\<lparr>Spec := (Spec saved)\<lparr>VolumeName := volumeName\<rparr>\<rparr>))
           else Inr saved)))"

definition cache_state :: "'w csi_env \<Rightarrow> string \<Rightarrow> string \<Rightarrow> string \<Rightarrow> PeerpodVolume \<Rightarrow> 'w \<Rightarrow> string csi_result \<times> 'w" where
  \<comment> \<open>stores the object, reads it again (the error of the read is dropped) and sets the state\<close>
  "cache_state E namespace volumeID st saved w =
     (case ppv_Update E namespace saved w of
        (Inl e, w) \<Rightarrow> ((None, Some (KubeError e)), w)
      | (Inr _, w) \<Rightarrow>
          (let saved = (case ppv_Get E namespace volumeID w of Inl _ \<Rightarrow> empty_ppv | Inr p \<Rightarrow> p)
           in case ppv_UpdateStatus E namespace (saved\<lparr>State := st\<rparr>) w of
                (Inl e, w) \<Rightarrow> ((None, Some (KubeError e)), w)
              | (Inr _, w) \<Rightarrow> ((Some [], None), w)))"

definition NodePublishVolume :: "'w csi_env \<Rightarrow> NodeService \<Rightarrow> NodeVolumeRequest \<Rightarrow> os_state \<times> 'w \<Rightarrow> string csi_result \<times> os_state \<times> 'w" where
  "NodePublishVolume E s req = (\<lambda>(os, w).
     let volumeID = NormalizeVolumeID (nv_VolumeId req)
     in case ppv_Get E (ns_Namespace s) volumeID w of
          Inl _ \<Rightarrow> (case forward E (ns_TargetEndpoint s) (drv_Node E NodePublish req) w of (r, w) \<Rightarrow> (r, (os, w)))
        | Inr saved \<Rightarrow>
            (let os = snd (MkdirAll os (nv_TargetPath req) 0x1ED);
                 w = addKataDirectVolume E (nv_TargetPath req) w
             in case named_for_pod (nv_TargetPath req) saved of
                  Inl e \<Rightarrow> ((None, Some e), (os, w))
                | Inr saved \<Rightarrow>
                    (case cache_state E (ns_Namespace s) volumeID NodePublishVolumeCached
                            (saved\<lparr>Spec := (Spec saved)\<lparr>WrapperNodePublishVolumeReq := json_Node E NodePublish req\<rparr>\<rparr>) w of
                       (r, w) \<Rightarrow> (r, (os, w)))))"

definition update_stale :: "'w csi_env \<Rightarrow> string \<Rightarrow> string \<Rightarrow> PeerpodVolume \<Rightarrow> 'w \<Rightarrow> string csi_result \<times> 'w" where
  \<comment> \<open>the state is set in the object that the update returns, and the object from before the update is sent\<close>
  "update_stale E namespace st saved w =
     (case ppv_Update E namespace saved w of
        (Inl e, w) \<Rightarrow> ((None, Some (KubeError e)), w)
      | (Inr updated, w) \<Rightarrow>
          (let updated = updated\<lparr>State := st\<rparr>
           in case ppv_UpdateStatus E namespace saved w of
                (Inl e, w) \<Rightarrow> ((None, Some (KubeError e)), w)
              | (Inr _, w) \<Rightarrow> ((Some [], None), w)))"

definition NodeUnpublishVolume :: "'w csi_env \<Rightarrow> NodeService \<Rightarrow> NodeVolumeRequest \<Rightarrow> os_state \<times> 'w \<Rightarrow> string csi_result \<times> os_state \<times> 'w" where
  "NodeUnpublishVolume E s req = (\<lambda>(os, w).
     let volumeID = NormalizeVolumeID (nv_VolumeId req)
     in case ppv_Get E (ns_Namespace s) volumeID w of
          Inl _ \<Rightarrow> (case forward E (ns_TargetEndpoint s) (drv_Node E NodeUnpublish req) w of (r, w) \<Rightarrow> (r, (os, w)))
        | Inr saved \<Rightarrow>
            (let os = snd (RemoveAll os (nv_TargetPath req)); w = removeKataDirectVolume E (nv_TargetPath req) w
             in case update_stale E (ns_Namespace s) NodeUnpublishVolumeCached
                       (saved\<lparr>Spec := (Spec saved)\<lparr>WrapperNodeUnpublishVolumeReq := json_Node E NodeUnpublish req\<rparr>\<rparr>) w of
                  (r, w) \<Rightarrow> (r, (os, w))))"

definition NodeStageVolume :: "'w csi_env \<Rightarrow> NodeService \<Rightarrow> NodeVolumeRequest \<Rightarrow> os_state \<times> 'w \<Rightarrow> string csi_result \<times> os_state \<times> 'w" where
  "NodeStageVolume E s req = (\<lambda>(os, w).
     let volumeID = NormalizeVolumeID (nv_VolumeId req)
     in case ppv_Get E (ns_Namespace s) volumeID w of
          Inl _ \<Rightarrow> (case forward E (ns_TargetEndpoint s) (drv_Node E NodeStage req) w of (r, w) \<Rightarrow> (r, (os, w)))
        | Inr saved \<Rightarrow>
            (let os = snd (MkdirAll os (nv_StagingTargetPath req) 0x1ED)
             in case cache_state E (ns_Namespace s) volumeID NodeStageVolumeCached
                       (saved\<lparr>Spec := (Spec saved)\<lparr>StagingTargetPath := nv_StagingTargetPath req,
                          WrapperNodeStageVolumeReq := json_Node E NodeStage req\<rparr>\<rparr>) w of
                  (r, w) \<Rightarrow> (r, (os, w))))"

definition NodeUnstageVolume :: "'w csi_env \<Rightarrow> NodeService \<Rightarrow> NodeVolumeRequest \<Rightarrow> os_state \<times> 'w \<Rightarrow> string csi_result \<times> os_state \<times> 'w" where
  "NodeUnstageVolume E s req = (\<lambda>(os, w).
     let volumeID = NormalizeVolumeID (nv_VolumeId req)
     in case ppv_Get E (ns_Namespace s) volumeID w of
          Inl _ \<Rightarrow> (case forward E (ns_TargetEndpoint s) (drv_Node E NodeUnstage req) w of (r, w) \<Rightarrow> (r, (os, w)))
        | Inr saved \<Rightarrow>
            (let os = snd (RemoveAll os (nv_StagingTargetPath req))
             in case update_stale E (ns_Namespace s) NodeUnstageVolumeCached
                       (saved\<lparr>Spec := (Spec saved)\<lparr>WrapperNodeUnstageVolumeReq := json_Node E NodeUnstage req\<rparr>\<rparr>) w of
                  (r, w) \<Rightarrow> (r, (os, w))))"

definition NodeGetInfo :: "'w csi_env \<Rightarrow> NodeService \<Rightarrow> string \<Rightarrow> 'w \<Rightarrow> string csi_result \<times> 'w" where
  "NodeGetInfo E s req = forward E (ns_TargetEndpoint s) (drv_Other E ''NodeGetInfo'' req)"

definition NodeGetCapabilities :: "'w csi_env \<Rightarrow> NodeService \<Rightarrow> string \<Rightarrow> 'w \<Rightarrow> string csi_result \<times> 'w" where
  "NodeGetCapabilities E s req = forward E (ns_TargetEndpoint s) (drv_Other E ''NodeGetCapabilities'' req)"

definition NodeGetVolumeStats :: "'w csi_env \<Rightarrow> NodeService \<Rightarrow> string \<Rightarrow> 'w \<Rightarrow> string csi_result \<times> 'w" where
  "NodeGetVolumeStats E s req = forward E (ns_TargetEndpoint s) (drv_Other E ''NodeGetVolumeStats'' req)"

definition NodeExpandVolume :: "'w csi_env \<Rightarrow> NodeService \<Rightarrow> string \<Rightarrow> 'w \<Rightarrow> string csi_result \<times> 'w" where
  "NodeExpandVolume E s req = forward E (ns_TargetEndpoint s) (drv_Other E ''NodeExpandVolume'' req)"

section \<open>The identity of the pod VM\<close>

definition ns_SyncHandler :: "'w csi_env \<Rightarrow> NodeService \<Rightarrow> os_state \<Rightarrow> PeerpodVolume \<Rightarrow> 'w \<Rightarrow> csi_error option \<times> 'w" where
  \<comment> \<open>a connection that fails ends the process\<close>
  "ns_SyncHandler E s os p w =
     (if NodeName (Spec p) \<noteq> Getenv os ''POD_NODE_NAME'' then (None, w)
      else if State p = PeerPodVSIRunning
      then (case net_Dial_unix E (VMIDInformationEndpoint s) w of
              (Some e, w) \<Rightarrow> (Some (FatalExit e), w)
            | (None, w) \<Rightarrow>
                (case vminfo_GetInfo E (VMIDInformationEndpoint s) (PodName (Spec p), PodNamespace (Spec p), False) w of
                   (Inl _, w) \<Rightarrow> (None, w)
                 | (Inr vmID, w) \<Rightarrow>
                     (case set_label ''vmID'' (NormalizeVMID vmID) (p\<lparr>Spec := (Spec p)\<lparr>VMID := vmID\<rparr>\<rparr>) of
                        Inl e \<Rightarrow> (Some e, w)
                      | Inr p \<Rightarrow>
                          (case ppv_Update E (ns_Namespace s) p w of
                             (r, w) \<Rightarrow>
                               (let updated = (case r of Inl _ \<Rightarrow> empty_ppv | Inr u \<Rightarrow> u)
                                in (None, snd (ppv_UpdateStatus E (ns_Namespace s) (updated\<lparr>State := PeerPodVSIIDReady\<rparr>) w)))))))
      else (None, w))"

end
