(* ===== verification/CsiPodVM.thy ===== *)
theory CsiPodVM
  imports CsiNode
begin

text \<open>
  The CSI wrapper inside the pod VM, \<open>src/src/csi-wrapper/pkg/wrapper/podvmservice.go\<close>, with its start
  (\<open>cmd/csi-podvm-wrapper/main.go\<close>), and the controller that hands changed PeerpodVolume objects to a service
  (\<open>pkg/peerpodvolume/controller.go\<close>).

  The pod VM replays the recorded requests on its own driver.  The replay loops leave the loop only when their counter
  is exactly 20 or a replay succeeded; \<open>replay_loop\<close> is that loop, with the value \<open>None\<close> if it does not end.  The work queue and the
  lister of the controller are arguments.
\<close>

record PodVMNodeService =
  vm_TargetEndpoint :: string
  vm_Namespace :: string

definition NewPodVMNodeService :: "string \<Rightarrow> string \<Rightarrow> PodVMNodeService" where
  "NewPodVMNodeService targetEndpoint namespace = \<lparr>vm_TargetEndpoint = ''unix://'' @ targetEndpoint, vm_Namespace = namespace\<rparr>"

section \<open>Calls handed on to the driver\<close>

definition vm_NodePublishVolume :: "'w csi_env \<Rightarrow> PodVMNodeService \<Rightarrow> NodeVolumeRequest \<Rightarrow> 'w \<Rightarrow> string csi_result \<times> 'w" where
  "vm_NodePublishVolume E s req = forward E (vm_TargetEndpoint s) (drv_Node E NodePublish req)"

definition vm_NodeUnpublishVolume :: "'w csi_env \<Rightarrow> PodVMNodeService \<Rightarrow> NodeVolumeRequest \<Rightarrow> 'w \<Rightarrow> string csi_result \<times> 'w" where
  "vm_NodeUnpublishVolume E s req = forward E (vm_TargetEndpoint s) (drv_Node E NodeUnpublish req)"

definition vm_NodeStageVolume :: "'w csi_env \<Rightarrow> PodVMNodeService \<Rightarrow> NodeVolumeRequest \<Rightarrow> 'w \<Rightarrow> string csi_result \<times> 'w" where
  "vm_NodeStageVolume E s req = forward E (vm_TargetEndpoint s) (drv_Node E NodeStage req)"

definition vm_NodeUnstageVolume :: "'w csi_env \<Rightarrow> PodVMNodeService \<Rightarrow> NodeVolumeRequest \<Rightarrow> 'w \<Rightarrow> string csi_result \<times> 'w" where
  "vm_NodeUnstageVolume E s req = forward E (vm_TargetEndpoint s) (drv_Node E NodeUnstage req)"

definition vm_NodeGetInfo :: "'w csi_env \<Rightarrow> PodVMNodeService \<Rightarrow> string \<Rightarrow> 'w \<Rightarrow> string csi_result \<times> 'w" where
  "vm_NodeGetInfo E s req = forward E (vm_TargetEndpoint s) (drv_Other E ''NodeGetInfo'' req)"

definition vm_NodeGetCapabilities :: "'w csi_env \<Rightarrow> PodVMNodeService \<Rightarrow> string \<Rightarrow> 'w \<Rightarrow> string csi_result \<times> 'w" where
  "vm_NodeGetCapabilities E s req = forward E (vm_TargetEndpoint s) (drv_Other E ''NodeGetCapabilities'' req)"

definition vm_NodeGetVolumeStats :: "'w csi_env \<Rightarrow> PodVMNodeService \<Rightarrow> string \<Rightarrow> 'w \<Rightarrow> string csi_result \<times> 'w" where
  "vm_NodeGetVolumeStats E s req = forward E (vm_TargetEndpoint s) (drv_Other E ''NodeGetVolumeStats'' req)"

definition vm_NodeExpandVolume :: "'w csi_env \<Rightarrow> PodVMNodeService \<Rightarrow> string \<Rightarrow> 'w \<Rightarrow> string csi_result \<times> 'w" where
  "vm_NodeExpandVolume E s req = forward E (vm_TargetEndpoint s) (drv_Other E ''NodeExpandVolume'' req)"

section \<open>Replaying\<close>

definition replay_once :: "'w csi_env \<Rightarrow> PodVMNodeService \<Rightarrow> node_method \<Rightarrow> NodeVolumeRequest \<Rightarrow> PeerpodVolume \<Rightarrow> 'w \<Rightarrow> bool \<times> 'w" where
  \<comment> \<open>one call of the driver and, if it succeeds, of \<open>UpdateStatus\<close>\<close>
  "replay_once E s m req p w =
     (case redirect E (vm_TargetEndpoint s) (\<lambda>w.
         (case drv_Node E m req w of
            (Inl _, w) \<Rightarrow> (False, w)
          | (Inr _, w) \<Rightarrow>
              (case ppv_UpdateStatus E (vm_Namespace s) p w of (Inl _, w) \<Rightarrow> (False, w) | (Inr _, w) \<Rightarrow> (True, w)))) w of
        (Inl _, w) \<Rightarrow> (False, w)
      | (Inr reproduced, w) \<Rightarrow> (reproduced, w))"

partial_function (option) replay_loop :: "('w \<Rightarrow> bool \<times> 'w) \<Rightarrow> int \<Rightarrow> 'w \<Rightarrow> 'w option" where
  "replay_loop attempt n w =
     (case attempt w of
        (reproduced, w) \<Rightarrow>
          if n = 20 then Some w else if reproduced then Some w else replay_loop attempt (n + 1) w)"

definition real_context :: "'w csi_env \<Rightarrow> PeerpodVolume \<Rightarrow> (string, string) go_map" where
  \<comment> \<open>the publish context of the driver's recorded answer; an empty one if that cannot be read\<close>
  "real_context E p =
     (let ctx = (case unjson_ControllerPublishRes E (WrapperControllerPublishVolumeRes (Spec p)) of Inl _ \<Rightarrow> [] | Inr res \<Rightarrow> PublishContext res)
      in AList.update ''device-path'' (DevicePath (Spec p)) (fold (\<lambda>(k, v). AList.update k v) ctx []))"

definition ReproduceNodeStageVolume :: "'w csi_env \<Rightarrow> PodVMNodeService \<Rightarrow> PeerpodVolume \<Rightarrow> 'w \<Rightarrow> 'w option" where
  "ReproduceNodeStageVolume E s p w =
     (case unjson_Node E NodeStage (WrapperNodeStageVolumeReq (Spec p)) of
        Inl _ \<Rightarrow> Some w
      | Inr req \<Rightarrow>
          replay_loop (replay_once E s NodeStage (req\<lparr>nv_PublishContext := real_context E p\<rparr>) (p\<lparr>State := NodeStageVolumeApplied\<rparr>)) 0 w)"

definition ReproduceNodePublishVolume :: "'w csi_env \<Rightarrow> PodVMNodeService \<Rightarrow> PeerpodVolume \<Rightarrow> 'w \<Rightarrow> 'w option" where
  "ReproduceNodePublishVolume E s p w =
     (case unjson_Node E NodePublish (WrapperNodePublishVolumeReq (Spec p)) of
        Inl _ \<Rightarrow> Some w
      | Inr req \<Rightarrow> replay_loop (replay_once E s NodePublish req (p\<lparr>State := NodePublishVolumeApplied\<rparr>)) 0 w)"

definition ReproduceNodeUnpublishVolume :: "'w csi_env \<Rightarrow> PodVMNodeService \<Rightarrow> PeerpodVolume \<Rightarrow> 'w \<Rightarrow> 'w" where
  "ReproduceNodeUnpublishVolume E s p w =
     (case unjson_Node E NodeUnpublish (WrapperNodeUnpublishVolumeReq (Spec p)) of
        Inl _ \<Rightarrow> w
      | Inr req \<Rightarrow> snd (replay_once E s NodeUnpublish req (p\<lparr>State := NodeUnpublishVolumeApplied\<rparr>) w))"

definition ReproduceNodeUnstageVolume :: "'w csi_env \<Rightarrow> PodVMNodeService \<Rightarrow> PeerpodVolume \<Rightarrow> 'w \<Rightarrow> 'w" where
  "ReproduceNodeUnstageVolume E s p w =
     (case unjson_Node E NodeUnstage (WrapperNodeUnstageVolumeReq (Spec p)) of
        Inl _ \<Rightarrow> w
      | Inr req \<Rightarrow> snd (replay_once E s NodeUnstage req (p\<lparr>State := NodeUnstageVolumeApplied\<rparr>) w))"

definition vm_SyncHandler :: "'w csi_env \<Rightarrow> PodVMNodeService \<Rightarrow> os_state \<Rightarrow> PeerpodVolume \<Rightarrow> 'w \<Rightarrow> 'w option" where
  "vm_SyncHandler E s os p w =
     (if PodName (Spec p) \<noteq> Getenv os ''POD_NAME'' \<or> PodNamespace (Spec p) \<noteq> Getenv os ''POD_NAME_SPACE'' then Some w
      else if State p = ControllerPublishVolumeApplied then ReproduceNodeStageVolume E s p w
      else if State p = NodeStageVolumeApplied then ReproduceNodePublishVolume E s p w
      else if State p = NodeUnpublishVolumeCached then Some (ReproduceNodeUnpublishVolume E s p w)
      else if State p = NodeUnstageVolumeCached then Some (ReproduceNodeUnstageVolume E s p w)
      else Some w)"

section \<open>Start inside the pod VM\<close>

definition claim_volume :: "'w csi_env \<Rightarrow> string \<Rightarrow> os_state \<Rightarrow> PeerpodVolume \<Rightarrow> ('w, csi_error, unit) io" where
  \<comment> \<open>one round of the loop over the volumes of the pod; an error ends the process\<close>
  "claim_volume E namespace os p w =
     (let podName = Getenv os ''POD_NAME''; podNamespace = Getenv os ''POD_NAME_SPACE''; podNodeName = Getenv os ''POD_NODE_NAME'';
          p = p\<lparr>Spec := (Spec p)\<lparr>PodName := podName, PodNamespace := podNamespace, NodeName := podNodeName\<rparr>\<rparr>
      in case bind_result (set_label ''podName'' podName p) (\<lambda>p. bind_result (set_label ''podNamespace'' podNamespace p)
                (set_label ''podNodeName'' podNodeName)) of
           Inl e \<Rightarrow> (Inl e, w)
         | Inr p \<Rightarrow>
             (case ppv_Update E namespace p w of
                (Inl _, w) \<Rightarrow> (Inl (FatalExit ''update''), w)
              | (Inr updated, w) \<Rightarrow>
                  (case ppv_UpdateStatus E namespace (updated\<lparr>State := PeerPodVSIRunning\<rparr>) w of
                     (Inl _, w) \<Rightarrow> (Inl (FatalExit ''status''), w)
                   | (Inr _, w) \<Rightarrow> (Inr (), w))))"

definition claim_volumes :: "'w csi_env \<Rightarrow> string \<Rightarrow> os_state \<Rightarrow> ('w, csi_error, unit) io" where
  "claim_volumes E namespace os w =
     (case ppv_List E namespace (''podUid'', Getenv os ''POD_UID'') w of
        Inl _ \<Rightarrow> (Inl (FatalExit ''list''), w)
      | Inr items \<Rightarrow> for_io (claim_volume E namespace os) items w)"

section \<open>The controller of PeerpodVolume objects\<close>

record ('w, 'q) ppv_queue =
  SplitMetaNamespaceKey :: "string \<Rightarrow> string + string \<times> string"
  MetaNamespaceKeyFunc :: "PeerpodVolume \<Rightarrow> string + string"
  lister_Get :: "string \<Rightarrow> string \<Rightarrow> 'w \<Rightarrow> k8s_error + PeerpodVolume"
  queue_Get :: "'q \<Rightarrow> (string \<times> bool) \<times> 'q"
  queue_Done :: "string \<Rightarrow> 'q \<Rightarrow> 'q"
  queue_Forget :: "string \<Rightarrow> 'q \<Rightarrow> 'q"
  queue_AddRateLimited :: "string \<Rightarrow> 'q \<Rightarrow> 'q"
  queue_Add :: "string \<Rightarrow> 'q \<Rightarrow> 'q"

definition syncHandler :: "('w, 'q) ppv_queue \<Rightarrow> string \<Rightarrow> (PeerpodVolume \<Rightarrow> 'w \<Rightarrow> 'w) option \<Rightarrow> string \<Rightarrow> 'w \<Rightarrow> k8s_error option \<times> 'w" where
  "syncHandler Q namespace syncFunction key w =
     (case SplitMetaNamespaceKey Q key of
        Inl _ \<Rightarrow> (None, w)
      | Inr (ns, name) \<Rightarrow>
          (if ns \<noteq> namespace then (None, w)
           else case lister_Get Q ns name w of
             Inl e \<Rightarrow> (if e = NotFound then (None, w) else (Some e, w))
           | Inr p \<Rightarrow>
               (if VolumeID (Spec p) = [] then (None, w)
                else (None, case syncFunction of None \<Rightarrow> w | Some f \<Rightarrow> f p w))))"

definition processNextWorkItem :: "('w, 'q) ppv_queue \<Rightarrow> string \<Rightarrow> (PeerpodVolume \<Rightarrow> 'w \<Rightarrow> 'w) option \<Rightarrow> 'q \<times> 'w \<Rightarrow> bool \<times> 'q \<times> 'w" where
  "processNextWorkItem Q namespace syncFunction = (\<lambda>(q, w).
     case queue_Get Q q of
       ((key, quit), q) \<Rightarrow>
         if quit then (False, (q, w))
         else (case syncHandler Q namespace syncFunction key w of
                 (None, w) \<Rightarrow> (True, (queue_Done Q key (queue_Forget Q key q), w))
               | (Some _, w) \<Rightarrow> (True, (queue_Done Q key (queue_AddRateLimited Q key q), w))))"

definition enqueuePeerpodvolume :: "('w, 'q) ppv_queue \<Rightarrow> PeerpodVolume \<Rightarrow> 'q \<Rightarrow> 'q" where
  "enqueuePeerpodvolume Q p q = (case MetaNamespaceKeyFunc Q p of Inl _ \<Rightarrow> q | Inr key \<Rightarrow> queue_Add Q key q)"

definition handle_update :: "('w, 'q) ppv_queue \<Rightarrow> PeerpodVolume \<Rightarrow> PeerpodVolume \<Rightarrow> 'q \<Rightarrow> 'q" where
  "handle_update Q old new q =
     (if ppv_ResourceVersion old = ppv_ResourceVersion new then q else enqueuePeerpodvolume Q new q)"

section \<open>The replay loops end\<close>

lemma replay_loop_end:
  assumes "n \<le> 20"
  shows "\<exists>j. j \<le> nat (20 - n) \<and> replay_loop attempt n w = Some (((\<lambda>w. snd (attempt w)) ^^ Suc j) w)"
  using assms
proof (induction "nat (20 - n)" arbitrary: n w)
  case 0
  then have "n = 20" by simp
  then show ?case by (subst replay_loop.simps) (auto split: prod.splits intro!: exI[of _ 0])
next
  case (Suc d)
  obtain b w1 where a: "attempt w = (b, w1)" by fastforce
  show ?case
  proof (cases b)
    case True
    then show ?thesis using a by (subst replay_loop.simps) (auto intro!: exI[of _ 0])
  next
    case False
    have "d = nat (20 - (n + 1))" "n + 1 \<le> 20" using Suc.hyps(2) by simp_all
    from Suc.hyps(1)[OF this, of w1] obtain j where j: "j \<le> nat (20 - (n + 1))"
      "replay_loop attempt (n + 1) w1 = Some (((\<lambda>w. snd (attempt w)) ^^ Suc j) w1)" by blast
    have "replay_loop attempt n w = replay_loop attempt (n + 1) w1"
      using a False Suc.hyps(2) by (subst replay_loop.simps) auto
    also have "\<dots> = Some (((\<lambda>w. snd (attempt w)) ^^ Suc (Suc j)) w)"
      unfolding funpow_Suc_right[of "Suc j"] using j(2) a by simp
    finally show ?thesis using j(1) Suc.hyps(2) by (intro exI[of _ "Suc j"]) simp
  qed
qed

lemma replay_loop_returns: "\<exists>k. k < 21 \<and> replay_loop attempt 0 w = Some (((\<lambda>w. snd (attempt w)) ^^ Suc k) w)"
proof -
  obtain j where "j \<le> nat (20 - 0)" "replay_loop attempt 0 w = Some (((\<lambda>w. snd (attempt w)) ^^ Suc j) w)"
    using replay_loop_end[of 0 attempt w] by auto
  then show ?thesis by (intro exI[of _ j]) simp
qed

lemma replays_return:
  "\<exists>w'. ReproduceNodeStageVolume E s p w = Some w'" "\<exists>w'. ReproduceNodePublishVolume E s p w = Some w'"
proof -
  show "\<exists>w'. ReproduceNodeStageVolume E s p w = Some w'"
    using replay_loop_returns[of "replay_once E s NodeStage (r\<lparr>nv_PublishContext := real_context E p\<rparr>) (p\<lparr>State := NodeStageVolumeApplied\<rparr>)" w for r]
    by (cases "unjson_Node E NodeStage (WrapperNodeStageVolumeReq (Spec p))") (auto simp: ReproduceNodeStageVolume_def)
  show "\<exists>w'. ReproduceNodePublishVolume E s p w = Some w'"
    using replay_loop_returns[of "replay_once E s NodePublish r (p\<lparr>State := NodePublishVolumeApplied\<rparr>)" w for r]
    by (cases "unjson_Node E NodePublish (WrapperNodePublishVolumeReq (Spec p))") (auto simp: ReproduceNodePublishVolume_def)
qed

lemma vm_SyncHandler_returns: "\<exists>w'. vm_SyncHandler E s os p w = Some w'"
  using replays_return[of E s p w] by (simp add: vm_SyncHandler_def)


end
