(* ===== verification/CsiInv.thy ===== *)
theory CsiInv
  imports CsiPodVM
begin

text \<open>
  The invariant of the CSI wrapper, and that every handler of its three services keeps it.

  \<open>hist\<close> are all versions of PeerpodVolume objects that the API server has stored so far, \<open>calls\<close> the successful calls of the
  controller's driver and of the driver in the pod VM, in order.  \<open>api_ok\<close> states what the API server does: a write that returns an
  error may still have been stored, \<open>Update\<close> leaves the status alone, and \<open>UpdateStatus\<close> only writes the status.
\<close>

section \<open>The environment\<close>

datatype csi_call = Attached string string | Did node_method string

definition writes :: "('w \<Rightarrow> PeerpodVolume set) \<Rightarrow> ('w \<Rightarrow> csi_call list) \<Rightarrow> 'w \<Rightarrow> PeerpodVolume set \<Rightarrow> (k8s_error + PeerpodVolume) \<times> 'w \<Rightarrow> bool" where
  \<comment> \<open>one of the given objects is stored, or nothing with an error\<close>
  "writes hist calls w N rw \<longleftrightarrow>
     (case rw of (r, w') \<Rightarrow> calls w' = calls w \<and>
        (\<not> is_ok r \<and> hist w' = hist w \<or> (\<exists>p'\<in>N. hist w' = insert p' (hist w) \<and> (\<forall>x. r = Inr x \<longrightarrow> x = p'))))"

definition silent :: "('w \<Rightarrow> PeerpodVolume set) \<Rightarrow> ('w \<Rightarrow> csi_call list) \<Rightarrow> ('w \<Rightarrow> 'a \<times> 'w) \<Rightarrow> bool" where
  "silent hist calls f \<longleftrightarrow> (\<forall>w. hist (snd (f w)) = hist w \<and> calls (snd (f w)) = calls w)"

definition api_ok :: "'w csi_env \<Rightarrow> ('w \<Rightarrow> PeerpodVolume set) \<Rightarrow> ('w \<Rightarrow> csi_call list) \<Rightarrow> bool" where
  "api_ok E hist calls \<longleftrightarrow>
     (\<forall>ns n w p. ppv_Get E ns n w = Inr p \<longrightarrow> p \<in> hist w \<and> ppv_Name p = n) \<and>
     (\<forall>ns l w ps. ppv_List E ns l w = Inr ps \<longrightarrow> set ps \<subseteq> hist w) \<and>
     (\<forall>ns p w. writes hist calls w {p\<lparr>State := [], ppv_ResourceVersion := v\<rparr> | v. True} (ppv_Create E ns p w)) \<and>
     (\<forall>ns p w. writes hist calls w {p\<lparr>State := State old, ppv_ResourceVersion := v\<rparr> | old v. old \<in> hist w \<and> ppv_Name old = ppv_Name p}
        (ppv_Update E ns p w)) \<and>
     (\<forall>ns p w. writes hist calls w {old\<lparr>State := State p, ppv_ResourceVersion := v\<rparr> | old v. old \<in> hist w \<and> ppv_Name old = ppv_Name p}
        (ppv_UpdateStatus E ns p w)) \<and>
     (\<forall>ns n. silent hist calls (ppv_Delete E ns n)) \<and> (\<forall>e. silent hist calls (grpc_Dial E e)) \<and> silent hist calls (uuid_NewV4 E) \<and>
     (\<forall>r. silent hist calls (drv_CreateVolume E r)) \<and> (\<forall>r. silent hist calls (drv_DeleteVolume E r)) \<and>
     (\<forall>r. silent hist calls (drv_ControllerUnpublish E r)) \<and> (\<forall>p i. silent hist calls (kata_Add E p i)) \<and>
     (\<forall>p. silent hist calls (kata_Remove E p)) \<and> (\<forall>e q. silent hist calls (vminfo_GetInfo E e q)) \<and> (\<forall>e. silent hist calls (net_Dial_unix E e)) \<and>
     (\<forall>r w. hist (snd (drv_ControllerPublish E r w)) = hist w \<and>
        calls (snd (drv_ControllerPublish E r w)) =
          calls w @ (if is_ok (fst (drv_ControllerPublish E r w)) then [Attached (NormalizeVolumeID (cpv_VolumeId r)) (cpv_NodeId r)] else []))"

definition worker_ok :: "'w csi_env \<Rightarrow> ('w \<Rightarrow> PeerpodVolume set) \<Rightarrow> ('w \<Rightarrow> csi_call list) \<Rightarrow> bool" where
  "worker_ok E hist calls \<longleftrightarrow> (\<forall>m r. silent hist calls (drv_Node E m r))"

definition podvm_ok :: "'w csi_env \<Rightarrow> ('w \<Rightarrow> PeerpodVolume set) \<Rightarrow> ('w \<Rightarrow> csi_call list) \<Rightarrow> bool" where
  "podvm_ok E hist calls \<longleftrightarrow>
     (\<forall>m r w. hist (snd (drv_Node E m r w)) = hist w \<and>
        calls (snd (drv_Node E m r w)) = calls w @ (if is_ok (fst (drv_Node E m r w)) then [Did m (NormalizeVolumeID (nv_VolumeId r))] else []))"

definition recorded :: "node_method \<Rightarrow> PeerpodVolumeSpec \<Rightarrow> string" where
  "recorded m sp =
     (case m of NodeStage \<Rightarrow> WrapperNodeStageVolumeReq sp | NodeUnstage \<Rightarrow> WrapperNodeUnstageVolumeReq sp
              | NodePublish \<Rightarrow> WrapperNodePublishVolumeReq sp | NodeUnpublish \<Rightarrow> WrapperNodeUnpublishVolumeReq sp)"

definition json_faithful :: "'w csi_env \<Rightarrow> 'w csi_env \<Rightarrow> 'w csi_env \<Rightarrow> bool" where
  \<comment> \<open>what can be read back is what was written, and nothing can be read from an empty text\<close>
  "json_faithful Ec En Ev \<longleftrightarrow>
     (\<forall>m r x. unjson_Node Ev m (json_Node En m r) = Inr x \<longrightarrow> x = r) \<and> (\<forall>m. \<not> is_ok (unjson_Node Ev m [])) \<and>
     (\<forall>r x. unjson_ControllerPublish Ec (json_ControllerPublish Ec r) = Inr x \<longrightarrow> x = r) \<and> \<not> is_ok (unjson_ControllerPublish Ec [])"

section \<open>The invariant\<close>

fun needs :: "csi_call list \<Rightarrow> csi_call \<Rightarrow> bool" where
  "needs before (Did NodeStage v) = (\<exists>vm. Attached v vm \<in> set before)"
| "needs before (Did NodePublish v) = (Did NodeStage v \<in> set before)"
| "needs before _ = True"

definition in_order :: "csi_call list \<Rightarrow> bool" where
  "in_order cs \<longleftrightarrow> (\<forall>xs y ys. cs = xs @ y # ys \<longrightarrow> needs xs y)"

lemma in_order_append: "in_order (cs @ [c]) \<longleftrightarrow> in_order cs \<and> needs cs c"
proof
  assume a: "in_order (cs @ [c])"
  then have "needs cs c" by (simp add: in_order_def)
  moreover have "needs xs y" if "cs = xs @ y # ys" for xs y ys
  proof -
    have "cs @ [c] = xs @ y # (ys @ [c])" using that by simp
    then show ?thesis using a unfolding in_order_def by blast
  qed
  ultimately show "in_order cs \<and> needs cs c" by (auto simp: in_order_def)
next
  assume a: "in_order cs \<and> needs cs c"
  show "in_order (cs @ [c])" unfolding in_order_def
  proof (intro allI impI)
    fix xs y ys
    assume e: "cs @ [c] = xs @ y # ys"
    show "needs xs y"
    proof (cases ys rule: rev_cases)
      case Nil
      then show ?thesis using e a by simp
    next
      case (snoc zs z)
      then have "cs = xs @ y # zs" using e by simp
      then show ?thesis using a unfolding in_order_def by blast
    qed
  qed
qed

definition own_requests :: "'w csi_env \<Rightarrow> 'w csi_env \<Rightarrow> PeerpodVolume \<Rightarrow> bool" where
  \<comment> \<open>the recorded requests of an object are for its volume\<close>
  "own_requests Ec Ev p \<longleftrightarrow>
     (\<forall>m r. unjson_Node Ev m (recorded m (Spec p)) = Inr r \<longrightarrow> NormalizeVolumeID (nv_VolumeId r) = ppv_Name p) \<and>
     (\<forall>r. unjson_ControllerPublish Ec (WrapperControllerPublishVolumeReq (Spec p)) = Inr r \<longrightarrow> NormalizeVolumeID (cpv_VolumeId r) = ppv_Name p)"

definition state_ok :: "string \<Rightarrow> string \<Rightarrow> csi_call list \<Rightarrow> bool" where
  "state_ok st v cs \<longleftrightarrow>
     (st = ControllerPublishVolumeApplied \<longrightarrow> (\<exists>vm. Attached v vm \<in> set cs)) \<and> (st = NodeStageVolumeApplied \<longrightarrow> Did NodeStage v \<in> set cs) \<and>
     st \<noteq> NodeUnpublishVolumeCached \<and> st \<noteq> NodeUnstageVolumeCached"

definition csi_inv :: "'w csi_env \<Rightarrow> 'w csi_env \<Rightarrow> ('w \<Rightarrow> PeerpodVolume set) \<Rightarrow> ('w \<Rightarrow> csi_call list) \<Rightarrow> 'w \<Rightarrow> bool" where
  "csi_inv Ec Ev hist calls w \<longleftrightarrow>
     (\<forall>p\<in>hist w. own_requests Ec Ev p \<and> state_ok (State p) (ppv_Name p) (calls w)) \<and> in_order (calls w) \<and>
     (\<forall>v. Did NodeUnpublish v \<notin> set (calls w) \<and> Did NodeUnstage v \<notin> set (calls w))"

lemmas state_names = ControllerPublishVolumeCached_def NodeStageVolumeCached_def NodePublishVolumeCached_def NodeUnpublishVolumeCached_def
  NodeUnstageVolumeCached_def PeerPodVSIIDReady_def PeerPodVSIRunning_def ControllerPublishVolumeApplied_def NodeStageVolumeApplied_def
  NodePublishVolumeApplied_def NodeUnpublishVolumeApplied_def NodeUnstageVolumeApplied_def

lemma state_ok_mono: "state_ok st v cs \<Longrightarrow> set cs \<subseteq> set cs' \<Longrightarrow> state_ok st v cs'"
  unfolding state_ok_def by blast

lemma own_requests_cong: "Spec q = Spec p \<Longrightarrow> ppv_Name q = ppv_Name p \<Longrightarrow> own_requests Ec Ev p \<Longrightarrow> own_requests Ec Ev q"
  by (simp add: own_requests_def)

lemma own_requestsI:
  assumes j: "json_faithful Ec En Ev" and p: "own_requests Ec Ev p" and n: "ppv_Name q = ppv_Name p"
    and m: "\<And>m. recorded m (Spec q) = recorded m (Spec p) \<or> recorded m (Spec q) = [] \<or>
       (\<exists>r. recorded m (Spec q) = json_Node En m r \<and> NormalizeVolumeID (nv_VolumeId r) = ppv_Name p)"
    and c: "WrapperControllerPublishVolumeReq (Spec q) = WrapperControllerPublishVolumeReq (Spec p) \<or> WrapperControllerPublishVolumeReq (Spec q) = [] \<or>
       (\<exists>r. WrapperControllerPublishVolumeReq (Spec q) = json_ControllerPublish Ec r \<and> NormalizeVolumeID (cpv_VolumeId r) = ppv_Name p)"
  shows "own_requests Ec Ev q"
proof -
  have "NormalizeVolumeID (nv_VolumeId r) = ppv_Name q" if "unjson_Node Ev m (recorded m (Spec q)) = Inr r" for m r
    using m[of m] that p j n unfolding own_requests_def json_faithful_def by (metis is_ok_simps(2))
  moreover have "NormalizeVolumeID (cpv_VolumeId r) = ppv_Name q" if "unjson_ControllerPublish Ec (WrapperControllerPublishVolumeReq (Spec q)) = Inr r" for r
    using c that p j n unfolding own_requests_def json_faithful_def by (metis is_ok_simps(2))
  ultimately show ?thesis by (simp add: own_requests_def)
qed

lemma api_okD:
  assumes "api_ok E hist calls"
  shows "ppv_Get E ns n w = Inr p \<Longrightarrow> p \<in> hist w" "ppv_Get E ns n w = Inr p \<Longrightarrow> ppv_Name p = n"
    "ppv_List E ns l w = Inr ps \<Longrightarrow> set ps \<subseteq> hist w"
    "writes hist calls w {p\<lparr>State := [], ppv_ResourceVersion := v\<rparr> | v. True} (ppv_Create E ns p w)"
    "writes hist calls w {p\<lparr>State := State old, ppv_ResourceVersion := v\<rparr> | old v. old \<in> hist w \<and> ppv_Name old = ppv_Name p} (ppv_Update E ns p w)"
    "writes hist calls w {old\<lparr>State := State p, ppv_ResourceVersion := v\<rparr> | old v. old \<in> hist w \<and> ppv_Name old = ppv_Name p} (ppv_UpdateStatus E ns p w)"
    "silent hist calls (ppv_Delete E ns n)" "silent hist calls (grpc_Dial E e)" "silent hist calls (uuid_NewV4 E)"
    "silent hist calls (drv_CreateVolume E cr)" "silent hist calls (drv_DeleteVolume E dr)" "silent hist calls (drv_ControllerUnpublish E ur)"
    "silent hist calls (kata_Add E s1 s2)" "silent hist calls (kata_Remove E s1)" "silent hist calls (vminfo_GetInfo E e q)"
    "silent hist calls (net_Dial_unix E e)"
    "hist (snd (drv_ControllerPublish E r w)) = hist w"
    "calls (snd (drv_ControllerPublish E r w)) =
       calls w @ (if is_ok (fst (drv_ControllerPublish E r w)) then [Attached (NormalizeVolumeID (cpv_VolumeId r)) (cpv_NodeId r)] else [])"
  using assms unfolding api_ok_def by (simp_all del: split_paired_All)

lemma silent_same: "silent hist calls f \<Longrightarrow> f w = (r, w') \<Longrightarrow> hist w' = hist w \<and> calls w' = calls w"
  unfolding silent_def by (metis snd_conv)

lemma csi_inv_same: "hist w' = hist w \<and> calls w' = calls w \<Longrightarrow> csi_inv Ec Ev hist calls w' = csi_inv Ec Ev hist calls w"
  by (simp add: csi_inv_def)

lemma csi_inv_insert:
  assumes "csi_inv Ec Ev hist calls w" "calls w' = calls w" "hist w' = insert p' (hist w)" "own_requests Ec Ev p'" "state_ok (State p') (ppv_Name p') (calls w)"
  shows "csi_inv Ec Ev hist calls w'"
  using assms by (simp add: csi_inv_def)

lemma Create_inv:
  assumes "api_ok E hist calls" "csi_inv Ec Ev hist calls w" "ppv_Create E ns p w = (r, w')" "own_requests Ec Ev p"
  shows "csi_inv Ec Ev hist calls w'" "calls w' = calls w" "r = Inr x \<Longrightarrow> x \<in> hist w' \<and> Spec x = Spec p \<and> ppv_Name x = ppv_Name p"
proof -
  have w: "writes hist calls w {p\<lparr>State := [], ppv_ResourceVersion := v\<rparr> | v. True} (r, w')" using api_okD(4)[OF assms(1), of w p ns] assms(3) by simp
  then show "calls w' = calls w" by (simp add: writes_def)
  have o: "own_requests Ec Ev (p\<lparr>State := [], ppv_ResourceVersion := v\<rparr>)" for v by (rule own_requests_cong[OF _ _ assms(4)]) simp_all
  have s: "state_ok [] n cs" for n cs by (simp add: state_ok_def state_names)
  show "csi_inv Ec Ev hist calls w'"
  proof (cases "hist w' = hist w")
    case True
    then show ?thesis using w assms(2) by (simp add: writes_def csi_inv_def)
  next
    case False
    then obtain v where "hist w' = insert (p\<lparr>State := [], ppv_ResourceVersion := v\<rparr>) (hist w)" using w by (auto simp: writes_def)
    then show ?thesis using csi_inv_insert[OF assms(2) _ _ o] w s by (simp add: writes_def)
  qed
  show "x \<in> hist w' \<and> Spec x = Spec p \<and> ppv_Name x = ppv_Name p" if "r = Inr x" using w that by (auto simp: writes_def)
qed

lemma Update_inv:
  assumes "api_ok E hist calls" "csi_inv Ec Ev hist calls w" "ppv_Update E ns p w = (r, w')" "own_requests Ec Ev p"
  shows "csi_inv Ec Ev hist calls w'" "calls w' = calls w" "r = Inr x \<Longrightarrow> x \<in> hist w' \<and> Spec x = Spec p \<and> ppv_Name x = ppv_Name p"
proof -
  have w: "writes hist calls w {p\<lparr>State := State old, ppv_ResourceVersion := v\<rparr> | old v. old \<in> hist w \<and> ppv_Name old = ppv_Name p} (r, w')"
    using api_okD(5)[OF assms(1), of w p ns] assms(3) by simp
  then show "calls w' = calls w" by (simp add: writes_def)
  have o: "own_requests Ec Ev (p\<lparr>State := st, ppv_ResourceVersion := v\<rparr>)" for v st by (rule own_requests_cong[OF _ _ assms(4)]) simp_all
  show "csi_inv Ec Ev hist calls w'"
  proof (cases "hist w' = hist w")
    case True
    then show ?thesis using w assms(2) by (simp add: writes_def csi_inv_def)
  next
    case False
    then obtain old v where h: "hist w' = insert (p\<lparr>State := State old, ppv_ResourceVersion := v\<rparr>) (hist w)" and old: "old \<in> hist w" "ppv_Name old = ppv_Name p"
      using w by (auto simp: writes_def)
    have "state_ok (State old) (ppv_Name p) (calls w)" using assms(2) old by (auto simp: csi_inv_def)
    then show ?thesis using csi_inv_insert[OF assms(2) _ h o] w by (simp add: writes_def)
  qed
  show "x \<in> hist w' \<and> Spec x = Spec p \<and> ppv_Name x = ppv_Name p" if "r = Inr x" using w that by (auto simp: writes_def)
qed

lemma UpdateStatus_inv:
  assumes "api_ok E hist calls" "csi_inv Ec Ev hist calls w" "ppv_UpdateStatus E ns p w = (r, w')" "state_ok (State p) (ppv_Name p) (calls w)"
  shows "csi_inv Ec Ev hist calls w'" "calls w' = calls w"
proof -
  have w: "writes hist calls w {old\<lparr>State := State p, ppv_ResourceVersion := v\<rparr> | old v. old \<in> hist w \<and> ppv_Name old = ppv_Name p} (r, w')"
    using api_okD(6)[OF assms(1), of w p ns] assms(3) by simp
  then show "calls w' = calls w" by (simp add: writes_def)
  show "csi_inv Ec Ev hist calls w'"
  proof (cases "hist w' = hist w")
    case True
    then show ?thesis using w assms(2) by (simp add: writes_def csi_inv_def)
  next
    case False
    then obtain old v where h: "hist w' = insert (old\<lparr>State := State p, ppv_ResourceVersion := v\<rparr>) (hist w)" and old: "old \<in> hist w" "ppv_Name old = ppv_Name p"
      using w by (auto simp: writes_def)
    have "own_requests Ec Ev (old\<lparr>State := State p, ppv_ResourceVersion := v\<rparr>)"
      by (rule own_requests_cong[of _ old]) (use assms(2) old in \<open>auto simp: csi_inv_def\<close>)
    then show ?thesis using csi_inv_insert[OF assms(2) _ h] w old assms(4) by (simp add: writes_def)
  qed
qed

section \<open>The controller service keeps the invariant\<close>

lemma redirect_runs:
  assumes "api_ok E hist calls" "redirect E ep f w = (r, w')"
  shows "\<exists>w1. hist w1 = hist w \<and> calls w1 = calls w \<and> ((\<exists>e. r = Inl e) \<and> w' = w1 \<or> (\<exists>x. r = Inr x \<and> f w1 = (x, w')))"
proof -
  obtain d w1 where d: "grpc_Dial E ep w = (d, w1)" by fastforce
  then have "hist w1 = hist w \<and> calls w1 = calls w" using silent_same[OF api_okD(8)[OF assms(1)] d] by blast
  then show ?thesis using assms(2) d by (auto simp: redirect_def split: option.splits prod.splits)
qed

lemma silent_redirect: "api_ok E hist calls \<Longrightarrow> silent hist calls f \<Longrightarrow> silent hist calls (redirect E ep f)"
  unfolding silent_def[of _ _ "redirect E ep f"]
proof
  fix w assume a: "api_ok E hist calls" "silent hist calls f"
  obtain r w' where r: "redirect E ep f w = (r, w')" by fastforce
  then show "hist (snd (redirect E ep f w)) = hist w \<and> calls (snd (redirect E ep f w)) = calls w"
    using redirect_runs[OF a(1) r] silent_same[OF a(2)] by auto
qed

lemma snd_forward: "snd (forward E ep f w) = snd (redirect E ep f w)"
  by (simp add: forward_def split: prod.splits sum.splits)

lemma silent_forward: "api_ok E hist calls \<Longrightarrow> silent hist calls f \<Longrightarrow> silent hist calls (forward E ep f)"
  using silent_redirect[of E hist calls f ep] by (simp add: silent_def snd_forward)

lemma csi_inv_silent:
  assumes "silent hist calls f" "f w = (r, w')" "csi_inv Ec Ev hist calls w"
  shows "csi_inv Ec Ev hist calls w'"
  using assms(3) csi_inv_same[OF silent_same[OF assms(1,2)], of Ec Ev] by simp

lemma csi_inv_attached:
  assumes "api_ok E hist calls" "csi_inv Ec Ev hist calls w" "drv_ControllerPublish E r w = (x, w')"
  shows "csi_inv Ec Ev hist calls w'" "hist w' = hist w" "set (calls w) \<subseteq> set (calls w')"
    "x = Inr res \<Longrightarrow> Attached (NormalizeVolumeID (cpv_VolumeId r)) (cpv_NodeId r) \<in> set (calls w')"
proof -
  have h: "hist w' = hist w" and c: "calls w' = calls w @ (if is_ok x then [Attached (NormalizeVolumeID (cpv_VolumeId r)) (cpv_NodeId r)] else [])"
    using api_okD(17)[OF assms(1), of r w] api_okD(18)[OF assms(1), of r w] assms(3) by simp_all
  show "hist w' = hist w" by (rule h)
  show s: "set (calls w) \<subseteq> set (calls w')" using c by auto
  show "csi_inv Ec Ev hist calls w'"
    using assms(2) h c s state_ok_mono[OF _ s] by (auto simp: csi_inv_def in_order_append split: if_splits)
  show "x = Inr res \<Longrightarrow> Attached (NormalizeVolumeID (cpv_VolumeId r)) (cpv_NodeId r) \<in> set (calls w')" using c by simp
qed

lemma set_label_keeps: "set_label k v p = Inr q \<Longrightarrow> Spec q = Spec p \<and> ppv_Name q = ppv_Name p \<and> State q = State p"
  by (auto simp: set_label_def split: option.splits)

lemma state_ok_other:
  "st \<notin> {ControllerPublishVolumeApplied, NodeStageVolumeApplied, NodeUnpublishVolumeCached, NodeUnstageVolumeCached} \<Longrightarrow> state_ok st v cs"
  by (simp add: state_ok_def)

lemma publish_cached_inv:
  assumes "api_ok Ec hist calls" "json_faithful Ec En Ev" "csi_inv Ec Ev hist calls w" "publish_cached Ec s req saved w = (r, w')"
    "own_requests Ec Ev saved" "ppv_Name saved = NormalizeVolumeID (cpv_VolumeId req)"
  shows "csi_inv Ec Ev hist calls w'"
proof -
  obtain u w1 where u: "uuid_NewV4 Ec w = (u, w1)" by fastforce
  have i1: "csi_inv Ec Ev hist calls w1" using csi_inv_silent[OF api_okD(9)[OF assms(1)] u assms(3)] .
  show ?thesis
  proof (cases "set_label ''nodeID'' (cpv_NodeId req) saved")
    case (Inl e)
    then show ?thesis using assms(4) u i1 by (simp add: publish_cached_def Let_def)
  next
    case (Inr q)
    let ?res = "\<lparr>PublishContext = fake_context (NormalizeVolumeID (cpv_VolumeId req)) u\<rparr>"
    let ?q = "q\<lparr>Spec := (Spec q)\<lparr>NodeID := cpv_NodeId req, WrapperControllerPublishVolumeReq := json_ControllerPublish Ec req,
      WrapperControllerPublishVolumeRes := json_ControllerPublishRes Ec ?res\<rparr>\<rparr>"
    obtain r2 w2 where up: "ppv_Update Ec (Namespace s) ?q w1 = (r2, w2)" by fastforce
    have "own_requests Ec Ev ?q"
      using set_label_keeps[OF Inr] assms(6)
      by (intro own_requestsI[OF assms(2,5)]) (auto simp: recorded_def split: node_method.splits)
    note i2 = Update_inv[OF assms(1) i1 up this]
    show ?thesis
    proof (cases r2)
      case (Inl e)
      then show ?thesis using assms(4) u Inr up i2(1) by (simp add: publish_cached_def Let_def)
    next
      case r2: (Inr x)
      obtain r3 w3 where st: "ppv_UpdateStatus Ec (Namespace s) (x\<lparr>State := ControllerPublishVolumeCached\<rparr>) w2 = (r3, w3)" by fastforce
      have "state_ok (State (x\<lparr>State := ControllerPublishVolumeCached\<rparr>)) n c" for n c by (simp add: state_ok_other state_names)
      note i3 = UpdateStatus_inv(1)[OF assms(1) i2(1) st this]
      have "w' = w3" using assms(4) u Inr up r2 st by (auto simp: publish_cached_def Let_def split: sum.splits)
      then show ?thesis using i3 by simp
    qed
  qed
qed

lemma own_empty:
  assumes "json_faithful Ec En Ev" "\<And>m. recorded m (Spec p) = []" "WrapperControllerPublishVolumeReq (Spec p) = []"
  shows "own_requests Ec Ev p"
  using assms unfolding own_requests_def json_faithful_def by (metis is_ok_simps(2))

lemma createPeerpodVolume_inv:
  assumes "api_ok Ec hist calls" "json_faithful Ec En Ev" "csi_inv Ec Ev hist calls w" "createPeerpodVolume Ec s vid name w = (r, w')"
  shows "csi_inv Ec Ev hist calls w'" "calls w' = calls w" "r = Inr x \<Longrightarrow> own_requests Ec Ev x \<and> ppv_Name x = vid"
proof -
  let ?p = "\<lparr>ppv_Name = vid, ppv_Namespace = Namespace s, ppv_ResourceVersion = 0, Labels = Some [(''volumeName'', name)],
    Spec = empty_spec\<lparr>VolumeID := vid, VolumeName := name\<rparr>, State = []\<rparr>"
  have o: "own_requests Ec Ev ?p" by (rule own_empty[OF assms(2)]) (simp_all add: recorded_def empty_spec_def split: node_method.splits)
  note c = Create_inv[OF assms(1,3) assms(4)[unfolded createPeerpodVolume_def] o]
  show "csi_inv Ec Ev hist calls w'" "calls w' = calls w" by (rule c)+
  show "own_requests Ec Ev x \<and> ppv_Name x = vid" if "r = Inr x"
    using c(3)[OF that] own_requests_cong[OF _ _ o, of x] by simp
qed

lemma ControllerPublish_inv:
  assumes "api_ok Ec hist calls" "json_faithful Ec En Ev" "csi_inv Ec Ev hist calls w" "ControllerPublishVolume Ec s req w = (r, w')"
  shows "csi_inv Ec Ev hist calls w'"
proof (cases "ppv_Get Ec (Namespace s) (NormalizeVolumeID (cpv_VolumeId req)) w")
  case (Inr saved)
  then have "own_requests Ec Ev saved" "ppv_Name saved = NormalizeVolumeID (cpv_VolumeId req)"
    using api_okD(1,2)[OF assms(1) Inr] assms(3) by (simp_all add: csi_inv_def)
  then show ?thesis using publish_cached_inv[OF assms(1-3)] assms(4) Inr by (simp add: ControllerPublishVolume_def)
next
  case (Inl e)
  let ?req = "req\<lparr>cpv_VolumeContext := AList.delete PeerpodParamKey (cpv_VolumeContext req)\<rparr>"
  let ?first = "if go_get [] (cpv_VolumeContext req) PeerpodParamKey = [] then redirect Ec (TargetEndpoint s) (drv_ControllerPublish Ec req) w else (Inr (Inl []), w)"
  obtain x w1 where f: "?first = (x, w1)" by (meson surj_pair)
  have i1: "csi_inv Ec Ev hist calls w1"
  proof (cases "go_get [] (cpv_VolumeContext req) PeerpodParamKey = []")
    case True
    then have rd: "redirect Ec (TargetEndpoint s) (drv_ControllerPublish Ec req) w = (x, w1)" using f by simp
    from redirect_runs[OF assms(1) rd] obtain w0 where w0: "hist w0 = hist w \<and> calls w0 = calls w"
      "w1 = w0 \<or> (\<exists>y. drv_ControllerPublish Ec req w0 = (y, w1))" by blast
    have "csi_inv Ec Ev hist calls w0" using csi_inv_same[OF w0(1)] assms(3) by blast
    then show ?thesis using w0(2) csi_inv_attached(1)[OF assms(1)] by blast
  next
    case False
    then show ?thesis using f assms(3) by simp
  qed
  obtain y w2 where c: "createPeerpodVolume Ec s (NormalizeVolumeID (cpv_VolumeId req)) peerpodVolumeNamePlaceholder w1 = (y, w2)" by (meson surj_pair)
  note i2 = createPeerpodVolume_inv[OF assms(1,2) i1 c]
  have cases: "w' = w1 \<or> w' = w2 \<or> (\<exists>saved. y = Inr saved \<and> publish_cached Ec s ?req saved w2 = (r, w'))"
    using assms(4) unfolding ControllerPublishVolume_def Let_def Inl
    by (simp add: f c split: sum.splits)
  have "csi_inv Ec Ev hist calls w'" if "y = Inr saved" "publish_cached Ec s ?req saved w2 = (r, w')" for saved
    using publish_cached_inv[OF assms(1,2) i2(1) that(2)] i2(3)[OF that(1)] by simp
  then show ?thesis using cases i1 i2(1) by blast
qed

lemma cleared_own: "json_faithful Ec En Ev \<Longrightarrow> own_requests Ec Ev (cleared p)"
  by (rule own_empty) (simp_all add: cleared_def recorded_def split: node_method.splits)

lemma ControllerUnpublish_inv:
  assumes "api_ok Ec hist calls" "json_faithful Ec En Ev" "csi_inv Ec Ev hist calls w" "ControllerUnpublishVolume Ec s req w = (r, w')"
  shows "csi_inv Ec Ev hist calls w'"
proof (cases "ppv_Get Ec (Namespace s) (NormalizeVolumeID (cuv_VolumeId req)) w")
  case (Inl e)
  then have "forward Ec (TargetEndpoint s) (drv_ControllerUnpublish Ec req) w = (r, w')" using assms(4) by (simp add: ControllerUnpublishVolume_def)
  from csi_inv_silent[OF silent_forward[OF assms(1) api_okD(12)[OF assms(1)]] this assms(3)] show ?thesis .
next
  case (Inr saved)
  let ?rd = "redirect Ec (TargetEndpoint s) (drv_ControllerUnpublish Ec (req\<lparr>cuv_NodeId := VMID (Spec saved)\<rparr>)) w"
  define w1 where "w1 = (if Contains_str (State saved) ''Applied'' then snd ?rd else w)"
  have "csi_inv Ec Ev hist calls (snd ?rd)"
    using csi_inv_silent[OF silent_redirect[OF assms(1) api_okD(12)[OF assms(1)]] _ assms(3)] by (metis prod.collapse)
  then have i1: "csi_inv Ec Ev hist calls w1" using assms(3) by (simp add: w1_def)
  obtain u w2 where u: "ppv_Update Ec (Namespace s) (cleared saved) w1 = (u, w2)" by fastforce
  have i2: "csi_inv Ec Ev hist calls w2" using Update_inv(1)[OF assms(1) i1 u cleared_own[OF assms(2)]] .
  let ?up = "case u of Inl _ \<Rightarrow> empty_ppv | Inr x \<Rightarrow> x"
  obtain t w3 where t: "ppv_UpdateStatus Ec (Namespace s) (?up\<lparr>State := []\<rparr>) w2 = (t, w3)" by fastforce
  have "state_ok (State (?up\<lparr>State := []\<rparr>)) n c" for n c by (simp add: state_ok_other state_names)
  from UpdateStatus_inv(1)[OF assms(1) i2 t this] have "csi_inv Ec Ev hist calls w3" .
  moreover have "w' = w3" using assms(4) Inr u t unfolding ControllerUnpublishVolume_def Let_def by (simp add: w1_def[symmetric])
  ultimately show ?thesis by simp
qed

lemma CreateVolume_inv:
  assumes "api_ok Ec hist calls" "json_faithful Ec En Ev" "csi_inv Ec Ev hist calls w" "CreateVolume Ec s req w = (r, w')"
  shows "csi_inv Ec Ev hist calls w'"
proof -
  let ?p = "go_get [] (cv_Parameters req) PeerpodParamKey"
  let ?req = "if ?p \<noteq> [] then req\<lparr>cv_Parameters := AList.delete PeerpodParamKey (cv_Parameters req)\<rparr> else req"
  obtain x w1 where rd: "redirect Ec (TargetEndpoint s) (\<lambda>w. case drv_CreateVolume Ec ?req w of
      (Inl e, w) \<Rightarrow> ((None, Some (if ?p \<noteq> [] then NilPanic else DriverError e)), w)
    | (Inr res, w) \<Rightarrow> (if ?p \<noteq> [] then (case cvr_VolumeId res of None \<Rightarrow> ((None, Some NilPanic), w)
        | Some volumeID \<Rightarrow> (case createPeerpodVolume Ec s (NormalizeVolumeID volumeID) (cv_Name ?req) w of (_, w) \<Rightarrow> ((Some res, None), w)))
        else ((Some res, None), w))) w = (x, w1)" by (meson surj_pair)
  have w': "w' = w1" using assms(4) rd unfolding CreateVolume_def Let_def of_redirect_def by (auto split: sum.splits)
  from redirect_runs[OF assms(1) rd] obtain w0 where w0: "hist w0 = hist w \<and> calls w0 = calls w" and
    c: "w1 = w0 \<or> (\<exists>y. (case drv_CreateVolume Ec ?req w0 of
      (Inl e, w) \<Rightarrow> ((None, Some (if ?p \<noteq> [] then NilPanic else DriverError e)), w)
    | (Inr res, w) \<Rightarrow> (if ?p \<noteq> [] then (case cvr_VolumeId res of None \<Rightarrow> ((None, Some NilPanic), w)
        | Some volumeID \<Rightarrow> (case createPeerpodVolume Ec s (NormalizeVolumeID volumeID) (cv_Name ?req) w of (_, w) \<Rightarrow> ((Some res, None), w)))
        else ((Some res, None), w))) = (y, w1))" by blast
  have i0: "csi_inv Ec Ev hist calls w0" using csi_inv_same[OF w0] assms(3) by blast
  obtain d w2 where d: "drv_CreateVolume Ec ?req w0 = (d, w2)" by fastforce
  have i2: "csi_inv Ec Ev hist calls w2" using csi_inv_silent[OF api_okD(10)[OF assms(1)] d i0] .
  from c d have "w1 = w0 \<or> w1 = w2 \<or> (\<exists>v n z. createPeerpodVolume Ec s v n w2 = (z, w1))"
    by (auto split: sum.splits option.splits if_splits prod.splits)
  then show ?thesis using w' i0 i2 createPeerpodVolume_inv(1)[OF assms(1,2) i2] by blast
qed

lemma DeleteVolume_inv:
  assumes "api_ok Ec hist calls" "csi_inv Ec Ev hist calls w" "DeleteVolume Ec s req w = (r, w')"
  shows "csi_inv Ec Ev hist calls w'"
proof -
  let ?f = "\<lambda>w. (case drv_DeleteVolume Ec req w of (r, w) \<Rightarrow>
     (let res = (case r of Inl _ \<Rightarrow> None | Inr x \<Rightarrow> Some x); volumeID = NormalizeVolumeID (dv_VolumeId req)
      in case ppv_Get Ec (Namespace s) volumeID w of
           Inl e \<Rightarrow> ((res, Some (KubeError e)), w)
         | Inr _ \<Rightarrow> (case ppv_Delete Ec (Namespace s) volumeID w of (_, w) \<Rightarrow> ((res, None), w))))"
  have s: "silent hist calls ?f"
    using api_okD(11)[OF assms(1), of req] api_okD(7)[OF assms(1), of "Namespace s" "NormalizeVolumeID (dv_VolumeId req)"]
    by (auto simp: silent_def Let_def split: prod.splits sum.splits) (metis snd_conv)+
  obtain x where "redirect Ec (TargetEndpoint s) ?f w = (x, w')"
    using assms(3) unfolding DeleteVolume_def of_redirect_def by (auto split: sum.splits prod.splits)
  from csi_inv_silent[OF silent_redirect[OF assms(1) s] this assms(2)] show ?thesis .
qed

lemma record_attached_inv:
  assumes "api_ok Ec hist calls" "json_faithful Ec En Ev" "csi_inv Ec Ev hist calls w" "own_requests Ec Ev p" "Attached (ppv_Name p) vm \<in> set (calls w)"
  shows "csi_inv Ec Ev hist calls (record_attached Ec s p response w)"
proof -
  let ?p = "p\<lparr>Spec := (Spec p)\<lparr>WrapperControllerPublishVolumeRes := json_ControllerPublishRes Ec response,
    DevicePath := go_get [] (PublishContext response) ''device-path''\<rparr>\<rparr>"
  obtain u w1 where u: "ppv_Update Ec (Namespace s) ?p w = (u, w1)" by fastforce
  have "own_requests Ec Ev ?p" by (rule own_requestsI[OF assms(2,4)]) (auto simp: recorded_def split: node_method.splits)
  note i1 = Update_inv[OF assms(1,3) u this]
  show ?thesis
  proof (cases u)
    case (Inl e)
    then show ?thesis using u i1(1) by (simp add: record_attached_def)
  next
    case (Inr x)
    obtain t w2 where t: "ppv_UpdateStatus Ec (Namespace s) (x\<lparr>State := ControllerPublishVolumeApplied\<rparr>) w1 = (t, w2)" by fastforce
    have "state_ok ControllerPublishVolumeApplied (ppv_Name p) (calls w1)"
      using assms(5) i1(2) by (auto simp: state_ok_def state_names)
    then have "state_ok (State (x\<lparr>State := ControllerPublishVolumeApplied\<rparr>)) (ppv_Name (x\<lparr>State := ControllerPublishVolumeApplied\<rparr>)) (calls w1)"
      using i1(3)[OF Inr] by simp
    from UpdateStatus_inv(1)[OF assms(1) i1(1) t this] show ?thesis using u t Inr by (simp add: record_attached_def)
  qed
qed

lemma cs_SyncHandler_inv:
  assumes "api_ok Ec hist calls" "json_faithful Ec En Ev" "csi_inv Ec Ev hist calls w" "p \<in> hist w"
  shows "csi_inv Ec Ev hist calls (cs_SyncHandler Ec s p w)"
proof (cases "State p = PeerPodVSIIDReady \<and> DevicePath (Spec p) = []")
  case True
  have own: "own_requests Ec Ev p" using assms(3,4) by (simp add: csi_inv_def)
  show ?thesis
  proof (cases "unjson_ControllerPublish Ec (WrapperControllerPublishVolumeReq (Spec p))")
    case (Inl e)
    then show ?thesis using assms(3) True by (simp add: cs_SyncHandler_def)
  next
    case (Inr q)
    have vid: "NormalizeVolumeID (cpv_VolumeId q) = ppv_Name p" using own Inr by (simp add: own_requests_def)
    let ?q = "q\<lparr>cpv_NodeId := vm_node_id (VMID (Spec p))\<rparr>"
    let ?f = "\<lambda>w. case drv_ControllerPublish Ec ?q w of (Inl _, w) \<Rightarrow> ((), w) | (Inr response, w) \<Rightarrow> ((), record_attached Ec s p response w)"
    obtain x w' where rd: "redirect Ec (TargetEndpoint s) ?f w = (x, w')" by (meson surj_pair)
    from redirect_runs[OF assms(1) rd] obtain w0 where w0: "hist w0 = hist w \<and> calls w0 = calls w" "w' = w0 \<or> (\<exists>y. ?f w0 = (y, w'))" by blast
    have i0: "csi_inv Ec Ev hist calls w0" using csi_inv_same[OF w0(1)] assms(3) by blast
    obtain d w1 where d: "drv_ControllerPublish Ec ?q w0 = (d, w1)" by fastforce
    note i1 = csi_inv_attached[OF assms(1) i0 d]
    have "csi_inv Ec Ev hist calls w'" if "\<exists>y. ?f w0 = (y, w')"
    proof (cases d)
      case (Inl e)
      then show ?thesis using that d i1(1) by simp
    next
      case d': (Inr res)
      have "Attached (ppv_Name p) (vm_node_id (VMID (Spec p))) \<in> set (calls w1)" using i1(4)[OF d'] vid by simp
      from record_attached_inv[OF assms(1,2) i1(1) own this] have "csi_inv Ec Ev hist calls (record_attached Ec s p res w1)" .
      then show ?thesis using that d d' by auto
    qed
    then have "csi_inv Ec Ev hist calls w'" using w0(2) i0 by blast
    then show ?thesis using True Inr rd by (simp add: cs_SyncHandler_def)
  qed
next
  case False
  then show ?thesis using assms(3) by (auto simp: cs_SyncHandler_def)
qed

section \<open>The node service keeps the invariant\<close>

lemma cache_state_inv:
  assumes "api_ok E hist calls" "csi_inv Ec Ev hist calls w" "own_requests Ec Ev p" "st \<in> {NodeStageVolumeCached, NodePublishVolumeCached}"
    "cache_state E ns vid st p w = (r, w')"
  shows "csi_inv Ec Ev hist calls w'"
proof -
  obtain u w1 where u: "ppv_Update E ns p w = (u, w1)" by fastforce
  have i1: "csi_inv Ec Ev hist calls w1" by (rule Update_inv(1)[OF assms(1,2) u assms(3)])
  let ?q = "(case ppv_Get E ns vid w1 of Inl _ \<Rightarrow> empty_ppv | Inr p \<Rightarrow> p)\<lparr>State := st\<rparr>"
  obtain t w2 where t: "ppv_UpdateStatus E ns ?q w1 = (t, w2)" by fastforce
  have "state_ok (State ?q) n c" for n c using assms(4) by (auto simp: state_ok_other state_names)
  note i2 = UpdateStatus_inv(1)[OF assms(1) i1 t this]
  have "w' = w1 \<or> w' = w2" using assms(5) u t by (auto simp: cache_state_def Let_def split: sum.splits)
  then show ?thesis using i1 i2 by blast
qed

lemma update_stale_inv:
  assumes "api_ok E hist calls" "csi_inv Ec Ev hist calls w" "own_requests Ec Ev p" "old \<in> hist w" "ppv_Name p = ppv_Name old" "State p = State old"
    "update_stale E ns st p w = (r, w')"
  shows "csi_inv Ec Ev hist calls w'"
proof -
  obtain u w1 where u: "ppv_Update E ns p w = (u, w1)" by fastforce
  note i1 = Update_inv[OF assms(1,2) u assms(3)]
  obtain t w2 where t: "ppv_UpdateStatus E ns p w1 = (t, w2)" by fastforce
  have "state_ok (State p) (ppv_Name p) (calls w1)" using assms(2,4-6) i1(2) by (simp add: csi_inv_def)
  note i2 = UpdateStatus_inv(1)[OF assms(1) i1(1) t this]
  have "w' = w1 \<or> w' = w2" using assms(7) u t by (auto simp: update_stale_def Let_def split: sum.splits)
  then show ?thesis using i1(1) i2 by blast
qed

lemma forward_node_inv:
  assumes "api_ok En hist calls" "worker_ok En hist calls" "csi_inv Ec Ev hist calls w" "forward En ep (drv_Node En m req) w = (r, w')"
  shows "csi_inv Ec Ev hist calls w'"
  using csi_inv_silent[OF silent_forward[OF assms(1)] assms(4,3)] assms(2) by (simp add: worker_ok_def)

lemma kata_inv:
  assumes "api_ok E hist calls" "csi_inv Ec Ev hist calls w"
  shows "csi_inv Ec Ev hist calls (addKataDirectVolume E p w)" "hist (addKataDirectVolume E p w) = hist w"
    "csi_inv Ec Ev hist calls (removeKataDirectVolume E p w)" "hist (removeKataDirectVolume E p w) = hist w"
proof -
  have a: "hist (addKataDirectVolume E p w) = hist w \<and> calls (addKataDirectVolume E p w) = calls w"
    using api_okD(13)[OF assms(1)] by (simp add: silent_def addKataDirectVolume_def)
  have r: "hist (removeKataDirectVolume E p w) = hist w \<and> calls (removeKataDirectVolume E p w) = calls w"
    using api_okD(14)[OF assms(1)] by (simp add: silent_def removeKataDirectVolume_def)
  show "csi_inv Ec Ev hist calls (addKataDirectVolume E p w)" "hist (addKataDirectVolume E p w) = hist w"
    using csi_inv_same[OF a, of Ec Ev] assms(2) a by simp_all
  show "csi_inv Ec Ev hist calls (removeKataDirectVolume E p w)" "hist (removeKataDirectVolume E p w) = hist w"
    using csi_inv_same[OF r, of Ec Ev] assms(2) r by simp_all
qed

lemma named_for_pod_keeps:
  assumes "named_for_pod t p = Inr q"
  shows "ppv_Name q = ppv_Name p" "State q = State p" "recorded m (Spec q) = recorded m (Spec p)"
    "WrapperControllerPublishVolumeReq (Spec q) = WrapperControllerPublishVolumeReq (Spec p)"
  using assms
  by (auto simp: named_for_pod_def bind_result_Inr_iff Let_def recorded_def dest!: set_label_keeps split: if_splits node_method.splits)

lemma own_saved: "csi_inv Ec Ev hist calls w \<Longrightarrow> p \<in> hist w \<Longrightarrow> own_requests Ec Ev p"
  by (simp add: csi_inv_def)

lemma NodePublish_inv:
  assumes "api_ok En hist calls" "worker_ok En hist calls" "json_faithful Ec En Ev" "csi_inv Ec Ev hist calls w"
    "NodePublishVolume En s req (os, w) = (r, (os', w'))"
  shows "csi_inv Ec Ev hist calls w'"
proof (cases "ppv_Get En (ns_Namespace s) (NormalizeVolumeID (nv_VolumeId req)) w")
  case (Inl e)
  then obtain x where "forward En (ns_TargetEndpoint s) (drv_Node En NodePublish req) w = (x, w')"
    using assms(5) by (auto simp: NodePublishVolume_def split: prod.splits)
  from forward_node_inv[OF assms(1,2,4) this] show ?thesis .
next
  case (Inr saved)
  note get = api_okD(1,2)[OF assms(1) Inr]
  let ?w = "addKataDirectVolume En (nv_TargetPath req) w"
  note k = kata_inv[OF assms(1,4), of "nv_TargetPath req"]
  show ?thesis
  proof (cases "named_for_pod (nv_TargetPath req) saved")
    case (Inl e)
    then show ?thesis using assms(5) Inr k(1) by (simp add: NodePublishVolume_def Let_def)
  next
    case q: (Inr q)
    let ?q = "q\<lparr>Spec := (Spec q)\<lparr>WrapperNodePublishVolumeReq := json_Node En NodePublish req\<rparr>\<rparr>"
    have own: "own_requests Ec Ev ?q"
    proof (rule own_requestsI[OF assms(3) own_saved[OF assms(4) get(1)]])
      show "ppv_Name ?q = ppv_Name saved" using named_for_pod_keeps(1)[OF q] by simp
      show "recorded m (Spec ?q) = recorded m (Spec saved) \<or> recorded m (Spec ?q) = [] \<or>
        (\<exists>r. recorded m (Spec ?q) = json_Node En m r \<and> NormalizeVolumeID (nv_VolumeId r) = ppv_Name saved)" for m
        using named_for_pod_keeps(3)[OF q, of m] get(2) by (cases m) (auto simp: recorded_def)
    qed (use named_for_pod_keeps(4)[OF q] in simp)
    obtain x where "cache_state En (ns_Namespace s) (NormalizeVolumeID (nv_VolumeId req)) NodePublishVolumeCached ?q ?w = (x, w')"
      using assms(5) Inr q by (auto simp: NodePublishVolume_def Let_def split: prod.splits)
    from cache_state_inv[OF assms(1) k(1) own _ this] show ?thesis by simp
  qed
qed

lemma NodeStage_inv:
  assumes "api_ok En hist calls" "worker_ok En hist calls" "json_faithful Ec En Ev" "csi_inv Ec Ev hist calls w"
    "NodeStageVolume En s req (os, w) = (r, (os', w'))"
  shows "csi_inv Ec Ev hist calls w'"
proof (cases "ppv_Get En (ns_Namespace s) (NormalizeVolumeID (nv_VolumeId req)) w")
  case (Inl e)
  then obtain x where "forward En (ns_TargetEndpoint s) (drv_Node En NodeStage req) w = (x, w')"
    using assms(5) by (auto simp: NodeStageVolume_def split: prod.splits)
  from forward_node_inv[OF assms(1,2,4) this] show ?thesis .
next
  case (Inr saved)
  note get = api_okD(1,2)[OF assms(1) Inr]
  let ?q = "saved\<lparr>Spec := (Spec saved)\<lparr>StagingTargetPath := nv_StagingTargetPath req, WrapperNodeStageVolumeReq := json_Node En NodeStage req\<rparr>\<rparr>"
  have own: "own_requests Ec Ev ?q"
    using get(2) by (intro own_requestsI[OF assms(3) own_saved[OF assms(4) get(1)]]) (auto simp: recorded_def split: node_method.splits)
  obtain x where "cache_state En (ns_Namespace s) (NormalizeVolumeID (nv_VolumeId req)) NodeStageVolumeCached ?q w = (x, w')"
    using assms(5) Inr by (auto simp: NodeStageVolume_def Let_def split: prod.splits)
  from cache_state_inv[OF assms(1,4) own _ this] show ?thesis by simp
qed

lemma NodeUnpublish_inv:
  assumes "api_ok En hist calls" "worker_ok En hist calls" "json_faithful Ec En Ev" "csi_inv Ec Ev hist calls w"
    "NodeUnpublishVolume En s req (os, w) = (r, (os', w'))"
  shows "csi_inv Ec Ev hist calls w'"
proof (cases "ppv_Get En (ns_Namespace s) (NormalizeVolumeID (nv_VolumeId req)) w")
  case (Inl e)
  then obtain x where "forward En (ns_TargetEndpoint s) (drv_Node En NodeUnpublish req) w = (x, w')"
    using assms(5) by (auto simp: NodeUnpublishVolume_def split: prod.splits)
  from forward_node_inv[OF assms(1,2,4) this] show ?thesis .
next
  case (Inr saved)
  note get = api_okD(1,2)[OF assms(1) Inr]
  let ?w = "removeKataDirectVolume En (nv_TargetPath req) w"
  note k = kata_inv(3,4)[OF assms(1,4), of "nv_TargetPath req"]
  let ?q = "saved\<lparr>Spec := (Spec saved)\<lparr>WrapperNodeUnpublishVolumeReq := json_Node En NodeUnpublish req\<rparr>\<rparr>"
  have own: "own_requests Ec Ev ?q"
    using get(2) by (intro own_requestsI[OF assms(3) own_saved[OF assms(4) get(1)]]) (auto simp: recorded_def split: node_method.splits)
  obtain x where u: "update_stale En (ns_Namespace s) NodeUnpublishVolumeCached ?q ?w = (x, w')"
    using assms(5) Inr by (auto simp: NodeUnpublishVolume_def Let_def split: prod.splits)
  have "saved \<in> hist ?w" using get(1) k(2) by simp
  from update_stale_inv[OF assms(1) k(1) own this _ _ u] show ?thesis by simp
qed

lemma NodeUnstage_inv:
  assumes "api_ok En hist calls" "worker_ok En hist calls" "json_faithful Ec En Ev" "csi_inv Ec Ev hist calls w"
    "NodeUnstageVolume En s req (os, w) = (r, (os', w'))"
  shows "csi_inv Ec Ev hist calls w'"
proof (cases "ppv_Get En (ns_Namespace s) (NormalizeVolumeID (nv_VolumeId req)) w")
  case (Inl e)
  then obtain x where "forward En (ns_TargetEndpoint s) (drv_Node En NodeUnstage req) w = (x, w')"
    using assms(5) by (auto simp: NodeUnstageVolume_def split: prod.splits)
  from forward_node_inv[OF assms(1,2,4) this] show ?thesis .
next
  case (Inr saved)
  note get = api_okD(1,2)[OF assms(1) Inr]
  let ?q = "saved\<lparr>Spec := (Spec saved)\<lparr>WrapperNodeUnstageVolumeReq := json_Node En NodeUnstage req\<rparr>\<rparr>"
  have own: "own_requests Ec Ev ?q"
    using get(2) by (intro own_requestsI[OF assms(3) own_saved[OF assms(4) get(1)]]) (auto simp: recorded_def split: node_method.splits)
  obtain x where u: "update_stale En (ns_Namespace s) NodeUnstageVolumeCached ?q w = (x, w')"
    using assms(5) Inr by (auto simp: NodeUnstageVolume_def Let_def split: prod.splits)
  from update_stale_inv[OF assms(1,4) own get(1) _ _ u] show ?thesis by simp
qed

lemma ns_SyncHandler_inv:
  assumes "api_ok En hist calls" "json_faithful Ec En Ev" "csi_inv Ec Ev hist calls w" "p \<in> hist w" "ns_SyncHandler En s os p w = (r, w')"
  shows "csi_inv Ec Ev hist calls w'"
proof (cases "NodeName (Spec p) = Getenv os ''POD_NODE_NAME'' \<and> State p = PeerPodVSIRunning")
  case True
  obtain d w1 where d: "net_Dial_unix En (VMIDInformationEndpoint s) w = (d, w1)" by fastforce
  have i1: "csi_inv Ec Ev hist calls w1" by (rule csi_inv_silent[OF api_okD(16)[OF assms(1)] d assms(3)])
  obtain g w2 where g: "vminfo_GetInfo En (VMIDInformationEndpoint s) (PodName (Spec p), PodNamespace (Spec p), False) w1 = (g, w2)" by fastforce
  have i2: "csi_inv Ec Ev hist calls w2" by (rule csi_inv_silent[OF api_okD(15)[OF assms(1)] g i1])
  have "w' = w1 \<or> w' = w2 \<or> (\<exists>vmID q u w3. set_label ''vmID'' (NormalizeVMID vmID) (p\<lparr>Spec := (Spec p)\<lparr>VMID := vmID\<rparr>\<rparr>) = Inr q \<and>
      ppv_Update En (ns_Namespace s) q w2 = (u, w3) \<and>
      w' = snd (ppv_UpdateStatus En (ns_Namespace s) ((case u of Inl _ \<Rightarrow> empty_ppv | Inr x \<Rightarrow> x)\<lparr>State := PeerPodVSIIDReady\<rparr>) w3))"
    using assms(5) True d g
    by (simp add: ns_SyncHandler_def Let_def split: option.splits sum.splits prod.splits) blast+
  moreover have "csi_inv Ec Ev hist calls w'"
    if q: "set_label ''vmID'' (NormalizeVMID vmID) (p\<lparr>Spec := (Spec p)\<lparr>VMID := vmID\<rparr>\<rparr>) = Inr q"
      and u: "ppv_Update En (ns_Namespace s) q w2 = (u, w3)"
      and t: "w' = snd (ppv_UpdateStatus En (ns_Namespace s) ((case u of Inl _ \<Rightarrow> empty_ppv | Inr x \<Rightarrow> x)\<lparr>State := PeerPodVSIIDReady\<rparr>) w3)"
    for vmID q u w3
  proof -
    have "own_requests Ec Ev q"
      using set_label_keeps[OF q] by (intro own_requestsI[OF assms(2) own_saved[OF assms(3,4)]]) (auto simp: recorded_def split: node_method.splits)
    from Update_inv(1)[OF assms(1) i2 u this] have i3: "csi_inv Ec Ev hist calls w3" .
    let ?x = "(case u of Inl _ \<Rightarrow> empty_ppv | Inr x \<Rightarrow> x)\<lparr>State := PeerPodVSIIDReady\<rparr>"
    obtain y w4 where y: "ppv_UpdateStatus En (ns_Namespace s) ?x w3 = (y, w4)" by fastforce
    have "state_ok (State ?x) n c" for n c by (simp add: state_ok_other state_names)
    from UpdateStatus_inv(1)[OF assms(1) i3 y this] show ?thesis using t y by simp
  qed
  ultimately show ?thesis using i1 i2 by blast
next
  case False
  then show ?thesis using assms(3,5) by (auto simp: ns_SyncHandler_def split: if_splits)
qed

section \<open>The pod VM keeps the invariant\<close>

lemma needs_mono: "needs xs c \<Longrightarrow> set xs \<subseteq> set ys \<Longrightarrow> needs ys c"
  by (induction xs c rule: needs.induct) auto

lemma csi_inv_did:
  assumes "podvm_ok Ev hist calls" "csi_inv Ec Ev hist calls w" "drv_Node Ev m req w = (x, w')" "m \<in> {NodeStage, NodePublish}"
    "needs (calls w) (Did m (NormalizeVolumeID (nv_VolumeId req)))"
  shows "csi_inv Ec Ev hist calls w'" "hist w' = hist w" "set (calls w) \<subseteq> set (calls w')"
    "x = Inr y \<Longrightarrow> Did m (NormalizeVolumeID (nv_VolumeId req)) \<in> set (calls w')"
proof -
  have h: "hist w' = hist w" and c: "calls w' = calls w @ (if is_ok x then [Did m (NormalizeVolumeID (nv_VolumeId req))] else [])"
    using assms(1,3) unfolding podvm_ok_def by (metis fst_conv snd_conv)+
  show "hist w' = hist w" by (rule h)
  show s: "set (calls w) \<subseteq> set (calls w')" using c by auto
  show "csi_inv Ec Ev hist calls w'"
    using assms(2,4,5) h c state_ok_mono[OF _ s] by (auto simp: csi_inv_def in_order_append split: if_splits)
  show "x = Inr y \<Longrightarrow> Did m (NormalizeVolumeID (nv_VolumeId req)) \<in> set (calls w')" using c by simp
qed

lemma replay_once_inv:
  assumes "api_ok Ev hist calls" "podvm_ok Ev hist calls" "m \<in> {NodeStage, NodePublish}" "NormalizeVolumeID (nv_VolumeId req) = ppv_Name p"
    "State p = (if m = NodeStage then NodeStageVolumeApplied else NodePublishVolumeApplied)"
    and J: "csi_inv Ec Ev hist calls w" "needs (calls w) (Did m (ppv_Name p))"
  shows "csi_inv Ec Ev hist calls (snd (replay_once Ev s m req p w))" "needs (calls (snd (replay_once Ev s m req p w))) (Did m (ppv_Name p))"
proof -
  let ?f = "\<lambda>w. (case drv_Node Ev m req w of (Inl _, w) \<Rightarrow> (False, w)
      | (Inr _, w) \<Rightarrow> (case ppv_UpdateStatus Ev (vm_Namespace s) p w of (Inl _, w) \<Rightarrow> (False, w) | (Inr _, w) \<Rightarrow> (True, w)))"
  obtain x w' where rd: "redirect Ev (vm_TargetEndpoint s) ?f w = (x, w')" by (meson surj_pair)
  then have w': "snd (replay_once Ev s m req p w) = w'" by (simp add: replay_once_def split: sum.splits)
  from redirect_runs[OF assms(1) rd] obtain w0 where w0: "hist w0 = hist w \<and> calls w0 = calls w" "w' = w0 \<or> (\<exists>y. ?f w0 = (y, w'))" by blast
  have i0: "csi_inv Ec Ev hist calls w0" "needs (calls w0) (Did m (ppv_Name p))" using csi_inv_same[OF w0(1), of Ec Ev] J w0(1) by simp_all
  obtain d w1 where d: "drv_Node Ev m req w0 = (d, w1)" by fastforce
  have "needs (calls w0) (Did m (NormalizeVolumeID (nv_VolumeId req)))" using i0(2) assms(4) by simp
  note i1 = csi_inv_did[OF assms(2) i0(1) d assms(3) this]
  obtain t w2 where t: "ppv_UpdateStatus Ev (vm_Namespace s) p w1 = (t, w2)" by fastforce
  have n1: "needs (calls w1) (Did m (ppv_Name p))" by (rule needs_mono[OF i0(2) i1(3)])
  have "csi_inv Ec Ev hist calls w' \<and> needs (calls w') (Did m (ppv_Name p))" if "\<exists>y. ?f w0 = (y, w')"
  proof (cases d)
    case (Inl e)
    then show ?thesis using that d i1(1) n1 by simp
  next
    case (Inr y)
    have "state_ok (State p) (ppv_Name p) (calls w1)"
      using i1(4)[OF Inr] assms(3,4,5) by (auto simp: state_ok_def state_names)
    note i2 = UpdateStatus_inv[OF assms(1) i1(1) t this]
    have "w' = w2" using that d t Inr by (auto split: sum.splits)
    then show ?thesis using i2 n1 by simp
  qed
  then show "csi_inv Ec Ev hist calls (snd (replay_once Ev s m req p w))" "needs (calls (snd (replay_once Ev s m req p w))) (Did m (ppv_Name p))"
    using w' w0(2) i0 by blast+
qed

lemma replay_loop_inv:
  assumes "replay_loop attempt 0 w = Some w'" "P w" "\<And>w. P w \<Longrightarrow> P (snd (attempt w))"
  shows "P w'"
proof -
  have "P (((\<lambda>w. snd (attempt w)) ^^ n) w)" for n by (induction n) (simp_all add: assms(2,3))
  then show ?thesis using replay_loop_returns[of attempt w] assms(1) by (metis option.inject)
qed

lemma vm_SyncHandler_inv:
  assumes "api_ok Ev hist calls" "podvm_ok Ev hist calls" "csi_inv Ec Ev hist calls w" "p \<in> hist w" "vm_SyncHandler Ev s os p w = Some w'"
  shows "csi_inv Ec Ev hist calls w'"
proof -
  have st: "state_ok (State p) (ppv_Name p) (calls w)" and own: "own_requests Ec Ev p" using assms(3,4) by (simp_all add: csi_inv_def)
  have stage: "csi_inv Ec Ev hist calls w'" if c: "State p = ControllerPublishVolumeApplied" "ReproduceNodeStageVolume Ev s p w = Some w'"
  proof (cases "unjson_Node Ev NodeStage (WrapperNodeStageVolumeReq (Spec p))")
    case (Inr req)
    let ?q = "req\<lparr>nv_PublishContext := real_context Ev p\<rparr>" and ?p = "p\<lparr>State := NodeStageVolumeApplied\<rparr>"
    have v: "NormalizeVolumeID (nv_VolumeId ?q) = ppv_Name ?p" using own Inr by (auto simp: own_requests_def recorded_def dest: spec[of _ NodeStage])
    have r: "replay_loop (replay_once Ev s NodeStage ?q ?p) 0 w = Some w'" using c(2) Inr by (simp add: ReproduceNodeStageVolume_def)
    have n: "needs (calls w) (Did NodeStage (ppv_Name ?p))" using st c(1) by (simp add: state_ok_def)
    have "csi_inv Ec Ev hist calls w' \<and> needs (calls w') (Did NodeStage (ppv_Name ?p))"
      by (rule replay_loop_inv[OF r]) (use assms(3) n replay_once_inv[OF assms(1,2) _ v, of NodeStage Ec] in \<open>simp_all del: needs.simps\<close>)
    then show ?thesis by blast
  qed (use c(2) assms(3) in \<open>simp add: ReproduceNodeStageVolume_def\<close>)
  have publish: "csi_inv Ec Ev hist calls w'" if c: "State p = NodeStageVolumeApplied" "ReproduceNodePublishVolume Ev s p w = Some w'"
  proof (cases "unjson_Node Ev NodePublish (WrapperNodePublishVolumeReq (Spec p))")
    case (Inr req)
    let ?p = "p\<lparr>State := NodePublishVolumeApplied\<rparr>"
    have v: "NormalizeVolumeID (nv_VolumeId req) = ppv_Name ?p" using own Inr by (auto simp: own_requests_def recorded_def dest: spec[of _ NodePublish])
    have r: "replay_loop (replay_once Ev s NodePublish req ?p) 0 w = Some w'" using c(2) Inr by (simp add: ReproduceNodePublishVolume_def)
    have n: "needs (calls w) (Did NodePublish (ppv_Name ?p))" using st c(1) by (simp add: state_ok_def)
    have "csi_inv Ec Ev hist calls w' \<and> needs (calls w') (Did NodePublish (ppv_Name ?p))"
      by (rule replay_loop_inv[OF r]) (use assms(3) n replay_once_inv[OF assms(1,2) _ v, of NodePublish Ec] in \<open>simp_all del: needs.simps\<close>)
    then show ?thesis by blast
  qed (use c(2) assms(3) in \<open>simp add: ReproduceNodePublishVolume_def\<close>)
  show ?thesis
    using assms(3,5) st stage publish by (auto simp: vm_SyncHandler_def state_ok_def split: if_splits)
qed

lemma claim_volume_inv:
  assumes "api_ok Ev hist calls" "json_faithful Ec En Ev" "csi_inv Ec Ev hist calls w" "own_requests Ec Ev p" "claim_volume Ev ns os p w = (r, w')"
  shows "csi_inv Ec Ev hist calls w'"
proof -
  let ?sp = "(Spec p)\<lparr>PodName := Getenv os ''POD_NAME'', PodNamespace := Getenv os ''POD_NAME_SPACE'', NodeName := Getenv os ''POD_NODE_NAME''\<rparr>"
  let ?l = "bind_result (set_label ''podName'' (Getenv os ''POD_NAME'') (p\<lparr>Spec := ?sp\<rparr>)) (\<lambda>p. bind_result (set_label ''podNamespace'' (Getenv os ''POD_NAME_SPACE'') p)
    (set_label ''podNodeName'' (Getenv os ''POD_NODE_NAME'')))"
  show ?thesis
  proof (cases ?l)
    case (Inl e)
    then show ?thesis using assms(3,5) by (simp add: claim_volume_def Let_def)
  next
    case (Inr q)
    then have q: "Spec q = ?sp \<and> ppv_Name q = ppv_Name p" by (auto simp: bind_result_Inr_iff dest!: set_label_keeps)
    have own: "own_requests Ec Ev q" using q by (intro own_requestsI[OF assms(2,4)]) (auto simp: recorded_def split: node_method.splits)
    obtain u w1 where u: "ppv_Update Ev ns q w = (u, w1)" by fastforce
    have i1: "csi_inv Ec Ev hist calls w1" by (rule Update_inv(1)[OF assms(1,3) u own])
    have "w' = w1 \<or> (\<exists>x. w' = snd (ppv_UpdateStatus Ev ns (x\<lparr>State := PeerPodVSIRunning\<rparr>) w1))"
      using assms(5) Inr u by (auto simp: claim_volume_def Let_def split: sum.splits prod.splits) (metis snd_conv)+
    moreover have "csi_inv Ec Ev hist calls (snd (ppv_UpdateStatus Ev ns (x\<lparr>State := PeerPodVSIRunning\<rparr>) w1))" for x
      using UpdateStatus_inv(1)[OF assms(1) i1, of ns "x\<lparr>State := PeerPodVSIRunning\<rparr>"] by (simp add: state_ok_other state_names) (metis prod.collapse)
    ultimately show ?thesis using i1 by blast
  qed
qed

lemma claim_volumes_inv:
  assumes "api_ok Ev hist calls" "json_faithful Ec En Ev" "csi_inv Ec Ev hist calls w" "claim_volumes Ev ns os w = (r, w')"
  shows "csi_inv Ec Ev hist calls w'"
proof (cases "ppv_List Ev ns (''podUid'', Getenv os ''POD_UID'') w")
  case (Inl e)
  then show ?thesis using assms(3,4) by (simp add: claim_volumes_def)
next
  case (Inr ps)
  have "\<forall>p\<in>set ps. own_requests Ec Ev p" using api_okD(3)[OF assms(1) Inr] assms(3) by (auto simp: csi_inv_def)
  moreover have "for_io (claim_volume Ev ns os) ps w = (r, w')" using assms(4) Inr by (simp add: claim_volumes_def)
  ultimately show ?thesis
    using for_io_inv[of "claim_volume Ev ns os" ps w r w' "csi_inv Ec Ev hist calls"] claim_volume_inv[OF assms(1,2)] assms(3) by blast
qed

end
