(* ===== verification/CsiProps.thy ===== *)
theory CsiProps
  imports CsiInv
begin

text \<open>
  The three services of the CSI wrapper together: every interleaving of their handlers on one API server, with objects
  for the synchronisation handlers taken from anywhere in the past (the caches of the informers lag behind).  An API server with optimistic
  locking and two drivers in memory, on which the life of a volume runs, is the instance.
\<close>

section \<open>All interleavings\<close>

inductive csi_step :: "'w csi_env \<Rightarrow> 'w csi_env \<Rightarrow> 'w csi_env \<Rightarrow> ControllerService \<Rightarrow> NodeService \<Rightarrow> PodVMNodeService \<Rightarrow> ('w \<Rightarrow> PeerpodVolume set)
    \<Rightarrow> 'w \<Rightarrow> 'w \<Rightarrow> bool"
  for Ec En Ev :: "'w csi_env" and cs :: ControllerService and ns :: NodeService and vm :: PodVMNodeService and hist :: "'w \<Rightarrow> PeerpodVolume set" where
  create: "CreateVolume Ec cs cr w = (r, w') \<Longrightarrow> csi_step Ec En Ev cs ns vm hist w w'"
| delete: "DeleteVolume Ec cs dr w = (r', w') \<Longrightarrow> csi_step Ec En Ev cs ns vm hist w w'"
| attach: "ControllerPublishVolume Ec cs ar w = (r'', w') \<Longrightarrow> csi_step Ec En Ev cs ns vm hist w w'"
| detach: "ControllerUnpublishVolume Ec cs ur w = (r''', w') \<Longrightarrow> csi_step Ec En Ev cs ns vm hist w w'"
| replay_attach: "p \<in> hist w \<Longrightarrow> csi_step Ec En Ev cs ns vm hist w (cs_SyncHandler Ec cs p w)"
| stage: "NodeStageVolume En ns req (os, w) = (x, (os', w')) \<Longrightarrow> csi_step Ec En Ev cs ns vm hist w w'"
| unstage: "NodeUnstageVolume En ns req (os, w) = (x, (os', w')) \<Longrightarrow> csi_step Ec En Ev cs ns vm hist w w'"
| publish: "NodePublishVolume En ns req (os, w) = (x, (os', w')) \<Longrightarrow> csi_step Ec En Ev cs ns vm hist w w'"
| unpublish: "NodeUnpublishVolume En ns req (os, w) = (x, (os', w')) \<Longrightarrow> csi_step Ec En Ev cs ns vm hist w w'"
| find_vm: "p \<in> hist w \<Longrightarrow> ns_SyncHandler En ns os p w = (e, w') \<Longrightarrow> csi_step Ec En Ev cs ns vm hist w w'"
| claim: "claim_volumes Ev namespace os w = (c, w') \<Longrightarrow> csi_step Ec En Ev cs ns vm hist w w'"
| replay: "p \<in> hist w \<Longrightarrow> vm_SyncHandler Ev vm os p w = Some w' \<Longrightarrow> csi_step Ec En Ev cs ns vm hist w w'"

definition csi_setup :: "'w csi_env \<Rightarrow> 'w csi_env \<Rightarrow> 'w csi_env \<Rightarrow> ('w \<Rightarrow> PeerpodVolume set) \<Rightarrow> ('w \<Rightarrow> csi_call list) \<Rightarrow> bool" where
  "csi_setup Ec En Ev hist calls \<longleftrightarrow> api_ok Ec hist calls \<and> api_ok En hist calls \<and> api_ok Ev hist calls \<and> worker_ok En hist calls \<and>
     podvm_ok Ev hist calls \<and> json_faithful Ec En Ev"

lemma csi_step_inv:
  assumes s: "csi_setup Ec En Ev hist calls" and "csi_step Ec En Ev cs ns vm hist w w'" and i: "csi_inv Ec Ev hist calls w"
  shows "csi_inv Ec Ev hist calls w'"
proof -
  have c: "api_ok Ec hist calls" and n: "api_ok En hist calls" and v: "api_ok Ev hist calls" and wk: "worker_ok En hist calls"
    and vd: "podvm_ok Ev hist calls" and j: "json_faithful Ec En Ev" using s by (simp_all add: csi_setup_def)
  from assms(2) show ?thesis
  proof cases
    case create
    from CreateVolume_inv[OF c j i this] show ?thesis .
  next
    case delete
    from DeleteVolume_inv[OF c i this] show ?thesis .
  next
    case attach
    from ControllerPublish_inv[OF c j i this] show ?thesis .
  next
    case detach
    from ControllerUnpublish_inv[OF c j i this] show ?thesis .
  next
    case (replay_attach p)
    from cs_SyncHandler_inv[OF c j i replay_attach(2)] show ?thesis using replay_attach(1) by simp
  next
    case stage
    from NodeStage_inv[OF n wk j i this] show ?thesis .
  next
    case unstage
    from NodeUnstage_inv[OF n wk j i this] show ?thesis .
  next
    case publish
    from NodePublish_inv[OF n wk j i this] show ?thesis .
  next
    case unpublish
    from NodeUnpublish_inv[OF n wk j i this] show ?thesis .
  next
    case find_vm
    from ns_SyncHandler_inv[OF n j i this] show ?thesis .
  next
    case claim
    from claim_volumes_inv[OF v j i this] show ?thesis .
  next
    case replay
    from vm_SyncHandler_inv[OF v vd i this] show ?thesis .
  qed
qed

lemma csi_reachable_inv:
  assumes "csi_setup Ec En Ev hist calls" "hist w0 = {}" "calls w0 = []" "(csi_step Ec En Ev cs ns vm hist)\<^sup>*\<^sup>* w0 w"
  shows "csi_inv Ec Ev hist calls w"
  using assms(4)
proof (induction rule: rtranclp_induct)
  case base
  then show ?case using assms(2,3) by (simp add: csi_inv_def in_order_def)
next
  case (step y z)
  then show ?case using csi_step_inv[OF assms(1)] by blast
qed

section \<open>An API server and drivers in memory\<close>

type_synonym csi_world = "PeerpodVolume list \<times> csi_call list"

definition find_ppv :: "string \<Rightarrow> csi_world \<Rightarrow> PeerpodVolume option" where
  \<comment> \<open>the newest version comes first\<close>
  "find_ppv n w = find (\<lambda>p. ppv_Name p = n) (fst w)"

definition mem_Create :: "PeerpodVolume \<Rightarrow> csi_world \<Rightarrow> (k8s_error + PeerpodVolume) \<times> csi_world" where
  "mem_Create p w =
     (case find_ppv (ppv_Name p) w of
        Some _ \<Rightarrow> (Inl AlreadyExists, w)
      | None \<Rightarrow> (let p' = p\<lparr>State := [], ppv_ResourceVersion := 1\<rparr> in (Inr p', (p' # fst w, snd w))))"

definition mem_Update :: "PeerpodVolume \<Rightarrow> csi_world \<Rightarrow> (k8s_error + PeerpodVolume) \<times> csi_world" where
  "mem_Update p w =
     (case find_ppv (ppv_Name p) w of
        None \<Rightarrow> (Inl NotFound, w)
      | Some old \<Rightarrow>
          if ppv_ResourceVersion p \<noteq> ppv_ResourceVersion old then (Inl Conflict, w)
          else (let p' = p\<lparr>State := State old, ppv_ResourceVersion := Suc (ppv_ResourceVersion old)\<rparr> in (Inr p', (p' # fst w, snd w))))"

definition mem_UpdateStatus :: "PeerpodVolume \<Rightarrow> csi_world \<Rightarrow> (k8s_error + PeerpodVolume) \<times> csi_world" where
  "mem_UpdateStatus p w =
     (case find_ppv (ppv_Name p) w of
        None \<Rightarrow> (Inl NotFound, w)
      | Some old \<Rightarrow>
          if ppv_ResourceVersion p \<noteq> ppv_ResourceVersion old then (Inl Conflict, w)
          else (let p' = old\<lparr>State := State p, ppv_ResourceVersion := Suc (ppv_ResourceVersion old)\<rparr> in (Inr p', (p' # fst w, snd w))))"

definition demo_attach :: ControllerPublishVolumeRequest where
  "demo_attach = \<lparr>cpv_VolumeId = ''v'', cpv_NodeId = ''worker'', cpv_VolumeContext = [], cpv_rest = []\<rparr>"

definition demo_node :: NodeVolumeRequest where
  "demo_node = \<lparr>nv_VolumeId = ''v'', nv_StagingTargetPath = ''/s'', nv_TargetPath = ''/a/b/c/d/uid/e/f/vol/m'', nv_PublishContext = [], nv_rest = []\<rparr>"

definition mem_csi :: "bool \<Rightarrow> csi_world csi_env" where
  \<comment> \<open>the argument says whether the node driver is the one in the pod VM\<close>
  "mem_csi inVM =
     \<lparr>ppv_Get = (\<lambda>_ n w. case find_ppv n w of None \<Rightarrow> Inl NotFound | Some p \<Rightarrow> Inr p),
      ppv_Create = (\<lambda>_. mem_Create), ppv_Update = (\<lambda>_. mem_Update), ppv_UpdateStatus = (\<lambda>_. mem_UpdateStatus), ppv_Delete = (\<lambda>_ _ w. (None, w)),
      ppv_List = (\<lambda>_ (k, v) w. Inr (case fst w of [] \<Rightarrow> [] | p # _ \<Rightarrow> [p])), grpc_Dial = (\<lambda>_ w. (None, w)),
      drv_CreateVolume = (\<lambda>r w. (Inr \<lparr>cvr_VolumeId = Some (cv_Name r), cvr_rest = []\<rparr>, w)), drv_DeleteVolume = (\<lambda>_ w. (Inr [], w)),
      drv_ControllerPublish = (\<lambda>r (ps, cs). (Inr \<lparr>PublishContext = [(''device-path'', ''/dev/vdb'')]\<rparr>,
        (ps, cs @ [Attached (NormalizeVolumeID (cpv_VolumeId r)) (cpv_NodeId r)]))),
      drv_ControllerUnpublish = (\<lambda>_ w. (Inr [], w)),
      drv_Node = (\<lambda>m r (ps, cs). (Inr [], (ps, if inVM then cs @ [Did m (NormalizeVolumeID (nv_VolumeId r))] else cs))),
      drv_Other = (\<lambda>_ _ w. (Inr [], w)), uuid_NewV4 = (\<lambda>w. (''id'', w)),
      json_ControllerPublish = (\<lambda>r. if r = demo_attach then ''A'' else []),
      unjson_ControllerPublish = (\<lambda>s. if s = ''A'' then Inr demo_attach else Inl ''json''),
      json_ControllerPublishRes = (\<lambda>_. ''R''), unjson_ControllerPublishRes = (\<lambda>_. Inr \<lparr>PublishContext = []\<rparr>),
      json_Node = (\<lambda>_ r. if r = demo_node then ''N'' else []), unjson_Node = (\<lambda>_ s. if s = ''N'' then Inr demo_node else Inl ''json''),
      kata_Add = (\<lambda>_ _ w. (None, w)), kata_Remove = (\<lambda>_ w. (None, w)), vminfo_GetInfo = (\<lambda>_ _ w. (Inr ''i-1'', w)),
      net_Dial_unix = (\<lambda>_ w. (None, w)), net_Listen = (\<lambda>_ _ w. (Inr 0, w))\<rparr>"

definition mem_hist :: "csi_world \<Rightarrow> PeerpodVolume set" where "mem_hist w = set (fst w)"

lemma find_ppv_Some: "find_ppv n w = Some p \<Longrightarrow> p \<in> mem_hist w \<and> ppv_Name p = n"
  unfolding find_ppv_def mem_hist_def find_Some_iff by (metis nth_mem)

lemma mem_writes:
  "writes mem_hist snd w {p\<lparr>State := [], ppv_ResourceVersion := v\<rparr> | v. True} (mem_Create p w)"
  "writes mem_hist snd w {p\<lparr>State := State old, ppv_ResourceVersion := v\<rparr> | old v. old \<in> mem_hist w \<and> ppv_Name old = ppv_Name p} (mem_Update p w)"
  "writes mem_hist snd w {old\<lparr>State := State p, ppv_ResourceVersion := v\<rparr> | old v. old \<in> mem_hist w \<and> ppv_Name old = ppv_Name p} (mem_UpdateStatus p w)"
proof -
  show "writes mem_hist snd w {p\<lparr>State := [], ppv_ResourceVersion := v\<rparr> | v. True} (mem_Create p w)"
    by (auto simp: writes_def mem_Create_def Let_def mem_hist_def split: option.splits)
  show "writes mem_hist snd w {p\<lparr>State := State old, ppv_ResourceVersion := v\<rparr> | old v. old \<in> mem_hist w \<and> ppv_Name old = ppv_Name p} (mem_Update p w)"
    using find_ppv_Some[of "ppv_Name p" w] unfolding writes_def mem_Update_def Let_def
    by (cases "find_ppv (ppv_Name p) w") (auto simp: mem_hist_def)
  show "writes mem_hist snd w {old\<lparr>State := State p, ppv_ResourceVersion := v\<rparr> | old v. old \<in> mem_hist w \<and> ppv_Name old = ppv_Name p} (mem_UpdateStatus p w)"
    using find_ppv_Some[of "ppv_Name p" w] unfolding writes_def mem_UpdateStatus_def Let_def
    by (cases "find_ppv (ppv_Name p) w") (auto simp: mem_hist_def)
qed

lemma mem_api_ok: "api_ok (mem_csi b) mem_hist snd"
proof -
  have g: "ppv_Get (mem_csi b) x n w = Inr p \<Longrightarrow> p \<in> mem_hist w \<and> ppv_Name p = n" for x n w p
    using find_ppv_Some[of n w p] by (auto simp: mem_csi_def split: option.splits)
  have l: "ppv_List (mem_csi b) x q w = Inr ps \<Longrightarrow> set ps \<subseteq> mem_hist w" for x q w ps
    by (cases q) (auto simp: mem_csi_def mem_hist_def split: list.splits)
  have s: "ppv_Create (mem_csi b) x = mem_Create" "ppv_Update (mem_csi b) x = mem_Update" "ppv_UpdateStatus (mem_csi b) x = mem_UpdateStatus" for x
    by (simp_all add: mem_csi_def)
  show ?thesis
    unfolding api_ok_def s
    by (intro conjI allI impI) (use g l mem_writes in \<open>simp_all add: silent_def mem_csi_def mem_hist_def split: prod.splits\<close>)
qed

lemma mem_setup: "csi_setup (mem_csi False) (mem_csi False) (mem_csi True) mem_hist snd"
  unfolding csi_setup_def
proof (intro conjI mem_api_ok)
  show "worker_ok (mem_csi False) mem_hist snd" by (simp add: worker_ok_def silent_def mem_csi_def mem_hist_def split: prod.splits)
  show "podvm_ok (mem_csi True) mem_hist snd" by (simp add: podvm_ok_def mem_csi_def mem_hist_def split: prod.splits)
  show "json_faithful (mem_csi False) (mem_csi False) (mem_csi True)" by (simp add: json_faithful_def mem_csi_def)
qed

definition demo_os :: os_state where
  "demo_os = \<lparr>os_env = (\<lambda>k. if k = ''POD_NAME'' then ''pod'' else if k = ''POD_NAME_SPACE'' then ''default'' else if k = ''POD_NODE_NAME'' then ''worker'' else []),
     os_files = Map.empty, os_fault = (\<lambda>_ _. False)\<rparr>"

definition demo_cs :: ControllerService where "demo_cs = NewControllerService ''c.sock'' ''ns''"
definition demo_ns :: NodeService where "demo_ns = fst (NewNodeService (mem_csi False) ''n.sock'' ''ns'' ''info.sock'' ([], []))"
definition demo_vm :: PodVMNodeService where "demo_vm = NewPodVMNodeService ''v.sock'' ''ns''"

abbreviation demo_step :: "csi_world \<Rightarrow> csi_world \<Rightarrow> bool" where
  "demo_step \<equiv> csi_step (mem_csi False) (mem_csi False) (mem_csi True) demo_cs demo_ns demo_vm mem_hist"

definition demo_published :: csi_world where
  \<comment> \<open>the worker node has attached, staged and published the volume\<close>
  "demo_published =
     (let w = snd (ControllerPublishVolume (mem_csi False) demo_cs (demo_attach\<lparr>cpv_VolumeContext := [(PeerpodParamKey, ''true'')]\<rparr>) ([], []));
          w = snd (snd (NodeStageVolume (mem_csi False) demo_ns demo_node (demo_os, w)))
      in snd (snd (NodePublishVolume (mem_csi False) demo_ns demo_node (demo_os, w))))"

definition demo_attached :: csi_world where
  \<comment> \<open>the pod VM runs, and the volume is attached to it\<close>
  "demo_attached =
     (let w = snd (claim_volumes (mem_csi True) ''ns'' demo_os demo_published);
          w = snd (ns_SyncHandler (mem_csi False) demo_ns demo_os (hd (fst w)) w)
      in cs_SyncHandler (mem_csi False) demo_cs (hd (fst w)) w)"

definition demo_mounted :: csi_world where
  "demo_mounted =
     (let w = the (vm_SyncHandler (mem_csi True) demo_vm demo_os (hd (fst demo_attached)) demo_attached)
      in the (vm_SyncHandler (mem_csi True) demo_vm demo_os (hd (fst w)) w))"

definition demo_released :: csi_world where
  "demo_released = snd (snd (NodeUnpublishVolume (mem_csi False) demo_ns demo_node (demo_os, demo_mounted)))"

lemma demo_has_objects:
  "fst (snd (claim_volumes (mem_csi True) ''ns'' demo_os demo_published)) \<noteq> []"
  "fst (snd (ns_SyncHandler (mem_csi False) demo_ns demo_os (hd (fst (snd (claim_volumes (mem_csi True) ''ns'' demo_os demo_published))))
     (snd (claim_volumes (mem_csi True) ''ns'' demo_os demo_published)))) \<noteq> []"
  "fst demo_attached \<noteq> []"
  by code_simp+

declare replay_loop.simps [code]

lemma demo_staged_objects: "fst (the (vm_SyncHandler (mem_csi True) demo_vm demo_os (hd (fst demo_attached)) demo_attached)) \<noteq> []"
  by code_simp

lemma demo_calls:
  "snd demo_mounted = [Attached ''v'' ''i-1'', Did NodeStage ''v'', Did NodePublish ''v'']"
  by code_simp

lemma demo_released_calls:
  "snd demo_released = [Attached ''v'' ''i-1'', Did NodeStage ''v'', Did NodePublish ''v'']"
  by code_simp

lemma demo_released_state: "State (hd (fst demo_released)) = NodePublishVolumeApplied" "fst demo_released \<noteq> []"
  by code_simp+

lemma newest_seen: "fst w \<noteq> [] \<Longrightarrow> hd (fst w) \<in> mem_hist w"
  by (simp add: mem_hist_def)

lemma demo_steps:
  "demo_step w (snd (ControllerPublishVolume (mem_csi False) demo_cs ar w))"
  "demo_step w (snd (snd (NodeStageVolume (mem_csi False) demo_ns req (os, w))))"
  "demo_step w (snd (snd (NodePublishVolume (mem_csi False) demo_ns req (os, w))))"
  "demo_step w (snd (snd (NodeUnpublishVolume (mem_csi False) demo_ns req (os, w))))"
  "demo_step w (snd (claim_volumes (mem_csi True) namespace os w))"
proof -
  have e: "x = (fst x, fst (snd x), snd (snd x))" for x :: "string csi_result \<times> os_state \<times> csi_world" by simp
  show "demo_step w (snd (ControllerPublishVolume (mem_csi False) demo_cs ar w))" by (rule csi_step.attach[OF surjective_pairing])
  show "demo_step w (snd (snd (NodeStageVolume (mem_csi False) demo_ns req (os, w))))" by (rule csi_step.stage[OF e])
  show "demo_step w (snd (snd (NodePublishVolume (mem_csi False) demo_ns req (os, w))))" by (rule csi_step.publish[OF e])
  show "demo_step w (snd (snd (NodeUnpublishVolume (mem_csi False) demo_ns req (os, w))))" by (rule csi_step.unpublish[OF e])
  show "demo_step w (snd (claim_volumes (mem_csi True) namespace os w))" by (rule csi_step.claim[OF surjective_pairing])
qed

lemma demo_sync_steps:
  assumes "fst w \<noteq> []"
  shows "demo_step w (snd (ns_SyncHandler (mem_csi False) demo_ns demo_os (hd (fst w)) w))"
    and "demo_step w (cs_SyncHandler (mem_csi False) demo_cs (hd (fst w)) w)"
    and "demo_step w (the (vm_SyncHandler (mem_csi True) demo_vm demo_os (hd (fst w)) w))"
proof -
  note seen = newest_seen[OF assms]
  show "demo_step w (snd (ns_SyncHandler (mem_csi False) demo_ns demo_os (hd (fst w)) w))"
    using csi_step.find_vm[of "hd (fst w)" mem_hist w, OF seen surjective_pairing] .
  show "demo_step w (cs_SyncHandler (mem_csi False) demo_cs (hd (fst w)) w)"
    using csi_step.replay_attach[of "hd (fst w)" mem_hist w, OF seen] .
  obtain w' where "vm_SyncHandler (mem_csi True) demo_vm demo_os (hd (fst w)) w = Some w'"
    using vm_SyncHandler_returns[of "mem_csi True" demo_vm demo_os "hd (fst w)" w] by (elim exE)
  then show "demo_step w (the (vm_SyncHandler (mem_csi True) demo_vm demo_os (hd (fst w)) w))"
    using csi_step.replay[of "hd (fst w)" mem_hist w, OF seen] by fastforce
qed

lemma demo_trans: "demo_step\<^sup>*\<^sup>* v w \<Longrightarrow> demo_step w w' \<Longrightarrow> demo_step\<^sup>*\<^sup>* v w'"
  by (rule rtranclp.rtrancl_into_rtrancl)

lemma demo_published_reachable: "demo_step\<^sup>*\<^sup>* ([], []) demo_published"
  unfolding demo_published_def Let_def
  by (rule demo_trans[OF _ demo_steps(3)], rule demo_trans[OF _ demo_steps(2)],
      rule demo_trans[OF rtranclp.rtrancl_refl demo_steps(1)])

lemma demo_attached_reachable: "demo_step\<^sup>*\<^sup>* ([], []) demo_attached"
  unfolding demo_attached_def Let_def
  by (rule demo_trans[OF _ demo_sync_steps(2)[OF demo_has_objects(2)]],
      rule demo_trans[OF _ demo_sync_steps(1)[OF demo_has_objects(1)]],
      rule demo_trans[OF demo_published_reachable demo_steps(5)])

lemma demo_mounted_reachable: "demo_step\<^sup>*\<^sup>* ([], []) demo_mounted"
  unfolding demo_mounted_def Let_def
  by (rule demo_trans[OF _ demo_sync_steps(3)[OF demo_staged_objects]],
      rule demo_trans[OF demo_attached_reachable demo_sync_steps(3)[OF demo_has_objects(3)]])

lemma demo_released_reachable: "demo_step\<^sup>*\<^sup>* ([], []) demo_released"
  unfolding demo_released_def by (rule demo_trans[OF demo_mounted_reachable demo_steps(4)])

section \<open>The order of the calls\<close>



text \<open>C35: Volumes are never released inside the pod VM: the worker node sends the object from before its update when it wants to set the state
  to \<open>NodeUnpublishVolumeCached\<close> or \<open>NodeUnstageVolumeCached\<close>, so no stored object ever has one of these states, and the driver in the pod VM is never
  asked to unpublish or to unstage a volume.\<close>

theorem csi_never_released:
  assumes "csi_setup Ec En Ev hist calls" and "hist w0 = {}" and "calls w0 = []"
    and "(csi_step Ec En Ev cs ns vm hist)\<^sup>*\<^sup>* w0 w"
  shows "(\<forall>p\<in>hist w. State p \<noteq> NodeUnpublishVolumeCached \<and> State p \<noteq> NodeUnstageVolumeCached) \<and>
    Did NodeUnpublish v \<notin> set (calls w) \<and> Did NodeUnstage v \<notin> set (calls w)"
  using csi_reachable_inv[OF assms] by (simp add: csi_inv_def state_ok_def)

theorem csi_never_released_witness:
  "State (hd (fst demo_released)) \<noteq> NodeUnpublishVolumeCached \<and> Did NodeUnpublish ''v'' \<notin> set (snd demo_released) \<and>
   snd demo_released = [Attached ''v'' ''i-1'', Did NodeStage ''v'', Did NodePublish ''v'']"
  using csi_never_released[OF mem_setup _ _ demo_released_reachable, of "''v''"] newest_seen[OF demo_released_state(2)] demo_released_calls
  by (simp add: mem_hist_def)

end
