(* ===== verification/AgentProto.thy ===== *)
theory AgentProto
  imports GoIO GoOs GoEncoding
begin

text \<open>
  The relays of the kata agent protocol: the redirector (\<open>src/src/cloud-api-adaptor/pkg/util/agentproto/redirector.go\<close>), which connects once and hands
  every request on, the proxy service on the worker node on top of it (\<open>pkg/adaptor/proxy/service.go\<close>), and the interceptor in the pod VM
  (\<open>pkg/forwarder/interceptor/interceptor.go\<close>).

  Of the protobuf messages the fields that the relays read or write are kept; a response is an opaque string.  The connection,
  the ttrpc client on it, the mount table and the retry loop of \<open>retry-go\<close> are records over the world \<open>'w\<close>.
\<close>

section \<open>Messages\<close>

datatype agent_method = StartContainer | RemoveContainer | ExecProcess | SignalProcess | WaitProcess | UpdateContainer | UpdateEphemeralMounts
  | StatsContainer | PauseContainer | ResumeContainer | RemoveStaleVirtiofsShareMounts | WriteStdin | ReadStdout | ReadStderr | CloseStdin
  | TtyWinResize | UpdateInterface | UpdateRoutes | ListInterfaces | ListRoutes | AddARPNeighbors | GetIPTables | SetIPTables | GetMetrics
  | MemAgentMemcgSet | MemAgentCompactSet | DestroySandbox | OnlineCPUMem | ReseedRandomDev | GetGuestDetails | MemHotplugByProbe
  | SetGuestDateTime | CopyFile | GetOOMEvent | AddSwap | AddSwapPath | GetVolumeStats | ResizeVolume | SetPolicy | Check | Version

record Mount =
  Destination :: string
  Source :: string
  m_Type :: string

record LinuxNamespace =
  ns_Type :: string
  ns_Path :: string

record Storage =
  MountPoint :: string
  st_Source :: string
  Fstype :: string
  Driver :: string

record OCI_Spec =
  Mounts :: "Mount list"
  Annotations :: "(string, string) go_map option"
  Namespaces :: "LinuxNamespace list option" \<comment> \<open>\<open>None\<close> when the part for Linux is nil\<close>

record CreateContainerRequest =
  ContainerId :: string
  OCI :: "OCI_Spec option"
  Storages :: "Storage list"
  cc_rest :: string

record CreateSandboxRequest =
  Hostname :: string
  SandboxId :: string
  Dns :: "string list"
  cs_rest :: string

datatype agent_request = ReqCreateContainer CreateContainerRequest | ReqCreateSandbox CreateSandboxRequest | Req agent_method string

datatype agent_error = DialFailed string | NotEstablished | AgentError string | AgentPanic | NotMounted string

section \<open>Redirector\<close>

record 'w agent_conn =
  dialer :: "('w, string, nat) io"
  ttrpc_Call :: "nat \<Rightarrow> agent_request \<Rightarrow> ('w, string, string) io"
  ttrpc_Close :: "nat \<Rightarrow> ('w, string, unit) io"

record redirector =
  once :: bool
  agentClient :: "nat option"

definition NewRedirector :: redirector where
  "NewRedirector = \<lparr>once = False, agentClient = None\<rparr>"

definition Connect :: "'w agent_conn \<Rightarrow> (redirector \<times> 'w, agent_error, unit) io" where
  "Connect C = (\<lambda>(s, w).
     if once s then ((if agentClient s = None then Inl NotEstablished else Inr ()), (s, w))
     else case dialer C w of
            (Inl e, w) \<Rightarrow> (Inl (DialFailed e), (s\<lparr>once := True\<rparr>, w))
          | (Inr conn, w) \<Rightarrow> (Inr (), (s\<lparr>once := True, agentClient := Some conn\<rparr>, w)))"

definition Close_redirector :: "'w agent_conn \<Rightarrow> (redirector \<times> 'w, string, unit) io" where
  "Close_redirector C = (\<lambda>(s, w). case agentClient s of
     None \<Rightarrow> (Inr (), (s, w))
   | Some c \<Rightarrow> (case ttrpc_Close C c w of (r, w) \<Rightarrow> (r, (s, w))))"

definition redirector_call :: "'w agent_conn \<Rightarrow> agent_request \<Rightarrow> (redirector \<times> 'w, agent_error, string) io" where
  \<comment> \<open>all methods of the agent and the health service\<close>
  "redirector_call C req =
     then_io (Connect C) (\<lambda>(s, w). case agentClient s of
        None \<Rightarrow> (Inl AgentPanic, (s, w))
      | Some c \<Rightarrow> (case ttrpc_Call C c req w of (r, w) \<Rightarrow> (map_error AgentError r, (s, w))))"

section \<open>Proxy service on the worker node\<close>

definition kataDirectVolumesDir :: string where "kataDirectVolumesDir = ''/run/kata-containers/shared/direct-volumes''"
definition volumeTargetPathKey :: string where "volumeTargetPathKey = ''io.confidentialcontainers.org.peerpodvolumes.target_path''"
definition csiPluginEscapeQualifiedName :: string where "csiPluginEscapeQualifiedName = ''kubernetes.io~csi''"
definition cdiAnnotationKey :: string where "cdiAnnotationKey = ''cdi.k8s.io/peer-pods''"
definition defaultCDIType :: string where "defaultCDIType = ''nvidia.com/gpu=all''"
definition defaultGPUsAnnotation :: string where "defaultGPUsAnnotation = ''io.katacontainers.config.hypervisor.default_gpus''"

definition URLEncoding :: "string \<Rightarrow> string" where
  \<comment> \<open>\<open>base64.URLEncoding\<close>\<close>
  "URLEncoding s = map (\<lambda>c. if c = CHR ''+'' then CHR ''-'' else if c = CHR ''/'' then CHR ''_'' else c) (b64_Encode s)"

definition isNodePublishVolumeTargetPath :: "os_state \<Rightarrow> string \<Rightarrow> string \<Rightarrow> bool" where
  "isNodePublishVolumeTargetPath os volumePath directVolumesDir =
     (if \<not> Contains_str (Clean volumePath) (''/volumes/'' @ csiPluginEscapeQualifiedName @ ''/'') then False
      else is_ok (Stat os (Join_path [directVolumesDir, URLEncoding volumePath])))"

fun add_targets :: "os_state \<Rightarrow> nat \<Rightarrow> Mount list \<Rightarrow> (string, string) go_map option \<Rightarrow> agent_error + (string, string) go_map option" where
  \<comment> \<open>the loop over the mounts; writing to a nil map panics\<close>
  "add_targets os i [] ann = Inr ann"
| "add_targets os i (m # ms) ann =
     (if isNodePublishVolumeTargetPath os (Source m) kataDirectVolumesDir
      then (case ann of
              None \<Rightarrow> Inl AgentPanic
            | Some a \<Rightarrow> add_targets os (Suc i) ms
                (Some (AList.update volumeTargetPathKey
                   (go_get [] a volumeTargetPathKey @ (if i > 0 then '','' else []) @ Source m) a)))
      else add_targets os (Suc i) ms ann)"

definition add_gpus :: "(string, string) go_map option \<Rightarrow> (string, string) go_map option" where
  "add_gpus ann =
     (case ann of
        None \<Rightarrow> None
      | Some a \<Rightarrow> if go_get [] a defaultGPUsAnnotation \<noteq> [] then Some (AList.update cdiAnnotationKey defaultCDIType a) else Some a)"

definition proxied_request :: "os_state \<Rightarrow> CreateContainerRequest \<Rightarrow> agent_error + CreateContainerRequest" where
  \<comment> \<open>the request that \<open>CreateContainer\<close> hands on\<close>
  "proxied_request os req =
     (case OCI req of
        None \<Rightarrow> Inl AgentPanic
      | Some oci \<Rightarrow> bind_result (add_targets os 0 (Mounts oci) (Annotations oci)) (\<lambda>ann.
          Inr (req\<lparr>OCI := Some (oci\<lparr>Annotations := add_gpus ann\<rparr>)\<rparr>)))"

definition proxy_CreateContainer :: "'w agent_conn \<Rightarrow> os_state \<Rightarrow> CreateContainerRequest \<Rightarrow> (redirector \<times> 'w, agent_error, string) io" where
  "proxy_CreateContainer C os req =
     bind_io (query (\<lambda>_. proxied_request os req)) (\<lambda>req. redirector_call C (ReqCreateContainer req))"

definition proxy_call :: "'w agent_conn \<Rightarrow> os_state \<Rightarrow> agent_request \<Rightarrow> (redirector \<times> 'w, agent_error, string) io" where
  \<comment> \<open>the methods that the proxy service overrides only write log messages, apart from \<open>CreateContainer\<close>\<close>
  "proxy_call C os req = (case req of ReqCreateContainer r \<Rightarrow> proxy_CreateContainer C os r | _ \<Rightarrow> redirector_call C req)"

section \<open>Interceptor in the pod VM\<close>

record 'v mount_env =
  mountinfo_Mounted :: "string \<Rightarrow> 'v \<Rightarrow> string + bool"
  retry_forever :: "('v, string, unit) io \<Rightarrow> ('v, string, unit) io" \<comment> \<open>until the context is done\<close>

definition isTargetPath :: "string \<Rightarrow> string \<Rightarrow> bool" where
  "isTargetPath path targetPath \<longleftrightarrow> targetPath \<noteq> [] \<and> targetPath = path"

definition waitForDeviceMounted :: "'v mount_env \<Rightarrow> string \<Rightarrow> ('v, agent_error, unit) io" where
  "waitForDeviceMounted V path =
     wrap_io (\<lambda>_. NotMounted path) (retry_forever V (query (\<lambda>w. bind_result (mountinfo_Mounted V path w)
       (\<lambda>isMounted. if isMounted then Inr () else Inl ''not mounted''))))"

definition prepare_mount :: "'v mount_env \<Rightarrow> string list \<Rightarrow> Mount \<Rightarrow> (os_state \<times> 'v, agent_error, unit) io" where
  \<comment> \<open>one round of the loop over the mounts; an error of \<open>MkdirAll\<close> is only logged\<close>
  "prepare_mount V targets m = (\<lambda>(os, w).
     let os = (if (case Stat os (Source m) of Inl (ErrNotExist _) \<Rightarrow> True | _ \<Rightarrow> False) \<and> m_Type m = ''bind''
               then snd (MkdirAll os (Source m) ModePerm) else os)
     in for_io (\<lambda>s. if isTargetPath (Source m) (TrimSpace s) then on_snd (waitForDeviceMounted V (Source m)) else ret ()) targets (os, w))"

definition intercepted_spec :: "string \<Rightarrow> OCI_Spec \<Rightarrow> OCI_Spec option" where
  \<comment> \<open>the namespace of the pod is appended; \<open>None\<close> when there is no part for Linux\<close>
  "intercepted_spec nsPath oci =
     (case Namespaces oci of
        None \<Rightarrow> None
      | Some nss \<Rightarrow> Some (oci\<lparr>Namespaces := Some (nss @ [\<lparr>ns_Type = ''network'', ns_Path = nsPath\<rparr>])\<rparr>))"

definition interceptor_CreateContainer :: "'v agent_conn \<Rightarrow> 'v mount_env \<Rightarrow> string \<Rightarrow> CreateContainerRequest
    \<Rightarrow> (redirector \<times> os_state \<times> 'v, agent_error, string) io" where
  "interceptor_CreateContainer A V nsPath req =
     (case Option.bind (OCI req) (intercepted_spec nsPath) of
        None \<Rightarrow> fail AgentPanic
      | Some oci \<Rightarrow>
          (let targets = Split (go_get [] (case Annotations oci of None \<Rightarrow> [] | Some a \<Rightarrow> a) volumeTargetPathKey) (CHR '','')
           in then_io (on_snd (for_io (prepare_mount V targets) (Mounts oci)))
                (\<lambda>(s, os, w). case redirector_call A (ReqCreateContainer (req\<lparr>OCI := Some oci\<rparr>)) (s, w) of (r, (s, w)) \<Rightarrow> (r, (s, os, w)))))"

definition interceptor_CreateSandbox :: "'v agent_conn \<Rightarrow> CreateSandboxRequest \<Rightarrow> (redirector \<times> 'v, agent_error, string) io" where
  \<comment> \<open>the name servers of the pod must not replace those of the VM\<close>
  "interceptor_CreateSandbox A req = redirector_call A (ReqCreateSandbox (if length (Dns req) > 0 then req\<lparr>Dns := []\<rparr> else req))"

definition interceptor_call :: "'v agent_conn \<Rightarrow> 'v mount_env \<Rightarrow> string \<Rightarrow> agent_request \<Rightarrow> (redirector \<times> os_state \<times> 'v, agent_error, string) io" where
  "interceptor_call A V nsPath req =
     (case req of
        ReqCreateContainer r \<Rightarrow> interceptor_CreateContainer A V nsPath r
      | ReqCreateSandbox r \<Rightarrow> (\<lambda>(s, os, w). case interceptor_CreateSandbox A r (s, w) of (x, (s, w)) \<Rightarrow> (x, (s, os, w)))
      | Req m r \<Rightarrow> (\<lambda>(s, os, w). case redirector_call A (Req m r) (s, w) of (x, (s, w)) \<Rightarrow> (x, (s, os, w))))"

end
