(* ===== verification/AgentProps.thy ===== *)
theory AgentProps
  imports AgentProto
begin

text \<open>
  The two relays of the kata agent protocol together: a container is created in the pod VM only after the volumes that the proxy service
  on the worker node has announced are mounted there.
\<close>

section \<open>Announcing the volumes\<close>

definition plain_path :: "string \<Rightarrow> bool" where
  \<comment> \<open>survives the separation by commas\<close>
  "plain_path p \<longleftrightarrow> p \<noteq> [] \<and> CHR '','' \<notin> set p \<and> TrimSpace p = p"

lemma Split_at_sep: "Split (s @ c # t) c = Split s c @ Split t c"
  by (induction s) (auto split: list.splits)

lemma add_targets_listed:
  assumes "add_targets os i ms (Some a) = Inr ann" and "\<forall>m\<in>set ms. plain_path (Source m)" and "i = 0 \<longrightarrow> go_get [] a volumeTargetPathKey = []"
  shows "\<exists>b. ann = Some b \<and> set (Split (go_get [] a volumeTargetPathKey) (CHR '','')) - {[]} \<subseteq> set (Split (go_get [] b volumeTargetPathKey) (CHR '','')) \<and>
    (\<forall>m\<in>set ms. isNodePublishVolumeTargetPath os (Source m) kataDirectVolumesDir \<longrightarrow> Source m \<in> set (Split (go_get [] b volumeTargetPathKey) (CHR '','')))"
  using assms
proof (induction ms arbitrary: i a)
  case (Cons m ms)
  let ?t = "go_get [] a volumeTargetPathKey"
  let ?new = "?t @ (if i > 0 then '','' else []) @ Source m"
  let ?a = "AList.update volumeTargetPathKey ?new a"
  show ?case
  proof (cases "isNodePublishVolumeTargetPath os (Source m) kataDirectVolumesDir")
    case False
    then show ?thesis using Cons.IH[of "Suc i" a] Cons.prems by simp
  next
    case True
    have p: "Split (Source m) (CHR '','') = [Source m]" "Source m \<noteq> []" using Cons.prems(2) by (simp_all add: plain_path_def Split_no_sep)
    have get: "go_get [] ?a volumeTargetPathKey = ?new" by (simp add: go_get_def update_conv)
    have new: "set (Split ?t (CHR '','')) - {[]} \<subseteq> set (Split ?new (CHR '',''))" "Source m \<in> set (Split ?new (CHR '',''))"
      using Cons.prems(3) p Split_at_sep[of ?t "CHR '',''" "Source m"] by auto
    have "add_targets os (Suc i) ms (Some ?a) = Inr ann" using Cons.prems(1) True by simp
    from Cons.IH[OF this] Cons.prems(2) obtain b where b: "ann = Some b"
      "set (Split ?new (CHR '','')) - {[]} \<subseteq> set (Split (go_get [] b volumeTargetPathKey) (CHR '',''))"
      "\<forall>m\<in>set ms. isNodePublishVolumeTargetPath os (Source m) kataDirectVolumesDir \<longrightarrow> Source m \<in> set (Split (go_get [] b volumeTargetPathKey) (CHR '',''))"
      unfolding get by auto
    then show ?thesis using new p(2) by auto
  qed
qed auto

lemma add_gpus_targets: "add_gpus (Some b) = Some c \<Longrightarrow> go_get [] c volumeTargetPathKey = go_get [] b volumeTargetPathKey"
  by (auto simp: add_gpus_def go_get_def update_conv cdiAnnotationKey_def volumeTargetPathKey_def split: if_splits)

section \<open>Waiting for the volumes\<close>

definition mount_laws :: "'v mount_env \<Rightarrow> bool" where
  \<comment> \<open>the retry loop returns the result of its last attempt, and a device does not go away while the interceptor waits for another one\<close>
  "mount_laws V \<longleftrightarrow>
     (\<forall>m w w'. retry_forever V m w = (Inr (), w') \<longrightarrow> (\<exists>w1. m w1 = (Inr (), w'))) \<and>
     (\<forall>f w w' p. snd (retry_forever V (query f) w) = w' \<longrightarrow> mountinfo_Mounted V p w = Inr True \<longrightarrow> mountinfo_Mounted V p w' = Inr True)"

lemma waited: "mount_laws V \<Longrightarrow> waitForDeviceMounted V p w = (Inr (), w') \<Longrightarrow> mountinfo_Mounted V p w' = Inr True"
proof -
  assume l: "mount_laws V" and "waitForDeviceMounted V p w = (Inr (), w')"
  then obtain w1 where "query (\<lambda>w. bind_result (mountinfo_Mounted V p w) (\<lambda>b. if b then Inr () else Inl ''not mounted'')) w1 = (Inr (), w')"
    unfolding waitForDeviceMounted_def wrap_io_Inr_iff mount_laws_def by blast
  then show ?thesis by (auto simp: bind_result_def split: sum.splits if_splits)
qed

lemma wait_keeps: "mount_laws V \<Longrightarrow> waitForDeviceMounted V p w = (r, w') \<Longrightarrow> mountinfo_Mounted V q w = Inr True \<Longrightarrow> mountinfo_Mounted V q w' = Inr True"
  by (auto simp: waitForDeviceMounted_def wrap_io_def mount_laws_def split: prod.splits) (metis snd_conv)

lemma prepare_mount_mounted:
  assumes "mount_laws V" and "prepare_mount V targets m (os, w) = (Inr (), (os', w'))"
  shows "(plain_path (Source m) \<and> Source m \<in> set targets \<longrightarrow> mountinfo_Mounted V (Source m) w' = Inr True) \<and>
    (\<forall>q. mountinfo_Mounted V q w = Inr True \<longrightarrow> mountinfo_Mounted V q w' = Inr True)"
proof -
  let ?f = "\<lambda>s. if isTargetPath (Source m) (TrimSpace s) then on_snd (waitForDeviceMounted V (Source m)) else ret ()"
  have keep: "?f s (o1, w1) = (r, (o2, w2)) \<Longrightarrow> mountinfo_Mounted V q w1 = Inr True \<Longrightarrow> mountinfo_Mounted V q w2 = Inr True" for s o1 w1 r o2 w2 q
    using wait_keeps[OF assms(1), of "Source m" w1] by (auto simp: on_snd_def split: if_splits prod.splits)
  have loop: "for_io ?f ts (o1, w1) = (Inr (), (o2, w2)) \<Longrightarrow>
      (plain_path (Source m) \<and> Source m \<in> set ts \<longrightarrow> mountinfo_Mounted V (Source m) w2 = Inr True) \<and>
      (\<forall>q. mountinfo_Mounted V q w1 = Inr True \<longrightarrow> mountinfo_Mounted V q w2 = Inr True)" for ts o1 w1 o2 w2
  proof (induction ts arbitrary: o1 w1)
    case (Cons t ts)
    then obtain o3 w3 where f: "?f t (o1, w1) = (Inr (), (o3, w3))" and rest: "for_io ?f ts (o3, w3) = (Inr (), (o2, w2))"
      by (auto simp: then_io_Inr_iff)
    note IH = Cons.IH[OF rest]
    have "plain_path (Source m) \<Longrightarrow> t = Source m \<Longrightarrow> mountinfo_Mounted V (Source m) w3 = Inr True"
      using f waited[OF assms(1), of "Source m" w1 w3] by (auto simp: isTargetPath_def plain_path_def on_snd_def split: prod.splits)
    then show ?case using IH keep[OF f] by auto
  qed simp
  from assms(2) obtain o1 where "for_io ?f targets (o1, w) = (Inr (), (os', w'))" unfolding prepare_mount_def by (auto simp: Let_def)
  from loop[OF this] show ?thesis .
qed

lemma prepare_mounts_mounted:
  assumes "mount_laws V"
  shows "for_io (prepare_mount V targets) ms (os, w) = (Inr (), (os', w')) \<Longrightarrow>
    (\<forall>m\<in>set ms. plain_path (Source m) \<and> Source m \<in> set targets \<longrightarrow> mountinfo_Mounted V (Source m) w' = Inr True) \<and>
    (\<forall>q. mountinfo_Mounted V q w = Inr True \<longrightarrow> mountinfo_Mounted V q w' = Inr True)"
proof (induction ms arbitrary: os w)
  case (Cons m ms)
  then obtain o1 w1 where m: "prepare_mount V targets m (os, w) = (Inr (), (o1, w1))"
    and rest: "for_io (prepare_mount V targets) ms (o1, w1) = (Inr (), (os', w'))" by (auto simp: then_io_Inr_iff)
  show ?case using prepare_mount_mounted[OF assms m] Cons.IH[OF rest] by auto
qed simp

lemma intercepted_mounts:
  "intercepted_spec ns oci = Some oci' \<Longrightarrow> Mounts oci' = Mounts oci \<and> Annotations oci' = Annotations oci"
  by (auto simp: intercepted_spec_def split: option.splits)

lemma interceptor_waits:
  assumes l: "mount_laws V" and run: "interceptor_CreateContainer A V ns req (s, os, v) = (Inr x, w')" and "OCI req = Some oci"
  shows "\<exists>req' s1 v1 s2 v2. redirector_call A (ReqCreateContainer req') (s1, v1) = (Inr x, (s2, v2)) \<and> ContainerId req' = ContainerId req \<and>
    (\<forall>m\<in>set (Mounts oci). plain_path (Source m) \<and>
       Source m \<in> set (Split (go_get [] (case Annotations oci of None \<Rightarrow> [] | Some a \<Rightarrow> a) volumeTargetPathKey) (CHR '','')) \<longrightarrow>
       mountinfo_Mounted V (Source m) v1 = Inr True)"
proof -
  from run assms(3) obtain oci' where o: "intercepted_spec ns oci = Some oci'"
    by (cases "intercepted_spec ns oci") (auto simp: interceptor_CreateContainer_def)
  let ?ts = "Split (go_get [] (case Annotations oci of None \<Rightarrow> [] | Some a \<Rightarrow> a) volumeTargetPathKey) (CHR '','')"
  from run assms(3) o obtain s1 o1 v1 where
    m: "on_snd (for_io (prepare_mount V ?ts) (Mounts oci)) (s, os, v) = (Inr (), (s1, o1, v1))"
    and fin: "(case redirector_call A (ReqCreateContainer (req\<lparr>OCI := Some oci'\<rparr>)) (s1, v1) of (r, (s, w)) \<Rightarrow> (r, (s, o1, w))) = (Inr x, w')"
    by (auto simp: interceptor_CreateContainer_def intercepted_mounts[OF o] Let_def then_io_Inr_iff)
  obtain r s2 v2 where c': "redirector_call A (ReqCreateContainer (req\<lparr>OCI := Some oci'\<rparr>)) (s1, v1) = (r, (s2, v2))" by (rule prod_cases3)
  then have c: "redirector_call A (ReqCreateContainer (req\<lparr>OCI := Some oci'\<rparr>)) (s1, v1) = (Inr x, (s2, v2))" using fin by simp
  have "for_io (prepare_mount V ?ts) (Mounts oci) (os, v) = (Inr (), (o1, v1))" using m by (auto simp: on_snd_def split: prod.splits)
  from prepare_mounts_mounted[OF l this] c show ?thesis
    by (intro exI[of _ "req\<lparr>OCI := Some oci'\<rparr>"] exI[of _ s1] exI[of _ v1] exI[of _ s2] exI[of _ v2]) auto
qed

section \<open>Both relays\<close>

lemma redirector_call_reaches:
  assumes "redirector_call C req sw = (Inr x, (s', w'))"
  shows "\<exists>c w1. ttrpc_Call C c req w1 = (Inr x, w')"
proof -
  from assms obtain sw1 where sw1: "(\<lambda>(s, w). case agentClient s of None \<Rightarrow> (Inl AgentPanic, (s, w))
      | Some c \<Rightarrow> (case ttrpc_Call C c req w of (r, w) \<Rightarrow> (map_error AgentError r, (s, w)))) sw1 = (Inr x, (s', w'))"
    unfolding redirector_call_def then_io_Inr_iff by blast
  obtain s1 w1 where "sw1 = (s1, w1)" by (cases sw1)
  then obtain c where c: "agentClient s1 = Some c" and "(case ttrpc_Call C c req w1 of (r, w) \<Rightarrow> (map_error AgentError r, (s1, w))) = (Inr x, (s', w'))"
    using sw1 by (cases "agentClient s1") auto
  then have "ttrpc_Call C c req w1 = (Inr x, w')" by (cases "ttrpc_Call C c req w1") simp
  then show ?thesis by blast
qed

definition relays :: "(redirector \<times> os_state \<times> 'v) agent_conn \<Rightarrow> 'v agent_conn \<Rightarrow> 'v mount_env \<Rightarrow> string \<Rightarrow> bool" where
  \<comment> \<open>the connection of the proxy service leads to the interceptor\<close>
  "relays C A V ns \<longleftrightarrow> (\<forall>c r w x w'. ttrpc_Call C c r w = (Inr x, w') \<longrightarrow> interceptor_call A V ns r w = (Inr x, w'))"


definition demo_volume :: string where "demo_volume = ''/pods/u/volumes/kubernetes.io~csi/v/mount''"

definition demo_create :: CreateContainerRequest where
  "demo_create = \<lparr>ContainerId = ''c1'', OCI = Some \<lparr>Mounts = [\<lparr>Destination = ''/etc/hosts'', Source = ''/hosts'', m_Type = ''bind''\<rparr>,
     \<lparr>Destination = ''/data'', Source = demo_volume, m_Type = ''bind''\<rparr>], Annotations = Some [], Namespaces = Some []\<rparr>, Storages = [], cc_rest = []\<rparr>"

definition node_os :: os_state where
  \<comment> \<open>a worker node on which the volume is published\<close>
  "node_os = \<lparr>os_env = (\<lambda>_. []), os_files = [Join_path [kataDirectVolumesDir, URLEncoding demo_volume] \<mapsto> \<lparr>f_mode = ModeDir, f_content = []\<rparr>],
     os_fault = (\<lambda>_ _. False)\<rparr>"

definition list_mounts :: "string list mount_env" where
  "list_mounts = \<lparr>mountinfo_Mounted = (\<lambda>p v. Inr (p \<in> set v)), retry_forever = (\<lambda>m. m)\<rparr>"

definition demo_agent :: "string list agent_conn" where
  "demo_agent = \<lparr>dialer = ret 0, ttrpc_Call = (\<lambda>_ _. ret ''created''), ttrpc_Close = (\<lambda>_. ret ())\<rparr>"

definition demo_proxy :: "(redirector \<times> os_state \<times> string list) agent_conn" where
  "demo_proxy = \<lparr>dialer = ret 0, ttrpc_Call = (\<lambda>_ r. wrap_io (\<lambda>_. ''agent'') (interceptor_call demo_agent list_mounts ''/run/netns/podns'' r)),
     ttrpc_Close = (\<lambda>_. ret ())\<rparr>"


end
