(* ===== verification/TlsUtil.thy ===== *)
theory TlsUtil
  imports GoIO GoOs
begin

text \<open>
  Certificates and TLS settings of the adaptor and the forwarder, \<open>src/src/cloud-api-adaptor/pkg/util/tlsutil\<close>: \<open>certgen.go\<close> (the certificate
  authority of the adaptor, server and client certificates) and \<open>tls.go\<close> (\<open>TLSConfig\<close> and the \<open>tls.Config\<close> made from it).

  PEM and DER codecs, key generation, signatures, the clock and the random source are the record \<open>x509_lib\<close>; a key is an opaque string.
  A point in time is a number of nanoseconds.  What \<open>crypto/tls\<close> and \<open>crypto/x509\<close> check of a peer's certificate is \<open>chain_ok\<close>, for a peer that
  sends no intermediate certificates.
\<close>

section \<open>Certificates\<close>

datatype ext_key_usage = ExtKeyUsageClientAuth | ExtKeyUsageServerAuth

definition KeyUsageDigitalSignature :: "64 word" where "KeyUsageDigitalSignature = 1"
definition KeyUsageCertSign :: "64 word" where "KeyUsageCertSign = push_bit 5 1"

record Certificate =
  SerialNumber :: int
  Organization :: "string list"
  CommonName :: string
  DNSNames :: "string list"
  NotBefore :: int
  NotAfter :: int
  KeyUsage :: "64 word"
  ExtKeyUsage :: "ext_key_usage list"
  BasicConstraintsValid :: bool
  IsCA :: bool
  PublicKey :: string
  SignedBy :: string \<comment> \<open>the public key that verifies the signature\<close>

record pem_block =
  pem_Type :: string
  pem_Headers :: "(string \<times> string) list"
  pem_Bytes :: string

record tls_Certificate =
  tls_Leaf :: Certificate
  PrivateKey :: string

record 'w x509_lib =
  pem_Decode :: "string \<Rightarrow> (pem_block \<times> string) option"
  pem_Encode :: "pem_block \<Rightarrow> string + string"
  ParseCertificate :: "string \<Rightarrow> string + Certificate"
  ParsePKCS8PrivateKey :: "string \<Rightarrow> string + string"
  MarshalPKCS8PrivateKey :: "string \<Rightarrow> string + string"
  key_Public :: "string \<Rightarrow> string"
  ecdsa_GenerateKey :: "('w, string, string) io"
  rand_Int :: "int \<Rightarrow> ('w, string, int) io"
  time_Now :: "'w \<Rightarrow> int"
  CreateCertificate :: "Certificate \<Rightarrow> Certificate \<Rightarrow> string \<Rightarrow> string \<Rightarrow> ('w, string, string) io"
  CertsFromPEM :: "string \<Rightarrow> Certificate list" \<comment> \<open>\<open>AppendCertsFromPEM\<close> is true if there is one\<close>
  X509KeyPair :: "string \<Rightarrow> string \<Rightarrow> string + tls_Certificate"

datatype tls_error = NoPEM | ManyPEM | EncodeFailed string | BadCert string | BadKey string | SerialFailed string | KeyGenFailed string
  | MarshalKeyFailed string | SignFailed string | NotPEMBlock | NoValidCA | InsecureWithCA | TlsFile os_error | BadKeyPair string

definition second :: int where "second = 1000000000"
definition validFor :: int where "validFor = 2 * 365 * 24 * 3600 * second"

definition decodePEM :: "'w x509_lib \<Rightarrow> string \<Rightarrow> tls_error + string" where
  "decodePEM L pemBytes =
     (case pem_Decode L pemBytes of
        None \<Rightarrow> Inl NoPEM
      | Some (firstBlock, remainingBlocks) \<Rightarrow> if length remainingBlocks \<noteq> 0 then Inl ManyPEM else Inr (pem_Bytes firstBlock))"

definition encodePEM :: "'w x509_lib \<Rightarrow> string \<Rightarrow> string \<Rightarrow> tls_error + string" where
  "encodePEM L dataType der = map_error EncodeFailed (pem_Encode L \<lparr>pem_Type = dataType, pem_Headers = [], pem_Bytes = der\<rparr>)"

definition load_parent :: "'w x509_lib \<Rightarrow> string option \<Rightarrow> string option \<Rightarrow> tls_error + Certificate option \<times> string option" where
  \<comment> \<open>\<open>None\<close> is a nil argument\<close>
  "load_parent L parentCertPEM parentKeyPEM =
     bind_result (case parentCertPEM of
                    None \<Rightarrow> Inr None
                  | Some p \<Rightarrow> bind_result (decodePEM L p) (\<lambda>der. map_error BadCert (case ParseCertificate L der of Inl e \<Rightarrow> Inl e | Inr c \<Rightarrow> Inr (Some c))))
       (\<lambda>parentCert.
     bind_result (case parentKeyPEM of
                    None \<Rightarrow> Inr None
                  | Some p \<Rightarrow> bind_result (decodePEM L p) (\<lambda>der. map_error BadKey (case ParsePKCS8PrivateKey L der of Inl e \<Rightarrow> Inl e | Inr k \<Rightarrow> Inr (Some k))))
       (\<lambda>parentKey. Inr (parentCert, parentKey)))"

definition validity :: "int \<Rightarrow> Certificate option \<Rightarrow> int \<times> int" where
  \<comment> \<open>not before and not after, cut to the validity of the parent\<close>
  "validity now parentCert =
     (let notBefore = now - 5 * 60 * second; notAfter = notBefore + validFor
      in case parentCert of
           None \<Rightarrow> (notBefore, notAfter)
         | Some p \<Rightarrow> (if notBefore < NotBefore p then NotBefore p else notBefore, if NotAfter p < notAfter then NotAfter p else notAfter))"

definition certTemplate :: "string \<Rightarrow> string \<Rightarrow> bool \<Rightarrow> bool \<Rightarrow> int \<Rightarrow> int \<times> int \<Rightarrow> Certificate" where
  "certTemplate orgName serverName isClient isCA serialNumber valid =
     \<lparr>SerialNumber = serialNumber, Organization = [orgName], CommonName = serverName,
      DNSNames = (if serverName \<noteq> [] then [serverName] else []), NotBefore = fst valid, NotAfter = snd valid,
      KeyUsage = KeyUsageCertSign OR KeyUsageDigitalSignature,
      ExtKeyUsage = [if isClient then ExtKeyUsageClientAuth else ExtKeyUsageServerAuth],
      BasicConstraintsValid = True, IsCA = isCA, PublicKey = [], SignedBy = []\<rparr>"

definition sign_certificate :: "'w x509_lib \<Rightarrow> Certificate \<Rightarrow> Certificate option \<Rightarrow> string option \<Rightarrow> string \<Rightarrow> ('w, tls_error, string) io" where
  \<comment> \<open>signed by the parent, or by its own key\<close>
  "sign_certificate L template parentCert parentKey key =
     (case (case parentCert of Some p \<Rightarrow> (p, parentKey) | None \<Rightarrow> (template, Some key)) of
        (_, None) \<Rightarrow> fail (SignFailed ''nil key'')
      | (signerCert, Some signerKey) \<Rightarrow>
          bind_io (wrap_io SignFailed (CreateCertificate L template signerCert (key_Public L key) signerKey)) (\<lambda>certDER.
            query (\<lambda>_. encodePEM L ''CERTIFICATE'' certDER)))"

definition generateCertificate :: "'w x509_lib \<Rightarrow> string \<Rightarrow> string \<Rightarrow> string option \<Rightarrow> string option \<Rightarrow> bool \<Rightarrow> bool
    \<Rightarrow> ('w, tls_error, string \<times> string) io" where
  "generateCertificate L orgName serverName parentCertPEM parentKeyPEM isClient isCA =
     bind_io (query (\<lambda>_. load_parent L parentCertPEM parentKeyPEM)) (\<lambda>(parentCert, parentKey).
     bind_io (query (\<lambda>w. Inr (time_Now L w))) (\<lambda>now.
     bind_io (wrap_io SerialFailed (rand_Int L (2 ^ 128))) (\<lambda>serialNumber.
     bind_io (wrap_io KeyGenFailed (ecdsa_GenerateKey L)) (\<lambda>key.
     bind_io (query (\<lambda>_. map_error MarshalKeyFailed (MarshalPKCS8PrivateKey L key))) (\<lambda>keyDER.
     bind_io (query (\<lambda>_. encodePEM L ''PRIVATE KEY'' keyDER)) (\<lambda>keyPEM.
     bind_io (sign_certificate L (certTemplate orgName serverName isClient isCA serialNumber (validity now parentCert)) parentCert parentKey key) (\<lambda>certPEM.
       ret (certPEM, keyPEM))))))))"

record caService =
  orgName :: string
  ca_certPEM :: string
  ca_keyPEM :: string

definition NewCAService :: "'w x509_lib \<Rightarrow> string \<Rightarrow> ('w, tls_error, caService) io" where
  "NewCAService L org =
     bind_io (generateCertificate L org [] None None False True) (\<lambda>(certPEM, keyPEM).
       ret \<lparr>orgName = org, ca_certPEM = certPEM, ca_keyPEM = keyPEM\<rparr>)"

definition RootCertificate :: "caService \<Rightarrow> string" where
  "RootCertificate s = ca_certPEM s"

definition Issue :: "'w x509_lib \<Rightarrow> caService \<Rightarrow> string \<Rightarrow> ('w, tls_error, string \<times> string) io" where
  "Issue L s serverName = generateCertificate L (orgName s) serverName (Some (ca_certPEM s)) (Some (ca_keyPEM s)) False False"

definition NewClientCertificate :: "'w x509_lib \<Rightarrow> string \<Rightarrow> ('w, tls_error, string \<times> string) io" where
  "NewClientCertificate L org = generateCertificate L org [] None None True False"

section \<open>Settings\<close>

record TLSConfig =
  CAFile :: string
  CertFile :: string
  KeyFile :: string
  SkipVerify :: bool
  CAData :: string
  CertData :: string
  KeyData :: string

record tls_Config =
  MinVersion :: nat
  InsecureSkipVerify :: bool
  RootCAs :: "Certificate list option" \<comment> \<open>\<open>None\<close> are the roots of the system\<close>
  RequireClientCert :: bool \<comment> \<open>\<open>ClientAuth\<close> is \<open>RequireAndVerifyClientCert\<close>\<close>
  ClientCAs :: "Certificate list option"
  Certificates :: "tls_Certificate list"
  ServerName :: string

definition VersionTLS12 :: nat where "VersionTLS12 = 0x0303"

definition HasCA :: "TLSConfig \<Rightarrow> bool" where
  "HasCA t \<longleftrightarrow> length (CAData t) > 0 \<or> length (CAFile t) > 0"

definition HasCertAuth :: "TLSConfig \<Rightarrow> bool" where
  "HasCertAuth t \<longleftrightarrow> (length (CertData t) \<noteq> 0 \<or> length (CertFile t) \<noteq> 0) \<and> (length (KeyData t) \<noteq> 0 \<or> length (KeyFile t) \<noteq> 0)"

definition dataFromSliceOrFile :: "os_state \<Rightarrow> string \<Rightarrow> string \<Rightarrow> os_error + string" where
  "dataFromSliceOrFile os data file = (if length data > 0 then Inr data else if length file > 0 then ReadFile os file else Inr [])"

definition loadTLSFiles :: "os_state \<Rightarrow> TLSConfig \<Rightarrow> tls_error option \<times> TLSConfig" where
  \<comment> \<open>the configuration is changed in place; a field whose file cannot be read is left empty\<close>
  "loadTLSFiles os t =
     (case dataFromSliceOrFile os (CAData t) (CAFile t) of
        Inl e \<Rightarrow> (Some (TlsFile e), t\<lparr>CAData := []\<rparr>)
      | Inr ca \<Rightarrow>
          (let t = t\<lparr>CAData := ca\<rparr>
           in case dataFromSliceOrFile os (CertData t) (CertFile t) of
                Inl e \<Rightarrow> (Some (TlsFile e), t\<lparr>CertData := []\<rparr>)
              | Inr cert \<Rightarrow>
                  (let t = t\<lparr>CertData := cert\<rparr>
                   in case dataFromSliceOrFile os (KeyData t) (KeyFile t) of
                        Inl e \<Rightarrow> (Some (TlsFile e), t\<lparr>KeyData := []\<rparr>)
                      | Inr key \<Rightarrow> (None, t\<lparr>KeyData := key\<rparr>))))"

fun createErrorParsingCAData :: "'w x509_lib \<Rightarrow> nat \<Rightarrow> string \<Rightarrow> tls_error" where
  \<comment> \<open>every block takes at least one byte, so that the length bounds the rounds\<close>
  "createErrorParsingCAData L 0 pemCerts = NoValidCA"
| "createErrorParsingCAData L (Suc n) pemCerts =
     (if length pemCerts = 0 then NoValidCA
      else case pem_Decode L pemCerts of
             None \<Rightarrow> NotPEMBlock
           | Some (block, rest) \<Rightarrow>
               if pem_Type block \<noteq> ''CERTIFICATE'' \<or> length (pem_Headers block) \<noteq> 0 then createErrorParsingCAData L n rest
               else (case ParseCertificate L (pem_Bytes block) of
                       Inl e \<Rightarrow> BadCert e
                     | Inr _ \<Rightarrow> createErrorParsingCAData L n rest))"

definition rootCertPool :: "'w x509_lib \<Rightarrow> string \<Rightarrow> tls_error + Certificate list option" where
  "rootCertPool L caData =
     (if length caData = 0 then Inr None
      else if CertsFromPEM L caData = [] then Inl (createErrorParsingCAData L (length caData) caData)
      else Inr (Some (CertsFromPEM L caData)))"

definition GetTLSConfigFor :: "'w x509_lib \<Rightarrow> os_state \<Rightarrow> TLSConfig \<Rightarrow> (tls_error + tls_Config option) \<times> TLSConfig" where
  "GetTLSConfigFor L os t =
     (if \<not> (HasCA t \<or> HasCertAuth t \<or> SkipVerify t) then (Inr None, t)
      else if HasCA t \<and> SkipVerify t then (Inl InsecureWithCA, t)
      else case loadTLSFiles os t of
        (Some e, t) \<Rightarrow> (Inl e, t)
      | (None, t) \<Rightarrow>
          (bind_result (if HasCA t then rootCertPool L (CAData t) else Inr None) (\<lambda>pool.
           bind_result (if HasCertAuth t then map_error BadKeyPair (case X509KeyPair L (CertData t) (KeyData t) of Inl e \<Rightarrow> Inl e | Inr c \<Rightarrow> Inr [c]) else Inr [])
             (\<lambda>certs. Inr (Some \<lparr>MinVersion = VersionTLS12, InsecureSkipVerify = SkipVerify t, RootCAs = pool,
                RequireClientCert = HasCA t, ClientCAs = pool, Certificates = certs, ServerName = []\<rparr>))), t))"

section \<open>Verification of a peer\<close>

definition valid_at :: "int \<Rightarrow> Certificate \<Rightarrow> bool" where
  "valid_at now c \<longleftrightarrow> NotBefore c \<le> now \<and> now \<le> NotAfter c"

definition may_sign :: "Certificate \<Rightarrow> bool" where
  "may_sign c \<longleftrightarrow> BasicConstraintsValid c \<and> IsCA c \<and> KeyUsage c AND KeyUsageCertSign \<noteq> 0"

definition chain_ok :: "int \<Rightarrow> ext_key_usage \<Rightarrow> Certificate list \<Rightarrow> Certificate \<Rightarrow> bool" where
  \<comment> \<open>a root itself, or a certificate that a root with the right to sign has signed\<close>
  "chain_ok now u roots c \<longleftrightarrow> valid_at now c \<and> u \<in> set (ExtKeyUsage c) \<and>
     (c \<in> set roots \<or> (\<exists>r\<in>set roots. SignedBy c = PublicKey r \<and> may_sign r \<and> valid_at now r \<and> u \<in> set (ExtKeyUsage r)))"

definition server_accepts :: "int \<Rightarrow> Certificate list \<Rightarrow> tls_Config \<Rightarrow> Certificate option \<Rightarrow> bool" where
  \<comment> \<open>the argument is the certificate that the client sends, the second one the roots of the system\<close>
  "server_accepts now system_roots conf c \<longleftrightarrow> \<not> RequireClientCert conf \<or>
     (case c of None \<Rightarrow> False
      | Some c \<Rightarrow> chain_ok now ExtKeyUsageClientAuth (case ClientCAs conf of None \<Rightarrow> system_roots | Some r \<Rightarrow> r) c)"

definition client_accepts :: "int \<Rightarrow> Certificate list \<Rightarrow> tls_Config \<Rightarrow> Certificate \<Rightarrow> bool" where
  "client_accepts now system_roots conf c \<longleftrightarrow> InsecureSkipVerify conf \<or>
     chain_ok now ExtKeyUsageServerAuth (case RootCAs conf of None \<Rightarrow> system_roots | Some r \<Rightarrow> r) c \<and> ServerName conf \<in> set (DNSNames c)"

end
