(* ===== verification/AgentProxy.thy ===== *)
theory AgentProxy
  imports AgentProto TlsUtil
begin

text \<open>
  The agent proxy of a sandbox on the worker node with its factory (\<open>src/src/cloud-api-adaptor/pkg/adaptor/proxy/proxy.go\<close>, \<open>factory.go\<close>) and the
  daemon in the pod VM that it connects to (\<open>pkg/forwarder/forwarder.go\<close>).

  The TLS settings are shared by pointer between the factory and its proxies and are changed when certificate files are loaded, so
  operations that use them return them.  The closed channels \<open>readyCh\<close> and \<open>stopCh\<close> are flags.  Network, ttrpc server and the
  select statements that wait for the end of the service are the record \<open>net_env\<close>.
\<close>

datatype serve_event = ContextDone | StopClosed | ServerReturned "string option"
  \<comment> \<open>the channel that the select statement receives from; \<open>ServerReturned None\<close> is the closed error channel\<close>

datatype proxy_error = TlsConfigFailed tls_error | NilConfigPanic | ConnectFailed agent_error | EstablishFailed string
  | SocketDir os_error | SocketRemove os_error | ListenFailed string | TtrpcFailed string | ServeFailed string | NetworkFailed string

record 'w net_env =
  x509 :: "'w x509_lib"
  net_DialContext :: "string \<Rightarrow> string \<Rightarrow> ('w, string, nat) io"
  tls_DialContext :: "tls_Config \<Rightarrow> string \<Rightarrow> string \<Rightarrow> ('w, string, nat) io"
  retry_dial :: "('w, string, nat) io \<Rightarrow> ('w, string, nat) io" \<comment> \<open>\<open>retry.Do\<close> until the context is done\<close>
  net_ListenOn :: "string \<Rightarrow> string \<Rightarrow> ('w, string, string) io" \<comment> \<open>the address of the listener\<close>
  tls_ListenOn :: "string \<Rightarrow> string \<Rightarrow> tls_Config \<Rightarrow> ('w, string, string) io"
  ttrpc_NewServer :: "('w, string, unit) io"
  ttrpc_ServerShutdown :: "('w, string, unit) io"
  call_agent :: "nat \<Rightarrow> agent_request \<Rightarrow> ('w, string, string) io"
  close_agent :: "nat \<Rightarrow> ('w, string, unit) io"
  wait_end :: "'w \<Rightarrow> serve_event \<times> 'w"
  podNode_Setup :: "('w, string, unit) io"
  podNode_Teardown :: "('w, string, unit) io"

section \<open>Factory\<close>

record factory =
  fac_pauseImage :: string
  fac_tlsConfig :: "TLSConfig option"
  fac_caService :: "caService option"
  fac_proxyTimeout :: int

definition NewFactory :: "'w net_env \<Rightarrow> string \<Rightarrow> TLSConfig option \<Rightarrow> int \<Rightarrow> ('w, tls_error, factory) io" where
  \<comment> \<open>an error is a panic\<close>
  "NewFactory E pauseImage tlsConfig proxyTimeout =
     bind_io (case tlsConfig of
                Some t \<Rightarrow> (if \<not> HasCertAuth t
                           then bind_io (NewClientCertificate (x509 E) ''cloud-api-adaptor'') (\<lambda>(certPEM, keyPEM).
                                  ret (Some (t\<lparr>CertData := certPEM, KeyData := keyPEM\<rparr>)))
                           else ret (Some t))
              | None \<Rightarrow> ret None) (\<lambda>tlsConfig.
     bind_io (case tlsConfig of
                Some t \<Rightarrow> (if \<not> HasCA t
                           then bind_io (NewCAService (x509 E) ''agent-protocol-forwarder'') (\<lambda>s.
                                  ret (Some (t\<lparr>CAData := RootCertificate s\<rparr>), Some s))
                           else ret (Some t, None))
              | None \<Rightarrow> ret (None, None)) (\<lambda>(tlsConfig, caService).
       ret \<lparr>fac_pauseImage = pauseImage, fac_tlsConfig = tlsConfig, fac_caService = caService, fac_proxyTimeout = proxyTimeout\<rparr>))"

section \<open>Agent proxy\<close>

definition SocketName :: string where "SocketName = ''agent.ttrpc''"
definition podvmServername :: string where "podvmServername = ''podvm-server''"

record agent_proxy =
  px_tlsConfig :: "TLSConfig option"
  px_caService :: "caService option"
  px_ready :: bool
  px_stopped :: bool
  px_serverName :: string
  px_socketPath :: string
  px_pauseImage :: string
  px_proxyTimeout :: int

definition NewAgentProxy :: "string \<Rightarrow> string \<Rightarrow> string \<Rightarrow> TLSConfig option \<Rightarrow> caService option \<Rightarrow> int \<Rightarrow> agent_proxy" where
  "NewAgentProxy serverName socketPath pauseImage tlsConfig caService proxyTimeout =
     \<lparr>px_tlsConfig = tlsConfig, px_caService = caService, px_ready = False, px_stopped = False, px_serverName = serverName,
      px_socketPath = socketPath, px_pauseImage = pauseImage, px_proxyTimeout = proxyTimeout\<rparr>"

definition factory_New :: "factory \<Rightarrow> string \<Rightarrow> string \<Rightarrow> agent_proxy" where
  "factory_New f serverName socketPath =
     NewAgentProxy serverName socketPath (fac_pauseImage f) (fac_tlsConfig f) (fac_caService f) (fac_proxyTimeout f)"

definition px_ClientCA :: "agent_proxy \<Rightarrow> string" where
  "px_ClientCA p = (case px_tlsConfig p of None \<Rightarrow> [] | Some t \<Rightarrow> if CAFile t \<noteq> [] then [] else CertData t)"

definition px_Shutdown :: "agent_proxy \<Rightarrow> agent_proxy" where
  "px_Shutdown p = p\<lparr>px_stopped := True\<rparr>"

definition dial_config :: "'w net_env \<Rightarrow> os_state \<Rightarrow> agent_proxy \<Rightarrow> (proxy_error + tls_Config option) \<times> agent_proxy" where
  \<comment> \<open>the TLS settings of a connection; \<open>None\<close> for a connection without TLS\<close>
  "dial_config E os p =
     (case px_tlsConfig p of
        None \<Rightarrow> (Inr None, p)
      | Some t \<Rightarrow>
          (case GetTLSConfigFor (x509 E) os t of
             (Inl e, t) \<Rightarrow> (Inl (TlsConfigFailed e), p\<lparr>px_tlsConfig := Some t\<rparr>)
           | (Inr None, t) \<Rightarrow> (Inl NilConfigPanic, p\<lparr>px_tlsConfig := Some t\<rparr>)
           | (Inr (Some config), t) \<Rightarrow>
               (Inr (Some (config\<lparr>ServerName := if px_caService p \<noteq> None then px_serverName p else podvmServername\<rparr>)), p\<lparr>px_tlsConfig := Some t\<rparr>)))"

definition px_dial :: "'w net_env \<Rightarrow> os_state \<Rightarrow> string \<Rightarrow> (agent_proxy \<times> 'w, proxy_error, nat) io" where
  "px_dial E os address = (\<lambda>(p, w).
     case dial_config E os p of
       (Inl e, p) \<Rightarrow> (Inl e, (p, w))
     | (Inr conf, p) \<Rightarrow>
         (case retry_dial E (case conf of None \<Rightarrow> net_DialContext E ''tcp'' address | Some c \<Rightarrow> tls_DialContext E c ''tcp'' address) w of
            (r, w) \<Rightarrow> (map_error EstablishFailed r, (p, w))))"

definition proxy_conn :: "'w net_env \<Rightarrow> os_state \<Rightarrow> string \<Rightarrow> (agent_proxy \<times> 'w) agent_conn" where
  \<comment> \<open>the redirector of the proxy service\<close>
  "proxy_conn E os address =
     \<lparr>dialer = wrap_io (\<lambda>_. ''dial'') (px_dial E os address), ttrpc_Call = (\<lambda>c r. on_snd (call_agent E c r)), ttrpc_Close = (\<lambda>c. on_snd (close_agent E c))\<rparr>"

definition px_serve :: "'w net_env \<Rightarrow> redirector \<times> agent_proxy \<times> 'w \<Rightarrow> (proxy_error + unit) \<times> redirector \<times> agent_proxy \<times> 'w" where
  \<comment> \<open>\<open>Start\<close> from the creation of the ttrpc server on\<close>
  "px_serve E =
     then_io (wrap_io TtrpcFailed (on_snd (on_snd (ttrpc_NewServer E))))
       (defer_io (on_snd (on_snd (ttrpc_ServerShutdown E))) (\<lambda>(s, p, w).
          let p = p\<lparr>px_ready := True\<rparr>
          in case wait_end E w of
               (ContextDone, w) \<Rightarrow> (Inr (), (s, px_Shutdown p, w))
             | (StopClosed, w) \<Rightarrow> (Inr (), (s, p, w))
             | (ServerReturned None, w) \<Rightarrow> (Inr (), (s, p, w))
             | (ServerReturned (Some e), w) \<Rightarrow> (Inl (ServeFailed e), (s, p, w))))"

definition px_Start :: "'w net_env \<Rightarrow> string \<Rightarrow> (os_state \<times> agent_proxy \<times> 'w, proxy_error, unit) io" where
  "px_Start E serverHost = (\<lambda>(os, p, w).
     case MkdirAll os (Dir (px_socketPath p)) ModePerm of
       (Inl e, os) \<Rightarrow> (Inl (SocketDir e), (os, p, w))
     | (Inr _, os) \<Rightarrow>
         (case Remove os (px_socketPath p) of
            (Inl (ErrOs op q), os) \<Rightarrow> (Inl (SocketRemove (ErrOs op q)), (os, p, w))
          | (_, os) \<Rightarrow>
              (case net_ListenOn E ''unix'' (px_socketPath p) w of
                 (Inl e, w) \<Rightarrow> (Inl (ListenFailed e), (os, p, w))
               | (Inr _, w) \<Rightarrow>
                   (let C = proxy_conn E os serverHost
                    in case defer_io (Close_redirector C) (then_io (wrap_io ConnectFailed (Connect C)) (px_serve E)) (NewRedirector, p, w) of
                         (r, (_, p, w)) \<Rightarrow> (r, (os, p, w))))))"

section \<open>Forwarder daemon\<close>

definition DefaultListenHost :: string where "DefaultListenHost = ''0.0.0.0''"
definition DefaultListenPort :: string where "DefaultListenPort = ''15150''"
definition DefaultListenAddr :: string where "DefaultListenAddr = DefaultListenHost @ '':'' @ DefaultListenPort"
definition DefaultKataAgentSocketPath :: string where "DefaultKataAgentSocketPath = ''/run/kata-containers/agent.sock''"
definition DefaultPodNamespace :: string where "DefaultPodNamespace = ''/run/netns/podns''"

record daemon_spec =
  \<comment> \<open>the TLS part of the configuration that the adaptor sends, and whether external traffic leaves through the VM\<close>
  TLSServerKey :: string
  TLSServerCert :: string
  TLSClientCA :: string
  spec_ExternalNetViaPodVM :: "bool option" \<comment> \<open>\<open>None\<close> without a pod network\<close>

record daemon =
  d_tlsConfig :: "TLSConfig option"
  d_ready :: bool
  d_stopped :: bool
  d_listenAddr :: string
  d_externalNetViaPodVM :: bool

definition NewDaemon :: "daemon_spec \<Rightarrow> string \<Rightarrow> TLSConfig option \<Rightarrow> daemon" where
  "NewDaemon spec listenAddr tlsConfig =
     (let tlsConfig = (case tlsConfig of
            Some t \<Rightarrow> Some (if \<not> HasCertAuth t then t\<lparr>CertData := TLSServerCert spec, KeyData := TLSServerKey spec\<rparr> else t)
          | None \<Rightarrow> None);
          tlsConfig = (case tlsConfig of
            Some t \<Rightarrow> Some (if \<not> HasCA t then t\<lparr>CAData := TLSClientCA spec\<rparr> else t)
          | None \<Rightarrow> None)
      in \<lparr>d_tlsConfig = tlsConfig, d_ready = False, d_stopped = False, d_listenAddr = listenAddr,
          d_externalNetViaPodVM = (case spec_ExternalNetViaPodVM spec of None \<Rightarrow> False | Some b \<Rightarrow> b)\<rparr>)"

definition d_Shutdown :: "daemon \<Rightarrow> daemon" where
  "d_Shutdown d = d\<lparr>d_stopped := True\<rparr>"

definition daemon_listen :: "'w net_env \<Rightarrow> os_state \<Rightarrow> (daemon \<times> 'w, proxy_error, unit) io" where
  \<comment> \<open>\<open>tls.Listen\<close> refuses a nil configuration\<close>
  "daemon_listen E os = (\<lambda>(d, w).
     case d_tlsConfig d of
       Some t \<Rightarrow>
         (case GetTLSConfigFor (x509 E) os t of
            (Inl e, t) \<Rightarrow> (Inl (TlsConfigFailed e), (d\<lparr>d_tlsConfig := Some t\<rparr>, w))
          | (Inr None, t) \<Rightarrow> (Inl (ListenFailed ''no certificate''), (d\<lparr>d_tlsConfig := Some t\<rparr>, w))
          | (Inr (Some config), t) \<Rightarrow>
              (case tls_ListenOn E ''tcp'' (d_listenAddr d) config w of
                 (Inl e, w) \<Rightarrow> (Inl (ListenFailed e), (d\<lparr>d_tlsConfig := Some t\<rparr>, w))
               | (Inr addr, w) \<Rightarrow> (Inr (), (d\<lparr>d_tlsConfig := Some t, d_listenAddr := addr\<rparr>, w))))
     | None \<Rightarrow>
         (case net_ListenOn E ''tcp'' (d_listenAddr d) w of
            (Inl e, w) \<Rightarrow> (Inl (ListenFailed e), (d, w))
          | (Inr addr, w) \<Rightarrow> (Inr (), (d\<lparr>d_listenAddr := addr\<rparr>, w))))"

definition daemon_serve :: "'w net_env \<Rightarrow> ('w, string, unit) io \<Rightarrow> (daemon \<times> 'w, proxy_error, unit) io" where
  \<comment> \<open>the second argument closes the interceptor\<close>
  "daemon_serve E close_interceptor =
     then_io (wrap_io TtrpcFailed (on_snd (ttrpc_NewServer E)))
       (defer_io (\<lambda>w. on_snd close_interceptor (snd (on_snd (ttrpc_ServerShutdown E) w))) (\<lambda>(d, w).
          let d = d\<lparr>d_ready := True\<rparr>
          in case wait_end E w of
               (ContextDone, w) \<Rightarrow> (Inr (), (d_Shutdown d, w))
             | (StopClosed, w) \<Rightarrow> (Inr (), (d, w))
             | (ServerReturned None, w) \<Rightarrow> (Inr (), (d, w))
             | (ServerReturned (Some e), w) \<Rightarrow> (Inl (ServeFailed e), (d, w))))"

definition daemon_Start :: "'w net_env \<Rightarrow> os_state \<Rightarrow> ('w, string, unit) io \<Rightarrow> (daemon \<times> 'w, proxy_error, unit) io" where
  "daemon_Start E os close_interceptor =
     then_io (wrap_io NetworkFailed (on_snd (podNode_Setup E)))
       (defer_io (on_snd (podNode_Teardown E)) (then_io (daemon_listen E os) (daemon_serve E close_interceptor)))"

end
