(* ===== verification/TlsProps.thy ===== *)
theory TlsProps
  imports AgentProxy
begin

text \<open>
  The automatic TLS configuration end to end: the certificates that the factory of the agent proxies makes, the server certificate that is
  issued for a pod VM and sent to its daemon, and what the two ends then accept from each other.
\<close>

section \<open>Laws of the certificate library\<close>

definition full_second :: "int \<Rightarrow> int" where
  \<comment> \<open>certificates have times in seconds\<close>
  "full_second t = t - t mod second"

definition cert_block :: "string \<Rightarrow> pem_block" where
  "cert_block der = \<lparr>pem_Type = ''CERTIFICATE'', pem_Headers = [], pem_Bytes = der\<rparr>"

definition key_block :: "string \<Rightarrow> pem_block" where
  "key_block der = \<lparr>pem_Type = ''PRIVATE KEY'', pem_Headers = [], pem_Bytes = der\<rparr>"

definition pem_cert :: "'w x509_lib \<Rightarrow> string \<Rightarrow> Certificate \<Rightarrow> bool" where
  "pem_cert L s c \<longleftrightarrow> (\<exists>der. pem_Encode L (cert_block der) = Inr s \<and> ParseCertificate L der = Inr c)"

definition pem_key :: "'w x509_lib \<Rightarrow> string \<Rightarrow> string \<Rightarrow> bool" where
  "pem_key L s k \<longleftrightarrow> (\<exists>der. pem_Encode L (key_block der) = Inr s \<and> ParsePKCS8PrivateKey L der = Inr k)"

definition x509_ok :: "'w x509_lib \<Rightarrow> bool" where
  \<comment> \<open>decoding inverts encoding, and a new certificate has the fields of its template, the given key and the signature of the given signer\<close>
  "x509_ok L \<longleftrightarrow>
     (\<forall>b s. pem_Encode L b = Inr s \<longrightarrow> s \<noteq> [] \<and> pem_Decode L s = Some (b, [])) \<and>
     (\<forall>s c. pem_cert L s c \<longrightarrow> CertsFromPEM L s = [c]) \<and>
     (\<forall>k der. MarshalPKCS8PrivateKey L k = Inr der \<longrightarrow> ParsePKCS8PrivateKey L der = Inr k) \<and>
     (\<forall>t p pub k w der w'. CreateCertificate L t p pub k w = (Inr der, w') \<longrightarrow>
        ParseCertificate L der = Inr (t\<lparr>NotBefore := full_second (NotBefore t), NotAfter := full_second (NotAfter t),
          PublicKey := pub, SignedBy := key_Public L k\<rparr>)) \<and>
     (\<forall>s c ks k. pem_cert L s c \<longrightarrow> pem_key L ks k \<longrightarrow> PublicKey c = key_Public L k \<longrightarrow> X509KeyPair L s ks = Inr \<lparr>tls_Leaf = c, PrivateKey = k\<rparr>)"

lemma x509_okD:
  assumes "x509_ok L"
  shows "pem_Encode L b = Inr s \<Longrightarrow> s \<noteq> [] \<and> pem_Decode L s = Some (b, [])"
    and "pem_cert L s c \<Longrightarrow> CertsFromPEM L s = [c]"
    and "MarshalPKCS8PrivateKey L k = Inr der \<Longrightarrow> ParsePKCS8PrivateKey L der = Inr k"
    and "CreateCertificate L t p pub k w = (Inr der, w') \<Longrightarrow>
        ParseCertificate L der = Inr (t\<lparr>NotBefore := full_second (NotBefore t), NotAfter := full_second (NotAfter t),
          PublicKey := pub, SignedBy := key_Public L k\<rparr>)"
    and "pem_cert L s c \<Longrightarrow> pem_key L ks k \<Longrightarrow> PublicKey c = key_Public L k \<Longrightarrow> X509KeyPair L s ks = Inr \<lparr>tls_Leaf = c, PrivateKey = k\<rparr>"
  by (rule assms[unfolded x509_ok_def, THEN conjunct1, rule_format], assumption)
    (rule assms[unfolded x509_ok_def, THEN conjunct2, THEN conjunct1, rule_format], assumption,
     rule assms[unfolded x509_ok_def, THEN conjunct2, THEN conjunct2, THEN conjunct1, rule_format], assumption,
     rule assms[unfolded x509_ok_def, THEN conjunct2, THEN conjunct2, THEN conjunct2, THEN conjunct1, rule_format], assumption,
     rule assms[unfolded x509_ok_def, THEN conjunct2, THEN conjunct2, THEN conjunct2, THEN conjunct2, rule_format], assumption+)

lemma pem_not_Nil: "x509_ok L \<Longrightarrow> pem_cert L s c \<Longrightarrow> s \<noteq> []" "x509_ok L \<Longrightarrow> pem_key L s k \<Longrightarrow> s \<noteq> []"
  unfolding pem_cert_def pem_key_def by (elim exE conjE; simp add: x509_okD(1))+

section \<open>Generated certificates\<close>

lemma load_parent_ok:
  assumes "x509_ok L" and "pem_cert L cp c" and "pem_key L kp k"
  shows "load_parent L (Some cp) (Some kp) = Inr (Some c, Some k)"
proof -
  from assms(2,3) obtain cd kd where "pem_Encode L (cert_block cd) = Inr cp" "ParseCertificate L cd = Inr c"
    "pem_Encode L (key_block kd) = Inr kp" "ParsePKCS8PrivateKey L kd = Inr k" by (auto simp: pem_cert_def pem_key_def)
  then show ?thesis using x509_okD(1)[OF assms(1), of "cert_block cd" cp] x509_okD(1)[OF assms(1), of "key_block kd" kp]
    by (simp add: load_parent_def decodePEM_def bind_result_def map_error_def cert_block_def key_block_def)
qed

lemma may_sign_template: "may_sign (certTemplate org name cl ca n v\<lparr>NotBefore := a, NotAfter := b, PublicKey := x, SignedBy := y\<rparr>) = ca"
  by (simp add: may_sign_def certTemplate_def KeyUsageCertSign_def KeyUsageDigitalSignature_def)

definition issued :: "'w x509_lib \<Rightarrow> string \<Rightarrow> bool \<Rightarrow> bool \<Rightarrow> string \<Rightarrow> Certificate \<Rightarrow> string \<Rightarrow> bool" where
  \<comment> \<open>what is known of a generated certificate and its key; the last but two argument is the public key of the signer\<close>
  "issued L name cl ca signer cert key \<longleftrightarrow> PublicKey cert = key_Public L key \<and> SignedBy cert = signer \<and> may_sign cert = ca \<and>
     DNSNames cert = (if name \<noteq> [] then [name] else []) \<and> ExtKeyUsage cert = [if cl then ExtKeyUsageClientAuth else ExtKeyUsageServerAuth]"

lemma sign_ok:
  assumes ok: "x509_ok L" and run: "sign_certificate L (certTemplate org name cl ca n v) parentCert parentKey key w = (Inr certPEM, w')"
  shows "\<exists>cert. pem_cert L certPEM cert \<and>
    issued L name cl ca (case parentCert of None \<Rightarrow> key_Public L key | Some _ \<Rightarrow> key_Public L (the parentKey)) cert key"
proof -
  let ?t = "certTemplate org name cl ca n v"
  obtain sc sk where s: "(case parentCert of Some p \<Rightarrow> (p, parentKey) | None \<Rightarrow> (?t, Some key)) = (sc, Some sk)"
    using run by (cases parentCert; cases parentKey) (auto simp: sign_certificate_def)
  then obtain der w3 where c: "CreateCertificate L ?t sc (key_Public L key) sk w = (Inr der, w3)" and ce: "encodePEM L ''CERTIFICATE'' der = Inr certPEM"
    using run by (auto simp: sign_certificate_def io_iffs)
  let ?cert = "?t\<lparr>NotBefore := full_second (fst v), NotAfter := full_second (snd v), PublicKey := key_Public L key, SignedBy := key_Public L sk\<rparr>"
  have "ParseCertificate L der = Inr ?cert" using x509_okD(4)[OF ok c] by (simp add: certTemplate_def)
  moreover have "pem_Encode L (cert_block der) = Inr certPEM" using ce
    by (cases "pem_Encode L (cert_block der)") (simp_all add: encodePEM_def map_error_def cert_block_def)
  ultimately have "pem_cert L certPEM ?cert" unfolding pem_cert_def by blast
  moreover have "issued L name cl ca (case parentCert of None \<Rightarrow> key_Public L key | Some _ \<Rightarrow> key_Public L (the parentKey)) ?cert key"
    unfolding issued_def may_sign_template using s by (cases parentCert) (auto simp: certTemplate_def)
  ultimately show ?thesis by blast
qed

lemma generate_ok:
  assumes ok: "x509_ok L" and run: "generateCertificate L org name pc pk cl ca w = (Inr (certPEM, keyPEM), w')"
    and parent: "load_parent L pc pk = Inr (parentCert, parentKey)"
  shows "\<exists>cert key. pem_cert L certPEM cert \<and> pem_key L keyPEM key \<and>
    issued L name cl ca (case parentCert of None \<Rightarrow> key_Public L key | Some _ \<Rightarrow> key_Public L (the parentKey)) cert key"
proof -
  from run parent obtain n key keyDER w2 where m: "MarshalPKCS8PrivateKey L key = Inr keyDER" and e: "encodePEM L ''PRIVATE KEY'' keyDER = Inr keyPEM"
    and s: "sign_certificate L (certTemplate org name cl ca n (validity (time_Now L w) parentCert)) parentCert parentKey key w2 = (Inr certPEM, w')"
    unfolding generateCertificate_def bind_io_Inr_iff wrap_io_Inr_iff io_simps
    by (auto simp: bind_io_Inr_iff wrap_io_Inr_iff)
  have "pem_Encode L (key_block keyDER) = Inr keyPEM" using e
    by (cases "pem_Encode L (key_block keyDER)") (simp_all add: encodePEM_def map_error_def key_block_def)
  then have "pem_key L keyPEM key" using x509_okD(3)[OF ok m] unfolding pem_key_def by blast
  with sign_ok[OF ok s] show ?thesis by blast
qed

section \<open>The two ends\<close>

definition tls_conf :: "Certificate \<Rightarrow> Certificate \<Rightarrow> string \<Rightarrow> string \<Rightarrow> tls_Config" where
  \<comment> \<open>trusts one root, shows one certificate and expects the given name\<close>
  "tls_conf root c k name = \<lparr>MinVersion = VersionTLS12, InsecureSkipVerify = False, RootCAs = Some [root], RequireClientCert = True,
     ClientCAs = Some [root], Certificates = [\<lparr>tls_Leaf = c, PrivateKey = k\<rparr>], ServerName = name\<rparr>"

lemma GetTLSConfigFor_ok:
  assumes ok: "x509_ok L" and "pem_cert L (CAData t) root" and "pem_cert L (CertData t) c" and "pem_key L (KeyData t) k"
    and "PublicKey c = key_Public L k" and "\<not> SkipVerify t"
  shows "GetTLSConfigFor L os t = (Inr (Some (tls_conf root c k [])), t)"
proof -
  note ne = pem_not_Nil(1)[OF ok assms(2)] pem_not_Nil(1)[OF ok assms(3)] pem_not_Nil(2)[OF ok assms(4)]
  have h: "HasCA t" "HasCertAuth t" using ne by (simp_all add: HasCA_def HasCertAuth_def)
  have f: "loadTLSFiles os t = (None, t)" using ne by (simp add: loadTLSFiles_def dataFromSliceOrFile_def Let_def)
  have p: "rootCertPool L (CAData t) = Inr (Some [root])" using ne x509_okD(2)[OF ok assms(2)] by (simp add: rootCertPool_def)
  show ?thesis unfolding GetTLSConfigFor_def f
    using h p x509_okD(5)[OF ok assms(3,4,5)] assms(6) by (simp add: bind_result_def tls_conf_def)
qed

definition fresh_tls :: "TLSConfig \<Rightarrow> bool" where
  \<comment> \<open>no certificates given on the command line, and verification not switched off\<close>
  "fresh_tls t \<longleftrightarrow> \<not> HasCertAuth t \<and> \<not> HasCA t \<and> \<not> SkipVerify t"

lemma NewFactory_ok:
  assumes ok: "x509_ok (x509 E)" and fresh: "fresh_tls t0" and run: "NewFactory E pause (Some t0) timeout w = (Inr f, w')"
  shows "\<exists>t ca cc ck rc rk. fac_tlsConfig f = Some t \<and> fac_caService f = Some ca \<and> CAFile t = [] \<and> \<not> SkipVerify t \<and>
    pem_cert (x509 E) (CertData t) cc \<and> pem_key (x509 E) (KeyData t) ck \<and> issued (x509 E) [] True False (key_Public (x509 E) ck) cc ck \<and>
    CAData t = ca_certPEM ca \<and> pem_cert (x509 E) (ca_certPEM ca) rc \<and> pem_key (x509 E) (ca_keyPEM ca) rk \<and>
    issued (x509 E) [] False True (key_Public (x509 E) rk) rc rk"
proof -
  let ?L = "x509 E"
  have parent: "load_parent ?L None None = Inr (None, None)" by (simp add: load_parent_def bind_result_def)
  have "HasCA (t0\<lparr>CertData := x, KeyData := y\<rparr>) = HasCA t0" for x y by (simp add: HasCA_def)
  then obtain certPEM keyPEM w1 caPEM caKey w2 where c: "NewClientCertificate ?L ''cloud-api-adaptor'' w = (Inr (certPEM, keyPEM), w1)"
    and r: "generateCertificate ?L ''agent-protocol-forwarder'' [] None None False True w1 = (Inr (caPEM, caKey), w2)"
    and f: "f = \<lparr>fac_pauseImage = pause, fac_tlsConfig = Some (t0\<lparr>CertData := certPEM, KeyData := keyPEM, CAData := caPEM\<rparr>),
      fac_caService = Some \<lparr>orgName = ''agent-protocol-forwarder'', ca_certPEM = caPEM, ca_keyPEM = caKey\<rparr>, fac_proxyTimeout = timeout\<rparr>"
    using run fresh by (auto simp: NewFactory_def NewCAService_def RootCertificate_def fresh_tls_def bind_io_Inr_iff)
  from generate_ok[OF ok c[unfolded NewClientCertificate_def] parent] generate_ok[OF ok r parent] show ?thesis
    using f fresh by (auto simp: fresh_tls_def HasCA_def)
qed

lemma chain_single: "chain_ok now u [root] c \<longleftrightarrow> valid_at now c \<and> u \<in> set (ExtKeyUsage c) \<and>
    (c = root \<or> SignedBy c = PublicKey root \<and> may_sign root \<and> valid_at now root \<and> u \<in> set (ExtKeyUsage root))"
  by (auto simp: chain_ok_def)

text \<open>C5: With the automatic TLS configuration, the adaptor's proxy and the daemon in the pod VM get settings under which each accepts the certificate of
  the other as long as the certificates are valid.  The daemon accepts no other client than the adaptor, and the proxy accepts only servers whose
  certificate the adaptor's authority has signed for the name of this VM.\<close>

theorem mutual_tls:
  assumes ok: "x509_ok (x509 E)" and "fresh_tls t0" and "fresh_tls t1" and "name \<noteq> []"
    and fac: "NewFactory E pause (Some t0) timeout w = (Inr f, w1)"
    and iss: "Issue (x509 E) (the (fac_caService f)) name w2 = (Inr (certPEM, keyPEM), w3)"
    and p: "p = factory_New f name sock"
    and d: "d = NewDaemon \<lparr>TLSServerKey = keyPEM, TLSServerCert = certPEM, TLSClientCA = px_ClientCA p, spec_ExternalNetViaPodVM = ext\<rparr> addr (Some t1)"
  shows "\<exists>cc ck sc sk root cconf sconf t. dial_config E os p = (Inr (Some cconf), p) \<and> d_tlsConfig d = Some t \<and>
    GetTLSConfigFor (x509 E) vmos t = (Inr (Some sconf), t) \<and> Certificates cconf = [\<lparr>tls_Leaf = cc, PrivateKey = ck\<rparr>] \<and>
    Certificates sconf = [\<lparr>tls_Leaf = sc, PrivateKey = sk\<rparr>] \<and> pem_cert (x509 E) (RootCertificate (the (fac_caService f))) root \<and>
    (\<forall>now. valid_at now cc \<and> valid_at now sc \<and> valid_at now root \<longrightarrow> client_accepts now sys cconf sc \<and> server_accepts now sys sconf (Some cc)) \<and>
    (\<forall>now c. server_accepts now sys sconf c \<longrightarrow> c = Some cc) \<and>
    (\<forall>now c. client_accepts now sys cconf c \<longrightarrow> SignedBy c = PublicKey root \<and> name \<in> set (DNSNames c))"
proof -
  let ?L = "x509 E"
  from NewFactory_ok[OF ok assms(2) fac] obtain t ca cc ck rc rk where f: "fac_tlsConfig f = Some t" "fac_caService f = Some ca"
    "CAFile t = []" "\<not> SkipVerify t"
    and cl: "pem_cert ?L (CertData t) cc" "pem_key ?L (KeyData t) ck" "issued ?L [] True False (key_Public ?L ck) cc ck"
    and r: "CAData t = ca_certPEM ca" "pem_cert ?L (ca_certPEM ca) rc" "pem_key ?L (ca_keyPEM ca) rk" "issued ?L [] False True (key_Public ?L rk) rc rk"
    by (elim exE conjE)
  from generate_ok[OF ok iss[unfolded f(2) Issue_def option.sel] load_parent_ok[OF ok r(2,3)]] obtain sc sk
    where s: "pem_cert ?L certPEM sc" "pem_key ?L keyPEM sk" "issued ?L name False False (key_Public ?L rk) sc sk" by auto
  have px: "px_tlsConfig p = Some t" "px_caService p = Some ca" "px_serverName p = name" using p f by (simp_all add: factory_New_def NewAgentProxy_def)
  have ca: "px_ClientCA p = CertData t" using px f(3) by (simp add: px_ClientCA_def)
  have "GetTLSConfigFor ?L os t = (Inr (Some (tls_conf rc cc ck [])), t)"
    using GetTLSConfigFor_ok[OF ok _ cl(1,2)] r(1,2) cl(3) f(4) by (simp add: issued_def)
  then have dial: "dial_config E os p = (Inr (Some (tls_conf rc cc ck name)), p)" using px by (simp add: dial_config_def tls_conf_def)
  let ?t = "t1\<lparr>CertData := certPEM, KeyData := keyPEM, CAData := CertData t\<rparr>"
  have dt: "d_tlsConfig d = Some ?t" using assms(3) d ca by (simp add: NewDaemon_def fresh_tls_def HasCA_def Let_def)
  have srv: "GetTLSConfigFor ?L vmos ?t = (Inr (Some (tls_conf cc sc sk [])), ?t)"
    using GetTLSConfigFor_ok[OF ok, of ?t cc sc sk vmos] cl(1) s assms(3) by (simp add: issued_def fresh_tls_def)
  have ns: "\<not> may_sign cc" and cu: "ExtKeyUsage cc = [ExtKeyUsageClientAuth]" using cl(3) by (simp_all add: issued_def)
  have rs: "may_sign rc" "ExtKeyUsage rc = [ExtKeyUsageServerAuth]" "SignedBy rc = PublicKey rc" "DNSNames rc = []" using r(4) by (simp_all add: issued_def)
  have ss: "SignedBy sc = PublicKey rc" "ExtKeyUsage sc = [ExtKeyUsageServerAuth]" "DNSNames sc = [name]" using s(3) r(4) assms(4) by (simp_all add: issued_def)
  have acc: "valid_at now cc \<and> valid_at now sc \<and> valid_at now rc \<Longrightarrow>
      client_accepts now sys (tls_conf rc cc ck name) sc \<and> server_accepts now sys (tls_conf cc sc sk []) (Some cc)" for now
    using rs ss cu by (simp add: client_accepts_def server_accepts_def tls_conf_def chain_single)
  have only: "server_accepts now sys (tls_conf cc sc sk []) c \<Longrightarrow> c = Some cc" for now c
    using ns by (cases c) (simp_all add: server_accepts_def tls_conf_def chain_single)
  have named: "client_accepts now sys (tls_conf rc cc ck name) c \<Longrightarrow> SignedBy c = PublicKey rc \<and> name \<in> set (DNSNames c)" for now c
    using rs(3) by (auto simp: client_accepts_def tls_conf_def chain_single)
  show ?thesis
    using dial dt srv acc only named r(2) f(2)
    by (intro exI[of _ cc] exI[of _ ck] exI[of _ sc] exI[of _ sk] exI[of _ rc] exI[of _ "tls_conf rc cc ck name"] exI[of _ "tls_conf cc sc sk []"] exI[of _ ?t])
      (simp add: tls_conf_def RootCertificate_def)
qed

definition demo_template :: "nat \<Rightarrow> Certificate" where
  \<comment> \<open>client, authority and server\<close>
  "demo_template i =
     (if i = 0 then certTemplate ''cloud-api-adaptor'' [] True False 7 (validity 0 None)
      else if i = 1 then certTemplate ''agent-protocol-forwarder'' [] False True 7 (validity 0 None)
      else certTemplate ''agent-protocol-forwarder'' ''vm-1'' False False 7 (validity 0 None))"

definition demo_signed :: "nat \<Rightarrow> Certificate" where
  "demo_signed i = demo_template i\<lparr>NotBefore := full_second (NotBefore (demo_template i)), NotAfter := full_second (NotAfter (demo_template i)),
     PublicKey := replicate i CHR ''p'', SignedBy := replicate (min i 1) CHR ''p''\<rparr>"

definition demo_parse :: "string \<Rightarrow> string + Certificate" where
  "demo_parse der = (if length der < 3 then Inr (demo_signed (length der)) else Inl ''asn1'')"

definition demo_x509 :: "nat x509_lib" where
  \<comment> \<open>the world counts the keys; the key with number \<open>i\<close> is a string of length \<open>i\<close>\<close>
  "demo_x509 =
     \<lparr>pem_Decode = (\<lambda>s. case s of [] \<Rightarrow> None | c # der \<Rightarrow> Some (if c = CHR ''C'' then cert_block der else key_block der, [])),
      pem_Encode = (\<lambda>b. if b = cert_block (pem_Bytes b) then Inr (CHR ''C'' # pem_Bytes b)
                        else if b = key_block (pem_Bytes b) then Inr (CHR ''K'' # pem_Bytes b) else Inl ''type''),
      ParseCertificate = demo_parse, ParsePKCS8PrivateKey = Inr, MarshalPKCS8PrivateKey = Inr, key_Public = map (\<lambda>_. CHR ''p''),
      ecdsa_GenerateKey = (\<lambda>w. (Inr (replicate w CHR ''k''), Suc w)), rand_Int = (\<lambda>_. ret 7), time_Now = (\<lambda>_. 0),
      CreateCertificate = (\<lambda>t p pub k w. if length pub < 3 \<and> t = demo_template (length pub) \<and> pub = replicate (length pub) CHR ''p'' \<and> length k = min (length pub) 1
        then (Inr pub, w) else (Inl ''key'', w)),
      CertsFromPEM = (\<lambda>s. case s of c # der \<Rightarrow> (case demo_parse der of Inr x \<Rightarrow> if c = CHR ''C'' then [x] else [] | Inl _ \<Rightarrow> []) | [] \<Rightarrow> []),
      X509KeyPair = (\<lambda>s ks. case demo_parse (tl s) of
        Inr x \<Rightarrow> if PublicKey x = map (\<lambda>_. CHR ''p'') (tl ks) then Inr \<lparr>tls_Leaf = x, PrivateKey = tl ks\<rparr> else Inl ''mismatch'' | Inl e \<Rightarrow> Inl e)\<rparr>"

lemma cert_key_block: "cert_block a \<noteq> key_block b" "key_block a \<noteq> cert_block b" "cert_block a = cert_block b \<longleftrightarrow> a = b" "key_block a = key_block b \<longleftrightarrow> a = b"
  "pem_Bytes (cert_block a) = a" "pem_Bytes (key_block a) = a"
  by (simp_all add: cert_block_def key_block_def)

lemma demo_x509_ok: "x509_ok demo_x509"
proof -
  have c: "pem_cert demo_x509 s x \<longleftrightarrow> (\<exists>der. s = CHR ''C'' # der \<and> demo_parse der = Inr x)" for s x
    by (auto simp: pem_cert_def demo_x509_def cert_key_block)
  have k: "pem_key demo_x509 s x \<longleftrightarrow> s = CHR ''K'' # x" for s x
    by (auto simp: pem_key_def demo_x509_def cert_key_block)
  have p: "length k = min n 1 \<Longrightarrow> map (\<lambda>_. CHR ''p'') k = replicate (min n 1) CHR ''p''" for n and k :: string
    by (simp add: map_replicate_const)
  show ?thesis unfolding x509_ok_def c k
    by (intro conjI allI impI) (auto simp: demo_x509_def cert_key_block demo_parse_def demo_signed_def p split: if_splits)
qed

definition demo_tls :: TLSConfig where
  "demo_tls = \<lparr>CAFile = [], CertFile = [], KeyFile = [], SkipVerify = False, CAData = [], CertData = [], KeyData = []\<rparr>"

definition demo_net :: "nat net_env" where
  "demo_net = \<lparr>x509 = demo_x509, net_DialContext = (\<lambda>_ _. ret 0), tls_DialContext = (\<lambda>_ _ _. ret 0), retry_dial = (\<lambda>m. m),
     net_ListenOn = (\<lambda>_. ret), tls_ListenOn = (\<lambda>_ a _. ret a), ttrpc_NewServer = ret (), ttrpc_ServerShutdown = ret (),
     call_agent = (\<lambda>_ _. ret []), close_agent = (\<lambda>_. ret ()), wait_end = (\<lambda>w. (StopClosed, w)), podNode_Setup = ret (), podNode_Teardown = ret ()\<rparr>"

definition empty_os :: os_state where
  "empty_os = \<lparr>os_env = (\<lambda>_. []), os_files = Map.empty, os_fault = (\<lambda>_ _. False)\<rparr>"

definition demo_factory :: factory where
  "demo_factory = (case NewFactory demo_net [] (Some demo_tls) 0 0 of (Inr f, _) \<Rightarrow> f)"

definition demo_agent_proxy :: agent_proxy where
  "demo_agent_proxy = factory_New demo_factory ''vm-1'' ''/run/agent.ttrpc''"

definition demo_daemon :: daemon where
  "demo_daemon = NewDaemon \<lparr>TLSServerKey = ''Kkk'', TLSServerCert = ''Cpp'', TLSClientCA = px_ClientCA demo_agent_proxy, spec_ExternalNetViaPodVM = None\<rparr>
     DefaultListenAddr (Some demo_tls)"

theorem mutual_tls_witness:
  "\<exists>cc ck sc sk cconf sconf t. dial_config demo_net empty_os demo_agent_proxy = (Inr (Some cconf), demo_agent_proxy) \<and> d_tlsConfig demo_daemon = Some t \<and>
     GetTLSConfigFor (x509 demo_net) empty_os t = (Inr (Some sconf), t) \<and> Certificates cconf = [\<lparr>tls_Leaf = cc, PrivateKey = ck\<rparr>] \<and>
     Certificates sconf = [\<lparr>tls_Leaf = sc, PrivateKey = sk\<rparr>] \<and>
     client_accepts 0 [] cconf sc \<and> server_accepts 0 [] sconf (Some cc) \<and> \<not> server_accepts 0 [] sconf None"
proof -
  have f: "NewFactory demo_net [] (Some demo_tls) 0 0 = (Inr demo_factory, 2)" by code_simp
  have i: "Issue (x509 demo_net) (the (fac_caService demo_factory)) ''vm-1'' 2 = (Inr (''Cpp'', ''Kkk''), 3)" by code_simp
  have fr: "fresh_tls demo_tls" by code_simp
  have ok: "x509_ok (x509 demo_net)" using demo_x509_ok by (simp add: demo_net_def)
  have cp: "RootCertificate (the (fac_caService demo_factory)) = ''Cp''" "CertsFromPEM (x509 demo_net) ''Cp'' = [demo_signed 1]" by code_simp+
  have root: "pem_cert (x509 demo_net) (RootCertificate (the (fac_caService demo_factory))) r \<Longrightarrow> r = demo_signed 1" for r
    using x509_okD(2)[OF ok, of "''Cp''" r] cp by simp
  have dial: "dial_config demo_net empty_os demo_agent_proxy = (Inr (Some (tls_conf (demo_signed 1) (demo_signed 0) [] ''vm-1'')), demo_agent_proxy)" by code_simp
  have srv: "GetTLSConfigFor (x509 demo_net) empty_os (the (d_tlsConfig demo_daemon)) =
      (Inr (Some (tls_conf (demo_signed 0) (demo_signed 2) ''kk'' [])), the (d_tlsConfig demo_daemon))" by code_simp
  have valid: "valid_at 0 (demo_signed 0) \<and> valid_at 0 (demo_signed 1) \<and> valid_at 0 (demo_signed 2)" by code_simp
  have name: "''vm-1'' \<noteq> []" by simp
  from mutual_tls[OF ok fr fr name f i demo_agent_proxy_def demo_daemon_def, of empty_os empty_os "[]"]
  obtain cc ck sc sk root cconf sconf t where c: "dial_config demo_net empty_os demo_agent_proxy = (Inr (Some cconf), demo_agent_proxy)"
    "d_tlsConfig demo_daemon = Some t" "GetTLSConfigFor (x509 demo_net) empty_os t = (Inr (Some sconf), t)"
    "Certificates cconf = [\<lparr>tls_Leaf = cc, PrivateKey = ck\<rparr>]" "Certificates sconf = [\<lparr>tls_Leaf = sc, PrivateKey = sk\<rparr>]"
    "pem_cert (x509 demo_net) (RootCertificate (the (fac_caService demo_factory))) root"
    and acc: "\<forall>now. valid_at now cc \<and> valid_at now sc \<and> valid_at now root \<longrightarrow> client_accepts now [] cconf sc \<and> server_accepts now [] sconf (Some cc)"
    and only: "\<forall>now c. server_accepts now [] sconf c \<longrightarrow> c = Some cc" by (elim exE conjE)
  have "cconf = tls_conf (demo_signed 1) (demo_signed 0) [] ''vm-1''" "sconf = tls_conf (demo_signed 0) (demo_signed 2) ''kk'' []"
    using c(1,2,3) dial srv by simp_all
  then have "cc = demo_signed 0" "sc = demo_signed 2" using c(4,5) by (simp_all add: tls_conf_def)
  then have "client_accepts 0 [] cconf sc \<and> server_accepts 0 [] sconf (Some cc)" "\<not> server_accepts 0 [] sconf None"
    using acc only valid root[OF c(6)] by blast+
  then show ?thesis using c(1-5) by blast
qed


definition open_daemon :: daemon where
  "open_daemon = NewDaemon \<lparr>TLSServerKey = ''Kkk'', TLSServerCert = ''Cpp'',
     TLSClientCA = px_ClientCA (demo_agent_proxy\<lparr>px_tlsConfig := Some (demo_tls\<lparr>CAFile := ''/etc/ca.pem''\<rparr>)\<rparr>), spec_ExternalNetViaPodVM = None\<rparr>
     DefaultListenAddr (Some demo_tls)"


end
