(* ===== verification/AdaptorServer.thy ===== *)
theory AdaptorServer
  imports CloudService
begin

text \<open>
  The server of the adaptor process, \<open>src/src/cloud-api-adaptor/pkg/adaptor/server.go\<close>: it verifies the provider's configuration, announces the resources of the
  node, serves the hypervisor and the VM information service on a socket until it is stopped, and then tears the provider down.
\<close>

datatype server_event = SrvContextDone | SrvStopped | SrvReturned "string option"
  \<comment> \<open>the channel that \<open>Start\<close> receives from at last\<close>

datatype server_error = SrvKube k8sops_error | SrvTtrpc string | SrvSocket os_error | SrvListen string | SrvProvider provider_error

record 'w server_env =
  srv_env :: "'w service_env"
  srv_NewTtrpc :: "('w, string, unit) io"
  srv_Listen :: "string \<Rightarrow> ('w, string, unit) io"
  srv_wait :: "'w \<Rightarrow> server_event \<times> 'w"
  srv_TtrpcShutdown :: "('w, string, unit) io"

record 'w server =
  cloudSvc :: "'w cloudService"
  srv_ready :: bool
  srv_stopped :: bool
  srv_socketPath :: string
  enableCloudConfigVerify :: bool
  PeerPodsLimitPerNode :: int

definition DefaultSocketPath :: string where "DefaultSocketPath = ''/run/peerpod/hypervisor.sock''"
definition DefaultPodsDir :: string where "DefaultPodsDir = ''/run/peerpod/pods''"

definition NewServer :: "'w server_env \<Rightarrow> string \<Rightarrow> bool \<Rightarrow> int \<Rightarrow> ServerConfig \<Rightarrow> string \<Rightarrow> os_state \<Rightarrow> 'w \<Rightarrow> 'w server option" where
  \<comment> \<open>the socket path, the verification flag and the limit are fields of the configuration\<close>
  "NewServer E socket verify limit cfg sshport os w =
     (case NewService (srv_env E) cfg sshport os w of
        None \<Rightarrow> None
      | Some s \<Rightarrow> Some \<lparr>cloudSvc = s, srv_ready = False, srv_stopped = False, srv_socketPath = socket, enableCloudConfigVerify = verify,
                    PeerPodsLimitPerNode = limit\<rparr>)"

definition server_Shutdown :: "'w server_env \<Rightarrow> 'w server \<Rightarrow> server_error option \<times> 'w server" where
  "server_Shutdown E s =
     (let c = cloudSvc s;
          w = snd (RemoveExtendedResources (env_kube (srv_env E)) (svc_os c) (svc_world c))
      in case svc_Teardown (srv_env E) (c\<lparr>svc_world := w\<rparr>) of
           (r, c) \<Rightarrow> (map_option SrvProvider r, s\<lparr>srv_stopped := True, cloudSvc := c\<rparr>))"

definition server_serve :: "'w server_env \<Rightarrow> 'w server \<Rightarrow> server_error option \<times> 'w server" where
  \<comment> \<open>from the announcement that the server is ready on; the deferred shutdown of the ttrpc server keeps an earlier error\<close>
  "server_serve E s =
     (let s = s\<lparr>srv_ready := True\<rparr>;
          (ev, w) = srv_wait E (svc_world (cloudSvc s));
          s = s\<lparr>cloudSvc := (cloudSvc s)\<lparr>svc_world := w\<rparr>\<rparr>;
          (err, s) = (case ev of
             SrvContextDone \<Rightarrow> server_Shutdown E s
           | SrvStopped \<Rightarrow> (None, s)
           | SrvReturned e \<Rightarrow> (map_option SrvTtrpc e, s));
          (r, w) = srv_TtrpcShutdown E (svc_world (cloudSvc s))
      in (case (r, err) of (Inl e, None) \<Rightarrow> Some (SrvTtrpc e) | _ \<Rightarrow> err, s\<lparr>cloudSvc := (cloudSvc s)\<lparr>svc_world := w\<rparr>\<rparr>))"

definition server_listen :: "'w server_env \<Rightarrow> 'w server \<Rightarrow> server_error option \<times> 'w server" where
  \<comment> \<open>from the creation of the ttrpc server on\<close>
  "server_listen E s =
     (let c = cloudSvc s
      in case srv_NewTtrpc E (svc_world c) of
           (Inl e, w) \<Rightarrow> (Some (SrvTtrpc e), s\<lparr>cloudSvc := c\<lparr>svc_world := w\<rparr>\<rparr>)
         | (Inr _, w) \<Rightarrow>
             (case MkdirAll (svc_os c) (Dir (srv_socketPath s)) ModePerm of
                (Inl e, os) \<Rightarrow> (Some (SrvSocket e), s\<lparr>cloudSvc := c\<lparr>svc_world := w, svc_os := os\<rparr>\<rparr>)
              | (Inr _, os) \<Rightarrow>
                  (case RemoveAll os (srv_socketPath s) of
                     (Inl e, os) \<Rightarrow> (Some (SrvSocket e), s\<lparr>cloudSvc := c\<lparr>svc_world := w, svc_os := os\<rparr>\<rparr>)
                   | (Inr _, os) \<Rightarrow>
                       (case srv_Listen E (srv_socketPath s) w of
                          (Inl e, w) \<Rightarrow> (Some (SrvListen e), s\<lparr>cloudSvc := c\<lparr>svc_world := w, svc_os := os\<rparr>\<rparr>)
                        | (Inr _, w) \<Rightarrow> server_serve E (s\<lparr>cloudSvc := c\<lparr>svc_world := w, svc_os := os\<rparr>\<rparr>)))))"

definition server_Start :: "'w server_env \<Rightarrow> 'w server \<Rightarrow> server_error option \<times> 'w server" where
  \<comment> \<open>when the verification fails, the named result is returned, which is still nil\<close>
  "server_Start E s =
     (if enableCloudConfigVerify s \<and> svc_ConfigVerifier (srv_env E) \<noteq> None then (None, s)
      else if IsKubernetesEnvironment (svc_os (cloudSvc s))
      then (case AdvertiseExtendedResources (env_kube (srv_env E)) (svc_os (cloudSvc s)) (PeerPodsLimitPerNode s) (svc_world (cloudSvc s)) of
              (Some e, w) \<Rightarrow> (Some (SrvKube e), s\<lparr>cloudSvc := (cloudSvc s)\<lparr>svc_world := w\<rparr>\<rparr>)
            | (None, w) \<Rightarrow> server_listen E (s\<lparr>cloudSvc := (cloudSvc s)\<lparr>svc_world := w\<rparr>\<rparr>))
      else server_listen E s)"

end
