(* ===== verification/SshProxy.thy ===== *)
theory SshProxy
  imports GoIO GoOs
begin

text \<open>
  The tunnels of the secure communication between worker node and pod VM, \<open>src/src/cloud-api-adaptor/pkg/securecomms/sshproxy/sshproxy.go\<close> with the
  constants of \<open>sshutil.go\<close>: parsing of tags, inbound and outbound sides, the peer at one end of an SSH connection and the HTTP proxy to the key broker.

  The goroutine that serves a peer handles one event after another: a global request, a new channel, or the end of the connection.  Copying bytes
  between a channel and a TCP connection is not modelled; what is kept of an accepted channel is the address that is dialled.
\<close>

definition PP_SID :: string where "PP_SID = ''pp-sid/''"
definition PP_PRIVATE_KEY :: string where "PP_PRIVATE_KEY = PP_SID @ ''privateKey''"
definition ATTESTATION :: string where "ATTESTATION = ''Attestation''"
definition KUBERNETES :: string where "KUBERNETES = ''Kubernetes''"
definition KUBERNETES_PHASE :: string where "KUBERNETES_PHASE = ''KUBERNETES_PHASE''"
definition ATTESTATION_PHASE :: string where "ATTESTATION_PHASE = ''ATTESTATION_PHASE''"
definition BOTH_PHASES :: string where "BOTH_PHASES = ''BOTH_PHASES''"
definition PHASE :: string where "PHASE = ''Phase''"
definition UPGRADE :: string where "UPGRADE = ''Upgrade''"
definition SSHPORT :: string where "SSHPORT = ''2222''"
definition KBS :: string where "KBS = ''KBS''"
definition KBS_CLIENT_SECRET :: string where "KBS_CLIENT_SECRET = ''kbs-client''"
definition ADAPTOR_SSH_SECRET :: string where "ADAPTOR_SSH_SECRET = ''sshclient''"

lemmas phase_names = ATTESTATION_def KUBERNETES_def KUBERNETES_PHASE_def ATTESTATION_PHASE_def BOTH_PHASES_def

section \<open>Tags\<close>

datatype tag_error = IllegalTag | IllegalPort | IllegalPhase | IllegalName

definition ParseUint16 :: "string \<Rightarrow> nat option" where
  \<comment> \<open>\<open>strconv.ParseUint\<close> with base 10 and 16 bits\<close>
  "ParseUint16 s = (if s = [] \<or> \<not> list_all is_digit s \<or> int (digits_val s) > 65535 then None else Some (digits_val s))"

definition ParseTag :: "string \<Rightarrow> tag_error + nat \<times> string \<times> string \<times> string" where
  \<comment> \<open>port, host or namespace, name, phase; the last error wins\<close>
  "ParseTag tag =
     (case (case Split tag (CHR '':'') of
              [phase, name, inPort] \<Rightarrow> Some ([], name, phase, inPort)
            | [phase, name, host, inPort] \<Rightarrow> Some (host, name, phase, inPort)
            | _ \<Rightarrow> None) of
        None \<Rightarrow> Inl IllegalTag
      | Some (host, name, phase, inPort) \<Rightarrow>
          if name = [] then Inl IllegalName
          else if phase \<noteq> ATTESTATION_PHASE \<and> phase \<noteq> KUBERNETES_PHASE \<and> phase \<noteq> BOTH_PHASES then Inl IllegalPhase
          else case ParseUint16 inPort of None \<Rightarrow> Inl IllegalPort | Some port \<Rightarrow> Inr (port, host, name, phase))"

record Outbound =
  ob_Name :: string
  OutAddr :: string
  ob_Phase :: string

record Inbound =
  ib_Name :: string
  TcpListener :: nat
  ib_Phase :: string

definition Outbounds_Add :: "nat \<Rightarrow> string \<Rightarrow> string \<Rightarrow> string \<Rightarrow> Outbound list \<Rightarrow> Outbound list" where
  "Outbounds_Add port host name phase list = list @ [\<lparr>ob_Name = name, OutAddr = host @ '':'' @ FormatInt10 (int port), ob_Phase = phase\<rparr>]"

fun Outbounds_AddTags :: "string list \<Rightarrow> Outbound list \<Rightarrow> tag_error option \<times> Outbound list" where
  \<comment> \<open>what was added before an error stays\<close>
  "Outbounds_AddTags [] list = (None, list)"
| "Outbounds_AddTags (tag # tags) list =
     (let tag = TrimSpace tag
      in if tag = [] then Outbounds_AddTags tags list
         else case ParseTag tag of
                Inl e \<Rightarrow> (Some e, list)
              | Inr (inPort, host, name, phase) \<Rightarrow>
                  Outbounds_AddTags tags (Outbounds_Add inPort (if host = [] then ''127.0.0.1'' else host) name phase list))"

record 'w listen_env =
  ListenTCP :: "nat \<Rightarrow> ('w, string, nat \<times> string) io" \<comment> \<open>on the loopback address; the listener and its port\<close>
  tcp_Close :: "nat \<Rightarrow> 'w \<Rightarrow> 'w"
  OpenNs :: "string \<Rightarrow> ('w, string, nat) io"
  ns_Run :: "nat \<Rightarrow> ('w, string, nat \<times> string) io \<Rightarrow> ('w, string, nat \<times> string) io"
  ns_Close :: "nat \<Rightarrow> ('w, string, unit) io"

datatype inbound_error = BadTag tag_error | NsOpenFailed string | NsListenFailed string

definition Inbounds_listen :: "'w listen_env \<Rightarrow> string \<Rightarrow> nat \<Rightarrow> ('w, inbound_error, nat \<times> string) io" where
  "Inbounds_listen E namespace port =
     (if namespace = [] then wrap_io NsListenFailed (ListenTCP E port)
      else bind_io (wrap_io NsOpenFailed (OpenNs E (Join_path [''/run/netns'', namespace]))) (\<lambda>ns.
             defer_io (ns_Close E ns) (wrap_io NsListenFailed (ns_Run E ns (ListenTCP E port)))))"

definition Inbounds_Add :: "'w listen_env \<Rightarrow> string \<Rightarrow> nat \<Rightarrow> string \<Rightarrow> string \<Rightarrow> (Inbound list \<times> 'w, inbound_error, string) io" where
  "Inbounds_Add E namespace inPort name phase = (\<lambda>(list, w).
     case Inbounds_listen E namespace inPort w of
       (Inl e, w) \<Rightarrow> (Inl e, (list, w))
     | (Inr (l, retPort), w) \<Rightarrow> (Inr retPort, (list @ [\<lparr>ib_Name = name, TcpListener = l, ib_Phase = phase\<rparr>], w)))"

fun Inbounds_AddTags :: "'w listen_env \<Rightarrow> string list \<Rightarrow> (string, string) go_map option \<Rightarrow> (Inbound list \<times> 'w)
    \<Rightarrow> (inbound_error + (string, string) go_map option) \<times> Inbound list \<times> 'w" where
  \<comment> \<open>the map gets the port of each name\<close>
  "Inbounds_AddTags E [] ports = ret ports"
| "Inbounds_AddTags E (tag # tags) ports =
     (let tag = TrimSpace tag
      in if tag = [] then Inbounds_AddTags E tags ports
         else bind_io (query (\<lambda>_. map_error BadTag (ParseTag tag))) (\<lambda>(inPort, namespace, name, phase).
              bind_io (Inbounds_Add E namespace inPort name phase) (\<lambda>retPort.
                Inbounds_AddTags E tags (case ports of None \<Rightarrow> None | Some m \<Rightarrow> Some (AList.update name retPort m)))))"

definition DelAll :: "'w listen_env \<Rightarrow> Inbound list \<times> 'w \<Rightarrow> Inbound list \<times> 'w" where
  "DelAll E = (\<lambda>(list, w). ([], fold (\<lambda>i. tcp_Close E (TcpListener i)) list w))"

section \<open>Peers\<close>

record SshPeer =
  peer_sid :: string
  peer_phase :: string
  outbounds :: "(string, Outbound) go_map"
  inbounds :: "(string, Inbound) go_map"
  upgrade :: bool
  outboundsReady :: bool
  closed :: bool

definition new_SshPeer :: "string \<Rightarrow> string \<Rightarrow> SshPeer" where
  "new_SshPeer ph s = \<lparr>peer_sid = s, peer_phase = ph, outbounds = [], inbounds = [], upgrade = False, outboundsReady = False, closed = False\<rparr>"

definition peer_Close :: "SshPeer \<Rightarrow> SshPeer" where
  "peer_Close p = p\<lparr>closed := True\<rparr>"

record 'w ssh_conn =
  SendRequest :: "string \<Rightarrow> string \<Rightarrow> 'w \<Rightarrow> (bool \<times> string \<times> string option) \<times> 'w" \<comment> \<open>ok, the reply's payload and the error\<close>

definition NewSshPeer :: "'w ssh_conn \<Rightarrow> string \<Rightarrow> string \<Rightarrow> 'w \<Rightarrow> SshPeer option \<times> 'w" where
  \<comment> \<open>the part after the start of the goroutine: both ends must be in the same phase\<close>
  "NewSshPeer C ph s w =
     (case SendRequest C PHASE ph w of
        ((ok, peerPhase, err), w) \<Rightarrow>
          (if \<not> ok \<or> err \<noteq> None \<or> peerPhase \<noteq> ph then None else Some (new_SshPeer ph s), w))"

definition Upgrade :: "'w ssh_conn \<Rightarrow> SshPeer \<Rightarrow> 'w \<Rightarrow> SshPeer \<times> 'w" where
  "Upgrade C p w = (case SendRequest C UPGRADE [] w of ((ok, _, err), w) \<Rightarrow> (if \<not> ok \<or> err \<noteq> None then peer_Close p else p, w))"

definition AddOutbound :: "Outbound \<Rightarrow> SshPeer \<Rightarrow> SshPeer" where
  "AddOutbound ob p = p\<lparr>outbounds := AList.update (ob_Name ob) ob (outbounds p)\<rparr>"

definition AddInbound :: "Inbound \<Rightarrow> SshPeer \<Rightarrow> SshPeer" where
  "AddInbound ib p =
     (if ib_Phase ib = KUBERNETES_PHASE \<and> peer_phase p = ATTESTATION \<or> ib_Phase ib = ATTESTATION_PHASE \<and> peer_phase p = KUBERNETES then p
      else p\<lparr>inbounds := AList.update (ib_Name ib) ib (inbounds p)\<rparr>)"

definition AddTags :: "Inbound list \<Rightarrow> Outbound list \<Rightarrow> SshPeer \<Rightarrow> SshPeer" where
  "AddTags ibs obs p = fold AddInbound ibs (fold AddOutbound obs p)"

definition peer_Ready :: "SshPeer \<Rightarrow> SshPeer" where
  "peer_Ready p = p\<lparr>outboundsReady := True\<rparr>"

datatype peer_event =
    GlobalRequest string string bool \<comment> \<open>type, payload, whether a reply is wanted\<close>
  | ConnClosed \<comment> \<open>requests or channels closed, or the context done\<close>
  | NewChannel string string bool \<comment> \<open>type, extra data, whether \<open>Accept\<close> succeeds\<close>
  | InboundConn string \<comment> \<open>a local connection on the listener of the inbound with the name\<close>

datatype peer_output =
    Replied bool string
  | Rejected
  | OpenTunnel string \<comment> \<open>a channel to the other end for the inbound with the name\<close>
  | DialDirect string \<comment> \<open>the address that the channel is connected with\<close>
  | ProxyTo string string \<comment> \<open>the address of the key broker and the sandbox of the peer\<close>
  | Crash \<comment> \<open>copying from the nil channel of a failed \<open>Accept\<close>\<close>

definition handle_request :: "string \<Rightarrow> bool \<Rightarrow> SshPeer \<Rightarrow> peer_output list \<times> SshPeer" where
  "handle_request typ wantReply p =
     (if \<not> wantReply then ([], p)
      else if typ = PHASE then ([Replied True (peer_phase p)], p)
      else if peer_phase p = ATTESTATION \<and> typ = UPGRADE then ([Replied True (peer_phase p)], p\<lparr>upgrade := True\<rparr>)
      else ([Replied False []], p))"

definition handle_channel :: "string \<Rightarrow> string \<Rightarrow> bool \<Rightarrow> SshPeer \<Rightarrow> peer_output list \<times> SshPeer" where
  "handle_channel typ name accepted p =
     (if typ \<noteq> ''tunnel'' then ([Rejected], p)
      else case map_of (outbounds p) name of
        None \<Rightarrow> ([Rejected], p)
      | Some ob \<Rightarrow>
          if ob_Phase ob = ATTESTATION_PHASE \<and> peer_phase p \<noteq> ATTESTATION \<or> ob_Phase ob = KUBERNETES_PHASE \<and> peer_phase p \<noteq> KUBERNETES
          then ([Rejected], p)
          else if accepted then ([if ob_Name ob = KBS then ProxyTo (OutAddr ob) (peer_sid p) else DialDirect (OutAddr ob)], p)
          else (if ob_Name ob = KBS then [] else [Crash], peer_Close p))"

definition NewInboundInstance :: "string \<Rightarrow> SshPeer \<Rightarrow> peer_output list" where
  \<comment> \<open>on a closed connection \<open>OpenChannel\<close> fails\<close>
  "NewInboundInstance name p = (case map_of (inbounds p) name of None \<Rightarrow> [] | Some ib \<Rightarrow> if closed p then [] else [OpenTunnel (ib_Name ib)])"

definition peer_step :: "peer_event \<Rightarrow> SshPeer \<Rightarrow> peer_output list \<times> SshPeer" where
  "peer_step ev p =
     (case ev of
        GlobalRequest typ payload wantReply \<Rightarrow> handle_request typ wantReply p
      | ConnClosed \<Rightarrow> ([], peer_Close p)
      | NewChannel typ name accepted \<Rightarrow> handle_channel typ name accepted p
      | InboundConn name \<Rightarrow> (NewInboundInstance name p, p))"

fun peer_run :: "peer_event list \<Rightarrow> SshPeer \<Rightarrow> peer_output list \<times> SshPeer" where
  \<comment> \<open>a peer whose outbounds are ready, up to the end of its connection or a crash of the process\<close>
  "peer_run [] p = ([], p)"
| "peer_run (ev # evs) p =
     (let (o1, p) = peer_step ev p
      in if ev = ConnClosed \<or> Crash \<in> set o1 then (o1, p)
         else let (o2, p) = peer_run evs p in (o1 @ o2, p))"

section \<open>The proxy to the key broker\<close>

definition HasSuffix :: "string \<Rightarrow> string \<Rightarrow> bool" where
  "HasSuffix s t = HasPrefix (rev s) (rev t)"

definition Replace1 :: "string \<Rightarrow> string \<Rightarrow> string \<Rightarrow> string" where
  \<comment> \<open>\<open>strings.Replace\<close> of the first occurrence\<close>
  "Replace1 s old new = (case Cut s old of None \<Rightarrow> s | Some (a, b) \<Rightarrow> a @ new @ b)"

definition urlModifier :: "string \<Rightarrow> string \<Rightarrow> string" where
  "urlModifier s path = (if HasSuffix path PP_PRIVATE_KEY then Replace1 path PP_SID (''pp-'' @ s @ ''/'') else path)"

record http_request =
  url_Scheme :: string
  url_Host :: string
  url_Path :: string
  hr_rest :: string

datatype read_result = ReadOk http_request | ReadEOF | ReadFailed

datatype proxy_action = Forward http_request | CloseChannel | Recovered
  \<comment> \<open>\<open>Recovered\<close>: at the end of the stream the nil request panics, the goroutine ends and the channel stays open\<close>

definition acceptProxy :: "Outbound \<Rightarrow> string \<Rightarrow> read_result \<Rightarrow> proxy_action" where
  \<comment> \<open>one round of the loop\<close>
  "acceptProxy ob s r =
     (case r of
        ReadOk req \<Rightarrow> Forward (req\<lparr>url_Path := urlModifier s (url_Path req), url_Scheme := ''http'', url_Host := OutAddr ob\<rparr>)
      | ReadEOF \<Rightarrow> Recovered
      | ReadFailed \<Rightarrow> CloseChannel)"

end
