(* ===== verification/SshPeers.thy ===== *)
theory SshPeers
  imports SshProxy K8sOps
begin

text \<open>
  The two ends of the secure communication: the keys in Kubernetes secrets (\<open>src/src/cloud-api-adaptor/pkg/securecomms/kubemgr/kubemgr.go\<close>), the client of the
  key broker (\<open>wnssh/kbsclient.go\<close>), the SSH client on the worker node (\<open>wnssh/wnssh.go\<close>), and in the pod VM the secrets that are fetched
  (\<open>ppssh/ppsecrets.go\<close>, \<open>apic/apic.go\<close>) and the SSH server (\<open>ppssh/ppssh.go\<close>).

  The libraries for keys, SSH, JWT and HTTP, the secrets of the cluster and the clock are the record \<open>ssh_env\<close>.  A private key is an opaque string,
  a public key is its wire format.  \<open>log.Fatal\<close> is the error \<open>Fatal\<close>.
\<close>

record client_config =
  HostKeyCallback :: "string \<Rightarrow> bool"
  wn_Signer :: string

record server_config =
  NoClientAuth :: bool
  PublicKeyCallback :: "(string \<Rightarrow> bool) option"
  HostKeys :: "string list"

record 'w ssh_env =
  ssh_listen :: "'w listen_env"
  secret_Get :: "string \<Rightarrow> string \<Rightarrow> 'w \<Rightarrow> k8s_error + (string, string) go_map"
  secret_Create :: "string \<Rightarrow> string \<Rightarrow> (string, string) go_map \<Rightarrow> ('w, k8s_error, unit) io"
  secret_Delete :: "string \<Rightarrow> string \<Rightarrow> ('w, k8s_error, unit) io"
  rsa_GenerateKey :: "int \<Rightarrow> ('w, string, string) io"
  rsa_Validate :: "string \<Rightarrow> string option"
  rsa_Public :: "string \<Rightarrow> string + string"
  RsaPrivateKeyPEM :: "string \<Rightarrow> string"
  MarshalAuthorizedKey :: "string \<Rightarrow> string"
  ParseAuthorizedKey :: "string \<Rightarrow> string + string"
  ParsePrivateKey :: "string \<Rightarrow> string + string"
  ParseEdPrivateKey :: "string \<Rightarrow> string + string"
  jwt_Sign :: "string \<Rightarrow> int \<Rightarrow> string + string" \<comment> \<open>the claims only depend on the time\<close>
  now_Unix :: "'w \<Rightarrow> int"
  http_Post :: "string \<Rightarrow> (string \<times> string) list \<Rightarrow> string \<Rightarrow> ('w, string, int) io" \<comment> \<open>URL, headers, body; the status code\<close>
  http_GetIn :: "string \<Rightarrow> string \<Rightarrow> ('w, string, int \<times> string) io" \<comment> \<open>in a network namespace\<close>
  tcp_Dial :: "string \<Rightarrow> ('w, string, nat) io"
  tcp_CloseConn :: "nat \<Rightarrow> 'w \<Rightarrow> 'w"
  NewClientConn :: "nat \<Rightarrow> string \<Rightarrow> client_config \<Rightarrow> ('w, string, nat) io"
  NewServerConn :: "nat \<Rightarrow> server_config \<Rightarrow> ('w, string, nat) io"
  conn_of :: "nat \<Rightarrow> 'w ssh_conn"
  srv_Listen :: "string \<Rightarrow> ('w, string, unit) io"
  listener_Accept :: "('w, string, nat) io"
  retry_ssh :: "('w, string, SshPeer option) io \<Rightarrow> ('w, string, SshPeer option) io"
  ctx_Err :: "'w \<Rightarrow> bool"
  Sleep :: "int \<Rightarrow> 'w \<Rightarrow> 'w"
  peer_Wait :: "SshPeer \<Rightarrow> 'w \<Rightarrow> SshPeer \<times> 'w" \<comment> \<open>the peer when its connection has ended\<close>

datatype ssh_error = Kube k8s_error | KeyGen string | MissingKeys | BadPrivateKey string | BadPublicKey string | KbsFailed string | KbsStatus int
  | BadTags inbound_error | BadOutTags tag_error | AttestationFailed | NotUpgraded | NoPeer | HandshakeFailed string | MissingServerKey | Fatal

section \<open>Secrets of the cluster\<close>

definition cocoNamespace :: string where "cocoNamespace = ''confidential-containers-system''"

definition ReadSecret :: "'w ssh_env \<Rightarrow> string \<Rightarrow> ('w, ssh_error, string \<times> string) io" where
  "ReadSecret E secretName =
     bind_io (query (\<lambda>w. map_error Kube (secret_Get E cocoNamespace secretName w))) (\<lambda>data.
       ret (go_get [] data ''privateKey'', go_get [] data ''publicKey''))"

definition DeleteSecret :: "'w ssh_env \<Rightarrow> string \<Rightarrow> 'w \<Rightarrow> 'w" where
  "DeleteSecret E secretName w = snd (secret_Delete E cocoNamespace secretName w)"

definition CreateSecret :: "'w ssh_env \<Rightarrow> string \<Rightarrow> ('w, ssh_error, string \<times> string) io" where
  "CreateSecret E secretName =
     bind_io (wrap_io KeyGen (rsa_GenerateKey E 4096)) (\<lambda>clientPrivateKey.
     bind_io (query (\<lambda>_. case rsa_Validate E clientPrivateKey of Some e \<Rightarrow> Inl (KeyGen e) | None \<Rightarrow> Inr ())) (\<lambda>_.
     bind_io (query (\<lambda>_. map_error KeyGen (rsa_Public E clientPrivateKey))) (\<lambda>clientPublicKey.
       (let publicKey = MarshalAuthorizedKey E clientPublicKey; privateKey = RsaPrivateKeyPEM E clientPrivateKey
        in then_io (wrap_io Kube (secret_Create E cocoNamespace secretName [(''privateKey'', privateKey), (''publicKey'', publicKey)]))
             (ret (privateKey, publicKey))))))"

section \<open>Client of the key broker\<close>

record KbsClient =
  secretKey :: string
  kbs_url :: string

definition InitKbsClient :: "string \<Rightarrow> KbsClient" where
  "InitKbsClient address = \<lparr>secretKey = [], kbs_url = ''http://'' @ address\<rparr>"

definition SetPemSecret :: "'w ssh_env \<Rightarrow> string \<Rightarrow> KbsClient \<Rightarrow> ssh_error + KbsClient" where
  "SetPemSecret E keyBytes kc = (case ParseEdPrivateKey E keyBytes of Inl e \<Rightarrow> Inl (BadPrivateKey e) | Inr k \<Rightarrow> Inr (kc\<lparr>secretKey := k\<rparr>))"

definition addToken :: "'w ssh_env \<Rightarrow> KbsClient \<Rightarrow> 'w \<Rightarrow> ssh_error + string \<times> string" where
  "addToken E kc w = (case jwt_Sign E (secretKey kc) (now_Unix E w) of Inl e \<Rightarrow> Inl (KbsFailed e) | Inr t \<Rightarrow> Inr (''Authorization'', ''Bearer '' @ t))"

definition PostResource :: "'w ssh_env \<Rightarrow> KbsClient \<Rightarrow> string \<Rightarrow> string \<Rightarrow> ('w, ssh_error, unit) io" where
  "PostResource E kc path data =
     bind_io (query (addToken E kc)) (\<lambda>token.
     bind_io (wrap_io KbsFailed (http_Post E (kbs_url kc @ ''/kbs/v0/resource/'' @ path) [token, (''Accept'', ''application/octet-stream'')] data)) (\<lambda>status.
       if status = 200 then ret () else fail (KbsStatus status)))"

section \<open>Worker node\<close>

record SshClient =
  kc :: "KbsClient option"
  wnSigner :: string
  inboundStrings :: "string list"
  outboundStrings :: "string list"
  client_sshport :: string
  wnPublicKey :: string

record SshClientInstance =
  ci_sid :: string
  ppPublicKey :: string
  ppAddr :: "string list"
  ci_client :: SshClient
  cancelled :: bool
  kubernetesPhase :: bool
  ci_inbounds :: "Inbound list"
  ci_outbounds :: "Outbound list"
  inboundPorts :: "(string, string) go_map"

definition PpSecretName :: "string \<Rightarrow> string" where
  "PpSecretName s = ''pp-'' @ s"

definition read_or_create :: "'w ssh_env \<Rightarrow> string \<Rightarrow> ('w, ssh_error, (string \<times> string) \<times> bool) io" where
  \<comment> \<open>the keys, and whether the secret was there before\<close>
  "read_or_create E secretName w =
     (case ReadSecret E secretName w of
        (Inr keys, w) \<Rightarrow> (Inr (keys, True), w)
      | (Inl _, w) \<Rightarrow> (case CreateSecret E secretName w of (Inl e, w) \<Rightarrow> (Inl e, w) | (Inr keys, w) \<Rightarrow> (Inr (keys, False), w)))"

definition InitSshClient :: "'w ssh_env \<Rightarrow> string list \<Rightarrow> string list \<Rightarrow> bool \<Rightarrow> string \<Rightarrow> string \<Rightarrow> ('w, ssh_error, SshClient) io" where
  "InitSshClient E inbound_strings outbound_strings secureCommsTrustee kbsAddress sshport =
     bind_io (read_or_create E ADAPTOR_SSH_SECRET) (\<lambda>((wnPrivateKey, wnPublicKey), _).
       if length wnPrivateKey = 0 then fail MissingKeys
       else bind_io (query (\<lambda>_. map_error BadPrivateKey (ParsePrivateKey E wnPrivateKey))) (\<lambda>signer.
            bind_io (if secureCommsTrustee
                     then bind_io (ReadSecret E KBS_CLIENT_SECRET) (\<lambda>(kbscPrivateKey, _).
                          bind_io (query (\<lambda>_. SetPemSecret E kbscPrivateKey (InitKbsClient kbsAddress))) (\<lambda>kc.
                          then_io (PostResource E kc ''default/sshclient/publicKey'' wnPublicKey) (ret (Some kc))))
                     else ret None) (\<lambda>kc.
              ret \<lparr>kc = kc, wnSigner = signer, inboundStrings = inbound_strings, outboundStrings = outbound_strings, client_sshport = sshport,
                   wnPublicKey = wnPublicKey\<rparr>)))"

definition GetPort :: "SshClientInstance \<Rightarrow> string \<Rightarrow> string" where
  "GetPort ci name = (case map_of (inboundPorts ci) name of None \<Rightarrow> [] | Some p \<Rightarrow> p)"

definition new_instance :: "'w ssh_env \<Rightarrow> SshClient \<Rightarrow> string \<Rightarrow> bool \<Rightarrow> string \<Rightarrow> ('w, ssh_error, SshClientInstance) io" where
  \<comment> \<open>the last part of \<open>InitPP\<close>: the instance with its inbounds and outbounds\<close>
  "new_instance E c s resumed ppSshPublicKeyBytes w =
     (case Inbounds_AddTags (ssh_listen E) (inboundStrings c) (Some []) ([], w) of
        (Inl _, (_, w)) \<Rightarrow> (Inl Fatal, w)
      | (Inr ports, (ibs, w)) \<Rightarrow>
          (case Outbounds_AddTags (outboundStrings c) [] of
             (Some _, _) \<Rightarrow> (Inl Fatal, w)
           | (None, obs) \<Rightarrow>
               (Inr \<lparr>ci_sid = s, ppPublicKey = ppSshPublicKeyBytes, ppAddr = [], ci_client = c, cancelled = False, kubernetesPhase = resumed,
                     ci_inbounds = ibs, ci_outbounds = obs, inboundPorts = (case ports of None \<Rightarrow> [] | Some m \<Rightarrow> m)\<rparr>, w)))"

definition InitPP :: "'w ssh_env \<Rightarrow> SshClient \<Rightarrow> string \<Rightarrow> ('w, ssh_error, SshClientInstance \<times> string) io" where
  \<comment> \<open>an error other than \<open>Fatal\<close> is a nil instance; then the private key that is returned with it is not used\<close>
  "InitPP E c s =
     bind_io (read_or_create E (PpSecretName s)) (\<lambda>((ppPrivateKey, publicKey), resumed).
     then_io (case kc c of None \<Rightarrow> ret () | Some k \<Rightarrow> PostResource E k (''default/pp-'' @ s @ ''/privateKey'') ppPrivateKey)
    (bind_io (query (\<lambda>_. if length publicKey > 0 then map_error BadPublicKey (ParseAuthorizedKey E publicKey) else Inr [])) (\<lambda>ppSshPublicKeyBytes.
     bind_io (new_instance E c s resumed ppSshPublicKeyBytes) (\<lambda>ci. ret (ci, ppPrivateKey)))))"

definition DisconnectPP :: "'w ssh_env \<Rightarrow> string \<Rightarrow> SshClientInstance \<times> 'w \<Rightarrow> SshClientInstance \<times> 'w" where
  "DisconnectPP E s = (\<lambda>(ci, w).
     case DelAll (ssh_listen E) (ci_inbounds ci, w) of
       (ibs, w) \<Rightarrow> (ci\<lparr>ci_inbounds := ibs, cancelled := True\<rparr>, DeleteSecret E (PpSecretName s) w))"

definition host_key_ok :: "SshClientInstance \<Rightarrow> string \<Rightarrow> string \<Rightarrow> bool" where
  \<comment> \<open>the host key callback of a connection that expects the first key\<close>
  "host_key_ok ci publicKey key \<longleftrightarrow> length publicKey = 0 \<or> key = ppPublicKey ci"

fun try_addrs :: "'w ssh_env \<Rightarrow> client_config \<Rightarrow> string \<Rightarrow> string \<Rightarrow> string list \<Rightarrow> ('w, string, SshPeer option) io" where
  \<comment> \<open>the loop over the addresses: the first that an SSH connection is made with\<close>
  "try_addrs E conf ph s [] w = (Inl ''Retry'', w)"
| "try_addrs E conf ph s (a # as) w =
     (case tcp_Dial E a w of
        (Inl _, w) \<Rightarrow> try_addrs E conf ph s as w
      | (Inr conn, w) \<Rightarrow>
          (case NewClientConn E conn a conf w of
             (Inl _, w) \<Rightarrow> try_addrs E conf ph s as (tcp_CloseConn E conn w)
           | (Inr c, w) \<Rightarrow> (case NewSshPeer (conn_of E c) ph s w of (peer, w) \<Rightarrow> (Inr peer, w))))"

definition StartSshClient :: "'w ssh_env \<Rightarrow> SshClientInstance \<Rightarrow> string \<Rightarrow> string \<Rightarrow> string \<Rightarrow> 'w \<Rightarrow> SshPeer option \<times> 'w" where
  "StartSshClient E ci ph publicKey s w =
     (case retry_ssh E (try_addrs E \<lparr>HostKeyCallback = host_key_ok ci publicKey, wn_Signer = wnSigner (ci_client ci)\<rparr> ph s (ppAddr ci)) w of
        (Inl _, w) \<Rightarrow> (None, w)
      | (Inr peer, w) \<Rightarrow> (peer, w))"

definition StartKubernetes :: "'w ssh_env \<Rightarrow> SshClientInstance \<Rightarrow> ('w, ssh_error, SshPeer) io" where
  \<comment> \<open>returns the peer at the end of the connection\<close>
  "StartKubernetes E ci w =
     (case StartSshClient E ci KUBERNETES (ppPublicKey ci) (ci_sid ci) w of
        (None, w) \<Rightarrow> (Inl NoPeer, w)
      | (Some peer, w) \<Rightarrow> (case peer_Wait E (peer_Ready (AddTags (ci_inbounds ci) (ci_outbounds ci) peer)) w of (p, w) \<Rightarrow> (Inr p, w)))"

definition StartAttestation :: "'w ssh_env \<Rightarrow> SshClientInstance \<Rightarrow> ('w, ssh_error, unit) io" where
  "StartAttestation E ci w =
     (case StartSshClient E ci ATTESTATION [] (ci_sid ci) w of
        (None, w) \<Rightarrow> (Inl NoPeer, w)
      | (Some peer, w) \<Rightarrow>
          (case peer_Wait E (peer_Ready (AddTags (ci_inbounds ci) (ci_outbounds ci) peer)) w of
             (p, w) \<Rightarrow> if \<not> upgrade p then (Inl NotUpgraded, w) else (Inr (), w)))"

definition ci_Start :: "'w ssh_env \<Rightarrow> string list \<Rightarrow> (SshClientInstance \<times> 'w, ssh_error, unit) io" where
  \<comment> \<open>up to the start of the goroutine with the Kubernetes phase; the argument are the addresses of the VM\<close>
  "ci_Start E ipAddr = (\<lambda>(ci, w).
     let ci = ci\<lparr>ppAddr := map (\<lambda>ip. ip @ '':'' @ client_sshport (ci_client ci)) ipAddr\<rparr>
     in if kubernetesPhase ci then (Inr (), (ci, w))
        else case StartAttestation E ci w of
               (Inl e, w) \<Rightarrow> (Inl AttestationFailed, (ci, w))
             | (Inr _, w) \<Rightarrow> (Inr (), (ci\<lparr>kubernetesPhase := True\<rparr>, w)))"

definition ci_restart :: "'w ssh_env \<Rightarrow> SshClientInstance \<times> 'w \<Rightarrow> SshPeer option \<times> 'w" where
  \<comment> \<open>one round of the goroutine; it ends when the instance is cancelled\<close>
  "ci_restart E = (\<lambda>(ci, w).
     if cancelled ci then (None, w)
     else case StartKubernetes E ci w of (Inl _, w) \<Rightarrow> (None, Sleep E 1 w) | (Inr p, w) \<Rightarrow> (Some p, Sleep E 1 w))"

section \<open>Secrets in the pod VM\<close>

type_synonym PpSecrets = "(string, string option) go_map" \<comment> \<open>\<open>None\<close> is a key that is not there yet\<close>

definition ApiClient_GetKey :: "'w ssh_env \<Rightarrow> nat \<Rightarrow> string \<Rightarrow> string \<Rightarrow> ('w, string, string) io" where
  "ApiClient_GetKey E servicePort nsPath key =
     bind_io (http_GetIn E nsPath (''http://127.0.0.1:'' @ FormatInt10 (int servicePort) @ ''/cdh/resource/default/'' @ key)) (\<lambda>(status, data).
       if status \<noteq> 200 then fail ''status'' else ret data)"

definition AddKey :: "string \<Rightarrow> PpSecrets \<Rightarrow> PpSecrets" where
  "AddKey key sec = (if map_of sec key \<noteq> None then sec else AList.update key None sec)"

definition GetKey :: "PpSecrets \<Rightarrow> string \<Rightarrow> string" where
  "GetKey sec key = (case go_get None sec key of None \<Rightarrow> [] | Some keydata \<Rightarrow> keydata)"

definition SetKey :: "string \<Rightarrow> string option \<Rightarrow> PpSecrets \<Rightarrow> PpSecrets" where
  "SetKey key keydata sec = AList.update key keydata sec"

partial_function (option) fetch_key :: "('w, string, string) io \<Rightarrow> (int \<Rightarrow> 'w \<Rightarrow> 'w) \<Rightarrow> int \<Rightarrow> 'w \<Rightarrow> ((string \<times> int) \<times> 'w) option" where
  \<comment> \<open>the inner loop of \<open>Go\<close>: until there is a secret that is not empty\<close>
  "fetch_key getSecret sleep sleeptime w =
     (case getSecret w of
        (r, w) \<Rightarrow>
          (case r of
             Inr keydata \<Rightarrow> if length keydata > 0 then Some ((keydata, sleeptime), w)
                            else fetch_key getSecret sleep (if sleeptime * 2 > 30 then 30 else sleeptime * 2) (sleep sleeptime w)
           | Inl _ \<Rightarrow> fetch_key getSecret sleep (if sleeptime * 2 > 30 then 30 else sleeptime * 2) (sleep sleeptime w)))"

fun fetch_keys :: "(string \<Rightarrow> ('w, string, string) io) \<Rightarrow> (int \<Rightarrow> 'w \<Rightarrow> 'w) \<Rightarrow> int \<Rightarrow> PpSecrets \<Rightarrow> 'w \<Rightarrow> (PpSecrets \<times> 'w) option" where
  "fetch_keys getSecret sleep sleeptime [] w = Some ([], w)"
| "fetch_keys getSecret sleep sleeptime ((key, keydata) # sec) w =
     (if keydata \<noteq> None then map_option (\<lambda>(sec, w). ((key, keydata) # sec, w)) (fetch_keys getSecret sleep sleeptime sec w)
      else Option.bind (fetch_key (getSecret key) sleep sleeptime w) (\<lambda>((keydata, sleeptime), w).
             map_option (\<lambda>(sec, w). ((key, Some keydata) # sec, w)) (fetch_keys getSecret sleep sleeptime sec w)))"

definition PpSecrets_Go :: "(string \<Rightarrow> ('w, string, string) io) \<Rightarrow> (int \<Rightarrow> 'w \<Rightarrow> 'w) \<Rightarrow> PpSecrets \<Rightarrow> 'w \<Rightarrow> (PpSecrets \<times> 'w) option" where
  \<comment> \<open>\<open>None\<close> when it never returns\<close>
  "PpSecrets_Go getSecret sleep sec w = fetch_keys getSecret sleep 1 sec w"

section \<open>Server in the pod VM\<close>

definition UNPROVEN_WN_PUBLIC_KEY_PATH :: string where "UNPROVEN_WN_PUBLIC_KEY_PATH = ''/run/unprovenWnPublicKey''"
definition SINGLETON_PATH :: string where "SINGLETON_PATH = ''/run/sshSingleton''"
definition WN_PUBLIC_KEY :: string where "WN_PUBLIC_KEY = ''sshclient/publicKey''"

record SshServer =
  srv_inbounds :: "Inbound list"
  srv_outbounds :: "Outbound list"
  ppSecrets :: PpSecrets
  srv_sshport :: string

definition NewSshServer :: "'w ssh_env \<Rightarrow> string list \<Rightarrow> string list \<Rightarrow> PpSecrets \<Rightarrow> string \<Rightarrow> ('w, ssh_error, SshServer) io" where
  "NewSshServer E inbound_strings outbound_strings sec sshport w =
     (case Inbounds_AddTags (ssh_listen E) inbound_strings None ([], w) of
        (Inl _, (_, w)) \<Rightarrow> (Inl Fatal, w)
      | (Inr _, (ibs, w)) \<Rightarrow>
          (case Outbounds_AddTags outbound_strings [] of
             (Some _, _) \<Rightarrow> (Inl Fatal, w)
           | (None, obs) \<Rightarrow> (Inr \<lparr>srv_inbounds = ibs, srv_outbounds = obs, ppSecrets = sec, srv_sshport = sshport\<rparr>, w)))"

definition Singleton :: "os_state \<Rightarrow> (ssh_error + unit) \<times> os_state" where
  "Singleton os =
     (case Stat os SINGLETON_PATH of
        Inl (ErrNotExist _) \<Rightarrow> (case WriteFile os SINGLETON_PATH [] 0x1B6 of (Inl _, os) \<Rightarrow> (Inl Fatal, os) | (Inr _, os) \<Rightarrow> (Inr (), os))
      | _ \<Rightarrow> (Inl Fatal, os))"

definition setConfigHostKey :: "'w ssh_env \<Rightarrow> string \<Rightarrow> server_config \<Rightarrow> ssh_error + server_config" where
  "setConfigHostKey E ppPrivateKeyBytes config =
     (case ParsePrivateKey E ppPrivateKeyBytes of Inl e \<Rightarrow> Inl (BadPrivateKey e) | Inr k \<Rightarrow> Inr (config\<lparr>HostKeys := HostKeys config @ [k]\<rparr>))"

definition setPublicKey :: "'w ssh_env \<Rightarrow> string \<Rightarrow> server_config \<Rightarrow> ssh_error + server_config" where
  "setPublicKey E tePublicKeyBytes config =
     (case ParseAuthorizedKey E tePublicKeyBytes of
        Inl e \<Rightarrow> Inl (BadPublicKey e)
      | Inr k \<Rightarrow> Inr (config\<lparr>PublicKeyCallback := Some (\<lambda>clientPublicKey. clientPublicKey = k)\<rparr>))"

definition empty_server_config :: server_config where
  "empty_server_config = \<lparr>NoClientAuth = False, PublicKeyCallback = None, HostKeys = []\<rparr>"

definition getAttestationPhaseKeys :: "'w ssh_env \<Rightarrow> os_state \<Rightarrow> ('w, ssh_error, string \<times> string option) io" where
  "getAttestationPhaseKeys E os =
     bind_io (wrap_io (\<lambda>_. Fatal) (rsa_GenerateKey E 3072)) (\<lambda>ppPrivateKey.
       case rsa_Validate E ppPrivateKey of
         Some _ \<Rightarrow> fail Fatal
       | None \<Rightarrow> ret (RsaPrivateKeyPEM E ppPrivateKey, case ReadFile os UNPROVEN_WN_PUBLIC_KEY_PATH of Inl _ \<Rightarrow> None | Inr k \<Rightarrow> Some k))"

definition initAttestationPhaseSshConfig :: "'w ssh_env \<Rightarrow> os_state \<Rightarrow> ('w, ssh_error, server_config) io" where
  "initAttestationPhaseSshConfig E os =
     bind_io (getAttestationPhaseKeys E os) (\<lambda>(ppPrivateKeyBytes, tePublicKeyBytes).
       query (\<lambda>_. bind_result
         (case tePublicKeyBytes of
            Some k \<Rightarrow> setPublicKey E k empty_server_config
          | None \<Rightarrow> Inr (empty_server_config\<lparr>NoClientAuth := True\<rparr>))
         (setConfigHostKey E ppPrivateKeyBytes)))"

definition initKubernetesPhaseSshConfig :: "'w ssh_env \<Rightarrow> PpSecrets \<Rightarrow> ssh_error + server_config" where
  "initKubernetesPhaseSshConfig E sec =
     (let ppPrivateKeyBytes = GetKey sec PP_PRIVATE_KEY; wnPublicKeyBytes = GetKey sec WN_PUBLIC_KEY
      in if length ppPrivateKeyBytes = 0 \<or> length wnPublicKeyBytes = 0 then Inl MissingServerKey
         else bind_result (setPublicKey E wnPublicKeyBytes empty_server_config) (setConfigHostKey E ppPrivateKeyBytes))"

definition kubernetesSShService :: "'w ssh_env \<Rightarrow> nat \<Rightarrow> server_config \<Rightarrow> ('w, ssh_error, SshPeer) io" where
  "kubernetesSShService E nConn config w =
     (case NewServerConn E nConn config w of
        (Inl e, w) \<Rightarrow> (Inl (HandshakeFailed e), w)
      | (Inr c, w) \<Rightarrow> (case NewSshPeer (conn_of E c) KUBERNETES [] w of (None, w) \<Rightarrow> (Inl NoPeer, w) | (Some p, w) \<Rightarrow> (Inr p, w)))"

definition attestationSShService :: "'w ssh_env \<Rightarrow> os_state \<Rightarrow> nat \<Rightarrow> ('w, ssh_error, (nat \<times> SshPeer) option) io" where
  \<comment> \<open>the peer with its connection; a nil peer is returned without an error\<close>
  "attestationSShService E os nConn =
     bind_io (wrap_io (\<lambda>_. Fatal) (initAttestationPhaseSshConfig E os)) (\<lambda>config w.
       case NewServerConn E nConn config w of
         (Inl e, w) \<Rightarrow> (Inl (HandshakeFailed e), w)
       | (Inr c, w) \<Rightarrow> (case NewSshPeer (conn_of E c) ATTESTATION [] w of (p, w) \<Rightarrow> (Inr (map_option (Pair c) p), w)))"

partial_function (option) accept_attestation :: "'w ssh_env \<Rightarrow> os_state \<Rightarrow> 'w \<Rightarrow> ((ssh_error + (nat \<times> SshPeer) option) \<times> 'w) option" where
  \<comment> \<open>the loop until a peer is there or the context is done; \<open>Inr None\<close> in the latter case\<close>
  "accept_attestation E os w =
     (if ctx_Err E w then Some (Inr None, w)
      else case listener_Accept E w of
        (x, w) \<Rightarrow> (case x of
           Inl _ \<Rightarrow> Some (Inl Fatal, w)
         | Inr nConn \<Rightarrow>
             (case attestationSShService E os nConn w of
                (y, w) \<Rightarrow> (case y of
                   Inl e \<Rightarrow> (if e = Fatal then Some (Inl Fatal, w) else accept_attestation E os w)
                 | Inr peer \<Rightarrow> (case peer of None \<Rightarrow> accept_attestation E os w | Some cp \<Rightarrow> Some (Inr (Some cp), w))))))"

partial_function (option) await_config :: "'w ssh_env \<Rightarrow> (string \<Rightarrow> ('w, string, string) io) \<Rightarrow> nat \<Rightarrow> SshServer \<times> SshPeer \<times> 'w
    \<Rightarrow> ((server_config option) \<times> SshServer \<times> SshPeer \<times> 'w) option" where
  \<comment> \<open>fetching the keys until the configuration of the next phase can be made\<close>
  "await_config E getSecret c st =
     (case st of (s, p, w) \<Rightarrow>
        if ctx_Err E w then Some (None, s, p, w)
        else Option.bind (PpSecrets_Go getSecret (Sleep E) (ppSecrets s) w) (\<lambda>sw. case sw of (sec, w) \<Rightarrow>
               (case initKubernetesPhaseSshConfig E sec of
                  Inr config \<Rightarrow> (case Upgrade (conn_of E c) p w of (p, w) \<Rightarrow> Some (Some config, s\<lparr>ppSecrets := sec\<rparr>, p, w))
                | Inl _ \<Rightarrow> await_config E getSecret c (s\<lparr>ppSecrets := sec\<rparr>, p, w))))"

definition attestationPhase :: "'w ssh_env \<Rightarrow> os_state \<Rightarrow> (string \<Rightarrow> ('w, string, string) io) \<Rightarrow> SshServer \<times> 'w
    \<Rightarrow> ((ssh_error + server_config option) \<times> SshServer \<times> 'w) option" where
  \<comment> \<open>a nil peer after the end of the context is dereferenced\<close>
  "attestationPhase E os getSecret = (\<lambda>(s, w).
     Option.bind (accept_attestation E os w) (\<lambda>(r, w).
       case r of
         Inl e \<Rightarrow> Some (Inl e, s, w)
       | Inr None \<Rightarrow> Some (Inl Fatal, s, w)
       | Inr (Some (c, p)) \<Rightarrow>
           map_option (\<lambda>(conf, s, p, w). (Inr conf, s, w))
             (await_config E getSecret c (s, peer_Ready (AddTags (srv_inbounds s) (srv_outbounds s) p), w))))"

definition kubernetes_round :: "'w ssh_env \<Rightarrow> server_config \<Rightarrow> SshServer \<times> 'w \<Rightarrow> (ssh_error + SshPeer) \<times> 'w" where
  \<comment> \<open>one connection of \<open>kubernetesPhase\<close>: the peer when it has ended\<close>
  "kubernetes_round E config = (\<lambda>(s, w).
     case listener_Accept E w of
       (Inl _, w) \<Rightarrow> (Inl Fatal, w)
     | (Inr nConn, w) \<Rightarrow>
         (case kubernetesSShService E nConn config w of
            (Inl e, w) \<Rightarrow> (Inl e, w)
          | (Inr peer, w) \<Rightarrow> (case peer_Wait E (peer_Ready (AddTags (srv_inbounds s) (srv_outbounds s) peer)) w of (p, w) \<Rightarrow> (Inr p, w))))"

partial_function (option) kubernetes_rounds :: "'w ssh_env \<Rightarrow> server_config \<Rightarrow> SshServer \<Rightarrow> 'w \<Rightarrow> ((ssh_error + unit) \<times> 'w) option" where
  \<comment> \<open>the two nested loops over \<open>kubernetesPhase\<close>: one connection after the other until the context is done\<close>
  "kubernetes_rounds E config s w =
     (if ctx_Err E w then Some (Inr (), w)
      else case kubernetes_round E config (s, w) of
        (r, w) \<Rightarrow> (case r of Inl e \<Rightarrow> if e = Fatal then Some (Inl Fatal, w) else kubernetes_rounds E config s w
                        | Inr _ \<Rightarrow> kubernetes_rounds E config s w))"

definition SshServer_Start :: "'w ssh_env \<Rightarrow> os_state \<Rightarrow> (string \<Rightarrow> ('w, string, string) io) \<Rightarrow> SshServer \<times> 'w \<Rightarrow> ((ssh_error + unit) \<times> 'w) option" where
  \<comment> \<open>with the goroutine that it starts, whose end is the result\<close>
  "SshServer_Start E os getSecret = (\<lambda>(s, w).
     case srv_Listen E (''0.0.0.0:'' @ srv_sshport s) w of
       (Inl _, w) \<Rightarrow> Some (Inl Fatal, w)
     | (Inr _, w) \<Rightarrow> Option.bind (attestationPhase E os getSecret (s, w)) (\<lambda>(r, s, w).
         case r of
           Inl e \<Rightarrow> Some (Inl Fatal, w)
         | Inr None \<Rightarrow> Some (Inl Fatal, w)
         | Inr (Some config) \<Rightarrow> kubernetes_rounds E config s w))"

end
