(* ===== verification/SshProps.thy ===== *)
theory SshProps
  imports SshPeers
begin

text \<open>
  Properties of the secure communication: tunnels only lead to addresses that are open in the phase of the connection, and in the Kubernetes phase
  worker node and pod VM accept exactly each other.
\<close>

section \<open>Tunnels\<close>

lemma AddOutbounds_from:
  "map_of (outbounds (fold AddOutbound obs p)) n = Some ob \<Longrightarrow>
     (ob \<in> set obs \<and> ob_Name ob = n) \<or> map_of (outbounds p) n = Some ob"
proof (induction obs arbitrary: p)
  case (Cons x xs)
  then show ?case using Cons.IH[of "AddOutbound x p"] by (auto simp: AddOutbound_def update_conv split: if_splits)
qed simp

lemma AddOutbounds_keeps: "peer_phase (fold AddOutbound obs p) = peer_phase p" "peer_sid (fold AddOutbound obs p) = peer_sid p"
  by (induction obs arbitrary: p) (simp_all add: AddOutbound_def)

lemma AddOutbounds_inbounds: "inbounds (fold AddOutbound obs p) = inbounds p"
  by (induction obs arbitrary: p) (simp_all add: AddOutbound_def)

definition ib_open_in :: "string \<Rightarrow> Inbound \<Rightarrow> bool" where
  "ib_open_in ph ib \<longleftrightarrow> (ib_Phase ib = KUBERNETES_PHASE \<longrightarrow> ph \<noteq> ATTESTATION) \<and> (ib_Phase ib = ATTESTATION_PHASE \<longrightarrow> ph \<noteq> KUBERNETES)"

lemma AddInbound_from:
  assumes "map_of (inbounds (AddInbound x p)) n = Some ib"
  shows "ib = x \<and> ib_Name x = n \<and> ib_open_in (peer_phase p) x \<or> map_of (inbounds p) n = Some ib"
proof (cases "ib_open_in (peer_phase p) x")
  case True
  then have "inbounds (AddInbound x p) = AList.update (ib_Name x) x (inbounds p)" unfolding AddInbound_def ib_open_in_def by auto
  then show ?thesis using assms True by (simp add: update_conv split: if_splits)
next
  case False
  then have "AddInbound x p = p" unfolding AddInbound_def ib_open_in_def by auto
  then show ?thesis using assms by simp
qed

lemma AddInbound_phase: "peer_phase (AddInbound x p) = peer_phase p"
  by (simp add: AddInbound_def)

lemma AddInbounds_from:
  "map_of (inbounds (fold AddInbound ibs p)) n = Some ib \<Longrightarrow>
     (ib \<in> set ibs \<and> ib_Name ib = n \<and> ib_open_in (peer_phase p) ib) \<or> map_of (inbounds p) n = Some ib"
proof (induction ibs arbitrary: p)
  case (Cons x xs)
  then show ?case using Cons.IH[of "AddInbound x p"] AddInbound_from[of x p n ib] by (auto simp only: fold_simps o_apply AddInbound_phase list.set insert_iff)
qed simp

lemma AddInbounds_keeps:
  "outbounds (fold AddInbound ibs p) = outbounds p \<and> peer_phase (fold AddInbound ibs p) = peer_phase p \<and> peer_sid (fold AddInbound ibs p) = peer_sid p"
  by (induction ibs arbitrary: p) (simp_all add: AddInbound_def)

lemma peer_step_keeps: "peer_step ev p = (outs, q) \<Longrightarrow> outbounds q = outbounds p \<and> inbounds q = inbounds p \<and> peer_phase q = peer_phase p \<and> peer_sid q = peer_sid p"
  by (auto simp: peer_step_def handle_request_def handle_channel_def peer_Close_def split: if_splits peer_event.splits option.splits)

definition open_in :: "string \<Rightarrow> Outbound \<Rightarrow> bool" where
  \<comment> \<open>the outbound may be used in the phase\<close>
  "open_in ph ob \<longleftrightarrow> (ob_Phase ob = ATTESTATION_PHASE \<longrightarrow> ph = ATTESTATION) \<and> (ob_Phase ob = KUBERNETES_PHASE \<longrightarrow> ph = KUBERNETES)"

definition tunnel_ok :: "SshPeer \<Rightarrow> peer_output \<Rightarrow> bool" where
  "tunnel_ok p x =
     (case x of
        DialDirect a \<Rightarrow> \<exists>n ob. map_of (outbounds p) n = Some ob \<and> OutAddr ob = a \<and> open_in (peer_phase p) ob \<and> ob_Name ob \<noteq> KBS
      | ProxyTo a s \<Rightarrow> s = peer_sid p \<and> (\<exists>n ob. map_of (outbounds p) n = Some ob \<and> OutAddr ob = a \<and> open_in (peer_phase p) ob \<and> ob_Name ob = KBS)
      | OpenTunnel n \<Rightarrow> \<exists>m ib. map_of (inbounds p) m = Some ib \<and> ib_Name ib = n
      | _ \<Rightarrow> True)"

lemma handle_channel_ok:
  assumes "handle_channel typ n acc p = (outs, q)" and "x \<in> set outs"
  shows "tunnel_ok p x"
proof (cases "map_of (outbounds p) n")
  case None
  then show ?thesis using assms by (auto simp: handle_channel_def tunnel_ok_def split: if_splits)
next
  case (Some ob)
  let ?t = "if ob_Name ob = KBS then ProxyTo (OutAddr ob) (peer_sid p) else DialDirect (OutAddr ob)"
  have "x = Rejected \<or> x = Crash \<or> open_in (peer_phase p) ob \<and> x = ?t"
    using assms Some by (auto simp: handle_channel_def open_in_def split: if_splits)
  moreover have "open_in (peer_phase p) ob \<Longrightarrow> tunnel_ok p ?t" using Some by (auto simp: tunnel_ok_def)
  ultimately show ?thesis by (auto simp: tunnel_ok_def)
qed

lemma NewInboundInstance_ok: "x \<in> set (NewInboundInstance n p) \<Longrightarrow> tunnel_ok p x"
  by (cases "map_of (inbounds p) n") (auto simp: NewInboundInstance_def tunnel_ok_def split: if_splits)

lemma peer_step_ok: "peer_step ev p = (outs, q) \<Longrightarrow> x \<in> set outs \<Longrightarrow> tunnel_ok p x"
  by (cases ev) (auto simp: peer_step_def handle_request_def tunnel_ok_def[of _ "Replied _ _"]
    split: if_splits intro: handle_channel_ok NewInboundInstance_ok)

lemma peer_run_ok: "peer_run evs p = (outs, q) \<Longrightarrow> x \<in> set outs \<Longrightarrow> tunnel_ok p x"
proof (induction evs arbitrary: p outs q)
  case (Cons ev evs)
  obtain o1 p1 where s: "peer_step ev p = (o1, p1)" by (cases "peer_step ev p")
  obtain o2 q2 where r: "peer_run evs p1 = (o2, q2)" by (cases "peer_run evs p1")
  have o: "set outs \<subseteq> set o1 \<union> set o2" using Cons.prems(1) s r by (auto simp: Let_def split: if_splits)
  have "tunnel_ok p1 y = tunnel_ok p y" for y using peer_step_keeps[OF s] by (simp add: tunnel_ok_def split: peer_output.splits)
  then show ?case using Cons.IH[OF r] peer_step_ok[OF s] Cons.prems(2) o by blast
qed simp

text \<open>C6: Whatever requests and channels a peer sends, the other end only connects it with an address of its configured outbounds, and only if that outbound is
  open in the phase of the connection: what is for the Kubernetes phase cannot be reached before the attestation is done.  Only the outbound
  of the key broker is reached through the HTTP proxy, which knows the sandbox of the connection.  Towards the other end it only opens tunnels for
  configured inbounds that are not for the other phase.\<close>

theorem tunnels_respect_phase:
  assumes "peer_run evs (peer_Ready (AddTags ibs obs (new_SshPeer ph s))) = (outs, q)"
  shows "(DialDirect a \<in> set outs \<longrightarrow> (\<exists>ob\<in>set obs. OutAddr ob = a \<and> open_in ph ob \<and> ob_Name ob \<noteq> KBS)) \<and>
    (ProxyTo a s' \<in> set outs \<longrightarrow> s' = s \<and> (\<exists>ob\<in>set obs. OutAddr ob = a \<and> open_in ph ob \<and> ob_Name ob = KBS)) \<and>
    (OpenTunnel n \<in> set outs \<longrightarrow> (\<exists>ib\<in>set ibs. ib_Name ib = n \<and> ib_open_in ph ib))"
proof -
  let ?p = "peer_Ready (AddTags ibs obs (new_SshPeer ph s))"
  have f: "peer_phase ?p = ph" "peer_sid ?p = s" "outbounds ?p = outbounds (fold AddOutbound obs (new_SshPeer ph s))"
    by (simp_all add: peer_Ready_def AddTags_def AddInbounds_keeps AddOutbounds_keeps) (simp_all add: new_SshPeer_def)
  have ob: "map_of (outbounds ?p) n = Some ob \<Longrightarrow> ob \<in> set obs" for n ob
    using AddOutbounds_from[of obs "new_SshPeer ph s" n ob] f(3) by (auto simp: new_SshPeer_def)
  moreover have ib: "map_of (inbounds ?p) m = Some ib \<Longrightarrow> ib \<in> set ibs \<and> ib_open_in ph ib" for m ib
    using AddInbounds_from[of ibs "fold AddOutbound obs (new_SshPeer ph s)" m ib]
    by (auto simp: peer_Ready_def AddTags_def AddOutbounds_keeps AddOutbounds_inbounds new_SshPeer_def)
  moreover have "\<exists>m ib. map_of (inbounds ?p) m = Some ib \<and> ib_Name ib = n" if "OpenTunnel n \<in> set outs"
    using peer_run_ok[OF assms that] by (simp add: tunnel_ok_def)
  ultimately have "OpenTunnel n \<in> set outs \<longrightarrow> (\<exists>ib\<in>set ibs. ib_Name ib = n \<and> ib_open_in ph ib)" by blast
  then show ?thesis
    using peer_run_ok[OF assms, of "DialDirect a"] peer_run_ok[OF assms, of "ProxyTo a s'"] f(1,2) ob
    by (auto simp: tunnel_ok_def)
qed

definition demo_obs :: "Outbound list" where
  "demo_obs = [\<lparr>ob_Name = ''KATAAGENT'', OutAddr = ''127.0.0.1:15150'', ob_Phase = KUBERNETES_PHASE\<rparr>,
     \<lparr>ob_Name = ''KBS'', OutAddr = ''kbs:8080'', ob_Phase = BOTH_PHASES\<rparr>]"

theorem tunnels_respect_phase_witness:
  "\<exists>q ob. peer_run [NewChannel ''tunnel'' ''KATAAGENT'' True, NewChannel ''tunnel'' ''KBS'' True]
      (peer_Ready (AddTags [] demo_obs (new_SshPeer ATTESTATION ''s1''))) = ([Rejected, ProxyTo ''kbs:8080'' ''s1''], q) \<and>
    ob \<in> set demo_obs \<and> OutAddr ob = ''kbs:8080'' \<and> open_in ATTESTATION ob"
proof -
  have "fst (peer_run [NewChannel ''tunnel'' ''KATAAGENT'' True, NewChannel ''tunnel'' ''KBS'' True]
      (peer_Ready (AddTags [] demo_obs (new_SshPeer ATTESTATION ''s1'')))) = [Rejected, ProxyTo ''kbs:8080'' ''s1'']" by code_simp
  then obtain q where run: "peer_run [NewChannel ''tunnel'' ''KATAAGENT'' True, NewChannel ''tunnel'' ''KBS'' True]
      (peer_Ready (AddTags [] demo_obs (new_SshPeer ATTESTATION ''s1''))) = ([Rejected, ProxyTo ''kbs:8080'' ''s1''], q)" by (metis prod.collapse)
  from tunnels_respect_phase[OF run, of "''kbs:8080''" "''s1''"] run show ?thesis by auto
qed

section \<open>Keys\<close>

definition ssh_keys_ok :: "'w ssh_env \<Rightarrow> bool" where
  \<comment> \<open>parsing inverts marshalling; a key is never empty text\<close>
  "ssh_keys_ok E \<longleftrightarrow>
     (\<forall>k. ParsePrivateKey E (RsaPrivateKeyPEM E k) = Inr k \<and> RsaPrivateKeyPEM E k \<noteq> []) \<and>
     (\<forall>p. ParseAuthorizedKey E (MarshalAuthorizedKey E p) = Inr p \<and> MarshalAuthorizedKey E p \<noteq> []) \<and>
     (\<forall>k. rsa_Public E k \<noteq> Inr [])"

lemma CreateSecret_pair:
  assumes "CreateSecret E name w = (Inr (priv, pub), w')"
  shows "\<exists>k p. rsa_Public E k = Inr p \<and> priv = RsaPrivateKeyPEM E k \<and> pub = MarshalAuthorizedKey E p"
  using assms by (auto simp: CreateSecret_def io_iffs Let_def)

definition key_pair :: "'w ssh_env \<Rightarrow> string \<Rightarrow> string \<Rightarrow> bool" where
  \<comment> \<open>private and public key text belong together\<close>
  "key_pair E priv pub \<longleftrightarrow> (\<exists>k p. rsa_Public E k = Inr p \<and> priv = RsaPrivateKeyPEM E k \<and> pub = MarshalAuthorizedKey E p)"

definition secrets_paired :: "'w ssh_env \<Rightarrow> 'w \<Rightarrow> bool" where
  \<comment> \<open>the secrets of the cluster with keys were made by \<open>CreateSecret\<close>\<close>
  "secrets_paired E w \<longleftrightarrow> (\<forall>name data. secret_Get E cocoNamespace name w = Inr data \<longrightarrow>
     key_pair E (go_get [] data ''privateKey'') (go_get [] data ''publicKey''))"

lemma read_or_create_pair:
  assumes "secrets_paired E w" and "read_or_create E name w = (Inr ((priv, pub), b), w')"
  shows "key_pair E priv pub"
proof (cases "secret_Get E cocoNamespace name w")
  case (Inl e)
  then have "ReadSecret E name w = (Inl (Kube e), w)" by (simp add: ReadSecret_def bind_io_def)
  then obtain w1 where "CreateSecret E name w = (Inr (priv, pub), w1)"
    using assms(2) by (auto simp: read_or_create_def split: prod.splits sum.splits)
  then show ?thesis using CreateSecret_pair[of E name w priv pub w1] by (simp add: key_pair_def)
next
  case (Inr data)
  then show ?thesis using assms by (auto simp: secrets_paired_def read_or_create_def ReadSecret_def bind_io_def)
qed


type_synonym ssh_world = "(string \<times> (string, string) go_map) list \<times> nat"
  \<comment> \<open>the secrets, and the number of keys made so far\<close>

definition mem_ssh :: "ssh_world ssh_env" where
  "mem_ssh =
     \<lparr>ssh_listen = \<lparr>ListenTCP = (\<lambda>p. ret (0, ''9000'')), tcp_Close = (\<lambda>_ w. w), OpenNs = (\<lambda>_. ret 0), ns_Run = (\<lambda>_ f. f), ns_Close = (\<lambda>_. ret ())\<rparr>,
      secret_Get = (\<lambda>ns name w. case map_of (fst w) name of None \<Rightarrow> Inl NotFound | Some d \<Rightarrow> Inr d),
      secret_Create = (\<lambda>ns name d w. if map_of (fst w) name \<noteq> None then (Inl AlreadyExists, w) else (Inr (), ((name, d) # fst w, snd w))),
      secret_Delete = (\<lambda>ns name w. (Inr (), (AList.delete name (fst w), snd w))),
      rsa_GenerateKey = (\<lambda>_ w. (Inr (replicate (snd w) CHR ''k''), (fst w, Suc (snd w)))), rsa_Validate = (\<lambda>_. None),
      rsa_Public = (\<lambda>k. Inr (CHR ''p'' # k)), RsaPrivateKeyPEM = (\<lambda>k. CHR ''P'' # k), MarshalAuthorizedKey = (\<lambda>p. CHR ''A'' # p),
      ParseAuthorizedKey = (\<lambda>s. Inr (tl s)), ParsePrivateKey = (\<lambda>s. Inr (tl s)), ParseEdPrivateKey = Inr, jwt_Sign = (\<lambda>k _. Inr k),
      now_Unix = (\<lambda>_. 0), http_Post = (\<lambda>_ _ _. ret 200), http_GetIn = (\<lambda>_ _. ret (200, ''x'')), tcp_Dial = (\<lambda>_. ret 0), tcp_CloseConn = (\<lambda>_ w. w),
      NewClientConn = (\<lambda>_ _ _. ret 0), NewServerConn = (\<lambda>_ _. ret 0), conn_of = (\<lambda>_. \<lparr>SendRequest = (\<lambda>_ ph w. ((True, ph, None), w))\<rparr>),
      srv_Listen = (\<lambda>_. ret ()), listener_Accept = ret 0, retry_ssh = (\<lambda>m. m), ctx_Err = (\<lambda>_. False), Sleep = (\<lambda>_ w. w), peer_Wait = Pair\<rparr>"

definition demo_ssh_client :: SshClient where
  "demo_ssh_client = \<lparr>kc = None, wnSigner = [], inboundStrings = [''KUBERNETES_PHASE:KATAAGENT:0''], outboundStrings = [], client_sshport = SSHPORT,
     wnPublicKey = ''Ap''\<rparr>"

definition demo_ssh_pp :: "SshClientInstance \<times> string" where
  "demo_ssh_pp = projr (fst (InitPP mem_ssh demo_ssh_client ''s1'' ([(''sshclient'', [(''privateKey'', ''P''), (''publicKey'', ''Ap'')])], 1)))"


end
