(* ===== verification/Spec2Isabelle.thy ===== *)
theory Spec2Isabelle
  imports CloudServiceProps WebhookProps ProvisionProps CsiProps AgentProps TlsProps AdaptorServer SshProps
begin

text \<open>
  A verification development of the cloud API adaptor, which runs the pods of a Kubernetes node in virtual machines
  of a cloud ("peer pods").  The sources are the Go modules under \<open>src/src\<close>.

  \<^bold>\<open>The program and its parts.\<close>  The Kata runtime calls the cloud service (\<open>cloud-api-adaptor/pkg/adaptor/cloud\<close>) on a worker node to
  create, start and stop the VM of a pod.  The cloud service inspects the pod's network (\<open>pkg/podnetwork\<close> on top of \<open>pkg/util/netops\<close>), builds
  the user data of the VM (\<open>cloud-providers/util/cloudinit\<close>, \<open>pkg/initdata\<close>, image pull secrets of \<open>pkg/adaptor/k8sops\<close>), has a cloud provider
  (\<open>cloud-providers\<close>) make an instance, records it in a PeerPod object, and sets up a VXLAN tunnel to it.  The other end of the tunnel is set
  up inside the VM.  The PeerPod controller (\<open>peerpod-ctrl\<close>) deletes instances whose pod is gone.  The bring-your-own-machine provider
  (\<open>cloud-providers/byom\<close>) hands out pre-created machines from a pool whose state is a ConfigMap that all nodes share.  Before all that the
  admission webhook (\<open>webhook\<close>) moves the resource requests of a pod into annotations that the instance selection reads.  Inside the VM the
  provisioning (\<open>pkg/userdata\<close>) fetches the user data and writes its files.  For volumes, the CSI wrapper (\<open>csi-wrapper\<close>) stands in front of a CSI driver
  three times: its controller and node services only record the calls of Kubernetes in PeerpodVolume objects, and its service in the pod VM replays them.
  The requests of the runtime to the Kata agent go through the agent proxy on the worker node (\<open>pkg/adaptor/proxy\<close>, \<open>pkg/util/agentproto\<close>) and over TLS
  (\<open>pkg/util/tlsutil\<close>) to the forwarder in the VM (\<open>pkg/forwarder\<close>), or through SSH tunnels that are opened for attestation first (\<open>pkg/securecomms\<close>).

  \<^bold>\<open>Conventions.\<close>  A Go result \<open>(T, error)\<close> is a value of type \<open>error + T\<close>, \<open>nil\<close> is \<open>None\<close>, a panic is an error value of its own, a Go map is an
  association list with distinct keys, an \<open>int64\<close> that is only compared is an \<open>int\<close>, and addresses, masks and hardware addresses are words.
  Code outside of the sources (cloud and Kubernetes clients, netlink, iptables, SSH, JSON, TOML, gzip, the clock) is an argument: a record of
  operations over a world \<open>'w\<close>.  What a theorem relies on there is a named predicate on that record (\<open>pool_env_ok\<close>, \<open>sftp_frame\<close>, \<open>handshake_checks\<close>,
  \<open>api_frame\<close>, \<open>api_stores\<close>, \<open>gzip_ok\<close>, \<open>json_ok\<close>, \<open>ipt_ok\<close>, \<open>env_frame\<close>, \<open>quantity_ok\<close>, \<open>retry_ok\<close>, \<open>yaml_ok\<close>, \<open>csi_setup\<close>, \<open>mount_laws\<close>, \<open>relays\<close>, \<open>x509_ok\<close>, \<open>ssh_keys_ok\<close>, \<open>secrets_paired\<close>), and its witness has an instance in memory.

  \<^bold>\<open>Theories.\<close>
  \<^item> \<open>Prelude\<close>, \<open>GoStrings\<close>, \<open>GoOs\<close>, \<open>GoEncoding\<close>, \<open>GoIO\<close>, \<open>NetAddr\<close>, \<open>NetPrefix\<close>: results, maps, strings, files and environment, base64 and hex,
    sequences of fallible operations, IP addresses, prefixes and masks of the Go standard library; the last one also has the conversions of \<open>netops.go\<close>.
  \<^item> \<open>InstanceSelect\<close>: choice of an instance type (\<open>cloud-providers/util.go\<close>); the locale \<open>slice_sort\<close> is the contract of \<open>sort.Slice\<close>.
  \<^item> \<open>ProviderCommon\<close>: provider table, plugins, key-value flags, user data files, key files, instance names.
  \<^item> \<open>VMPool\<close>, \<open>VMPoolCorrect\<close>, \<open>VMPoolProps\<close>, \<open>VMPoolFlag\<close>: the machine pool.  \<open>VMPool\<close> has the operations of \<open>configmap_vmpool.go\<close> and \<open>state_recovery.go\<close>;
    \<open>VMPoolCorrect\<close> shows that each of them keeps free and allocated machines disjoint and complete and interprets the locale \<open>vm_pool\<close> on them;
    \<open>VMPoolProps\<close> and \<open>VMPoolFlag\<close> have the properties and the pool flag with its address ranges.
  \<^item> \<open>SshUtil\<close>: key loading, host key allowlist and SFTP transfer (\<open>cloud-providers/util/ssh.go\<close>).
  \<^item> \<open>ProviderIface\<close>, \<open>ByomProvider\<close>: the interface \<open>provider.Provider\<close> with its contract, the locale \<open>cloud_provider\<close>, and the provider on the pool, which
    meets the contract (a sublocale of \<open>byom_machines\<close>, interpreted on the ConfigMap pool).
  \<^item> \<open>CloudInit\<close>: cloud-config text and initdata.
  \<^item> \<open>K8sOps\<close>, \<open>PeerPodCtrl\<close>: node resources, pull secrets, PeerPod objects; the PeerPod controller.
  \<^item> \<open>NetOps\<close>, \<open>Tunneler\<close>, \<open>PodNetwork\<close>: namespaces, links, routes and filters over netlink; tunnel drivers with both ends of a VXLAN tunnel and its
    packet filter rules; interface choice, inspection, set-up and teardown on worker node and pod VM.
  \<^item> \<open>CloudService\<close>, \<open>CloudServiceProps\<close>: the cloud service and the VM information service; the properties of the service, and the step relation
    \<open>service_step\<close> of its methods with the invariant of the reachable states.
  \<^item> \<open>Webhook\<close>, \<open>WebhookProps\<close>: the mutation of a pod, and that the instance chosen from its annotations is large enough.
  \<^item> \<open>Provision\<close>, \<open>ProvisionProps\<close>: provisioning in the pod VM, composed with the cloud service that built the user data.
  \<^item> \<open>CsiVolume\<close>, \<open>CsiController\<close>, \<open>CsiNode\<close>, \<open>CsiPodVM\<close>: objects, redirection and the services of the CSI wrapper; \<open>CsiInv\<close>: the invariant of all
    stored objects and driver calls; \<open>CsiProps\<close>: the step relation \<open>csi_step\<close> of all handlers and what holds in its reachable states.
  \<^item> \<open>AgentProto\<close>, \<open>AgentProps\<close>: the redirector, the proxy service and the interceptor, which rewrite requests to the agent, and their composition.
  \<^item> \<open>TlsUtil\<close>, \<open>AgentProxy\<close>, \<open>TlsProps\<close>: certificates and TLS settings; proxy, factory and forwarder daemon; what the two ends of a connection accept.
  \<^item> \<open>AdaptorServer\<close>: the server around the cloud service.
  \<^item> \<open>SshProxy\<close>, \<open>SshPeers\<close>, \<open>SshProps\<close>: tags, tunnels and peers as step functions over events; keys, the client on the worker node and the server in the VM.

  \<^bold>\<open>What is shown.\<close>  The pool never gives a machine to two sandboxes, allocation and release are inverse, and a repair
  establishes the invariant; a lost update between two nodes is exhibited.  Instance selection returns a smallest fitting type where the search finds one.
  Stopping a VM undoes starting it for every provider that meets the contract, and the controller removes the finalizer only after the
  instance is gone.  User data cannot break out of its files.  Packet filter rules are removed as they were added, tunnel identifiers of a
  worker are distinct, the configuration it sends is complete, and the search for an interface in the VM ends and succeeds in time.  The
  webhook is idempotent, initdata reaches the files of the VM unchanged and provisioning writes no other files, and volumes are attached, staged
  and published in that order under every interleaving of the CSI services.  A container is only created once its volumes are mounted in the VM,
  the ends of the TLS and of the SSH connection accept exactly each other, and tunnels only lead to addresses of the connection's phase.  The last
  group of properties (kind error) shows what the code does where it does not do what it means to.

  \<^bold>\<open>Bounds and loops.\<close>  Loops over slices are structural.  The search for a free VXLAN name is bounded by the five names of the source.  The retries
  of the pool are client-go's loop, an argument of which only the attempts are known.  The polling loops \<open>poll\<close> and \<open>GetInstanceID\<close> may run forever and
  are partial functions, as is the retry loop \<open>replay_loop\<close>, which always ends; so are the loops of the SSH server (\<open>accept_attestation\<close>, \<open>await_config\<close>, \<open>kubernetes_rounds\<close>, \<open>fetch_key\<close>);
  their value \<open>None\<close> is a loop that does not end, and the liveness theorem shows when they end.
  The parsing of a certificate bundle (\<open>createErrorParsingCAData\<close>) has its length as fuel, since every block takes at least one byte.

  \<^bold>\<open>Not modelled.\<close>  The providers on vendor SDKs (their clients see them through \<open>cloud_provider\<close>), the copying of bytes
  between connections, the probes and the command line programs; generated code.  Mutexes are not modelled: every operation is atomic
  where the source holds its lock, and the places where it does not are explicit (updates of the shared ConfigMap, the two parts of \<open>StartVM\<close>).
  Log output and error texts are left out; errors keep what the code branches on.
\<close>

end
